(* ===== verification/Prelude.thy ===== *)
theory Prelude
  imports Main
begin

section \<open>Shared vocabulary: exceptions and state, lists, hint collections\<close>

text \<open>
  Every handler, repository method and dependency of the program is an action: a
  function from a state to a result (\<open>Inl\<close> an exception, \<open>Inr\<close> a value) and the state
  it leaves behind. An exception keeps the state reached so far, as a Python exception
  does; undoing database writes is the business of the transaction, not of the monad.

  The theory holds the combinators, the elimination rules that take a sequence of steps
  apart, the closure rules of \<open>keeps\<close> (an invariant kept on every exit, exceptional
  or not), and the list lemmas the tables share. \<open>keep_rules\<close> collects the closure
  rules and the per-operation preservation lemmas the component theories prove.
\<close>

named_theorems keep_rules \<open>preservation of an invariant by actions\<close>
named_theorems act_simps \<open>evaluation of actions on a state\<close>

subsection \<open>Actions\<close>

type_synonym ('s, 'e, 'a) action = "'s \<Rightarrow> ('e + 'a) \<times> 's"

definition ret :: "'a \<Rightarrow> ('s, 'e, 'a) action" where
  "ret x = (\<lambda>s. (Inr x, s))"

definition throw :: "'e \<Rightarrow> ('s, 'e, 'a) action" where
  "throw e = (\<lambda>s. (Inl e, s))"

definition bnd :: "('s, 'e, 'a) action \<Rightarrow> ('a \<Rightarrow> ('s, 'e, 'b) action) \<Rightarrow> ('s, 'e, 'b) action" where
  "bnd m f = (\<lambda>s. case m s of (Inl e, s') \<Rightarrow> (Inl e, s') | (Inr x, s') \<Rightarrow> f x s')"

definition try_catch :: "('s, 'e, 'a) action \<Rightarrow> ('e \<Rightarrow> ('s, 'e, 'a) action) \<Rightarrow> ('s, 'e, 'a) action" where
  "try_catch m h = (\<lambda>s. case m s of (Inl e, s') \<Rightarrow> h e s' | (Inr x, s') \<Rightarrow> (Inr x, s'))"

definition gets :: "('s \<Rightarrow> 'a) \<Rightarrow> ('s, 'e, 'a) action" where
  "gets f = (\<lambda>s. (Inr (f s), s))"

definition modify :: "('s \<Rightarrow> 's) \<Rightarrow> ('s, 'e, unit) action" where
  "modify f = (\<lambda>s. (Inr (), f s))"

abbreviation seq :: "('s, 'e, 'a) action \<Rightarrow> ('s, 'e, 'b) action \<Rightarrow> ('s, 'e, 'b) action" where
  "seq m n \<equiv> bnd m (\<lambda>_. n)"

abbreviation guard :: "bool \<Rightarrow> 'e \<Rightarrow> ('s, 'e, unit) action" where
  "guard b e \<equiv> (if b then ret () else throw e)"

abbreviation whenA :: "bool \<Rightarrow> ('s, 'e, unit) action \<Rightarrow> ('s, 'e, unit) action" where
  "whenA b m \<equiv> (if b then m else ret ())"

lemma ret_app [simp, act_simps]: "ret x s = (Inr x, s)"
  by (simp add: ret_def)

lemma throw_app [simp, act_simps]: "throw e s = (Inl e, s)"
  by (simp add: throw_def)

lemma gets_app [simp, act_simps]: "gets f s = (Inr (f s), s)"
  by (simp add: gets_def)

lemma modify_app [simp, act_simps]: "modify f s = (Inr (), f s)"
  by (simp add: modify_def)

lemma bnd_app [act_simps]:
  "bnd m f s = (case m s of (Inl e, s') \<Rightarrow> (Inl e, s') | (Inr x, s') \<Rightarrow> f x s')"
  by (simp add: bnd_def)

lemma bnd_Inr [simp]: "m s = (Inr x, s') \<Longrightarrow> bnd m f s = f x s'"
  by (simp add: bnd_def)

lemma bnd_Inl [simp]: "m s = (Inl e, s') \<Longrightarrow> bnd m f s = (Inl e, s')"
  by (simp add: bnd_def)

lemma bnd_ret [simp]: "bnd (ret x) f = f x"
  by (simp add: bnd_def ret_def)

lemma bnd_throw [simp]: "bnd (throw e) f = throw e"
  by (simp add: bnd_def throw_def)

lemma bnd_gets [simp]: "bnd (gets g) f s = f (g s) s"
  by (simp add: bnd_def)

lemma bnd_modify [simp]: "bnd (modify g) f s = f () (g s)"
  by (simp add: bnd_def)

lemma bnd_if: "bnd (if b then m else n) f = (if b then bnd m f else bnd n f)"
  by simp

lemma bnd_assoc: "bnd (bnd m f) g = bnd m (\<lambda>x. bnd (f x) g)"
  by (rule ext) (simp add: bnd_def split: sum.split prod.split)

lemma bnd_InrE:
  assumes "bnd m f s = (Inr y, s'')"
  obtains x s' where "m s = (Inr x, s')" and "f x s' = (Inr y, s'')"
  using assms by (auto simp: bnd_def split: sum.splits prod.splits)

lemma bnd_InlE:
  assumes "bnd m f s = (Inl e, s'')"
  obtains (first) "m s = (Inl e, s'')"
    | (second) x s' where "m s = (Inr x, s')" and "f x s' = (Inl e, s'')"
  using assms by (auto simp: bnd_def split: sum.splits prod.splits)

lemma try_catch_Inr [simp]: "m s = (Inr x, s') \<Longrightarrow> try_catch m h s = (Inr x, s')"
  by (simp add: try_catch_def)

lemma try_catch_Inl [simp]: "m s = (Inl e, s') \<Longrightarrow> try_catch m h s = h e s'"
  by (simp add: try_catch_def)

text \<open>\<open>[await f(x) for x in xs]\<close>\<close>

fun mmap :: "('a \<Rightarrow> ('s, 'e, 'b) action) \<Rightarrow> 'a list \<Rightarrow> ('s, 'e, 'b list) action" where
  "mmap f [] = ret []"
| "mmap f (x # xs) = bnd (f x) (\<lambda>y. bnd (mmap f xs) (\<lambda>ys. ret (y # ys)))"

subsection \<open>Invariants on every exit\<close>

definition keeps :: "('s \<Rightarrow> bool) \<Rightarrow> ('s, 'e, 'a) action \<Rightarrow> bool" where
  "keeps I m \<longleftrightarrow> (\<forall>s. I s \<longrightarrow> I (snd (m s)))"

lemma keepsI: "(\<And>s. I s \<Longrightarrow> I (snd (m s))) \<Longrightarrow> keeps I m"
  by (simp add: keeps_def)

lemma keepsD: "keeps I m \<Longrightarrow> I s \<Longrightarrow> I (snd (m s))"
  by (simp add: keeps_def)

lemma keeps_ret [keep_rules]: "keeps I (ret x)"
  by (simp add: keeps_def)

lemma keeps_throw [keep_rules]: "keeps I (throw e)"
  by (simp add: keeps_def)

lemma keeps_Pair [keep_rules, simp]: "keeps I (Pair r)"
  by (simp add: keeps_def)

lemma keeps_gets [keep_rules]: "keeps I (gets f)"
  by (simp add: keeps_def)

lemma keeps_modify: "(\<And>s. I s \<Longrightarrow> I (f s)) \<Longrightarrow> keeps I (modify f)"
  by (simp add: keeps_def)

lemma keeps_bnd [keep_rules]:
  assumes "keeps I m" and "\<And>x. keeps I (f x)"
  shows "keeps I (bnd m f)"
proof (rule keepsI)
  fix s assume "I s"
  with assms(1) have "I (snd (m s))" by (rule keepsD)
  with assms(2) show "I (snd (bnd m f s))"
    by (auto simp: bnd_def keeps_def split: prod.split sum.split)
qed

lemma keeps_try [keep_rules]:
  assumes "keeps I m" and "\<And>e. keeps I (h e)"
  shows "keeps I (try_catch m h)"
proof (rule keepsI)
  fix s assume "I s"
  with assms(1) have "I (snd (m s))" by (rule keepsD)
  with assms(2) show "I (snd (try_catch m h s))"
    by (auto simp: try_catch_def keeps_def split: prod.split sum.split)
qed

lemma keeps_if [keep_rules]: "keeps I m \<Longrightarrow> keeps I n \<Longrightarrow> keeps I (if b then m else n)"
  by simp

lemma keeps_option [keep_rules]:
  "keeps I m \<Longrightarrow> (\<And>x. keeps I (f x)) \<Longrightarrow> keeps I (case z of None \<Rightarrow> m | Some x \<Rightarrow> f x)"
  by (cases z) simp_all

lemma keeps_prod [keep_rules]:
  "(\<And>x y. keeps I (f x y)) \<Longrightarrow> keeps I (case z of (x, y) \<Rightarrow> f x y)"
  by (cases z) simp

lemma keeps_let [keep_rules]: "(\<And>x. keeps I (f x)) \<Longrightarrow> keeps I (let x = z in f x)"
  by simp

lemma keeps_mmap [keep_rules]: "(\<And>x. keeps I (f x)) \<Longrightarrow> keeps I (mmap f xs)"
  by (induction xs) (simp_all add: keeps_ret keeps_bnd)

lemma keeps_fst:
  assumes "keeps I m" and "I s" and "m s = (r, s')"
  shows "I s'"
  using keepsD [OF assms(1,2)] assms(3) by simp

text \<open>An action whose state changes are at most those of a relation.\<close>

definition leaves :: "('s \<Rightarrow> 'x) \<Rightarrow> ('s, 'e, 'a) action \<Rightarrow> bool" where
  "leaves f m \<longleftrightarrow> (\<forall>s. f (snd (m s)) = f s)"

lemma leaves_keeps: "leaves f m \<longleftrightarrow> (\<forall>x. keeps (\<lambda>s. f s = x) m)"
  by (auto simp: leaves_def keeps_def)

lemma leavesD: "leaves f m \<Longrightarrow> m s = (r, s') \<Longrightarrow> f s' = f s"
  by (auto simp: leaves_def) (metis snd_conv)

subsection \<open>Lists as tables\<close>

text \<open>The row a \<open>scalar()\<close> or \<open>scalars().first()\<close> call reads: the first match.\<close>

fun first_match :: "('a \<Rightarrow> bool) \<Rightarrow> 'a list \<Rightarrow> 'a option" where
  "first_match p [] = None"
| "first_match p (x # xs) = (if p x then Some x else first_match p xs)"

lemma first_match_Some: "first_match p xs = Some x \<Longrightarrow> x \<in> set xs \<and> p x"
  by (induction xs) (auto split: if_splits)

lemma first_match_None: "first_match p xs = None \<longleftrightarrow> (\<forall>x \<in> set xs. \<not> p x)"
  by (induction xs) auto

lemma first_match_ex: "x \<in> set xs \<Longrightarrow> p x \<Longrightarrow> \<exists>y. first_match p xs = Some y"
  by (induction xs) auto

lemma first_match_append:
  "first_match p (xs @ ys) = (case first_match p xs of None \<Rightarrow> first_match p ys | Some x \<Rightarrow> Some x)"
  by (induction xs) auto

lemma first_match_filter: "first_match p (filter q xs) = first_match (\<lambda>x. q x \<and> p x) xs"
  by (induction xs) auto

lemma first_match_cong:
  "(\<And>x. x \<in> set xs \<Longrightarrow> p x = q x) \<Longrightarrow> first_match p xs = first_match q xs"
  by (induction xs) auto

lemma first_match_unique:
  assumes "distinct (map k xs)" and "x \<in> set xs" and "k x = v"
    and "\<And>y. y \<in> set xs \<Longrightarrow> p y \<Longrightarrow> k y = v" and "p x"
  shows "first_match p xs = Some x"
  using assms
proof (induction xs)
  case Nil
  then show ?case by simp
next
  case (Cons a xs)
  show ?case
  proof (cases "p a")
    case True
    with Cons.prems have "k a = k x" by simp
    with Cons.prems have "a = x" by (auto simp: image_iff)
    with True show ?thesis by simp
  next
    case False
    with Cons.prems have "x \<in> set xs" by auto
    with Cons False show ?thesis by simp
  qed
qed

definition map_where :: "('a \<Rightarrow> bool) \<Rightarrow> ('a \<Rightarrow> 'a) \<Rightarrow> 'a list \<Rightarrow> 'a list" where
  "map_where p f xs = map (\<lambda>x. if p x then f x else x) xs"

lemma map_where_Nil [simp]: "map_where p f [] = []"
  by (simp add: map_where_def)

lemma map_where_Cons [simp]:
  "map_where p f (x # xs) = (if p x then f x else x) # map_where p f xs"
  by (simp add: map_where_def)

lemma set_map_where: "set (map_where p f xs) = f ` {x \<in> set xs. p x} \<union> {x \<in> set xs. \<not> p x}"
  by (auto simp: map_where_def)

lemma map_where_none: "(\<And>x. x \<in> set xs \<Longrightarrow> \<not> p x) \<Longrightarrow> map_where p f xs = xs"
  by (induction xs) auto

lemma map_map_where: "(\<And>x. k (f x) = k x) \<Longrightarrow> map k (map_where p f xs) = map k xs"
  by (simp add: map_where_def)

lemma filter_map_where:
  assumes "\<And>x. x \<in> set xs \<Longrightarrow> p x \<Longrightarrow> \<not> q x \<and> \<not> q (f x)"
  shows "filter q (map_where p f xs) = filter q xs"
  using assms by (induction xs) auto

lemma filter_filter_not: "(\<And>x. x \<in> set xs \<Longrightarrow> p x \<Longrightarrow> \<not> q x) \<Longrightarrow>
    filter q (filter (\<lambda>x. \<not> p x) xs) = filter q xs"
  by (induction xs) auto

lemma length_filter_map_where:
  assumes "\<And>x. x \<in> set xs \<Longrightarrow> p x \<Longrightarrow> q (f x) \<longleftrightarrow> q x"
  shows "length (filter q (map_where p f xs)) = length (filter q xs)"
  using assms by (induction xs) auto

lemma in_map_where_key:
  assumes "x \<in> set (map_where p f xs)" and "\<And>y. k (f y) = k y"
  obtains y where "y \<in> set xs" and "k y = k x" and "x = y \<or> x = f y \<and> p y"
  using assms by (auto simp: map_where_def split: if_splits)

lemma first_match_map_where:
  "(\<And>x. p x \<Longrightarrow> p (f x)) \<Longrightarrow> first_match p (map_where p f xs) = map_option f (first_match p xs)"
  by (induction xs) auto

lemma first_match_map_where_other:
  "(\<And>x. q x \<Longrightarrow> \<not> p x \<and> \<not> p (f x)) \<Longrightarrow> first_match p (map_where q f xs) = first_match p xs"
  by (induction xs) auto

lemma length_filter_drop_one:
  assumes "distinct (map k xs)" and "x \<in> set xs" and "q x"
    and "\<And>y. y \<in> set xs \<Longrightarrow> p y \<Longrightarrow> k y = k x" and "p x" and "\<And>y. p y \<Longrightarrow> \<not> q (f y)"
  shows "Suc (length (filter q (map_where p f xs))) = length (filter q xs)"
  using assms
proof (induction xs)
  case (Cons a xs)
  show ?case
  proof (cases "p a")
    case True
    then have ka: "k a = k x" using Cons.prems(4) [of a] by simp
    have fresh: "k a \<notin> k ` set xs" using Cons.prems(1) by simp
    with ka have "x \<notin> set xs" by auto
    with Cons.prems(2) have "a = x" by simp
    have "\<not> p y" if "y \<in> set xs" for y
      using fresh ka that Cons.prems(4) [of y] by (metis image_eqI list.set_intros(2))
    then have "map_where p f xs = xs" by (rule map_where_none)
    with \<open>a = x\<close> True Cons.prems(3,6) show ?thesis by simp
  next
    case False
    have x: "x \<in> set xs" using Cons.prems(2,5) False by auto
    have d: "distinct (map k xs)" using Cons.prems(1) by simp
    have "Suc (length (filter q (map_where p f xs))) = length (filter q xs)"
      by (rule Cons.IH [OF d x Cons.prems(3) _ Cons.prems(5,6)])
        (rule Cons.prems(4) [OF list.set_intros(2)])
    with False show ?thesis by simp
  qed
qed simp

end
