(* ===== verification/PyText.thy ===== *)
theory PyText
  imports Prelude Complex_Main "HOL-Library.Word"
begin

section \<open>Python strings, UUIDs and JSON values\<close>

text \<open>
  The parts of Python's \<open>str\<close>, \<open>uuid.UUID\<close> and decoded-JSON values the program uses.
  A string is a list of characters; \<open>str.lower\<close> is given on ASCII letters, which is
  what the extension whitelist needs. A UUID is a 128-bit word printed as 32 lower-case
  hexadecimal digits with hyphens after digits 8, 12, 16 and 20. A JSON value is what
  \<open>json.loads\<close> or a JSONB column gives; a decoded object is an association list with
  distinct keys, and a JSON float is its exact rational value.
\<close>

subsection \<open>Strings\<close>

definition py_startswith :: "string \<Rightarrow> string \<Rightarrow> bool" where
  "py_startswith s p \<longleftrightarrow> take (length p) s = p"

definition py_removeprefix :: "string \<Rightarrow> string \<Rightarrow> string" where
  "py_removeprefix s p = (if py_startswith s p then drop (length p) s else s)"

definition py_is_space :: "char \<Rightarrow> bool" where
  "py_is_space c \<longleftrightarrow>
     (let n = (of_char c :: nat) in 9 \<le> n \<and> n \<le> 13 \<or> 28 \<le> n \<and> n \<le> 32 \<or> n = 133 \<or> n = 160)"

definition py_strip :: "string \<Rightarrow> string" where
  "py_strip s = rev (dropWhile py_is_space (rev (dropWhile py_is_space s)))"

definition py_lower_char :: "char \<Rightarrow> char" where
  "py_lower_char c =
     (let n = (of_char c :: nat) in if 65 \<le> n \<and> n \<le> 90 then char_of (n + 32) else c)"

definition py_lower :: "string \<Rightarrow> string" where
  "py_lower s = map py_lower_char s"

text \<open>\<open>s[s.rfind(c):]\<close> where \<open>c\<close> occurs in \<open>s\<close>: from its last occurrence on.\<close>

definition from_last :: "char \<Rightarrow> string \<Rightarrow> string" where
  "from_last c s = c # rev (takeWhile (\<lambda>x. x \<noteq> c) (rev s))"

fun py_join :: "string \<Rightarrow> string list \<Rightarrow> string" where
  "py_join sep [] = []"
| "py_join sep [x] = x"
| "py_join sep (x # y # xs) = x @ sep @ py_join sep (y # xs)"

fun py_split_go :: "char \<Rightarrow> string \<Rightarrow> string \<Rightarrow> string list" where
  "py_split_go c acc [] = [rev acc]"
| "py_split_go c acc (x # xs) =
     (if x = c then rev acc # py_split_go c [] xs else py_split_go c (x # acc) xs)"

definition py_split :: "string \<Rightarrow> char \<Rightarrow> string list" where
  "py_split s c = py_split_go c [] s"

text \<open>Python's \<open>a or b\<close> on strings and optional strings.\<close>

definition str_or :: "string option \<Rightarrow> string \<Rightarrow> string" where
  "str_or a b = (case a of None \<Rightarrow> b | Some s \<Rightarrow> if s = [] then b else s)"

lemma from_last_suffix:
  "from_last c (xs @ c # ys) = c # ys" if "c \<notin> set ys"
proof -
  have "takeWhile (\<lambda>x. x \<noteq> c) (rev ys @ c # rev xs) = rev ys"
    using that by (simp add: takeWhile_append)
  then show ?thesis by (simp add: from_last_def)
qed

lemma from_last_split:
  assumes "c \<in> set s"
  obtains xs where "s = xs @ from_last c s" and "c \<notin> set (tl (from_last c s))"
proof -
  obtain ys zs where "s = ys @ c # zs" and "c \<notin> set zs"
    using split_list_last [OF assms] by blast
  with from_last_suffix [of c zs ys] that show ?thesis by auto
qed

lemma removeprefix_append [simp]: "py_removeprefix (p @ s) p = s"
  by (simp add: py_removeprefix_def py_startswith_def)

lemma str_or_nonempty: "b \<noteq> [] \<Longrightarrow> str_or a b \<noteq> []"
  by (simp add: str_or_def split: option.split)

subsection \<open>UUIDs\<close>

type_synonym uuid = "128 word"

definition hex_chars :: string where
  "hex_chars = ''0123456789abcdef''"

definition hex_digit :: "nat \<Rightarrow> char" where
  "hex_digit d = hex_chars ! d"

fun hex_pad :: "nat \<Rightarrow> nat \<Rightarrow> string" where
  "hex_pad 0 x = []"
| "hex_pad (Suc n) x = hex_pad n (x div 16) @ [hex_digit (x mod 16)]"

definition hyphenate :: "string \<Rightarrow> string" where
  "hyphenate h =
     take 8 h @ ''-'' @ take 4 (drop 8 h) @ ''-'' @ take 4 (drop 12 h) @ ''-'' @
     take 4 (drop 16 h) @ ''-'' @ drop 20 h"

definition str_uuid :: "uuid \<Rightarrow> string" where
  "str_uuid u = hyphenate (hex_pad 32 (unat u))"

lemma length_hex_pad [simp]: "length (hex_pad n x) = n"
  by (induction n arbitrary: x) simp_all

lemma hex_digit_inj: "d < 16 \<Longrightarrow> e < 16 \<Longrightarrow> hex_digit d = hex_digit e \<Longrightarrow> d = e"
proof -
  assume "d < 16" "e < 16" and eq: "hex_digit d = hex_digit e"
  have "distinct hex_chars" and "length hex_chars = 16" by (simp_all add: hex_chars_def)
  then show "d = e"
    using eq \<open>d < 16\<close> \<open>e < 16\<close> nth_eq_iff_index_eq
    unfolding hex_digit_def by metis
qed

lemma hex_digit_set: "d < 16 \<Longrightarrow> hex_digit d \<in> set hex_chars"
  unfolding hex_digit_def by (rule nth_mem) (simp add: hex_chars_def)

lemma hex_pad_set: "set (hex_pad n x) \<subseteq> set hex_chars"
  by (induction n arbitrary: x) (simp_all add: hex_digit_set)

lemma hex_pad_inj:
  "x < 16 ^ n \<Longrightarrow> y < 16 ^ n \<Longrightarrow> hex_pad n x = hex_pad n y \<Longrightarrow> x = y"
proof (induction n arbitrary: x y)
  case 0
  then show ?case by simp
next
  case (Suc n)
  from Suc.prems have "hex_pad n (x div 16) = hex_pad n (y div 16)"
    and low: "hex_digit (x mod 16) = hex_digit (y mod 16)" by simp_all
  moreover have "x div 16 < 16 ^ n" "y div 16 < 16 ^ n"
    using Suc.prems by (simp_all add: less_mult_imp_div_less mult.commute)
  ultimately have "x div 16 = y div 16" by (intro Suc.IH)
  moreover have "x mod 16 = y mod 16" using low by (intro hex_digit_inj) simp_all
  ultimately show ?case by (metis div_mult_mod_eq)
qed

lemma hyphenate_set: "set (hyphenate h) \<subseteq> insert (CHR ''-'') (set h)"
  by (auto simp: hyphenate_def dest: in_set_takeD in_set_dropD)

lemma cut: "take m xs @ take n (drop m xs) = take (m + n) xs"
  by (simp add: take_add)

lemma hyphenate_pieces:
  assumes "length h = 32"
  shows "h = take 8 h @ take 4 (drop 8 h) @ take 4 (drop 12 h) @ take 4 (drop 16 h) @ drop 20 h"
proof -
  have "take 8 h @ take 4 (drop 8 h) = take 12 h"
    and "take 12 h @ take 4 (drop 12 h) = take 16 h"
    and "take 16 h @ take 4 (drop 16 h) = take 20 h"
    using cut [of 8 h 4] cut [of 12 h 4] cut [of 16 h 4] by simp_all
  then show ?thesis by (metis append.assoc append_take_drop_id)
qed

lemma hyphenate_inj:
  assumes "length h = 32" and "length k = 32" and "hyphenate h = hyphenate k"
  shows "h = k"
proof -
  have "take 8 h = take 8 k" "take 4 (drop 8 h) = take 4 (drop 8 k)"
    "take 4 (drop 12 h) = take 4 (drop 12 k)" "take 4 (drop 16 h) = take 4 (drop 16 k)"
    "drop 20 h = drop 20 k"
    using assms by (simp_all add: hyphenate_def)
  then show ?thesis
    using hyphenate_pieces [OF assms(1)] hyphenate_pieces [OF assms(2)] by simp
qed

lemma hyphenate_length: "length h = 32 \<Longrightarrow> length (hyphenate h) = 36"
  by (simp add: hyphenate_def)

lemma str_uuid_length: "length (str_uuid u) = 36"
  unfolding str_uuid_def by (rule hyphenate_length) (rule length_hex_pad)

lemma str_uuid_no_slash: "CHR ''/'' \<notin> set (str_uuid u)"
proof
  assume "CHR ''/'' \<in> set (str_uuid u)"
  then have "CHR ''/'' \<in> insert (CHR ''-'') (set hex_chars)"
    using hyphenate_set hex_pad_set unfolding str_uuid_def by blast
  then show False by (simp add: hex_chars_def)
qed

lemma str_uuid_inj: "str_uuid u = str_uuid v \<Longrightarrow> u = v"
proof -
  assume "str_uuid u = str_uuid v"
  then have "hex_pad 32 (unat u) = hex_pad 32 (unat v)"
    unfolding str_uuid_def by (rule hyphenate_inj [OF length_hex_pad length_hex_pad])
  moreover have "unat u < 16 ^ 32" "unat v < 16 ^ 32"
    using unsigned_less [of u, where ?'a = nat] unsigned_less [of v, where ?'a = nat] by simp_all
  ultimately have "unat u = unat v" by (intro hex_pad_inj)
  then show "u = v" by (simp add: word_unat_eq_iff)
qed

text \<open>\<open>repr\<close> of a string of Latin-1 characters, as the refusals quote it.\<close>

definition repr_char :: "char \<Rightarrow> char \<Rightarrow> string" where
  "repr_char q ch =
     (let n = (of_char ch :: nat); esc = CHR 0x5C in
      if ch = q \<or> n = 92 then [esc, ch]
      else if n = 10 then [esc, CHR ''n''] else if n = 13 then [esc, CHR ''r'']
      else if n = 9 then [esc, CHR ''t'']
      else if n < 32 \<or> 127 \<le> n \<and> n \<le> 160 \<or> n = 173 then [esc, CHR ''x''] @ hex_pad 2 n
      else [ch])"

definition py_repr :: "string \<Rightarrow> string" where
  "py_repr s =
     (let q = (if CHR 0x27 \<in> set s \<and> CHR 0x22 \<notin> set s then CHR 0x22 else CHR 0x27)
      in [q] @ concat (map (repr_char q) s) @ [q])"

subsection \<open>JSON values\<close>

datatype nonfinite = NaN | PosInf | NegInf

datatype json =
    JNull
  | JBool bool
  | JInt int
  | JFloat rat
  | JNonFinite nonfinite
      \<comment> \<open>the literals \<open>NaN\<close>, \<open>Infinity\<close> and \<open>-Infinity\<close>, which Python's \<open>json\<close> reads and writes\<close>
  | JStr string
  | JArr "json list"
  | JObj "(string \<times> json) list"

text \<open>Python truthiness of a decoded value.\<close>

fun py_truthy :: "json \<Rightarrow> bool" where
  "py_truthy JNull = False"
| "py_truthy (JBool b) = b"
| "py_truthy (JInt i) = (i \<noteq> 0)"
| "py_truthy (JFloat r) = (r \<noteq> 0)"
| "py_truthy (JNonFinite x) = True"
| "py_truthy (JStr s) = (s \<noteq> [])"
| "py_truthy (JArr xs) = (xs \<noteq> [])"
| "py_truthy (JObj kvs) = (kvs \<noteq> [])"

definition py_or :: "json \<Rightarrow> json \<Rightarrow> json" where
  "py_or a b = (if py_truthy a then a else b)"

definition opt_str :: "string option \<Rightarrow> json" where
  "opt_str s = (case s of None \<Rightarrow> JNull | Some t \<Rightarrow> JStr t)"

definition opt_int :: "int option \<Rightarrow> json" where
  "opt_int x = (case x of None \<Rightarrow> JNull | Some i \<Rightarrow> JInt i)"

end
