(* ===== verification/Errors.thy ===== *)
theory Errors
  imports PyText
begin

section \<open>Exceptions and the status codes they become\<close>

text \<open>
  The exceptions the program raises or lets through: its own
  (\<open>app/core/exceptions.py\<close>, \<open>app/services/embedding.py\<close>, \<open>app/services/uploads/spaces.py\<close>),
  FastAPI's \<open>HTTPException\<close>, httpx's errors, the database's refusals, and the built-in
  exceptions an \<open>assert\<close>, a missing key or a bad attribute raises. \<open>http_status\<close> is
  what the client receives: the three handlers \<open>app/main.py\<close> registers, the code of an
  \<open>HTTPException\<close>, and 500 for everything else.
\<close>

datatype httpx_error =
    HTTPStatusError int "json option" string
      \<comment> \<open>status code, \<open>resp.json()\<close> (\<open>None\<close> where it raises \<open>ValueError\<close>), \<open>resp.text\<close>\<close>
  | TransportError

datatype db_error =
    InsufficientPrivilege
  | RowSecurity
  | CheckViolation
  | NotNullViolation
  | UniqueViolation
  | ForeignKeyViolation
  | TriggerRaised
  | StaleDataError
  | DataError

datatype exn =
    HTTPException int json
  | AuthenticationError string
  | AuthorizationError string
  | TenantContextError string
  | MemoryScopeError string
  | EmbeddingError string
  | ObjectTooLargeError string
  | HttpxError httpx_error
  | DbError db_error
  | ClientError string
  | AssertionError
  | RuntimeError string
  | ValueError string
  | KeyError string
  | AttributeError
  | IndexError
  | TypeError
  | ZeroDivisionError
  | OverflowError
  | DryRunRollback
  | SystemExit string

fun http_status :: "exn \<Rightarrow> int" where
  "http_status (HTTPException n _) = n"
| "http_status (AuthenticationError _) = 401"
| "http_status (AuthorizationError _) = 403"
| "http_status (TenantContextError _) = 401"
| "http_status _ = 500"

text \<open>\<open>d.get(k)\<close>: only a dict has the method; a missing key reads as \<open>None\<close>.\<close>

fun json_get :: "json \<Rightarrow> string \<Rightarrow> exn + json" where
  "json_get (JObj kvs) k = Inr (case map_of kvs k of None \<Rightarrow> JNull | Some v \<Rightarrow> v)"
| "json_get _ k = Inl AttributeError"

text \<open>\<open>x[0]\<close> on a decoded value.\<close>

fun json_item0 :: "json \<Rightarrow> exn + json" where
  "json_item0 (JArr []) = Inl IndexError"
| "json_item0 (JArr (x # _)) = Inr x"
| "json_item0 (JStr []) = Inl IndexError"
| "json_item0 (JStr (c # _)) = Inr (JStr [c])"
| "json_item0 (JObj kvs) = Inl (KeyError ''0'')"
| "json_item0 _ = Inl TypeError"

text \<open>\<open>d[k]\<close> with a string key.\<close>

fun json_idx :: "json \<Rightarrow> string \<Rightarrow> exn + json" where
  "json_idx (JObj kvs) k = (case map_of kvs k of None \<Rightarrow> Inl (KeyError k) | Some v \<Rightarrow> Inr v)"
| "json_idx _ k = Inl TypeError"

text \<open>\<open>for x in v\<close>: the items of a list, the keys of a dict, the characters of a string.\<close>

fun json_iter :: "json \<Rightarrow> exn + json list" where
  "json_iter (JArr xs) = Inr xs"
| "json_iter (JObj kvs) = Inr (map (\<lambda>kv. JStr (fst kv)) kvs)"
| "json_iter (JStr s) = Inr (map (\<lambda>c. JStr [c]) s)"
| "json_iter _ = Inl TypeError"

text \<open>A value a Pydantic \<open>str\<close> or \<open>str | None\<close> field accepts; \<open>ValidationError\<close> is a \<open>ValueError\<close>.\<close>

fun pyd_str :: "json \<Rightarrow> exn + string" where
  "pyd_str (JStr s) = Inr s"
| "pyd_str _ = Inl (ValueError ''validation error'')"

fun pyd_opt_str :: "json \<Rightarrow> exn + string option" where
  "pyd_opt_str JNull = Inr None"
| "pyd_opt_str (JStr s) = Inr (Some s)"
| "pyd_opt_str _ = Inl (ValueError ''validation error'')"

definition sbind :: "exn + 'a \<Rightarrow> ('a \<Rightarrow> exn + 'b) \<Rightarrow> exn + 'b" where
  "sbind m f = (case m of Inl e \<Rightarrow> Inl e | Inr x \<Rightarrow> f x)"

lemma sbind_simps [simp]: "sbind (Inl e) f = Inl e" "sbind (Inr x) f = f x"
  by (simp_all add: sbind_def)

lemma sbind_Inr_iff: "sbind m f = Inr y \<longleftrightarrow> (\<exists>x. m = Inr x \<and> f x = Inr y)"
  by (cases m) simp_all

text \<open>\<open>[f(x) for x in xs]\<close> where \<open>f\<close> may raise: the first exception ends it.\<close>

fun smap :: "('a \<Rightarrow> exn + 'b) \<Rightarrow> 'a list \<Rightarrow> exn + 'b list" where
  "smap f [] = Inr []"
| "smap f (x # xs) = sbind (f x) (\<lambda>y. sbind (smap f xs) (\<lambda>ys. Inr (y # ys)))"

lemma smap_Inr: "smap f xs = Inr ys \<Longrightarrow> list_all2 (\<lambda>x y. f x = Inr y) xs ys"
  by (induction xs arbitrary: ys) (auto simp: sbind_Inr_iff)

definition lift_sum :: "exn + 'a \<Rightarrow> ('s, exn, 'a) action" where
  "lift_sum m = (case m of Inl e \<Rightarrow> throw e | Inr x \<Rightarrow> ret x)"

lemma lift_sum_simps [simp]: "lift_sum (Inl e) = throw e" "lift_sum (Inr x) = ret x"
  by (simp_all add: lift_sum_def)

lemma keeps_lift_sum [keep_rules]: "keeps I (lift_sum m)"
  by (cases m) (simp_all add: keep_rules)

lemma lift_sum_InrE: "lift_sum m w = (Inr x, w') \<Longrightarrow> m = Inr x \<and> w' = w"
  by (cases m) auto

lemma lift_sum_InlE: "lift_sum m w = (Inl e, w') \<Longrightarrow> m = Inl e \<and> w' = w"
  by (cases m) auto

end
