(* ===== verification/Models.thy ===== *)
theory Models
  imports Errors
begin

section \<open>The tables' rows\<close>

text \<open>
  One record per table of \<open>app/models\<close>, a field per column in the model's order,
  prefixed to keep the field names apart. Nullable columns are options, JSONB is
  \<^typ>\<open>json\<close>, timestamps are microseconds since the epoch in UTC, serial keys are
  integers and UUID keys 128-bit words. The CHECK constraints are the bool-valued
  functions at the end; NOT NULL is the absence of an option.
\<close>

type_synonym instant = int

subsection \<open>Tenancy: organisation, funds, users, admins\<close>

datatype OrgType = PE_FIRM | FAMILY_OFFICE

fun OrgType_value :: "OrgType \<Rightarrow> string" where
  "OrgType_value PE_FIRM = ''PE Firm''"
| "OrgType_value FAMILY_OFFICE = ''Family Office''"

text \<open>\<open>OrgType(raw)\<close>: lookup by value, \<open>ValueError\<close> (here \<open>None\<close>) otherwise.\<close>

definition OrgType_of_value :: "string \<Rightarrow> OrgType option" where
  "OrgType_of_value s =
     (if s = ''PE Firm'' then Some PE_FIRM
      else if s = ''Family Office'' then Some FAMILY_OFFICE else None)"

lemma OrgType_roundtrip: "OrgType_of_value (OrgType_value t) = Some t"
  by (cases t) (simp_all add: OrgType_of_value_def)

datatype AdminType = Platform | Client

record organisation =
  org_id :: int
  org_clerk_org_id :: string
  org_name :: string
  org_type :: "OrgType option"
  org_created_at :: instant

record user =
  usr_id :: int
  usr_org_id :: int
  usr_name :: "string option"
  usr_email :: "string option"
  usr_role :: string
  usr_login_method :: string
  usr_clerk_user_id :: string
  usr_clerk_org_id :: string
  usr_status :: string
  usr_deactivated_at :: "instant option"

record clerk_admin_user =
  adm_id :: int
  adm_clerk_user_id :: string
  adm_clerk_org_id :: string
  adm_org_id :: int
  adm_email :: "string option"
  adm_admin_type :: AdminType
  adm_status :: string
  adm_created_at :: "instant option"
  adm_updated_at :: "instant option"

subsection \<open>Deals, analysis sessions, uploaded documents\<close>

record deal =
  deal_id :: uuid
  deal_org_id :: int
  deal_fund_id :: "int option"
  deal_name :: string
  deal_gp_source :: "string option"
  deal_size_min_usd :: "int option"
  deal_size_max_usd :: "int option"
  deal_sector_tags :: "json option"
  deal_status :: string
  deal_created_at :: instant
  deal_updated_at :: instant

record session =
  ses_id :: uuid
  ses_org_id :: int
  ses_user_id :: "int option"
  ses_deal_id :: uuid
  ses_file_name :: string
  ses_memo_json :: "json option"
  ses_composed_at :: "instant option"
  ses_created_at :: instant

record data_source =
  ds_id :: uuid
  ds_org_id :: int
  ds_deal_id :: uuid
  ds_storage_key :: string
  ds_filename :: string
  ds_declared_sha256 :: string
  ds_fingerprint :: "string option"
  ds_status :: string
  ds_status_updated_at :: "instant option"
  ds_created_at :: instant

definition data_source_statuses :: "string list" where
  "data_source_statuses = [''pending'', ''verified'', ''quarantined'', ''ocr_needed'', ''mismatch'']"

definition ck_data_source_status :: "data_source \<Rightarrow> bool" where
  "ck_data_source_status d \<longleftrightarrow> ds_status d \<in> set data_source_statuses"

subsection \<open>Audit trail, chunks, investment profiles\<close>

record human_audit_log =
  aud_id :: uuid
  aud_org_id :: int
  aud_actor_id :: "string option"
  aud_actor_email :: "string option"
  aud_event_type :: string
  aud_deal_id :: "uuid option"
  aud_session_id :: "uuid option"
  aud_payload :: "json option"
  aud_ip_address :: "string option"
  aud_user_agent :: "string option"
  aud_created_at :: instant

record chunk =
  chk_id :: uuid
  chk_org_id :: int
  chk_document_id :: "uuid option"
  chk_content :: string
  chk_embedding :: "rat list option"
  chk_embedding_version :: "string option"
  chk_element_type :: "string option"
  chk_page :: "int option"
  chk_char_start :: "int option"
  chk_char_end :: "int option"
  chk_created_at :: instant

record investment_profile =
  prof_id :: uuid
  prof_org_id :: int
  prof_firm_name :: "string option"
  prof_firm_type :: "string option"
  prof_aum_band :: "string option"
  prof_mandate :: "json option"
  prof_weights :: "json option"
  prof_created_at :: instant
  prof_updated_at :: instant

subsection \<open>Funds, model calls, corroboration\<close>

text \<open>Tables of the schema that no code of the repository writes yet.\<close>

record fund =
  fnd_id :: int
  fnd_org_id :: int
  fnd_name :: string
  fnd_strategy :: "string option"
  fnd_vintage_year :: int
  fnd_status :: string

record ai_audit_log =
  aia_id :: uuid
  aia_org_id :: int
  aia_fund_id :: "int option"
  aia_user_id :: "string option"
  aia_session_id :: "uuid option"
  aia_pipeline_run_id :: "uuid option"
  aia_parent_agent_id :: "uuid option"
  aia_pass_number :: "int option"
  aia_agent_name :: "string option"
  aia_model_id :: "string option"
  aia_model_version :: "string option"
  aia_system_prompt_hash :: "string option"
  aia_tool_call_names :: "json option"
  aia_input_tokens :: "int option"
  aia_output_tokens :: "int option"
  aia_cache_read_tokens :: "int option"
  aia_retry_count :: int
  aia_error_code :: "string option"
  aia_duration_ms :: "int option"
  aia_created_at :: instant

record corroboration_event =
  cor_id :: uuid
  cor_org_id :: int
  cor_claim_id :: uuid
  cor_outside_source :: string
  cor_result :: json
  cor_created_at :: instant

subsection \<open>The claims spine\<close>

text \<open>
  One row of \<open>claims\<close>; the format-specific location columns are null per row. Its CHECK
  constraints (\<open>app/models/claim.py\<close> and the two migrations) are the contract made
  non-bypassable. A SQL CHECK passes unless it evaluates to false, so a constraint over
  a nullable column is written out for NULL.
\<close>

record claim =
  clm_id :: uuid
  clm_org_id :: int
  clm_deal_id :: "uuid option"
  clm_session_id :: "uuid option"
  clm_data_source_id :: "uuid option"
  clm_chunk_id :: "uuid option"
  clm_entity :: string
  clm_attribute :: string
  clm_period_year :: "int option"
  clm_period_kind :: "string option"
  clm_value :: json
  clm_kind :: string
  clm_page :: "int option"
  clm_char_start :: "int option"
  clm_char_end :: "int option"
  clm_bbox :: "json option"
  clm_sheet :: "string option"
  clm_cell_ref :: "string option"
  clm_paragraph :: "int option"
  clm_status :: string
  clm_verification_method :: "string option"
  clm_section :: "string option"
  clm_claim_kind :: "string option"
  clm_assertion_class :: "string option"
  clm_table_group_id :: "uuid option"
  clm_fragment_order :: "int option"
  clm_flags :: "string list option"
  clm_created_at :: instant

definition claim_statuses :: "string list" where
  "claim_statuses = [''proposed'', ''cited'', ''rejected'', ''missing'', ''conflicted'',
     ''inconclusive'', ''partially_verified'', ''verified'']"

definition claim_checked_statuses :: "string list" where
  "claim_checked_statuses = [''cited'', ''conflicted'', ''inconclusive'', ''partially_verified'', ''verified'']"

definition claim_verification_methods :: "string list" where
  "claim_verification_methods = [''exact_span'', ''formula_reexecution'', ''direct_read'',
     ''reranker'', ''human_review'']"

definition claim_location_kinds :: "string list" where
  "claim_location_kinds = [''pdf'', ''xlsx'', ''docx'']"

definition claim_kinds :: "string list" where
  "claim_kinds = [''quantitative'', ''qualitative'']"

definition claim_assertion_classes :: "string list" where
  "claim_assertion_classes = [''related_party'', ''operating_model'', ''market_definition'',
     ''competitive_position'', ''commercial_terms'', ''risk_or_dependency'', ''plan_or_commitment'']"

text \<open>\<open>x IS NULL OR x IN (...)\<close>\<close>

definition null_or_in :: "string option \<Rightarrow> string list \<Rightarrow> bool" where
  "null_or_in x vs \<longleftrightarrow> (case x of None \<Rightarrow> True | Some v \<Rightarrow> v \<in> set vs)"

definition ck_claims_status :: "claim \<Rightarrow> bool" where
  "ck_claims_status c \<longleftrightarrow> clm_status c \<in> set claim_statuses"

definition ck_claims_verification_method :: "claim \<Rightarrow> bool" where
  "ck_claims_verification_method c \<longleftrightarrow>
     null_or_in (clm_verification_method c) claim_verification_methods"

definition ck_claims_kind :: "claim \<Rightarrow> bool" where
  "ck_claims_kind c \<longleftrightarrow> clm_kind c \<in> set claim_location_kinds"

definition ck_claims_claim_kind :: "claim \<Rightarrow> bool" where
  "ck_claims_claim_kind c \<longleftrightarrow> null_or_in (clm_claim_kind c) claim_kinds"

definition ck_claims_assertion_class :: "claim \<Rightarrow> bool" where
  "ck_claims_assertion_class c \<longleftrightarrow> null_or_in (clm_assertion_class c) claim_assertion_classes"

definition ck_claims_qualitative_has_class :: "claim \<Rightarrow> bool" where
  "ck_claims_qualitative_has_class c \<longleftrightarrow>
     clm_claim_kind c \<noteq> Some ''qualitative'' \<or> clm_assertion_class c \<noteq> None"

definition ck_claims_period_kind :: "claim \<Rightarrow> bool" where
  "ck_claims_period_kind c \<longleftrightarrow> null_or_in (clm_period_kind c) [''A'', ''E'', ''P'']"

definition ck_claims_locator_matches_kind :: "claim \<Rightarrow> bool" where
  "ck_claims_locator_matches_kind c \<longleftrightarrow>
     clm_kind c = ''pdf'' \<and> clm_page c \<noteq> None
     \<or> clm_kind c = ''xlsx'' \<and> clm_sheet c \<noteq> None \<and> clm_cell_ref c \<noteq> None
     \<or> clm_kind c = ''docx'' \<and> clm_paragraph c \<noteq> None"

definition ck_claims_found_requires_span :: "claim \<Rightarrow> bool" where
  "ck_claims_found_requires_span c \<longleftrightarrow>
     clm_status c = ''missing'' \<or> clm_kind c = ''xlsx''
     \<or> clm_char_start c \<noteq> None \<and> clm_char_end c \<noteq> None"

definition ck_claims_missing_has_no_span :: "claim \<Rightarrow> bool" where
  "ck_claims_missing_has_no_span c \<longleftrightarrow>
     clm_status c \<noteq> ''missing'' \<or> clm_char_start c = None \<and> clm_char_end c = None"

definition ck_claims_checked_requires_method :: "claim \<Rightarrow> bool" where
  "ck_claims_checked_requires_method c \<longleftrightarrow>
     clm_status c \<notin> set claim_checked_statuses \<or> clm_verification_method c \<noteq> None"

definition claim_checks :: "claim \<Rightarrow> bool" where
  "claim_checks c \<longleftrightarrow>
     ck_claims_status c \<and> ck_claims_verification_method c \<and> ck_claims_kind c
     \<and> ck_claims_claim_kind c \<and> ck_claims_assertion_class c \<and> ck_claims_qualitative_has_class c
     \<and> ck_claims_period_kind c \<and> ck_claims_locator_matches_kind c
     \<and> ck_claims_found_requires_span c \<and> ck_claims_missing_has_no_span c
     \<and> ck_claims_checked_requires_method c"

end
