(* ===== verification/Database.thy ===== *)
theory Database
  imports Models
begin

section \<open>The tenant database: tables, row-level security, statements, transactions\<close>

text \<open>
  The Postgres side of the program as its migrations (\<open>alembic/versions\<close>) set it up and
  as role \<open>dd_app\<close> sees it. A table is a list of rows together with what the migrations
  attach to it: its \<open>org_isolation\<close> policy, its unique indexes, its foreign keys and
  CHECKs, the privileges left to \<open>dd_app\<close> and its BEFORE UPDATE trigger. Statements are
  given once for any table. The policy is both USING and WITH CHECK (FOR ALL with no
  WITH CHECK clause); unique indexes and foreign keys see every row, hidden ones included.

  A request's world holds the database, the transaction's \<open>app.org_id\<close>, SQLAlchemy's
  pending unit of work (\<open>autoflush=False\<close>: nothing is written before a flush or the
  commit), the sequences, the stream of random UUIDs, the clock, the job queue, the
  process-wide JWKS cache, and the state \<open>'c\<close> of the external services. Column length limits, the identity map and the
  order of rows without ORDER BY (here: insertion order) are not modelled.
\<close>

subsection \<open>State\<close>

record db =
  t_organisation :: "organisation list"
  t_users :: "user list"
  t_clerk_admin_users :: "clerk_admin_user list"
  t_deals :: "deal list"
  t_sessions :: "session list"
  t_data_source :: "data_source list"
  t_human_audit_log :: "human_audit_log list"
  t_chunks :: "chunk list"
  t_claims :: "claim list"
  t_investment_profiles :: "investment_profile list"
  t_funds :: "fund list"
  t_ai_audit_log :: "ai_audit_log list"
  t_corroboration_events :: "corroboration_event list"

text \<open>What \<open>HumanAuditRepo.append\<close> is given: the columns a caller sets.\<close>

record audit_entry =
  ent_org_id :: int
  ent_actor_id :: "string option"
  ent_actor_email :: "string option"
  ent_event_type :: string
  ent_deal_id :: "uuid option"
  ent_session_id :: "uuid option"
  ent_payload :: "json option"

datatype orm_write =
    InsertAudit audit_entry
  | InsertDataSource data_source
  | UpdateUserRole int string
  | UpdateUserStatus int string "instant option"

record job =
  job_function :: string
  job_kwargs :: "(string \<times> string) list"

record 'c world =
  db :: db
  guc :: "string option"
  uow :: "orm_write list"
  svc :: 'c
  clock :: instant
  rnd :: "nat \<Rightarrow> uuid"
  rnd_next :: nat
  seq_organisation :: int
  seq_users :: int
  seq_admin :: int
  queue :: "job list"
  jwks_cache :: "json option"
  jwks_fetched_at :: rat

type_synonym ('c, 'a) act = "('c world, exn, 'a) action"

subsection \<open>Tables\<close>

datatype update_grant = AllColumns | OnlyColumns "string list"

fun may_update :: "update_grant \<Rightarrow> string list \<Rightarrow> bool" where
  "may_update AllColumns cols = True"
| "may_update (OnlyColumns cs) cols = (cols \<noteq> [] \<and> set cols \<subseteq> set cs)"

record 'r table =
  tb_rows :: "db \<Rightarrow> 'r list"
  tb_put :: "('r list \<Rightarrow> 'r list) \<Rightarrow> db \<Rightarrow> db"
  tb_policy :: "string option \<Rightarrow> db \<Rightarrow> 'r \<Rightarrow> bool"
  tb_check :: "'r \<Rightarrow> bool"
  tb_unique :: "'r list \<Rightarrow> bool"
  tb_fk :: "db \<Rightarrow> 'r \<Rightarrow> bool"
  tb_update_grant :: update_grant
  tb_delete_grant :: bool
  tb_blocks_update :: "'r \<Rightarrow> bool"

text \<open>\<open>clerk_org_id = current_setting('app.org_id', true)\<close>: never true when it is unset.\<close>

definition clerk_policy :: "string option \<Rightarrow> string \<Rightarrow> bool" where
  "clerk_policy g clerk_org_id \<longleftrightarrow> g = Some clerk_org_id"

text \<open>
  \<open>org_id IN (SELECT id FROM organisation WHERE clerk_org_id = current_setting(...))\<close>
\<close>

definition org_policy :: "string option \<Rightarrow> db \<Rightarrow> int \<Rightarrow> bool" where
  "org_policy g d i \<longleftrightarrow>
     i \<in> set (map org_id (filter (\<lambda>o1. clerk_policy g (org_clerk_org_id o1)) (t_organisation d)))"

definition org_ids :: "db \<Rightarrow> int set" where
  "org_ids d = set (map org_id (t_organisation d))"

text \<open>A unique index admits any number of NULLs.\<close>

definition non_null :: "'a option list \<Rightarrow> 'a list" where
  "non_null xs = map the (filter (\<lambda>x. x \<noteq> None) xs)"

text \<open>A nullable foreign key: NULL, or the key of a stored row.\<close>

definition refers :: "'k option \<Rightarrow> 'k list \<Rightarrow> bool" where
  "refers x ks \<longleftrightarrow> (case x of None \<Rightarrow> True | Some k \<Rightarrow> k \<in> set ks)"

lemma refers_mono: "refers x ks \<Longrightarrow> set ks \<subseteq> set ls \<Longrightarrow> refers x ls"
  by (auto simp: refers_def split: option.splits)

definition organisation_table :: "organisation table" where
  "organisation_table =
     \<lparr>tb_rows = t_organisation, tb_put = (\<lambda>f. t_organisation_update f),
      tb_policy = (\<lambda>g d r. clerk_policy g (org_clerk_org_id r)),
      tb_check = (\<lambda>r. True),
      tb_unique = (\<lambda>rs. distinct (map org_id rs) \<and> distinct (map org_clerk_org_id rs)),
      tb_fk = (\<lambda>d r. True),
      tb_update_grant = AllColumns, tb_delete_grant = True, tb_blocks_update = (\<lambda>r. False)\<rparr>"

definition users_table :: "user table" where
  "users_table =
     \<lparr>tb_rows = t_users, tb_put = (\<lambda>f. t_users_update f),
      tb_policy = (\<lambda>g d r. clerk_policy g (usr_clerk_org_id r)),
      tb_check = (\<lambda>r. True),
      tb_unique = (\<lambda>rs. distinct (map usr_id rs) \<and> distinct (map usr_clerk_user_id rs)
                        \<and> distinct (non_null (map usr_email rs))),
      tb_fk = (\<lambda>d r. usr_org_id r \<in> org_ids d),
      tb_update_grant = AllColumns, tb_delete_grant = True, tb_blocks_update = (\<lambda>r. False)\<rparr>"

definition admins_table :: "clerk_admin_user table" where
  "admins_table =
     \<lparr>tb_rows = t_clerk_admin_users, tb_put = (\<lambda>f. t_clerk_admin_users_update f),
      tb_policy = (\<lambda>g d r. clerk_policy g (adm_clerk_org_id r)),
      tb_check = (\<lambda>r. True),
      tb_unique = (\<lambda>rs. distinct (map adm_id rs) \<and> distinct (map adm_clerk_user_id rs)),
      tb_fk = (\<lambda>d r. adm_org_id r \<in> org_ids d),
      tb_update_grant = AllColumns, tb_delete_grant = True, tb_blocks_update = (\<lambda>r. False)\<rparr>"

definition deals_table :: "deal table" where
  "deals_table =
     \<lparr>tb_rows = t_deals, tb_put = (\<lambda>f. t_deals_update f),
      tb_policy = (\<lambda>g d r. org_policy g d (deal_org_id r)),
      tb_check = (\<lambda>r. True),
      tb_unique = (\<lambda>rs. distinct (map deal_id rs)),
      tb_fk = (\<lambda>d r. deal_org_id r \<in> org_ids d \<and> refers (deal_fund_id r) (map fnd_id (t_funds d))),
      tb_update_grant = AllColumns, tb_delete_grant = True, tb_blocks_update = (\<lambda>r. False)\<rparr>"

definition sessions_table :: "session table" where
  "sessions_table =
     \<lparr>tb_rows = t_sessions, tb_put = (\<lambda>f. t_sessions_update f),
      tb_policy = (\<lambda>g d r. org_policy g d (ses_org_id r)),
      tb_check = (\<lambda>r. True),
      tb_unique = (\<lambda>rs. distinct (map ses_id rs)),
      tb_fk = (\<lambda>d r. ses_org_id r \<in> org_ids d \<and> ses_deal_id r \<in> set (map deal_id (t_deals d))
                     \<and> (refers (ses_user_id r) (map usr_id (t_users d)))),
      tb_update_grant = AllColumns, tb_delete_grant = True, tb_blocks_update = (\<lambda>r. False)\<rparr>"

text \<open>
  \<open>data_source\<close>: UPDATE and DELETE are revoked, UPDATE is granted back on the three
  lifecycle columns, and the trigger refuses any UPDATE of a row that has left \<open>pending\<close>.
\<close>

definition data_source_table :: "data_source table" where
  "data_source_table =
     \<lparr>tb_rows = t_data_source, tb_put = (\<lambda>f. t_data_source_update f),
      tb_policy = (\<lambda>g d r. org_policy g d (ds_org_id r)),
      tb_check = ck_data_source_status,
      tb_unique = (\<lambda>rs. distinct (map ds_id rs)),
      tb_fk = (\<lambda>d r. ds_org_id r \<in> org_ids d \<and> ds_deal_id r \<in> set (map deal_id (t_deals d))),
      tb_update_grant = OnlyColumns [''status'', ''fingerprint'', ''status_updated_at''],
      tb_delete_grant = False, tb_blocks_update = (\<lambda>r. ds_status r \<noteq> ''pending'')\<rparr>"

text \<open>\<open>human_audit_log\<close>: \<open>REVOKE UPDATE, DELETE ... FROM dd_app\<close>.\<close>

definition audit_table :: "human_audit_log table" where
  "audit_table =
     \<lparr>tb_rows = t_human_audit_log, tb_put = (\<lambda>f. t_human_audit_log_update f),
      tb_policy = (\<lambda>g d r. org_policy g d (aud_org_id r)),
      tb_check = (\<lambda>r. True),
      tb_unique = (\<lambda>rs. distinct (map aud_id rs)),
      tb_fk = (\<lambda>d r. aud_org_id r \<in> org_ids d),
      tb_update_grant = OnlyColumns [], tb_delete_grant = False, tb_blocks_update = (\<lambda>r. False)\<rparr>"

definition chunks_table :: "chunk table" where
  "chunks_table =
     \<lparr>tb_rows = t_chunks, tb_put = (\<lambda>f. t_chunks_update f),
      tb_policy = (\<lambda>g d r. org_policy g d (chk_org_id r)),
      tb_check = (\<lambda>r. True),
      tb_unique = (\<lambda>rs. distinct (map chk_id rs)),
      tb_fk = (\<lambda>d r. chk_org_id r \<in> org_ids d
                     \<and> (refers (chk_document_id r) (map ds_id (t_data_source d)))),
      tb_update_grant = AllColumns, tb_delete_grant = True, tb_blocks_update = (\<lambda>r. False)\<rparr>"

definition claims_table :: "claim table" where
  "claims_table =
     \<lparr>tb_rows = t_claims, tb_put = (\<lambda>f. t_claims_update f),
      tb_policy = (\<lambda>g d r. org_policy g d (clm_org_id r)),
      tb_check = claim_checks,
      tb_unique = (\<lambda>rs. distinct (map clm_id rs)),
      tb_fk = (\<lambda>d r. clm_org_id r \<in> org_ids d
                     \<and> (refers (clm_data_source_id r) (map ds_id (t_data_source d)))
                     \<and> (refers (clm_deal_id r) (map deal_id (t_deals d)))),
      tb_update_grant = AllColumns, tb_delete_grant = True, tb_blocks_update = (\<lambda>r. False)\<rparr>"

definition profiles_table :: "investment_profile table" where
  "profiles_table =
     \<lparr>tb_rows = t_investment_profiles, tb_put = (\<lambda>f. t_investment_profiles_update f),
      tb_policy = (\<lambda>g d r. org_policy g d (prof_org_id r)),
      tb_check = (\<lambda>r. True),
      tb_unique = (\<lambda>rs. distinct (map prof_id rs) \<and> distinct (map prof_org_id rs)),
      tb_fk = (\<lambda>d r. prof_org_id r \<in> org_ids d),
      tb_update_grant = AllColumns, tb_delete_grant = True, tb_blocks_update = (\<lambda>r. False)\<rparr>"

definition funds_table :: "fund table" where
  "funds_table =
     \<lparr>tb_rows = t_funds, tb_put = (\<lambda>f. t_funds_update f),
      tb_policy = (\<lambda>g d r. org_policy g d (fnd_org_id r)),
      tb_check = (\<lambda>r. True),
      tb_unique = (\<lambda>rs. distinct (map fnd_id rs)),
      tb_fk = (\<lambda>d r. fnd_org_id r \<in> org_ids d),
      tb_update_grant = AllColumns, tb_delete_grant = True, tb_blocks_update = (\<lambda>r. False)\<rparr>"

text \<open>\<open>ai_audit_log\<close> and \<open>corroboration_events\<close>: \<open>REVOKE UPDATE, DELETE\<close> like the audit trail.\<close>

definition ai_audit_table :: "ai_audit_log table" where
  "ai_audit_table =
     \<lparr>tb_rows = t_ai_audit_log, tb_put = (\<lambda>f. t_ai_audit_log_update f),
      tb_policy = (\<lambda>g d r. org_policy g d (aia_org_id r)),
      tb_check = (\<lambda>r. True),
      tb_unique = (\<lambda>rs. distinct (map aia_id rs)),
      tb_fk = (\<lambda>d r. aia_org_id r \<in> org_ids d \<and> refers (aia_fund_id r) (map fnd_id (t_funds d))),
      tb_update_grant = OnlyColumns [], tb_delete_grant = False, tb_blocks_update = (\<lambda>r. False)\<rparr>"

definition corroboration_table :: "corroboration_event table" where
  "corroboration_table =
     \<lparr>tb_rows = t_corroboration_events, tb_put = (\<lambda>f. t_corroboration_events_update f),
      tb_policy = (\<lambda>g d r. org_policy g d (cor_org_id r)),
      tb_check = (\<lambda>r. True),
      tb_unique = (\<lambda>rs. distinct (map cor_id rs)),
      tb_fk = (\<lambda>d r. cor_org_id r \<in> org_ids d \<and> cor_claim_id r \<in> set (map clm_id (t_claims d))),
      tb_update_grant = OnlyColumns [], tb_delete_grant = False, tb_blocks_update = (\<lambda>r. False)\<rparr>"

lemmas table_defs = organisation_table_def users_table_def admins_table_def deals_table_def
  sessions_table_def data_source_table_def audit_table_def chunks_table_def claims_table_def
  profiles_table_def funds_table_def ai_audit_table_def corroboration_table_def

text \<open>The fields of the tables, so that proofs need not unfold the records.\<close>

lemma table_rows [simp]:
    "tb_rows organisation_table = t_organisation"
    "tb_rows users_table = t_users"
    "tb_rows admins_table = t_clerk_admin_users"
    "tb_rows deals_table = t_deals"
    "tb_rows sessions_table = t_sessions"
    "tb_rows data_source_table = t_data_source"
    "tb_rows audit_table = t_human_audit_log"
    "tb_rows chunks_table = t_chunks"
    "tb_rows claims_table = t_claims"
    "tb_rows profiles_table = t_investment_profiles"
    "tb_rows funds_table = t_funds"
    "tb_rows ai_audit_table = t_ai_audit_log"
    "tb_rows corroboration_table = t_corroboration_events"
  by (simp_all add: table_defs)

lemma table_put [simp]:
    "tb_put organisation_table = (\<lambda>f. t_organisation_update f)"
    "tb_put users_table = (\<lambda>f. t_users_update f)"
    "tb_put admins_table = (\<lambda>f. t_clerk_admin_users_update f)"
    "tb_put deals_table = (\<lambda>f. t_deals_update f)"
    "tb_put sessions_table = (\<lambda>f. t_sessions_update f)"
    "tb_put data_source_table = (\<lambda>f. t_data_source_update f)"
    "tb_put audit_table = (\<lambda>f. t_human_audit_log_update f)"
    "tb_put chunks_table = (\<lambda>f. t_chunks_update f)"
    "tb_put claims_table = (\<lambda>f. t_claims_update f)"
    "tb_put profiles_table = (\<lambda>f. t_investment_profiles_update f)"
    "tb_put funds_table = (\<lambda>f. t_funds_update f)"
    "tb_put ai_audit_table = (\<lambda>f. t_ai_audit_log_update f)"
    "tb_put corroboration_table = (\<lambda>f. t_corroboration_events_update f)"
  by (simp_all add: table_defs)

lemma table_policy [simp]:
    "tb_policy organisation_table = (\<lambda>g d r. clerk_policy g (org_clerk_org_id r))"
    "tb_policy users_table = (\<lambda>g d r. clerk_policy g (usr_clerk_org_id r))"
    "tb_policy admins_table = (\<lambda>g d r. clerk_policy g (adm_clerk_org_id r))"
    "tb_policy deals_table = (\<lambda>g d r. org_policy g d (deal_org_id r))"
    "tb_policy sessions_table = (\<lambda>g d r. org_policy g d (ses_org_id r))"
    "tb_policy data_source_table = (\<lambda>g d r. org_policy g d (ds_org_id r))"
    "tb_policy audit_table = (\<lambda>g d r. org_policy g d (aud_org_id r))"
    "tb_policy chunks_table = (\<lambda>g d r. org_policy g d (chk_org_id r))"
    "tb_policy claims_table = (\<lambda>g d r. org_policy g d (clm_org_id r))"
    "tb_policy profiles_table = (\<lambda>g d r. org_policy g d (prof_org_id r))"
    "tb_policy funds_table = (\<lambda>g d r. org_policy g d (fnd_org_id r))"
    "tb_policy ai_audit_table = (\<lambda>g d r. org_policy g d (aia_org_id r))"
    "tb_policy corroboration_table = (\<lambda>g d r. org_policy g d (cor_org_id r))"
  by (simp_all add: table_defs)

lemma table_check [simp]:
    "tb_check organisation_table = (\<lambda>r. True)"
    "tb_check users_table = (\<lambda>r. True)"
    "tb_check admins_table = (\<lambda>r. True)"
    "tb_check deals_table = (\<lambda>r. True)"
    "tb_check sessions_table = (\<lambda>r. True)"
    "tb_check data_source_table = ck_data_source_status"
    "tb_check audit_table = (\<lambda>r. True)"
    "tb_check chunks_table = (\<lambda>r. True)"
    "tb_check claims_table = claim_checks"
    "tb_check profiles_table = (\<lambda>r. True)"
    "tb_check funds_table = (\<lambda>r. True)"
    "tb_check ai_audit_table = (\<lambda>r. True)"
    "tb_check corroboration_table = (\<lambda>r. True)"
  by (simp_all add: table_defs)

lemma table_unique [simp]:
    "tb_unique organisation_table = (\<lambda>rs. distinct (map org_id rs) \<and> distinct (map org_clerk_org_id rs))"
    "tb_unique users_table = (\<lambda>rs. distinct (map usr_id rs) \<and> distinct (map usr_clerk_user_id rs) \<and> distinct (non_null (map usr_email rs)))"
    "tb_unique admins_table = (\<lambda>rs. distinct (map adm_id rs) \<and> distinct (map adm_clerk_user_id rs))"
    "tb_unique deals_table = (\<lambda>rs. distinct (map deal_id rs))"
    "tb_unique sessions_table = (\<lambda>rs. distinct (map ses_id rs))"
    "tb_unique data_source_table = (\<lambda>rs. distinct (map ds_id rs))"
    "tb_unique audit_table = (\<lambda>rs. distinct (map aud_id rs))"
    "tb_unique chunks_table = (\<lambda>rs. distinct (map chk_id rs))"
    "tb_unique claims_table = (\<lambda>rs. distinct (map clm_id rs))"
    "tb_unique profiles_table = (\<lambda>rs. distinct (map prof_id rs) \<and> distinct (map prof_org_id rs))"
    "tb_unique funds_table = (\<lambda>rs. distinct (map fnd_id rs))"
    "tb_unique ai_audit_table = (\<lambda>rs. distinct (map aia_id rs))"
    "tb_unique corroboration_table = (\<lambda>rs. distinct (map cor_id rs))"
  by (simp_all add: table_defs)

lemma table_fk [simp]:
    "tb_fk organisation_table = (\<lambda>d r. True)"
    "tb_fk users_table = (\<lambda>d r. usr_org_id r \<in> org_ids d)"
    "tb_fk admins_table = (\<lambda>d r. adm_org_id r \<in> org_ids d)"
    "tb_fk deals_table = (\<lambda>d r. deal_org_id r \<in> org_ids d \<and> refers (deal_fund_id r) (map fnd_id (t_funds d)))"
    "tb_fk sessions_table = (\<lambda>d r. ses_org_id r \<in> org_ids d \<and> ses_deal_id r \<in> set (map deal_id (t_deals d)) \<and> (refers (ses_user_id r) (map usr_id (t_users d))))"
    "tb_fk data_source_table = (\<lambda>d r. ds_org_id r \<in> org_ids d \<and> ds_deal_id r \<in> set (map deal_id (t_deals d)))"
    "tb_fk audit_table = (\<lambda>d r. aud_org_id r \<in> org_ids d)"
    "tb_fk chunks_table = (\<lambda>d r. chk_org_id r \<in> org_ids d \<and> (refers (chk_document_id r) (map ds_id (t_data_source d))))"
    "tb_fk claims_table = (\<lambda>d r. clm_org_id r \<in> org_ids d \<and> (refers (clm_data_source_id r) (map ds_id (t_data_source d))) \<and> (refers (clm_deal_id r) (map deal_id (t_deals d))))"
    "tb_fk profiles_table = (\<lambda>d r. prof_org_id r \<in> org_ids d)"
    "tb_fk funds_table = (\<lambda>d r. fnd_org_id r \<in> org_ids d)"
    "tb_fk ai_audit_table = (\<lambda>d r. aia_org_id r \<in> org_ids d \<and> refers (aia_fund_id r) (map fnd_id (t_funds d)))"
    "tb_fk corroboration_table = (\<lambda>d r. cor_org_id r \<in> org_ids d \<and> cor_claim_id r \<in> set (map clm_id (t_claims d)))"
  by (simp_all add: table_defs)

lemma table_update_grant [simp]:
    "tb_update_grant organisation_table = AllColumns"
    "tb_update_grant users_table = AllColumns"
    "tb_update_grant admins_table = AllColumns"
    "tb_update_grant deals_table = AllColumns"
    "tb_update_grant sessions_table = AllColumns"
    "tb_update_grant data_source_table = OnlyColumns [''status'', ''fingerprint'', ''status_updated_at'']"
    "tb_update_grant audit_table = OnlyColumns []"
    "tb_update_grant chunks_table = AllColumns"
    "tb_update_grant claims_table = AllColumns"
    "tb_update_grant profiles_table = AllColumns"
    "tb_update_grant funds_table = AllColumns"
    "tb_update_grant ai_audit_table = OnlyColumns []"
    "tb_update_grant corroboration_table = OnlyColumns []"
  by (simp_all add: table_defs)

lemma table_delete_grant [simp]:
    "tb_delete_grant organisation_table = True"
    "tb_delete_grant users_table = True"
    "tb_delete_grant admins_table = True"
    "tb_delete_grant deals_table = True"
    "tb_delete_grant sessions_table = True"
    "tb_delete_grant data_source_table = False"
    "tb_delete_grant audit_table = False"
    "tb_delete_grant chunks_table = True"
    "tb_delete_grant claims_table = True"
    "tb_delete_grant profiles_table = True"
    "tb_delete_grant funds_table = True"
    "tb_delete_grant ai_audit_table = False"
    "tb_delete_grant corroboration_table = False"
  by (simp_all add: table_defs)

lemma table_blocks_update [simp]:
    "tb_blocks_update organisation_table = (\<lambda>r. False)"
    "tb_blocks_update users_table = (\<lambda>r. False)"
    "tb_blocks_update admins_table = (\<lambda>r. False)"
    "tb_blocks_update deals_table = (\<lambda>r. False)"
    "tb_blocks_update sessions_table = (\<lambda>r. False)"
    "tb_blocks_update data_source_table = (\<lambda>r. ds_status r \<noteq> ''pending'')"
    "tb_blocks_update audit_table = (\<lambda>r. False)"
    "tb_blocks_update chunks_table = (\<lambda>r. False)"
    "tb_blocks_update claims_table = (\<lambda>r. False)"
    "tb_blocks_update profiles_table = (\<lambda>r. False)"
    "tb_blocks_update funds_table = (\<lambda>r. False)"
    "tb_blocks_update ai_audit_table = (\<lambda>r. False)"
    "tb_blocks_update corroboration_table = (\<lambda>r. False)"
  by (simp_all add: table_defs)

subsection \<open>Statements\<close>

definition visible :: "'r table \<Rightarrow> 'c world \<Rightarrow> 'r \<Rightarrow> bool" where
  "visible T w r \<longleftrightarrow> tb_policy T (guc w) (db w) r"

definition select_rows :: "'r table \<Rightarrow> ('r \<Rightarrow> bool) \<Rightarrow> 'c world \<Rightarrow> 'r list" where
  "select_rows T p w = filter (\<lambda>r. visible T w r \<and> p r) (tb_rows T (db w))"

definition sql_select :: "'r table \<Rightarrow> ('r \<Rightarrow> bool) \<Rightarrow> ('c, 'r list) act" where
  "sql_select T p = gets (select_rows T p)"

definition first_row :: "'r table \<Rightarrow> ('r \<Rightarrow> bool) \<Rightarrow> 'c world \<Rightarrow> 'r option" where
  "first_row T p w = first_match (\<lambda>r. visible T w r \<and> p r) (tb_rows T (db w))"

definition sql_first :: "'r table \<Rightarrow> ('r \<Rightarrow> bool) \<Rightarrow> ('c, 'r option) act" where
  "sql_first T p = gets (first_row T p)"

definition insert_error :: "'r table \<Rightarrow> 'r \<Rightarrow> 'c world \<Rightarrow> db_error option" where
  "insert_error T r w =
     (if \<not> visible T w r then Some RowSecurity
      else if \<not> tb_check T r then Some CheckViolation
      else if \<not> tb_unique T (tb_rows T (db w) @ [r]) then Some UniqueViolation
      else if \<not> tb_fk T (db w) r then Some ForeignKeyViolation
      else None)"

definition sql_insert :: "'r table \<Rightarrow> 'r \<Rightarrow> ('c, unit) act" where
  "sql_insert T r = (\<lambda>w. case insert_error T r w of
      Some e \<Rightarrow> (Inl (DbError e), w)
    | None \<Rightarrow> (Inr (), w\<lparr>db := tb_put T (\<lambda>rs. rs @ [r]) (db w)\<rparr>))"

definition update_error ::
  "'r table \<Rightarrow> string list \<Rightarrow> ('r \<Rightarrow> bool) \<Rightarrow> ('r \<Rightarrow> 'r) \<Rightarrow> 'c world \<Rightarrow> db_error option" where
  "update_error T cols p f w =
     (let hit = (\<lambda>r. visible T w r \<and> p r); old = filter hit (tb_rows T (db w)) in
      if \<not> may_update (tb_update_grant T) cols then Some InsufficientPrivilege
      else if list_ex (tb_blocks_update T) old then Some TriggerRaised
      else if list_ex (\<lambda>r. \<not> visible T w (f r)) old then Some RowSecurity
      else if list_ex (\<lambda>r. \<not> tb_check T (f r)) old then Some CheckViolation
      else if \<not> tb_unique T (map_where hit f (tb_rows T (db w))) then Some UniqueViolation
      else if list_ex (\<lambda>r. \<not> tb_fk T (db w) (f r)) old then Some ForeignKeyViolation
      else None)"

text \<open>\<open>UPDATE ... SET ... WHERE ... RETURNING\<close>: the rows as updated.\<close>

definition sql_update ::
  "'r table \<Rightarrow> string list \<Rightarrow> ('r \<Rightarrow> bool) \<Rightarrow> ('r \<Rightarrow> 'r) \<Rightarrow> ('c, 'r list) act" where
  "sql_update T cols p f = (\<lambda>w. case update_error T cols p f w of
      Some e \<Rightarrow> (Inl (DbError e), w)
    | None \<Rightarrow> (Inr (map f (select_rows T p w)),
        w\<lparr>db := tb_put T (map_where (\<lambda>r. visible T w r \<and> p r) f) (db w)\<rparr>))"

definition sql_delete :: "'r table \<Rightarrow> ('r \<Rightarrow> bool) \<Rightarrow> ('c, 'r list) act" where
  "sql_delete T p = (\<lambda>w.
     if \<not> tb_delete_grant T then (Inl (DbError InsufficientPrivilege), w)
     else (Inr (select_rows T p w),
       w\<lparr>db := tb_put T (filter (\<lambda>r. \<not> (visible T w r \<and> p r))) (db w)\<rparr>))"

text \<open>
  \<open>INSERT ... ON CONFLICT (key) DO NOTHING\<close>: the proposed row must pass the policy; a
  conflict with any row, hidden or not, inserts nothing and is no error.
\<close>

definition sql_insert_do_nothing :: "'r table \<Rightarrow> ('r \<Rightarrow> 'k) \<Rightarrow> 'r \<Rightarrow> ('c, unit) act" where
  "sql_insert_do_nothing T key r = (\<lambda>w.
     if \<not> visible T w r then (Inl (DbError RowSecurity), w)
     else if key r \<in> key ` set (tb_rows T (db w)) then (Inr (), w)
     else sql_insert T r w)"

text \<open>
  \<open>INSERT ... ON CONFLICT (key) DO UPDATE\<close>: a conflict with a hidden row is an error.
\<close>

definition sql_insert_do_update ::
  "'r table \<Rightarrow> ('r \<Rightarrow> 'k) \<Rightarrow> 'r \<Rightarrow> string list \<Rightarrow> ('r \<Rightarrow> 'r) \<Rightarrow> ('c, unit) act" where
  "sql_insert_do_update T key r cols f = (\<lambda>w.
     if \<not> visible T w r then (Inl (DbError RowSecurity), w)
     else case first_match (\<lambda>r'. key r' = key r) (tb_rows T (db w)) of
       None \<Rightarrow> sql_insert T r w
     | Some r' \<Rightarrow>
         if \<not> visible T w r' then (Inl (DbError RowSecurity), w)
         else seq (sql_update T cols (\<lambda>r'. key r' = key r) f) (ret ()) w)"

lemmas statement_defs = sql_select_def sql_first_def sql_insert_def sql_update_def sql_delete_def
  sql_insert_do_nothing_def sql_insert_do_update_def

end
