(* ===== verification/Tenancy.thy ===== *)
theory Tenancy
  imports Database
begin

section \<open>What row-level security gives a statement\<close>

text \<open>
  The contracts of the tables, as locales, and the lemmas every statement gets from them.
  \<open>rls_table\<close>: a policy that hides everything when \<open>app.org_id\<close> is unset and does not
  depend on the table's own rows. \<open>tenant_table\<close> adds that writing the table changes
  nothing any other table hides. \<open>quiet_table\<close>: updating it rewrites neither the audit trail
  nor a finished data source;
  \<open>append_only_table\<close>: \<open>dd_app\<close> may insert and nothing else; \<open>leaf_table\<close>: nothing
  refers to its rows, so deleting is safe. All thirteen tables interpret them.

  The invariant is \<open>confined S H L\<close>: every \<open>app.org_id\<close> set so far is in \<open>S\<close>, the rows
  no organisation of \<open>S\<close> may see are still exactly those of \<open>H\<close>, every constraint of
  the schema holds, and the audit trail and the data sources have grown from \<open>L\<close>.
\<close>

subsection \<open>Hidden rows, well-formed databases, the audit prefix\<close>

definition hid :: "'r table \<Rightarrow> string set \<Rightarrow> db \<Rightarrow> 'r list" where
  "hid T S d = filter (\<lambda>r. \<forall>g \<in> S. \<not> tb_policy T (Some g) d r) (tb_rows T d)"

definition hidden :: "string set \<Rightarrow> db \<Rightarrow> db" where
  "hidden S d =
     \<lparr>t_organisation = hid organisation_table S d, t_users = hid users_table S d,
      t_clerk_admin_users = hid admins_table S d, t_deals = hid deals_table S d,
      t_sessions = hid sessions_table S d, t_data_source = hid data_source_table S d,
      t_human_audit_log = hid audit_table S d, t_chunks = hid chunks_table S d,
      t_claims = hid claims_table S d, t_investment_profiles = hid profiles_table S d,
      t_funds = hid funds_table S d, t_ai_audit_log = hid ai_audit_table S d,
      t_corroboration_events = hid corroboration_table S d\<rparr>"

definition wf_table :: "'r table \<Rightarrow> db \<Rightarrow> bool" where
  "wf_table T d \<longleftrightarrow> tb_unique T (tb_rows T d)
     \<and> (\<forall>r \<in> set (tb_rows T d). tb_check T r \<and> tb_fk T d r)"

definition wf_db :: "db \<Rightarrow> bool" where
  "wf_db d \<longleftrightarrow> wf_table organisation_table d \<and> wf_table users_table d
     \<and> wf_table admins_table d \<and> wf_table deals_table d \<and> wf_table sessions_table d
     \<and> wf_table data_source_table d \<and> wf_table audit_table d \<and> wf_table chunks_table d
     \<and> wf_table claims_table d \<and> wf_table profiles_table d \<and> wf_table funds_table d
     \<and> wf_table ai_audit_table d \<and> wf_table corroboration_table d"

text \<open>
  What never changes once written: the audit trail, and of a data source everything but
  the three lifecycle columns, which move only while the row is \<open>pending\<close>.
  \<open>grown_from L d\<close>: \<open>d\<close> still begins with the audit rows and the data sources of \<open>L\<close>.
\<close>

type_synonym trail = "human_audit_log list \<times> data_source list"

definition ds_identity ::
  "data_source \<Rightarrow> uuid \<times> int \<times> uuid \<times> string \<times> string \<times> string \<times> instant" where
  "ds_identity r = (ds_id r, ds_org_id r, ds_deal_id r, ds_storage_key r, ds_filename r,
     ds_declared_sha256 r, ds_created_at r)"

definition source_kept :: "data_source \<Rightarrow> data_source \<Rightarrow> bool" where
  "source_kept r r' \<longleftrightarrow> ds_identity r' = ds_identity r \<and> (ds_status r = ''pending'' \<or> r' = r)"

definition trail_of_db :: "db \<Rightarrow> trail" where
  "trail_of_db d = (t_human_audit_log d, t_data_source d)"

definition grown_from :: "trail \<Rightarrow> db \<Rightarrow> bool" where
  "grown_from L d \<longleftrightarrow> take (length (fst L)) (t_human_audit_log d) = fst L
     \<and> list_all2 source_kept (snd L) (take (length (snd L)) (t_data_source d))"

definition scoped :: "string set \<Rightarrow> 'c world \<Rightarrow> bool" where
  "scoped S w \<longleftrightarrow> (case guc w of None \<Rightarrow> True | Some g \<Rightarrow> g \<in> S)"

definition confined :: "string set \<Rightarrow> db \<Rightarrow> trail \<Rightarrow> 'c world \<Rightarrow> bool" where
  "confined S H L w \<longleftrightarrow> scoped S w \<and> hidden S (db w) = H \<and> wf_db (db w) \<and> grown_from L (db w)"

lemma confinedD:
  assumes "confined S H L w"
  shows "scoped S w" "hidden S (db w) = H" "wf_db (db w)" "grown_from L (db w)"
  using assms by (simp_all add: confined_def)

lemma confined_upd:
  "confined S H L w \<Longrightarrow> hidden S d = hidden S (db w) \<Longrightarrow> wf_db d \<Longrightarrow> grown_from L d \<Longrightarrow>
     confined S H L (w\<lparr>db := d\<rparr>)"
  by (simp add: confined_def scoped_def)

lemma source_kept_refl: "source_kept r r"
  by (simp add: source_kept_def)

lemma source_kept_trans: "source_kept r r' \<Longrightarrow> source_kept r' r'' \<Longrightarrow> source_kept r r''"
  by (auto simp: source_kept_def)

lemma grown_refl: "grown_from (trail_of_db d) d"
  by (simp add: grown_from_def trail_of_db_def list.rel_refl source_kept_refl)

lemma grown_append:
  assumes "grown_from L d" and "t_human_audit_log d' = t_human_audit_log d @ xs"
    and "t_data_source d' = t_data_source d @ ys"
  shows "grown_from L d'"
proof -
  from assms(1) have a: "take (length (fst L)) (t_human_audit_log d) = fst L"
    and s: "list_all2 source_kept (snd L) (take (length (snd L)) (t_data_source d))"
    by (simp_all add: grown_from_def)
  have "length (fst L) \<le> length (t_human_audit_log d)"
    using a by (metis length_take min.cobounded1)
  moreover have "length (snd L) \<le> length (t_data_source d)"
    using list_all2_lengthD [OF s] by (metis length_take min.cobounded1)
  ultimately show ?thesis using assms by (simp add: grown_from_def)
qed

lemma grown_same: "grown_from L d \<Longrightarrow> t_human_audit_log d' = t_human_audit_log d \<Longrightarrow>
    t_data_source d' = t_data_source d \<Longrightarrow> grown_from L d'"
  by (simp add: grown_from_def)

lemma grown_update:
  assumes "grown_from L d" and "\<And>r. ds_identity (f r) = ds_identity r"
    and "\<forall>r \<in> set (t_data_source d). hit r \<longrightarrow> ds_status r = ''pending''"
  shows "grown_from L (t_data_source_update (map_where hit f) d)"
proof -
  let ?n = "length (snd L)"
  have new: "list_all2 source_kept (take ?n (t_data_source d)) (take ?n (map_where hit f (t_data_source d)))"
    unfolding map_where_def take_map list_all2_map2
    by (rule list_all2_same [THEN iffD2])
      (use assms(2,3) in \<open>auto simp: source_kept_def dest: in_set_takeD\<close>)
  have old: "list_all2 source_kept (snd L) (take ?n (t_data_source d))"
    using assms(1) by (simp add: grown_from_def)
  have "list_all2 source_kept (snd L) (take ?n (map_where hit f (t_data_source d)))"
    by (rule list_all2_trans [OF _ old new]) (rule source_kept_trans)
  then show ?thesis using assms(1) by (simp add: grown_from_def)
qed

lemma wf_tableD:
  assumes "wf_db d"
  shows "wf_table users_table d" "wf_table admins_table d" "wf_table organisation_table d"
    "wf_table deals_table d" "wf_table sessions_table d" "wf_table data_source_table d"
    "wf_table audit_table d" "wf_table chunks_table d" "wf_table claims_table d"
    "wf_table profiles_table d" "wf_table funds_table d" "wf_table ai_audit_table d"
    "wf_table corroboration_table d"
  using assms by (simp_all add: wf_db_def)

lemma org_policy_id: "org_policy g d i \<Longrightarrow> i \<in> org_ids d"
  by (auto simp: org_policy_def org_ids_def)

subsection \<open>The contracts\<close>

locale rls_table =
  fixes T :: "'r table"
  assumes rows_put: "tb_rows T (tb_put T f d) = f (tb_rows T d)"
    and policy_put: "tb_policy T g (tb_put T f d) r = tb_policy T g d r"
    and policy_unset: "\<not> tb_policy T None d r"
begin

lemma select_visible: "r \<in> set (select_rows T p w) \<Longrightarrow>
    r \<in> set (tb_rows T (db w)) \<and> tb_policy T (guc w) (db w) r \<and> p r"
  by (auto simp: select_rows_def visible_def)

lemma select_unset: "guc w = None \<Longrightarrow> select_rows T p w = []"
  using policy_unset by (simp add: select_rows_def visible_def)

lemma first_visible: "first_row T p w = Some r \<Longrightarrow>
    r \<in> set (tb_rows T (db w)) \<and> tb_policy T (guc w) (db w) r \<and> p r"
  unfolding first_row_def by (drule first_match_Some) (simp add: visible_def)

lemma first_unset: "guc w = None \<Longrightarrow> first_row T p w = None"
  using policy_unset by (simp add: first_row_def visible_def first_match_None)

lemma visible_in:
  assumes "visible T w r" and "scoped S w"
  shows "\<exists>g \<in> S. tb_policy T (Some g) (db w) r"
  using assms policy_unset by (auto simp: visible_def scoped_def split: option.splits)

lemma hid_put:
  "hid T S (tb_put T f d) = filter (\<lambda>r. \<forall>g \<in> S. \<not> tb_policy T (Some g) d r) (f (tb_rows T d))"
  by (simp add: hid_def rows_put policy_put)

lemma hid_append:
  assumes "visible T w r" and "scoped S w"
  shows "hid T S (tb_put T (\<lambda>rs. rs @ [r]) (db w)) = hid T S (db w)"
  unfolding hid_put unfolding hid_def using visible_in [OF assms] by auto

lemma hid_update:
  assumes "scoped S w"
    and "\<forall>r \<in> set (tb_rows T (db w)). visible T w r \<and> p r \<longrightarrow> visible T w (f r)"
  shows "hid T S (tb_put T (map_where (\<lambda>r. visible T w r \<and> p r) f) (db w)) = hid T S (db w)"
  unfolding hid_put unfolding hid_def
  by (rule filter_map_where) (use assms visible_in [OF _ assms(1)] in blast)

lemma hid_delete:
  assumes "scoped S w"
  shows "hid T S (tb_put T (filter (\<lambda>r. \<not> (visible T w r \<and> p r))) (db w)) = hid T S (db w)"
  unfolding hid_put unfolding hid_def
  by (rule filter_filter_not) (use visible_in [OF _ assms(1)] in blast)

lemma insert_None:
  assumes "insert_error T r w = None"
  shows "visible T w r" "tb_check T r" "tb_unique T (tb_rows T (db w) @ [r])" "tb_fk T (db w) r"
  using assms by (auto simp: insert_error_def split: if_splits)

lemma update_None:
  assumes "update_error T cols p f w = None" and "r \<in> set (tb_rows T (db w))" and "visible T w r" and "p r"
  shows "visible T w (f r)" "tb_check T (f r)" "tb_fk T (db w) (f r)"
    "\<not> tb_blocks_update T r" "may_update (tb_update_grant T) cols"
  using assms by (auto simp: update_error_def Let_def list_ex_iff split: if_splits)

lemma update_None_unique:
  "update_error T cols p f w = None \<Longrightarrow>
     tb_unique T (map_where (\<lambda>r. visible T w r \<and> p r) f (tb_rows T (db w)))"
  by (auto simp: update_error_def Let_def split: if_splits)

lemma sql_first_keeps [keep_rules]: "keeps I (sql_first T p)"
  by (simp add: sql_first_def keep_rules)

lemma sql_select_keeps [keep_rules]: "keeps I (sql_select T p)"
  by (simp add: sql_select_def keep_rules)

end

locale tenant_table = rls_table T for T :: "'r table" +
  fixes key :: "'r \<Rightarrow> 'k"
  assumes hidden_put: "hid T S (tb_put T f d) = hid T S d \<Longrightarrow> hidden S (tb_put T f d) = hidden S d"
    and wf_put: "wf_db d \<Longrightarrow> tb_unique T (f (tb_rows T d)) \<Longrightarrow>
      \<forall>r \<in> set (f (tb_rows T d)). r \<in> set (tb_rows T d) \<or> tb_check T r \<and> tb_fk T d r \<Longrightarrow>
      key ` set (tb_rows T d) \<subseteq> key ` set (f (tb_rows T d)) \<Longrightarrow> wf_db (tb_put T f d)"
    and grow: "f (tb_rows T d) = tb_rows T d @ xs \<Longrightarrow>
      grown_from L d \<Longrightarrow> grown_from L (tb_put T f d)"
begin

lemma insert_confined [keep_rules]: "keeps (confined S H L) (sql_insert T r)"
proof (rule keepsI)
  fix w :: "'c world" assume I: "confined S H L w"
  show "confined S H L (snd (sql_insert T r w))"
  proof (cases "insert_error T r w")
    case None
    note ok = insert_None [OF None]
    have "confined S H L (w\<lparr>db := tb_put T (\<lambda>rs. rs @ [r]) (db w)\<rparr>)"
    proof (rule confined_upd [OF I])
      show "hidden S (tb_put T (\<lambda>rs. rs @ [r]) (db w)) = hidden S (db w)"
        by (rule hidden_put [OF hid_append [OF ok(1) confinedD(1) [OF I]]])
      show "wf_db (tb_put T (\<lambda>rs. rs @ [r]) (db w))"
        using confinedD(3) [OF I] ok by (intro wf_put) auto
      show "grown_from L (tb_put T (\<lambda>rs. rs @ [r]) (db w))"
        using confinedD(4) [OF I] by (rule grow [where f = "\<lambda>rs. rs @ [r]", OF refl])
    qed
    then show ?thesis using None by (simp add: sql_insert_def)
  qed (use I in \<open>simp add: sql_insert_def\<close>)
qed

lemma insert_do_nothing_confined [keep_rules]:
  "keeps (confined S H L) (sql_insert_do_nothing T k r)"
proof (rule keepsI)
  fix w :: "'c world" assume I: "confined S H L w"
  then have "confined S H L (snd (sql_insert T r w))" by (rule keepsD [OF insert_confined])
  with I show "confined S H L (snd (sql_insert_do_nothing T k r w))"
    by (simp add: sql_insert_do_nothing_def)
qed

end

locale append_only_table = tenant_table T key for T :: "'r table" and key :: "'r \<Rightarrow> 'k" +
  assumes no_update: "\<not> may_update (tb_update_grant T) cols"
    and no_delete: "\<not> tb_delete_grant T"
begin

lemma update_refused: "sql_update T cols p f w = (Inl (DbError InsufficientPrivilege), w)"
  using no_update by (simp add: sql_update_def update_error_def Let_def)

lemma delete_refused: "sql_delete T p w = (Inl (DbError InsufficientPrivilege), w)"
  using no_delete by (simp add: sql_delete_def)

end

locale quiet_table = tenant_table T key for T :: "'r table" and key :: "'r \<Rightarrow> 'k" +
  assumes update_grown: "grown_from L d \<Longrightarrow> (\<And>r. key (f r) = key r) \<Longrightarrow>
      \<forall>r \<in> set (tb_rows T d). hit r \<longrightarrow> \<not> tb_blocks_update T r \<Longrightarrow>
      grown_from L (tb_put T (map_where hit f) d)"
begin

lemma update_confined:
  assumes key: "\<And>r. key (f r) = key r"
  shows "keeps (confined S H L) (sql_update T cols p f)"
proof (rule keepsI)
  fix w :: "'c world" assume I: "confined S H L w"
  let ?hit = "\<lambda>r. visible T w r \<and> p r"
  let ?d = "tb_put T (map_where ?hit f) (db w)"
  show "confined S H L (snd (sql_update T cols p f w))"
  proof (cases "update_error T cols p f w")
    case None
    have "confined S H L (w\<lparr>db := ?d\<rparr>)"
    proof (rule confined_upd [OF I])
      have "\<forall>r \<in> set (tb_rows T (db w)). visible T w r \<and> p r \<longrightarrow> visible T w (f r)"
        using update_None(1) [OF None] by blast
      then show "hidden S ?d = hidden S (db w)"
        by (rule hidden_put [OF hid_update [OF confinedD(1) [OF I]]])
      show "grown_from L ?d"
        using update_None(4) [OF None] by (intro update_grown confinedD(4) [OF I] key) blast
      show "wf_db ?d"
      proof (rule wf_put [where f = "map_where ?hit f", OF confinedD(3) [OF I] update_None_unique [OF None]])
        show "\<forall>r \<in> set (map_where ?hit f (tb_rows T (db w))).
            r \<in> set (tb_rows T (db w)) \<or> tb_check T r \<and> tb_fk T (db w) r"
          using update_None(2,3) [OF None] by (auto simp: set_map_where)
        show "key ` set (tb_rows T (db w)) \<subseteq> key ` set (map_where ?hit f (tb_rows T (db w)))"
          using map_map_where [of key f ?hit, OF key] by (metis image_set order_refl)
      qed
    qed
    then show ?thesis using None by (simp add: sql_update_def)
  qed (use I in \<open>simp add: sql_update_def\<close>)
qed

lemma insert_do_update_confined:
  assumes key: "\<And>r. key (f r) = key r"
  shows "keeps (confined S H L) (sql_insert_do_update T k r cols f)"
proof (rule keepsI)
  fix w :: "'c world" assume I: "confined S H L w"
  have "keeps (confined S H L) (seq (sql_update T cols (\<lambda>r'. k r' = k r) f) (ret ()))"
    by (intro keeps_bnd update_confined key keeps_ret)
  then have "confined S H L (snd (seq (sql_update T cols (\<lambda>r'. k r' = k r) f) (ret ()) w))"
    using I by (rule keepsD)
  moreover have "confined S H L (snd (sql_insert T r w))" using I by (rule keepsD [OF insert_confined])
  ultimately show "confined S H L (snd (sql_insert_do_update T k r cols f w))"
    using I by (simp add: sql_insert_do_update_def split: option.split)
qed

end

locale leaf_table = quiet_table T key for T :: "'r table" and key :: "'r \<Rightarrow> 'k" +
  assumes leaf_put: "wf_db d \<Longrightarrow> wf_db (tb_put T (filter p) d)"
    and leaf_grown: "grown_from L d \<Longrightarrow> grown_from L (tb_put T (filter p) d)"
begin

lemma delete_confined [keep_rules]: "keeps (confined S H L) (sql_delete T p)"
proof (rule keepsI)
  fix w :: "'c world" assume I: "confined S H L w"
  let ?d = "tb_put T (filter (\<lambda>r. \<not> (visible T w r \<and> p r))) (db w)"
  have "confined S H L (w\<lparr>db := ?d\<rparr>)"
  proof (rule confined_upd [OF I])
    show "hidden S ?d = hidden S (db w)" by (rule hidden_put [OF hid_delete [OF confinedD(1) [OF I]]])
    show "wf_db ?d" using confinedD(3) [OF I] by (rule leaf_put)
    show "grown_from L ?d" using confinedD(4) [OF I] by (rule leaf_grown)
  qed
  with I show "confined S H L (snd (sql_delete T p w))" by (simp add: sql_delete_def)
qed

end

end
