(* ===== verification/Tables.thy ===== *)
theory Tables
  imports Tenancy
begin

section \<open>The tables keep the contracts\<close>

text \<open>
  Every table of the schema interprets \<open>rls_table\<close>; all but \<open>organisation\<close> (whose rows
  the other policies read) interpret \<open>tenant_table\<close>. \<open>organisation\<close> is only ever
  inserted into, and a new organisation cannot change what the others hide: its id is
  fresh and every stored \<open>org_id\<close> already resolves.
\<close>

lemma wf_table_mono:
  assumes "wf_table T d" and "tb_rows T d' = tb_rows T d" and "\<And>r. tb_fk T d r \<Longrightarrow> tb_fk T d' r"
  shows "wf_table T d'"
  using assms by (auto simp: wf_table_def)

lemma wf_table_put:
  assumes "wf_db d" and "tb_unique T rs" and "tb_rows T d' = rs"
    and "\<forall>r \<in> set rs. r \<in> set (tb_rows T d) \<or> tb_check T r \<and> tb_fk T d r"
    and "wf_table T d" and "\<And>r. tb_fk T d' r = tb_fk T d r"
  shows "wf_table T d'"
  using assms by (auto simp: wf_table_def)

lemma wf_table_filter:
  assumes "wf_table T d" and "tb_rows T d' = filter p (tb_rows T d)"
    and "\<And>r. tb_fk T d' r = tb_fk T d r"
    and "\<And>rs. tb_unique T rs \<Longrightarrow> tb_unique T (filter p rs)"
  shows "wf_table T d'"
  using assms by (auto simp: wf_table_def)

lemma org_policy_frame [simp]:
  "org_policy g (t_users_update fu d) = org_policy g d"
  "org_policy g (t_clerk_admin_users_update fa d) = org_policy g d"
  "org_policy g (t_deals_update fd d) = org_policy g d"
  "org_policy g (t_sessions_update fs d) = org_policy g d"
  "org_policy g (t_data_source_update fx d) = org_policy g d"
  "org_policy g (t_human_audit_log_update fh d) = org_policy g d"
  "org_policy g (t_chunks_update fc d) = org_policy g d"
  "org_policy g (t_claims_update fm d) = org_policy g d"
  "org_policy g (t_investment_profiles_update fp d) = org_policy g d"
  "org_policy g (t_funds_update fq d) = org_policy g d"
  "org_policy g (t_ai_audit_log_update fr d) = org_policy g d"
  "org_policy g (t_corroboration_events_update ft d) = org_policy g d"
  by (simp_all add: org_policy_def fun_eq_iff)

lemma org_ids_frame [simp]:
  "org_ids (t_users_update fu d) = org_ids d"
  "org_ids (t_clerk_admin_users_update fa d) = org_ids d"
  "org_ids (t_deals_update fd d) = org_ids d"
  "org_ids (t_sessions_update fs d) = org_ids d"
  "org_ids (t_data_source_update fx d) = org_ids d"
  "org_ids (t_human_audit_log_update fh d) = org_ids d"
  "org_ids (t_chunks_update fc d) = org_ids d"
  "org_ids (t_claims_update fm d) = org_ids d"
  "org_ids (t_investment_profiles_update fp d) = org_ids d"
  "org_ids (t_funds_update fq d) = org_ids d"
  "org_ids (t_ai_audit_log_update fr d) = org_ids d"
  "org_ids (t_corroboration_events_update ft d) = org_ids d"
  by (simp_all add: org_ids_def)

lemma policy_none [simp]: "\<not> clerk_policy None c" "\<not> org_policy None d i"
  by (simp_all add: clerk_policy_def org_policy_def)

interpretation orgs: rls_table organisation_table
  by unfold_locales simp_all

interpretation users: quiet_table users_table usr_id
proof unfold_locales
  fix d f
  assume wf: "wf_db d" and un: "tb_unique users_table (f (tb_rows users_table d))"
    and new: "\<forall>r \<in> set (f (tb_rows users_table d)).
      r \<in> set (tb_rows users_table d) \<or> tb_check users_table r \<and> tb_fk users_table d r"
    and ids: "usr_id ` set (tb_rows users_table d) \<subseteq> usr_id ` set (f (tb_rows users_table d))"
  let ?d = "tb_put users_table f d"
  have own: "wf_table users_table ?d"
    by (rule wf_table_put [OF wf un _ new wf_tableD(1) [OF wf]]) simp_all
  have fk0: "tb_fk sessions_table d r \<Longrightarrow> tb_fk sessions_table ?d r" for r
    by (auto elim!: refers_mono intro!: subsetD [OF ids [simplified]])
  show "wf_db ?d"
    unfolding wf_db_def
    by (intro conjI own; (rule wf_table_mono, rule wf_tableD [OF wf], simp, (erule fk0 | simp)))
qed (simp_all add: hidden_def hid_def grown_from_def)

interpretation admins: leaf_table admins_table adm_id
proof unfold_locales
  fix d f
  assume wf: "wf_db d" and un: "tb_unique admins_table (f (tb_rows admins_table d))"
    and new: "\<forall>r \<in> set (f (tb_rows admins_table d)).
      r \<in> set (tb_rows admins_table d) \<or> tb_check admins_table r \<and> tb_fk admins_table d r"
    and ids: "adm_id ` set (tb_rows admins_table d) \<subseteq> adm_id ` set (f (tb_rows admins_table d))"
  let ?d = "tb_put admins_table f d"
  have own: "wf_table admins_table ?d"
    by (rule wf_table_put [OF wf un _ new wf_tableD(2) [OF wf]]) simp_all
  show "wf_db ?d"
    unfolding wf_db_def
    by (intro conjI own; (rule wf_table_mono, rule wf_tableD [OF wf], simp, (simp)))
next
  fix d p assume wf: "wf_db d"
  let ?d = "tb_put admins_table (filter p) d"
  have own: "wf_table admins_table ?d"
    by (rule wf_table_filter [OF wf_tableD(2) [OF wf]]) (simp_all add: distinct_map_filter)
  show "wf_db ?d"
    unfolding wf_db_def
    by (intro conjI own; (rule wf_table_mono, rule wf_tableD [OF wf], simp, simp))
qed (simp_all add: hidden_def hid_def grown_from_def)

interpretation deals: quiet_table deals_table deal_id
proof unfold_locales
  fix d f
  assume wf: "wf_db d" and un: "tb_unique deals_table (f (tb_rows deals_table d))"
    and new: "\<forall>r \<in> set (f (tb_rows deals_table d)).
      r \<in> set (tb_rows deals_table d) \<or> tb_check deals_table r \<and> tb_fk deals_table d r"
    and ids: "deal_id ` set (tb_rows deals_table d) \<subseteq> deal_id ` set (f (tb_rows deals_table d))"
  let ?d = "tb_put deals_table f d"
  have own: "wf_table deals_table ?d"
    by (rule wf_table_put [OF wf un _ new wf_tableD(4) [OF wf]]) simp_all
  have fk0: "tb_fk sessions_table d r \<Longrightarrow> tb_fk sessions_table ?d r" for r
    by (auto elim!: refers_mono intro!: subsetD [OF ids [simplified]])
  have fk1: "tb_fk data_source_table d r \<Longrightarrow> tb_fk data_source_table ?d r" for r
    by (auto elim!: refers_mono intro!: subsetD [OF ids [simplified]])
  have fk2: "tb_fk claims_table d r \<Longrightarrow> tb_fk claims_table ?d r" for r
    by (auto elim!: refers_mono intro!: subsetD [OF ids [simplified]])
  show "wf_db ?d"
    unfolding wf_db_def
    by (intro conjI own; (rule wf_table_mono, rule wf_tableD [OF wf], simp, (erule fk0 | erule fk1 | erule fk2 | simp)))
qed (simp_all add: hidden_def hid_def grown_from_def)

interpretation sess: leaf_table sessions_table ses_id
proof unfold_locales
  fix d f
  assume wf: "wf_db d" and un: "tb_unique sessions_table (f (tb_rows sessions_table d))"
    and new: "\<forall>r \<in> set (f (tb_rows sessions_table d)).
      r \<in> set (tb_rows sessions_table d) \<or> tb_check sessions_table r \<and> tb_fk sessions_table d r"
    and ids: "ses_id ` set (tb_rows sessions_table d) \<subseteq> ses_id ` set (f (tb_rows sessions_table d))"
  let ?d = "tb_put sessions_table f d"
  have own: "wf_table sessions_table ?d"
    by (rule wf_table_put [OF wf un _ new wf_tableD(5) [OF wf]]) simp_all
  show "wf_db ?d"
    unfolding wf_db_def
    by (intro conjI own; (rule wf_table_mono, rule wf_tableD [OF wf], simp, (simp)))
next
  fix d p assume wf: "wf_db d"
  let ?d = "tb_put sessions_table (filter p) d"
  have own: "wf_table sessions_table ?d"
    by (rule wf_table_filter [OF wf_tableD(5) [OF wf]]) (simp_all add: distinct_map_filter)
  show "wf_db ?d"
    unfolding wf_db_def
    by (intro conjI own; (rule wf_table_mono, rule wf_tableD [OF wf], simp, simp))
qed (simp_all add: hidden_def hid_def grown_from_def)

interpretation sources: quiet_table data_source_table ds_identity
proof unfold_locales
  fix d f
  assume wf: "wf_db d" and un: "tb_unique data_source_table (f (tb_rows data_source_table d))"
    and new: "\<forall>r \<in> set (f (tb_rows data_source_table d)).
      r \<in> set (tb_rows data_source_table d) \<or> tb_check data_source_table r \<and> tb_fk data_source_table d r"
    and keys: "ds_identity ` set (tb_rows data_source_table d) \<subseteq> ds_identity ` set (f (tb_rows data_source_table d))"
  have ids: "ds_id ` set (tb_rows data_source_table d) \<subseteq> ds_id ` set (f (tb_rows data_source_table d))"
    using image_mono [OF keys, of fst] by (simp add: image_image ds_identity_def)
  let ?d = "tb_put data_source_table f d"
  have own: "wf_table data_source_table ?d"
    by (rule wf_table_put [OF wf un _ new wf_tableD(6) [OF wf]]) simp_all
  have fk0: "tb_fk chunks_table d r \<Longrightarrow> tb_fk chunks_table ?d r" for r
    by (auto elim!: refers_mono intro!: subsetD [OF ids [simplified]])
  have fk1: "tb_fk claims_table d r \<Longrightarrow> tb_fk claims_table ?d r" for r
    by (auto elim!: refers_mono intro!: subsetD [OF ids [simplified]])
  show "wf_db ?d"
    unfolding wf_db_def
    by (intro conjI own; (rule wf_table_mono, rule wf_tableD [OF wf], simp, (erule fk0 | erule fk1 | simp)))
qed (auto simp: hidden_def hid_def intro: grown_append grown_update)

interpretation audits: append_only_table audit_table aud_id
proof unfold_locales
  fix d f
  assume wf: "wf_db d" and un: "tb_unique audit_table (f (tb_rows audit_table d))"
    and new: "\<forall>r \<in> set (f (tb_rows audit_table d)).
      r \<in> set (tb_rows audit_table d) \<or> tb_check audit_table r \<and> tb_fk audit_table d r"
    and ids: "aud_id ` set (tb_rows audit_table d) \<subseteq> aud_id ` set (f (tb_rows audit_table d))"
  let ?d = "tb_put audit_table f d"
  have own: "wf_table audit_table ?d"
    by (rule wf_table_put [OF wf un _ new wf_tableD(7) [OF wf]]) simp_all
  show "wf_db ?d"
    unfolding wf_db_def
    by (intro conjI own; (rule wf_table_mono, rule wf_tableD [OF wf], simp, (simp)))
qed (auto simp: hidden_def hid_def intro: grown_append)

interpretation chunks: leaf_table chunks_table chk_id
proof unfold_locales
  fix d f
  assume wf: "wf_db d" and un: "tb_unique chunks_table (f (tb_rows chunks_table d))"
    and new: "\<forall>r \<in> set (f (tb_rows chunks_table d)).
      r \<in> set (tb_rows chunks_table d) \<or> tb_check chunks_table r \<and> tb_fk chunks_table d r"
    and ids: "chk_id ` set (tb_rows chunks_table d) \<subseteq> chk_id ` set (f (tb_rows chunks_table d))"
  let ?d = "tb_put chunks_table f d"
  have own: "wf_table chunks_table ?d"
    by (rule wf_table_put [OF wf un _ new wf_tableD(8) [OF wf]]) simp_all
  show "wf_db ?d"
    unfolding wf_db_def
    by (intro conjI own; (rule wf_table_mono, rule wf_tableD [OF wf], simp, (simp)))
next
  fix d p assume wf: "wf_db d"
  let ?d = "tb_put chunks_table (filter p) d"
  have own: "wf_table chunks_table ?d"
    by (rule wf_table_filter [OF wf_tableD(8) [OF wf]]) (simp_all add: distinct_map_filter)
  show "wf_db ?d"
    unfolding wf_db_def
    by (intro conjI own; (rule wf_table_mono, rule wf_tableD [OF wf], simp, simp))
qed (simp_all add: hidden_def hid_def grown_from_def)

interpretation clms: quiet_table claims_table clm_id
proof unfold_locales
  fix d f
  assume wf: "wf_db d" and un: "tb_unique claims_table (f (tb_rows claims_table d))"
    and new: "\<forall>r \<in> set (f (tb_rows claims_table d)).
      r \<in> set (tb_rows claims_table d) \<or> tb_check claims_table r \<and> tb_fk claims_table d r"
    and ids: "clm_id ` set (tb_rows claims_table d) \<subseteq> clm_id ` set (f (tb_rows claims_table d))"
  let ?d = "tb_put claims_table f d"
  have own: "wf_table claims_table ?d"
    by (rule wf_table_put [OF wf un _ new wf_tableD(9) [OF wf]]) simp_all
  have fk0: "tb_fk corroboration_table d r \<Longrightarrow> tb_fk corroboration_table ?d r" for r
    by (auto intro!: subsetD [OF ids [simplified]])
  show "wf_db ?d"
    unfolding wf_db_def
    by (intro conjI own; (rule wf_table_mono, rule wf_tableD [OF wf], simp, (erule fk0 | simp)))
qed (simp_all add: hidden_def hid_def grown_from_def)

interpretation profiles: leaf_table profiles_table prof_id
proof unfold_locales
  fix d f
  assume wf: "wf_db d" and un: "tb_unique profiles_table (f (tb_rows profiles_table d))"
    and new: "\<forall>r \<in> set (f (tb_rows profiles_table d)).
      r \<in> set (tb_rows profiles_table d) \<or> tb_check profiles_table r \<and> tb_fk profiles_table d r"
    and ids: "prof_id ` set (tb_rows profiles_table d) \<subseteq> prof_id ` set (f (tb_rows profiles_table d))"
  let ?d = "tb_put profiles_table f d"
  have own: "wf_table profiles_table ?d"
    by (rule wf_table_put [OF wf un _ new wf_tableD(10) [OF wf]]) simp_all
  show "wf_db ?d"
    unfolding wf_db_def
    by (intro conjI own; (rule wf_table_mono, rule wf_tableD [OF wf], simp, (simp)))
next
  fix d p assume wf: "wf_db d"
  let ?d = "tb_put profiles_table (filter p) d"
  have own: "wf_table profiles_table ?d"
    by (rule wf_table_filter [OF wf_tableD(10) [OF wf]]) (simp_all add: distinct_map_filter)
  show "wf_db ?d"
    unfolding wf_db_def
    by (intro conjI own; (rule wf_table_mono, rule wf_tableD [OF wf], simp, simp))
qed (simp_all add: hidden_def hid_def grown_from_def)

interpretation funds: quiet_table funds_table fnd_id
proof unfold_locales
  fix d f
  assume wf: "wf_db d" and un: "tb_unique funds_table (f (tb_rows funds_table d))"
    and new: "\<forall>r \<in> set (f (tb_rows funds_table d)).
      r \<in> set (tb_rows funds_table d) \<or> tb_check funds_table r \<and> tb_fk funds_table d r"
    and ids: "fnd_id ` set (tb_rows funds_table d) \<subseteq> fnd_id ` set (f (tb_rows funds_table d))"
  let ?d = "tb_put funds_table f d"
  have own: "wf_table funds_table ?d"
    by (rule wf_table_put [OF wf un _ new wf_tableD(11) [OF wf]]) simp_all
  have fk0: "tb_fk deals_table d r \<Longrightarrow> tb_fk deals_table ?d r" for r
    by (auto elim!: refers_mono intro!: subsetD [OF ids [simplified]])
  have fk1: "tb_fk ai_audit_table d r \<Longrightarrow> tb_fk ai_audit_table ?d r" for r
    by (auto elim!: refers_mono intro!: subsetD [OF ids [simplified]])
  show "wf_db ?d"
    unfolding wf_db_def
    by (intro conjI own; (rule wf_table_mono, rule wf_tableD [OF wf], simp, (erule fk0 | erule fk1 | simp)))
qed (simp_all add: hidden_def hid_def grown_from_def)

interpretation ai_audits: append_only_table ai_audit_table aia_id
proof unfold_locales
  fix d f
  assume wf: "wf_db d" and un: "tb_unique ai_audit_table (f (tb_rows ai_audit_table d))"
    and new: "\<forall>r \<in> set (f (tb_rows ai_audit_table d)).
      r \<in> set (tb_rows ai_audit_table d) \<or> tb_check ai_audit_table r \<and> tb_fk ai_audit_table d r"
    and ids: "aia_id ` set (tb_rows ai_audit_table d) \<subseteq> aia_id ` set (f (tb_rows ai_audit_table d))"
  let ?d = "tb_put ai_audit_table f d"
  have own: "wf_table ai_audit_table ?d"
    by (rule wf_table_put [OF wf un _ new wf_tableD(12) [OF wf]]) simp_all
  show "wf_db ?d"
    unfolding wf_db_def
    by (intro conjI own; (rule wf_table_mono, rule wf_tableD [OF wf], simp, (simp)))
qed (simp_all add: hidden_def hid_def grown_from_def)

interpretation corroborations: append_only_table corroboration_table cor_id
proof unfold_locales
  fix d f
  assume wf: "wf_db d" and un: "tb_unique corroboration_table (f (tb_rows corroboration_table d))"
    and new: "\<forall>r \<in> set (f (tb_rows corroboration_table d)).
      r \<in> set (tb_rows corroboration_table d) \<or> tb_check corroboration_table r \<and> tb_fk corroboration_table d r"
    and ids: "cor_id ` set (tb_rows corroboration_table d) \<subseteq> cor_id ` set (f (tb_rows corroboration_table d))"
  let ?d = "tb_put corroboration_table f d"
  have own: "wf_table corroboration_table ?d"
    by (rule wf_table_put [OF wf un _ new wf_tableD(13) [OF wf]]) simp_all
  show "wf_db ?d"
    unfolding wf_db_def
    by (intro conjI own; (rule wf_table_mono, rule wf_tableD [OF wf], simp, (simp)))
qed (simp_all add: hidden_def hid_def grown_from_def)

lemma ds_identity_update [simp]:
  "ds_identity (r\<lparr>ds_status := s, ds_fingerprint := f, ds_status_updated_at := t\<rparr>) = ds_identity r"
  by (simp add: ds_identity_def)

subsection \<open>Inserting an organisation\<close>

lemma org_policy_insert:
  assumes "i \<in> org_ids d" and "org_id r \<notin> org_ids d"
  shows "org_policy g (t_organisation_update (\<lambda>rs. rs @ [r]) d) i = org_policy g d i"
proof -
  have "i \<noteq> org_id r" using assms by auto
  then show ?thesis by (simp add: org_policy_def)
qed

lemma org_insert_wf:
  assumes "wf_db d" and "tb_unique organisation_table (t_organisation d @ [r])"
  shows "wf_db (t_organisation_update (\<lambda>rs. rs @ [r]) d)"
proof -
  have ids: "org_ids d \<subseteq> org_ids (t_organisation_update (\<lambda>rs. rs @ [r]) d)"
    by (auto simp: org_ids_def)
  have own: "wf_table organisation_table (t_organisation_update (\<lambda>rs. rs @ [r]) d)"
    using assms wf_tableD(3) [OF assms(1)] by (simp add: wf_table_def)
  show ?thesis
    unfolding wf_db_def
    by (intro conjI own; ( rule wf_table_mono, rule wf_tableD [OF assms(1)], simp,
          use ids in auto))
qed

lemma org_insert_hid:
  assumes "org_id r \<notin> org_ids d"
    and "tb_rows T (t_organisation_update (\<lambda>rs. rs @ [r]) d) = tb_rows T d"
    and "\<And>g d x. tb_policy T g d x = org_policy g d (k x)"
    and "\<And>x. x \<in> set (tb_rows T d) \<Longrightarrow> k x \<in> org_ids d"
  shows "hid T S (t_organisation_update (\<lambda>rs. rs @ [r]) d) = hid T S d"
  unfolding hid_def assms(2)
  by (rule filter_cong [OF refl]) (simp add: assms(3,4) org_policy_insert [OF _ assms(1)])

lemma org_insert_hidden:
  assumes wf: "wf_db d" and un: "tb_unique organisation_table (t_organisation d @ [r])"
    and vis: "g \<in> S" "org_clerk_org_id r = g"
  shows "hidden S (t_organisation_update (\<lambda>rs. rs @ [r]) d) = hidden S d"
proof -
  let ?d = "t_organisation_update (\<lambda>rs. rs @ [r]) d"
  have new: "org_id r \<notin> org_ids d" using un by (auto simp: org_ids_def)
  note wfs = wf_tableD [OF wf, unfolded wf_table_def, simplified]
  have "hid organisation_table S ?d = hid organisation_table S d"
    using vis by (simp add: hid_def clerk_policy_def)
  moreover have "hid users_table S ?d = hid users_table S d"
    and "hid admins_table S ?d = hid admins_table S d" by (simp_all add: hid_def)
  moreover have "hid deals_table S ?d = hid deals_table S d"
    by (rule org_insert_hid [OF new, where k = deal_org_id]) (use wfs in auto)
  moreover have "hid sessions_table S ?d = hid sessions_table S d"
    by (rule org_insert_hid [OF new, where k = ses_org_id]) (use wfs in auto)
  moreover have "hid data_source_table S ?d = hid data_source_table S d"
    by (rule org_insert_hid [OF new, where k = ds_org_id]) (use wfs in auto)
  moreover have "hid audit_table S ?d = hid audit_table S d"
    by (rule org_insert_hid [OF new, where k = aud_org_id]) (use wfs in auto)
  moreover have "hid chunks_table S ?d = hid chunks_table S d"
    by (rule org_insert_hid [OF new, where k = chk_org_id]) (use wfs in auto)
  moreover have "hid claims_table S ?d = hid claims_table S d"
    by (rule org_insert_hid [OF new, where k = clm_org_id]) (use wfs in auto)
  moreover have "hid profiles_table S ?d = hid profiles_table S d"
    by (rule org_insert_hid [OF new, where k = prof_org_id]) (use wfs in auto)
  moreover have "hid funds_table S ?d = hid funds_table S d"
    by (rule org_insert_hid [OF new, where k = fnd_org_id]) (use wfs in auto)
  moreover have "hid ai_audit_table S ?d = hid ai_audit_table S d"
    by (rule org_insert_hid [OF new, where k = aia_org_id]) (use wfs in auto)
  moreover have "hid corroboration_table S ?d = hid corroboration_table S d"
    by (rule org_insert_hid [OF new, where k = cor_org_id]) (use wfs in auto)
  ultimately show ?thesis by (simp add: hidden_def)
qed

lemma org_insert_confined [keep_rules]:
  "keeps (confined S H L) (sql_insert organisation_table r)"
proof (rule keepsI)
  fix w :: "'c world" assume I: "confined S H L w"
  show "confined S H L (snd (sql_insert organisation_table r w))"
  proof (cases "insert_error organisation_table r w")
    case None
    note ok = orgs.insert_None [OF None]
    obtain g where g: "g \<in> S" "org_clerk_org_id r = g"
      using orgs.visible_in [OF ok(1) confinedD(1) [OF I]] by (auto simp: clerk_policy_def)
    have "confined S H L (w\<lparr>db := t_organisation_update (\<lambda>rs. rs @ [r]) (db w)\<rparr>)"
    proof (rule confined_upd [OF I])
      have un: "tb_unique organisation_table (t_organisation (db w) @ [r])" using ok(3) by simp
      show "hidden S (t_organisation_update (\<lambda>rs. rs @ [r]) (db w)) = hidden S (db w)"
        by (rule org_insert_hidden [OF confinedD(3) [OF I] un g])
      show "wf_db (t_organisation_update (\<lambda>rs. rs @ [r]) (db w))"
        by (rule org_insert_wf [OF confinedD(3) [OF I] un])
      show "grown_from L (t_organisation_update (\<lambda>rs. rs @ [r]) (db w))"
        using confinedD(4) [OF I] by (simp add: grown_from_def)
    qed
    then show ?thesis using None by (simp add: sql_insert_def)
  qed (use I in \<open>simp add: sql_insert_def\<close>)
qed

lemma org_insert_do_nothing_confined [keep_rules]:
  "keeps (confined S H L) (sql_insert_do_nothing organisation_table k r)"
proof (rule keepsI)
  fix w :: "'c world" assume I: "confined S H L w"
  then have "confined S H L (snd (sql_insert organisation_table r w))"
    by (rule keepsD [OF org_insert_confined])
  with I show "confined S H L (snd (sql_insert_do_nothing organisation_table k r w))"
    by (simp add: sql_insert_do_nothing_def)
qed

end
