(* ===== verification/Transactions.thy ===== *)
theory Transactions
  imports Tables
begin

section \<open>Sessions: generated values, the unit of work, transactions\<close>

text \<open>
  The SQLAlchemy session of \<open>app/core/database.py\<close> (\<open>autoflush=False\<close>): ORM writes wait in
  the unit of work until \<open>flush()\<close> or the commit, and are executed under the
  \<open>app.org_id\<close> of that moment; a flushed UPDATE that finds no row is an error.
  \<open>in_transaction\<close> is \<open>async with session.begin()\<close>: it begins with no \<open>app.org_id\<close>
  (SET LOCAL ends with the transaction that made it), rolls every table back on an
  exception and flushes before it commits. Sequences, generated UUIDs, the job queue
  and the external services are outside the transaction. The clock is read once per
  request.
\<close>

definition gen_random_uuid :: "('c, uuid) act" where
  "gen_random_uuid = (\<lambda>w. (Inr (rnd w (rnd_next w)), w\<lparr>rnd_next := Suc (rnd_next w)\<rparr>))"

definition utc_now :: "('c, instant) act" where
  "utc_now = gets clock"

text \<open>\<open>set_config('app.org_id', :tid, true)\<close>\<close>

definition set_org_scope :: "string \<Rightarrow> ('c, unit) act" where
  "set_org_scope clerk_org_id = modify (\<lambda>w. w\<lparr>guc := Some clerk_org_id\<rparr>)"

definition session_add :: "orm_write \<Rightarrow> ('c, unit) act" where
  "session_add u = modify (\<lambda>w. w\<lparr>uow := uow w @ [u]\<rparr>)"

definition require_rows :: "'r list \<Rightarrow> ('c, unit) act" where
  "require_rows rs = guard (rs \<noteq> []) (DbError StaleDataError)"

definition audit_row :: "audit_entry \<Rightarrow> uuid \<Rightarrow> instant \<Rightarrow> human_audit_log" where
  "audit_row e u t =
     \<lparr>aud_id = u, aud_org_id = ent_org_id e, aud_actor_id = ent_actor_id e,
      aud_actor_email = ent_actor_email e, aud_event_type = ent_event_type e,
      aud_deal_id = ent_deal_id e, aud_session_id = ent_session_id e,
      aud_payload = ent_payload e, aud_ip_address = None, aud_user_agent = None,
      aud_created_at = t\<rparr>"

fun run_write :: "orm_write \<Rightarrow> ('c, unit) act" where
  "run_write (InsertAudit e) =
     bnd gen_random_uuid (\<lambda>u. bnd utc_now (\<lambda>t. sql_insert audit_table (audit_row e u t)))"
| "run_write (InsertDataSource d) = sql_insert data_source_table d"
| "run_write (UpdateUserRole i new_role) =
     bnd (sql_update users_table [''role''] (\<lambda>u. usr_id u = i) (\<lambda>u. u\<lparr>usr_role := new_role\<rparr>))
       require_rows"
| "run_write (UpdateUserStatus i new_status t) =
     bnd (sql_update users_table [''status'', ''deactivated_at''] (\<lambda>u. usr_id u = i)
            (\<lambda>u. u\<lparr>usr_status := new_status, usr_deactivated_at := t\<rparr>))
       require_rows"

fun run_writes :: "orm_write list \<Rightarrow> ('c, unit) act" where
  "run_writes [] = ret ()"
| "run_writes (u # us) = seq (run_write u) (run_writes us)"

definition flush :: "('c, unit) act" where
  "flush = (\<lambda>w. run_writes (uow w) (w\<lparr>uow := []\<rparr>))"

definition in_transaction :: "('c, 'a) act \<Rightarrow> ('c, 'a) act" where
  "in_transaction m = (\<lambda>w.
     case bnd m (\<lambda>x. seq flush (ret x)) (w\<lparr>guc := None, uow := []\<rparr>) of
       (Inl e, w') \<Rightarrow> (Inl e, w'\<lparr>db := db w, guc := None, uow := []\<rparr>)
     | (Inr x, w') \<Rightarrow> (Inr x, w'\<lparr>guc := None, uow := []\<rparr>))"

subsection \<open>The tenant invariant through sessions and transactions\<close>

lemma confined_frame:
  "confined S H L (w\<lparr>uow := us\<rparr>) = confined S H L w"
  "confined S H L (w\<lparr>rnd_next := n\<rparr>) = confined S H L w"
  "confined S H L (w\<lparr>svc := c\<rparr>) = confined S H L w"
  "confined S H L (w\<lparr>queue := q\<rparr>) = confined S H L w"
  "confined S H L (w\<lparr>seq_organisation := i\<rparr>) = confined S H L w"
  "confined S H L (w\<lparr>seq_users := i\<rparr>) = confined S H L w"
  "confined S H L (w\<lparr>seq_admin := i\<rparr>) = confined S H L w"
  "confined S H L (w\<lparr>jwks_cache := j\<rparr>) = confined S H L w"
  "confined S H L (w\<lparr>jwks_fetched_at := f\<rparr>) = confined S H L w"
  by (simp_all add: confined_def scoped_def)

lemma uuid_confined [keep_rules]: "keeps (confined S H L) gen_random_uuid"
  by (simp add: keeps_def gen_random_uuid_def confined_frame)

lemma now_keeps [keep_rules]: "keeps I utc_now"
  by (simp add: utc_now_def keep_rules)

lemma scope_confined: "g \<in> S \<Longrightarrow> keeps (confined S H L) (set_org_scope g)"
  by (simp add: keeps_def set_org_scope_def confined_def scoped_def)

lemma add_confined [keep_rules]: "keeps (confined S H L) (session_add u)"
  by (simp add: keeps_def session_add_def confined_frame)

lemma require_rows_keeps [keep_rules]: "keeps I (require_rows rs)"
  by (simp add: require_rows_def keep_rules)

lemma run_write_confined [keep_rules]: "keeps (confined S H L) (run_write u)"
  by (cases u) (auto intro!: keep_rules users.update_confined audits.insert_confined sources.insert_confined)

lemma run_writes_confined [keep_rules]: "keeps (confined S H L) (run_writes us)"
  by (induction us) (auto intro!: keep_rules)

lemma flush_confined [keep_rules]: "keeps (confined S H L) flush"
proof (rule keepsI)
  fix w :: "'c world" assume "confined S H L w"
  then have "confined S H L (w\<lparr>uow := []\<rparr>)" by (simp add: confined_frame)
  then show "confined S H L (snd (flush w))"
    unfolding flush_def by (rule keepsD [OF run_writes_confined])
qed

lemma transaction_confined:
  fixes m :: "('c, 'a) act"
  assumes "keeps (confined S H L) m"
  shows "keeps (confined S H L) (in_transaction m)"
proof (rule keepsI)
  fix w :: "'c world" assume I: "confined S H L w"
  let ?w = "w\<lparr>guc := None, uow := []\<rparr>"
  have "keeps (confined S H L) (bnd m (\<lambda>x. seq flush (ret x)))"
    by (intro keep_rules assms)
  moreover have "confined S H L ?w" using I by (simp add: confined_def scoped_def)
  ultimately have "confined S H L (snd (bnd m (\<lambda>x. seq flush (ret x)) ?w))" by (rule keepsD)
  with I show "confined S H L (snd (in_transaction m w))"
    by (auto simp: in_transaction_def confined_def scoped_def split: prod.split sum.split)
qed

lemma transaction_Inl:
  assumes "in_transaction m w = (Inl e, w')"
  shows "db w' = db w"
  using assms by (auto simp: in_transaction_def split: prod.splits sum.splits)

lemma transaction_InrE:
  assumes "in_transaction m w = (Inr x, w')"
  obtains w1 w2 where "m (w\<lparr>guc := None, uow := []\<rparr>) = (Inr x, w1)"
    and "flush w1 = (Inr (), w2)" and "w' = w2\<lparr>guc := None, uow := []\<rparr>"
proof -
  obtain w2 where *: "bnd m (\<lambda>x. seq flush (ret x)) (w\<lparr>guc := None, uow := []\<rparr>) = (Inr x, w2)"
    and w': "w' = w2\<lparr>guc := None, uow := []\<rparr>"
    using assms by (auto simp: in_transaction_def split: prod.splits sum.splits)
  from * obtain y w1 where m: "m (w\<lparr>guc := None, uow := []\<rparr>) = (Inr y, w1)"
    and "seq flush (ret y) w1 = (Inr x, w2)" by (rule bnd_InrE)
  then obtain u w3 where "flush w1 = (Inr u, w3)" and "ret y w3 = (Inr x, w2)"
    by (auto elim: bnd_InrE)
  with m w' that show thesis by auto
qed

lemma run_writes_step:
  "run_write u w = (Inr x, w1) \<Longrightarrow> run_writes (u # us) w = run_writes us w1"
  by simp

lemma run_writes_one: "run_writes [u] w = run_write u w"
  by (auto simp: bnd_app split: prod.split sum.split)

declare run_write.simps [simp del] run_writes.simps(2) [simp del]

end
