(* ===== verification/Environment.thy ===== *)
theory Environment
  imports Transactions
begin

section \<open>Settings, and the code the program calls but does not contain\<close>

text \<open>
  \<open>settings\<close> is \<open>app/core/config.py\<close>. \<open>env\<close> adds the libraries and services outside the
  repository as arguments of the model: the HTTP peer behind httpx (Clerk, its JWKS
  endpoint, Voyage), python-jose's header parsing and verification, Pydantic's reading of
  numbers given as strings, and the S3 client.
  They act on the component \<open>svc\<close> of the world, which is where their own state lives.
  What httpx does with a response, \<open>raise_for_status()\<close> and \<open>json()\<close>, is written out.
\<close>

named_theorems external_rules \<open>actions that only call external services\<close>

record settings =
  clerk_secret_key :: string
  clerk_jwks_url :: string
  voyage_api_key :: string
  embedding_model :: string
  embedding_dimension :: int
  simpero_platform_org_id :: string
  app_base_url :: string
  admin_role_sync_grace_seconds :: int
  spaces_bucket :: string

datatype http_method = GET | POST | PATCH | DELETE

record http_request =
  req_method :: http_method
  req_url :: string
  req_headers :: "(string \<times> string) list"
  req_params :: "(string \<times> json) list"
  req_json :: "json option"

record http_response =
  resp_status :: int
  resp_json :: "json option"
  resp_text :: string

datatype jwt_result = Decoded json | JWTError string | OtherJOSEError string

type_synonym bytes = "8 word list"

record 'c env =
  settings :: settings
  http_send :: "http_request \<Rightarrow> 'c \<Rightarrow> http_response option \<times> 'c"
    \<comment> \<open>\<open>None\<close>: no response (connection error, timeout)\<close>
  jwt_header :: "string \<Rightarrow> json option"
    \<comment> \<open>\<open>jwt.get_unverified_header\<close>, \<open>None\<close> for \<open>JWTError\<close>\<close>
  jwt_decode :: "string \<Rightarrow> json \<Rightarrow> instant \<Rightarrow> jwt_result"
    \<comment> \<open>\<open>jwt.decode(token, key, algorithms=["RS256"], options={"verify_aud": False})\<close>\<close>
  pyd_int_of_str :: "string \<Rightarrow> int option"
    \<comment> \<open>Pydantic's lax reading of a string in an \<open>int\<close> field\<close>
  pyd_float_of_str :: "string \<Rightarrow> rat option"
  float_repr :: "rat \<Rightarrow> string"
    \<comment> \<open>the shortest decimal text of a float, \<open>float.__repr__\<close>\<close>
  sha256 :: "bytes \<Rightarrow> bytes"
    \<comment> \<open>\<open>hashlib.sha256\<close>: the 32 bytes of the digest\<close>
  monotonic :: "'c \<Rightarrow> rat"
  s3_presign :: "string \<Rightarrow> string \<Rightarrow> int \<Rightarrow> string"
  s3_head :: "string \<Rightarrow> string \<Rightarrow> 'c \<Rightarrow> string option \<times> 'c"
    \<comment> \<open>\<open>None\<close> when the object exists, else the \<open>ClientError\<close>'s code\<close>
  s3_get :: "string \<Rightarrow> string \<Rightarrow> 'c \<Rightarrow> (string + bytes) \<times> 'c"

definition http_call :: "'c env \<Rightarrow> http_request \<Rightarrow> ('c, http_response) act" where
  "http_call env rq = (\<lambda>w. case http_send env rq (svc w) of
      (None, c) \<Rightarrow> (Inl (HttpxError TransportError), w\<lparr>svc := c\<rparr>)
    | (Some r, c) \<Rightarrow> (Inr r, w\<lparr>svc := c\<rparr>))"

definition raise_for_status :: "http_response \<Rightarrow> ('c, unit) act" where
  "raise_for_status r =
     guard (200 \<le> resp_status r \<and> resp_status r < 300)
       (HttpxError (HTTPStatusError (resp_status r) (resp_json r) (resp_text r)))"

definition response_json :: "http_response \<Rightarrow> ('c, json) act" where
  "response_json r = (case resp_json r of
      None \<Rightarrow> throw (ValueError ''Expecting value'') | Some j \<Rightarrow> ret j)"

text \<open>The idiom of every adapter: send, \<open>raise_for_status()\<close>, \<open>return resp.json()\<close>.\<close>

definition fetch_json :: "'c env \<Rightarrow> http_request \<Rightarrow> ('c, json) act" where
  "fetch_json env rq =
     bnd (http_call env rq) (\<lambda>r. seq (raise_for_status r) (response_json r))"

definition catch_httpx :: "('c, 'a) act \<Rightarrow> (httpx_error \<Rightarrow> ('c, 'a) act) \<Rightarrow> ('c, 'a) act" where
  "catch_httpx m h = try_catch m (\<lambda>e. case e of HttpxError he \<Rightarrow> h he | _ \<Rightarrow> throw e)"

lemma http_call_confined [keep_rules]: "keeps (confined S H L) (http_call env rq)"
  by (auto simp: keeps_def http_call_def confined_frame split: prod.split option.split)

lemma raise_for_status_keeps [keep_rules]: "keeps I (raise_for_status r)"
  by (simp add: raise_for_status_def keep_rules)

lemma response_json_keeps [keep_rules]: "keeps I (response_json r)"
  by (simp add: response_json_def keep_rules)

lemma fetch_json_confined [keep_rules]: "keeps (confined S H L) (fetch_json env rq)"
  unfolding fetch_json_def by (intro keep_rules)

lemma keeps_catch_httpx [keep_rules]:
  "keeps I m \<Longrightarrow> (\<And>e. keeps I (h e)) \<Longrightarrow> keeps I (catch_httpx m h)"
  unfolding catch_httpx_def by (rule keeps_try) (auto simp: keeps_throw split: exn.split)

text \<open>What an HTTP call can change of the world: nothing but the services' state.\<close>

definition outside :: "'c world \<Rightarrow> 'c \<Rightarrow> 'c world" where
  "outside w c = w\<lparr>svc := c\<rparr>"

lemma outside_simps [simp]:
  "db (outside w c) = db w" "guc (outside w c) = guc w" "uow (outside w c) = uow w"
  "svc (outside w c) = c" "clock (outside w c) = clock w" "rnd (outside w c) = rnd w"
  "rnd_next (outside w c) = rnd_next w" "seq_organisation (outside w c) = seq_organisation w"
  "seq_users (outside w c) = seq_users w" "seq_admin (outside w c) = seq_admin w"
  "queue (outside w c) = queue w" "jwks_cache (outside w c) = jwks_cache w"
  "jwks_fetched_at (outside w c) = jwks_fetched_at w" "outside (outside w c) c' = outside w c'"
  "outside w (svc w) = w"
  by (simp_all add: outside_def)

definition external :: "('c, 'a) act \<Rightarrow> bool" where
  "external m \<longleftrightarrow> (\<forall>w. \<exists>c. snd (m w) = outside w c)"

lemma external_same: "(\<And>w. snd (m w) = w) \<Longrightarrow> external m"
  unfolding external_def by (metis outside_simps(15))

lemma external_ret [external_rules]: "external (ret x)" "external (throw e)" "external (gets f)"
  by (rule external_same, simp)+

lemma external_bnd [external_rules]:
  assumes "external m" and "\<And>x. external (f x)"
  shows "external (bnd m f)"
  unfolding external_def
proof
  fix w
  obtain c where c: "snd (m w) = outside w c" using assms(1) by (auto simp: external_def)
  show "\<exists>c. snd (bnd m f w) = outside w c"
  proof (cases "m w")
    case (Pair r w1)
    with c have w1: "w1 = outside w c" by simp
    show ?thesis
    proof (cases r)
      case (Inr x)
      obtain c' where "snd (f x w1) = outside w1 c'" using assms(2) [of x] by (auto simp: external_def)
      with Pair Inr w1 show ?thesis by auto
    qed (use Pair w1 in auto)
  qed
qed

lemma external_if [external_rules]: "external m \<Longrightarrow> external n \<Longrightarrow> external (if b then m else n)"
  by simp

lemma external_lift [external_rules]: "external (lift_sum m)"
  by (cases m) (simp_all add: external_ret)

lemma external_case_option [external_rules]:
  "external m \<Longrightarrow> (\<And>x. external (f x)) \<Longrightarrow> external (case z of None \<Rightarrow> m | Some x \<Rightarrow> f x)"
  by (cases z) simp_all

lemma external_try [external_rules]:
  assumes "external m" and "\<And>e. external (h e)"
  shows "external (try_catch m h)"
  unfolding external_def
proof
  fix w
  obtain c where c: "snd (m w) = outside w c" using assms(1) by (auto simp: external_def)
  show "\<exists>c. snd (try_catch m h w) = outside w c"
  proof (cases "m w")
    case (Pair r w1)
    with c have w1: "w1 = outside w c" by simp
    show ?thesis
    proof (cases r)
      case (Inl e)
      obtain c' where "snd (h e w1) = outside w1 c'" using assms(2) [of e] by (auto simp: external_def)
      with Pair Inl w1 show ?thesis by auto
    qed (use Pair w1 in auto)
  qed
qed

lemma external_catch [external_rules]:
  "external m \<Longrightarrow> (\<And>e. external (h e)) \<Longrightarrow> external (catch_httpx m h)"
  unfolding catch_httpx_def by (rule external_try) (auto intro: external_ret split: exn.split)

lemma external_http [external_rules]: "external (http_call env rq)"
  by (auto simp: external_def http_call_def outside_def split: prod.split option.split)

lemma external_fetch_json [external_rules]: "external (fetch_json env rq)"
  unfolding fetch_json_def raise_for_status_def response_json_def by (intro external_rules)

lemma externalE:
  assumes "external m" and "m w = (r, w')"
  obtains c where "w' = outside w c"
  using assms unfolding external_def by (metis snd_conv)

lemma external_confined: "external m \<Longrightarrow> keeps (confined S H L) m"
  unfolding external_def keeps_def outside_def by (metis confined_frame(3))

end
