(* ===== verification/ClerkAdmin.thy ===== *)
theory ClerkAdmin
  imports Environment
begin

section \<open>The Clerk Backend API adapter\<close>

text \<open>
  \<open>app/services/admin/clerk_admin.py\<close> and \<open>fetch_clerk_organization\<close> of
  \<open>app/core/security.py\<close>: one definition per function, with the request each one builds.
  A Clerk failure leaves the adapter as \<open>HttpxError\<close>; the routers translate it with
  \<open>clerk_error_to_http\<close>. Values Clerk returns are JSON and may have any shape. An
  identifier that goes into a URL is a string here (Python would format any value).
\<close>

definition CLERK_API_BASE :: string where
  "CLERK_API_BASE = ''https://api.clerk.com/v1''"

definition clerk_headers :: "'c env \<Rightarrow> (string \<times> string) list" where
  "clerk_headers env = [(''Authorization'', ''Bearer '' @ clerk_secret_key (settings env))]"

definition clerk_request ::
  "'c env \<Rightarrow> http_method \<Rightarrow> string \<Rightarrow> (string \<times> json) list \<Rightarrow> json option \<Rightarrow> http_request" where
  "clerk_request env meth path params body =
     \<lparr>req_method = meth, req_url = CLERK_API_BASE @ path, req_headers = clerk_headers env,
      req_params = params, req_json = body\<rparr>"

text \<open>\<open>datetime.fromtimestamp(data["created_at"] / 1000, tz=UTC)\<close>, years 1 to 9999.\<close>

definition from_unix_ms :: "rat \<Rightarrow> exn + instant" where
  "from_unix_ms ms =
     (if - 62135596800000 \<le> ms \<and> ms < 253402300800000 then Inr (round (ms * 1000))
      else Inl (ValueError ''year is out of range''))"

definition clerk_created_at :: "json \<Rightarrow> exn + instant" where
  "clerk_created_at data = sbind (json_idx data ''created_at'') (\<lambda>v. case v of
       JInt n \<Rightarrow> from_unix_ms (of_int n)
     | JFloat r \<Rightarrow> from_unix_ms r
     | JBool b \<Rightarrow> from_unix_ms (if b then 1 else 0)
     | JNonFinite x \<Rightarrow> Inl (if x = NaN then ValueError ''cannot convert float NaN to integer'' else OverflowError)
     | _ \<Rightarrow> Inl TypeError)"

text \<open>\<open>(body.get("errors") or [{}])[0].get("message") or resp.text\<close>\<close>

definition clerk_error_detail :: "json \<Rightarrow> string \<Rightarrow> exn + json" where
  "clerk_error_detail body msg =
     sbind (json_get body ''errors'') (\<lambda>errs.
     sbind (json_item0 (py_or errs (JArr [JObj []]))) (\<lambda>e.
     sbind (json_get e ''message'') (\<lambda>m. Inr (py_or m (JStr msg)))))"

text \<open>The exception a route ends with: normally the translation, else what the translation raised.\<close>

definition clerk_error_to_http :: "httpx_error \<Rightarrow> exn" where
  "clerk_error_to_http exc = (case exc of
     HTTPStatusError n body msg \<Rightarrow>
       if n \<ge> 500 then HTTPException 502 (JStr ''Clerk API error'')
       else (case body of
           None \<Rightarrow> HTTPException n (JStr msg)
         | Some j \<Rightarrow> (case clerk_error_detail j msg of
               Inr detail \<Rightarrow> HTTPException n detail
             | Inl (ValueError _) \<Rightarrow> HTTPException n (JStr msg)
             | Inl e \<Rightarrow> e))
   | TransportError \<Rightarrow> HTTPException 503 (JStr ''Unable to reach Clerk API''))"

text \<open>\<open>except httpx.HTTPError as exc: raise clerk_error_to_http(exc)\<close>\<close>

definition via_clerk :: "('c, 'a) act \<Rightarrow> ('c, 'a) act" where
  "via_clerk m = catch_httpx m (\<lambda>e. throw (clerk_error_to_http e))"

text \<open>\<open>body["data"] if isinstance(body, dict) else body\<close>, then iterated by the caller.\<close>

definition listing_data :: "json \<Rightarrow> exn + json list" where
  "listing_data body = (case body of
      JObj kvs \<Rightarrow> sbind (json_idx body ''data'') json_iter
    | _ \<Rightarrow> json_iter body)"

definition paging :: "int \<Rightarrow> int \<Rightarrow> (string \<times> json) list" where
  "paging limit offset = [(''limit'', JInt limit), (''offset'', JInt offset)]"

definition create_organization ::
  "'c env \<Rightarrow> string \<Rightarrow> OrgType option \<Rightarrow> string \<Rightarrow> ('c, json) act" where
  "create_organization env nm otype created_by =
     fetch_json env (clerk_request env POST ''/organizations'' []
       (Some (JObj ([(''name'', JStr nm), (''created_by'', JStr created_by)]
         @ (case otype of None \<Rightarrow> []
            | Some t \<Rightarrow> [(''public_metadata'', JObj [(''type'', JStr (OrgType_value t))])])))))"

definition list_organizations :: "'c env \<Rightarrow> ('c, json list) act" where
  "list_organizations env =
     bnd (fetch_json env (clerk_request env GET ''/organizations'' (paging 500 0) None))
       (\<lambda>body. lift_sum (listing_data body))"

definition create_organization_invitation ::
  "'c env \<Rightarrow> string \<Rightarrow> string \<Rightarrow> string \<Rightarrow> string \<Rightarrow> string option \<Rightarrow> ('c, json) act" where
  "create_organization_invitation env org email role redirect_url inviter_user_id =
     fetch_json env (clerk_request env POST (''/organizations/'' @ org @ ''/invitations'') []
       (Some (JObj ([(''email_address'', JStr email), (''role'', JStr role),
                     (''redirect_url'', JStr redirect_url)]
         @ (case inviter_user_id of None \<Rightarrow> [] | Some u \<Rightarrow> [(''inviter_user_id'', JStr u)])))))"

definition list_organization_invitations :: "'c env \<Rightarrow> string \<Rightarrow> string \<Rightarrow> ('c, json list) act" where
  "list_organization_invitations env org status =
     bnd (fetch_json env (clerk_request env GET (''/organizations/'' @ org @ ''/invitations'')
            ((''status'', JStr status) # paging 500 0) None))
       (\<lambda>body. lift_sum (listing_data body))"

definition revoke_organization_invitation ::
  "'c env \<Rightarrow> string \<Rightarrow> string \<Rightarrow> string \<Rightarrow> ('c, json) act" where
  "revoke_organization_invitation env org invitation_id requesting_user_id =
     fetch_json env (clerk_request env POST
       (''/organizations/'' @ org @ ''/invitations/'' @ invitation_id @ ''/revoke'') []
       (Some (JObj [(''requesting_user_id'', JStr requesting_user_id)])))"

definition list_organization_memberships :: "'c env \<Rightarrow> string \<Rightarrow> ('c, json list) act" where
  "list_organization_memberships env org =
     bnd (fetch_json env (clerk_request env GET (''/organizations/'' @ org @ ''/memberships'')
            (paging 500 0) None))
       (\<lambda>body. lift_sum (listing_data body))"

definition membership_path :: "string \<Rightarrow> string \<Rightarrow> string" where
  "membership_path org member_user_id =
     ''/organizations/'' @ org @ ''/memberships/'' @ member_user_id"

definition remove_organization_membership :: "'c env \<Rightarrow> string \<Rightarrow> string \<Rightarrow> ('c, unit) act" where
  "remove_organization_membership env org member_user_id =
     bnd (http_call env (clerk_request env DELETE (membership_path org member_user_id) [] None))
       raise_for_status"

definition update_organization_membership ::
  "'c env \<Rightarrow> string \<Rightarrow> string \<Rightarrow> string \<Rightarrow> ('c, json) act" where
  "update_organization_membership env org member_user_id role =
     fetch_json env (clerk_request env PATCH (membership_path org member_user_id) []
       (Some (JObj [(''role'', JStr role)])))"

definition delete_organization :: "'c env \<Rightarrow> string \<Rightarrow> ('c, unit) act" where
  "delete_organization env org =
     bnd (http_call env (clerk_request env DELETE (''/organizations/'' @ org) [] None))
       raise_for_status"

definition fetch_clerk_user :: "'c env \<Rightarrow> string \<Rightarrow> ('c, json) act" where
  "fetch_clerk_user env clerk_user_id =
     fetch_json env (clerk_request env GET (''/users/'' @ clerk_user_id) [] None)"

fun find_address :: "json \<Rightarrow> json list \<Rightarrow> exn + json" where
  "find_address primary_id [] = Inr JNull"
| "find_address primary_id (addr # addrs) =
     sbind (json_get addr ''id'') (\<lambda>i.
       if i = primary_id then json_get addr ''email_address'' else find_address primary_id addrs)"

definition primary_email :: "json \<Rightarrow> exn + json" where
  "primary_email user =
     sbind (json_get user ''primary_email_address_id'') (\<lambda>primary_id.
     sbind (json_get user ''email_addresses'') (\<lambda>addrs.
     sbind (json_iter (py_or addrs (JArr []))) (find_address primary_id)))"

definition fetch_clerk_user_primary_email :: "'c env \<Rightarrow> string \<Rightarrow> ('c, json) act" where
  "fetch_clerk_user_primary_email env clerk_user_id =
     bnd (catch_httpx (bnd (fetch_clerk_user env clerk_user_id) (\<lambda>u. ret (Some u)))
            (\<lambda>e. ret None))
       (\<lambda>user. case user of None \<Rightarrow> ret JNull | Some u \<Rightarrow> lift_sum (primary_email u))"

definition fetch_clerk_organization :: "'c env \<Rightarrow> string \<Rightarrow> ('c, json) act" where
  "fetch_clerk_organization env clerk_org_id =
     fetch_json env
       \<lparr>req_method = GET, req_url = ''https://api.clerk.com/v1/organizations/'' @ clerk_org_id,
        req_headers = [(''Authorization'', ''Bearer '' @ clerk_secret_key (settings env))],
        req_params = [], req_json = None\<rparr>"

lemma external_via_clerk [external_rules]: "external m \<Longrightarrow> external (via_clerk m)"
  unfolding via_clerk_def by (intro external_rules)

lemma keeps_via_clerk [keep_rules]: "keeps I m \<Longrightarrow> keeps I (via_clerk m)"
  unfolding via_clerk_def by (intro keep_rules)

lemma clerk_external [external_rules]:
  "external (create_organization env nm t u)"
  "external (list_organizations env)"
  "external (create_organization_invitation env org email role url inviter)"
  "external (list_organization_invitations env org st)"
  "external (revoke_organization_invitation env org i u)"
  "external (list_organization_memberships env org)"
  "external (remove_organization_membership env org u)"
  "external (update_organization_membership env org u role)"
  "external (delete_organization env org)"
  "external (fetch_clerk_user env u)"
  "external (fetch_clerk_user_primary_email env u)"
  "external (fetch_clerk_organization env org)"
  unfolding create_organization_def list_organizations_def create_organization_invitation_def
    list_organization_invitations_def revoke_organization_invitation_def
    list_organization_memberships_def remove_organization_membership_def
    update_organization_membership_def delete_organization_def fetch_clerk_user_def
    fetch_clerk_user_primary_email_def fetch_clerk_organization_def raise_for_status_def
  by (intro external_rules)+

lemmas clerk_confined [keep_rules] = clerk_external [THEN external_confined]

subsection \<open>No httpx error leaves a translated call\<close>

lemma error_translation_not_httpx: "clerk_error_to_http e \<noteq> HttpxError h"
proof (cases e)
  case (HTTPStatusError n body msg)
  have "clerk_error_detail j msg \<noteq> Inl (HttpxError h)" for j
    by (cases "json_get j ''errors''" rule: sum.exhaust)
      (auto simp: clerk_error_detail_def sbind_def split: sum.split
        elim!: json_get.elims json_item0.elims)
  then show ?thesis
    using HTTPStatusError by (auto simp: clerk_error_to_http_def split: option.split sum.split exn.split)
qed (simp add: clerk_error_to_http_def)

lemma via_clerk_not_httpx: "via_clerk m w \<noteq> (Inl (HttpxError h), w')"
  by (auto simp: via_clerk_def catch_httpx_def try_catch_def error_translation_not_httpx
        split: prod.split sum.split exn.split)

end
