(* ===== verification/Repos.thy ===== *)
theory Repos
  imports ClerkAdmin
begin

section \<open>Repositories\<close>

text \<open>
  \<open>app/repo\<close>: one definition per method, each the statement it issues. None filters by
  organisation: row-level security does. \<open>ORDER BY created_at DESC\<close> is a stable sort, so
  ties keep insertion order (Postgres leaves them open). Column defaults and
  \<open>onupdate=utc_now\<close> are applied where SQLAlchemy applies them: \<open>onupdate\<close> fires on an
  \<open>update()\<close> whose SET leaves the column out, never on \<open>on_conflict_do_update\<close>. A sequence
  value is drawn for every proposed row, kept or not.
\<close>

subsection \<open>\<open>AdminUserRepo\<close>\<close>

definition next_admin_id :: "('c, int) act" where
  "next_admin_id = (\<lambda>w. (Inr (seq_admin w), w\<lparr>seq_admin := seq_admin w + 1\<rparr>))"

definition admin_by_clerk_id :: "string \<Rightarrow> ('c, clerk_admin_user option) act" where
  "admin_by_clerk_id clerk_user_id = sql_first admins_table (\<lambda>r. adm_clerk_user_id r = clerk_user_id)"

text \<open>The dict the callers pass: \<open>clerk_user_id, clerk_org_id, org_id, email, admin_type\<close>.\<close>

definition new_admin_row ::
  "int \<Rightarrow> instant \<Rightarrow> string \<Rightarrow> string \<Rightarrow> int \<Rightarrow> string option \<Rightarrow> AdminType \<Rightarrow> clerk_admin_user" where
  "new_admin_row i t clerk_user_id clerk_org_id org email ty =
     \<lparr>adm_id = i, adm_clerk_user_id = clerk_user_id, adm_clerk_org_id = clerk_org_id,
      adm_org_id = org, adm_email = email, adm_admin_type = ty, adm_status = ''active'',
      adm_created_at = Some t, adm_updated_at = None\<rparr>"

definition admin_upsert ::
  "string \<Rightarrow> string \<Rightarrow> int \<Rightarrow> string option \<Rightarrow> AdminType \<Rightarrow> ('c, unit) act" where
  "admin_upsert clerk_user_id clerk_org_id org email ty =
     bnd next_admin_id (\<lambda>i. bnd utc_now (\<lambda>t.
       sql_insert_do_nothing admins_table adm_clerk_user_id
         (new_admin_row i t clerk_user_id clerk_org_id org email ty)))"

definition deactivate_row :: "instant \<Rightarrow> clerk_admin_user \<Rightarrow> clerk_admin_user" where
  "deactivate_row t r = r\<lparr>adm_status := ''inactive'', adm_updated_at := Some t\<rparr>"

definition activate_row :: "AdminType \<Rightarrow> instant \<Rightarrow> clerk_admin_user \<Rightarrow> clerk_admin_user" where
  "activate_row ty t r = r\<lparr>adm_status := ''active'', adm_admin_type := ty, adm_updated_at := Some t\<rparr>"

definition admin_deactivate :: "string \<Rightarrow> ('c, unit) act" where
  "admin_deactivate clerk_user_id =
     bnd utc_now (\<lambda>t.
     bnd (sql_update admins_table [''status'', ''updated_at'']
            (\<lambda>r. adm_clerk_user_id r = clerk_user_id) (deactivate_row t))
       (\<lambda>_. ret ()))"

definition reactivate_or_create ::
  "string \<Rightarrow> string \<Rightarrow> int \<Rightarrow> string option \<Rightarrow> AdminType \<Rightarrow> ('c, unit) act" where
  "reactivate_or_create clerk_user_id clerk_org_id org email ty =
     bnd next_admin_id (\<lambda>i. bnd utc_now (\<lambda>t.
       sql_insert_do_update admins_table adm_clerk_user_id
         (new_admin_row i t clerk_user_id clerk_org_id org email ty)
         [''status'', ''admin_type'', ''updated_at''] (activate_row ty t)))"

definition reactivate_if_exists :: "string \<Rightarrow> AdminType \<Rightarrow> ('c, bool) act" where
  "reactivate_if_exists clerk_user_id ty =
     bnd utc_now (\<lambda>t.
     bnd (sql_update admins_table [''status'', ''admin_type'', ''updated_at'']
            (\<lambda>r. adm_clerk_user_id r = clerk_user_id) (activate_row ty t))
       (\<lambda>rs. ret (rs \<noteq> [])))"

text \<open>\<open>select(func.count()).where(ClerkAdminUser.status == "active")\<close>, inlined in the routers.\<close>

definition count_active_admins :: "('c, int) act" where
  "count_active_admins =
     bnd (sql_select admins_table (\<lambda>r. adm_status r = ''active'')) (\<lambda>rs. ret (int (length rs)))"

subsection \<open>\<open>UserRepo\<close>\<close>

definition next_user_id :: "('c, int) act" where
  "next_user_id = (\<lambda>w. (Inr (seq_users w), w\<lparr>seq_users := seq_users w + 1\<rparr>))"

definition user_by_clerk_id :: "string \<Rightarrow> ('c, user option) act" where
  "user_by_clerk_id clerk_user_id = sql_first users_table (\<lambda>u. usr_clerk_user_id u = clerk_user_id)"

definition user_by_id :: "int \<Rightarrow> ('c, user option) act" where
  "user_by_id i = sql_first users_table (\<lambda>u. usr_id u = i)"

definition new_user_row :: "int \<Rightarrow> int \<Rightarrow> string \<Rightarrow> string \<Rightarrow> string \<Rightarrow> string \<Rightarrow> user" where
  "new_user_row i org clerk_user_id clerk_org_id role login_method =
     \<lparr>usr_id = i, usr_org_id = org, usr_name = None, usr_email = None, usr_role = role,
      usr_login_method = login_method, usr_clerk_user_id = clerk_user_id,
      usr_clerk_org_id = clerk_org_id, usr_status = ''active'', usr_deactivated_at = None\<rparr>"

definition user_upsert :: "int \<Rightarrow> string \<Rightarrow> string \<Rightarrow> string \<Rightarrow> string \<Rightarrow> ('c, unit) act" where
  "user_upsert org clerk_user_id clerk_org_id role login_method =
     bnd next_user_id (\<lambda>i.
       sql_insert_do_nothing users_table usr_clerk_user_id
         (new_user_row i org clerk_user_id clerk_org_id role login_method))"

definition user_reactivate :: "string \<Rightarrow> ('c, unit) act" where
  "user_reactivate clerk_user_id =
     bnd (sql_update users_table [''status'', ''deactivated_at'']
            (\<lambda>u. usr_clerk_user_id u = clerk_user_id)
            (\<lambda>u. u\<lparr>usr_status := ''active'', usr_deactivated_at := None\<rparr>))
       (\<lambda>_. ret ())"

subsection \<open>\<open>HumanAuditRepo\<close>\<close>

definition audit_append :: "audit_entry \<Rightarrow> ('c, unit) act" where
  "audit_append e = session_add (InsertAudit e)"

definition audit_list_recent :: "nat \<Rightarrow> ('c, human_audit_log list) act" where
  "audit_list_recent limit =
     bnd (sql_select audit_table (\<lambda>_. True))
       (\<lambda>rs. ret (take limit (sort_key (\<lambda>r. - aud_created_at r) rs)))"

definition audit_all_event_types :: "('c, string list) act" where
  "audit_all_event_types =
     bnd (sql_select audit_table (\<lambda>_. True)) (\<lambda>rs. ret (map aud_event_type rs))"

subsection \<open>\<open>DataSourceRepo\<close>\<close>

definition data_source_create :: "data_source \<Rightarrow> ('c, unit) act" where
  "data_source_create d = session_add (InsertDataSource d)"

definition data_source_by_id :: "uuid \<Rightarrow> ('c, data_source option) act" where
  "data_source_by_id i = sql_first data_source_table (\<lambda>d. ds_id d = i)"

definition dedupe_match :: "uuid \<Rightarrow> string \<Rightarrow> data_source \<Rightarrow> bool" where
  "dedupe_match deal h d \<longleftrightarrow> ds_deal_id d = deal
     \<and> (ds_declared_sha256 d = h \<or> ds_fingerprint d = Some h) \<and> ds_status d \<noteq> ''mismatch''"

definition find_dedupe_candidate :: "uuid \<Rightarrow> string \<Rightarrow> ('c, data_source option) act" where
  "find_dedupe_candidate deal h = sql_first data_source_table (dedupe_match deal h)"

definition update_status :: "uuid \<Rightarrow> string \<Rightarrow> string option \<Rightarrow> ('c, data_source option) act" where
  "update_status i new_status fingerprint =
     bnd utc_now (\<lambda>t.
     bnd (sql_update data_source_table [''status'', ''fingerprint'', ''status_updated_at'']
            (\<lambda>d. ds_id d = i)
            (\<lambda>d. d\<lparr>ds_status := new_status, ds_fingerprint := fingerprint,
                   ds_status_updated_at := Some t\<rparr>))
       (\<lambda>rs. ret (case rs of [] \<Rightarrow> None | d # _ \<Rightarrow> Some d)))"

subsection \<open>\<open>DealRepo\<close>\<close>

definition deal_by_id :: "uuid \<Rightarrow> ('c, deal option) act" where
  "deal_by_id i = sql_first deals_table (\<lambda>d. deal_id d = i)"

definition deal_list :: "('c, deal list) act" where
  "deal_list = bnd (sql_select deals_table (\<lambda>_. True))
     (\<lambda>ds. ret (sort_key (\<lambda>d. - deal_created_at d) ds))"

record aggregates =
  total_deals :: int
  total_pipeline_value :: int
  current_window_deals :: int
  current_window_value :: int
  prior_window_deals :: int
  prior_window_value :: int

text \<open>\<open>coalesce(deal_size_max_usd, deal_size_min_usd, 0)\<close>\<close>

definition size_expr :: "deal \<Rightarrow> int" where
  "size_expr d = (case deal_size_max_usd d of Some v \<Rightarrow> v | None \<Rightarrow>
     (case deal_size_min_usd d of Some v \<Rightarrow> v | None \<Rightarrow> 0))"

definition deal_count :: "(deal \<Rightarrow> bool) \<Rightarrow> deal list \<Rightarrow> int" where
  "deal_count p ds = int (length (filter p ds))"

definition deal_sum :: "(deal \<Rightarrow> bool) \<Rightarrow> deal list \<Rightarrow> int" where
  "deal_sum p ds = sum_list (map size_expr (filter p ds))"

definition dashboard_aggregates :: "instant \<Rightarrow> instant \<Rightarrow> instant \<Rightarrow> ('c, aggregates) act" where
  "dashboard_aggregates current_start prior_start prior_end =
     bnd (sql_select deals_table (\<lambda>_. True)) (\<lambda>ds.
       let cur = (\<lambda>d. deal_created_at d \<ge> current_start);
           prior = (\<lambda>d. deal_created_at d \<ge> prior_start \<and> deal_created_at d < prior_end)
       in ret \<lparr>total_deals = deal_count (\<lambda>_. True) ds, total_pipeline_value = deal_sum (\<lambda>_. True) ds,
               current_window_deals = deal_count cur ds, current_window_value = deal_sum cur ds,
               prior_window_deals = deal_count prior ds, prior_window_value = deal_sum prior ds\<rparr>)"

subsection \<open>\<open>SessionRepo\<close>, \<open>InvestmentProfileRepo\<close>\<close>

definition session_by_id :: "uuid \<Rightarrow> ('c, session option) act" where
  "session_by_id i = sql_first sessions_table (\<lambda>s. ses_id s = i)"

definition session_list_for_org :: "('c, session list) act" where
  "session_list_for_org = bnd (sql_select sessions_table (\<lambda>_. True))
     (\<lambda>ss. ret (sort_key (\<lambda>s. - ses_created_at s) ss))"

definition latest_for_deal :: "uuid \<Rightarrow> ('c, session option) act" where
  "latest_for_deal deal = bnd (sql_select sessions_table (\<lambda>s. ses_deal_id s = deal))
     (\<lambda>ss. ret (case sort_key (\<lambda>s. - ses_created_at s) ss of [] \<Rightarrow> None | s # _ \<Rightarrow> Some s))"

definition session_delete :: "uuid \<Rightarrow> ('c, bool) act" where
  "session_delete i = bnd (sql_delete sessions_table (\<lambda>s. ses_id s = i)) (\<lambda>rs. ret (rs \<noteq> []))"

definition session_delete_all :: "('c, int) act" where
  "session_delete_all =
     bnd (sql_select sessions_table (\<lambda>_. True)) (\<lambda>ss.
     bnd (sql_delete sessions_table (\<lambda>_. True)) (\<lambda>_. ret (int (length ss))))"

definition profile_for_org :: "('c, investment_profile option) act" where
  "profile_for_org = sql_first profiles_table (\<lambda>_. True)"

subsection \<open>Every method keeps the tenant invariant\<close>

lemma row_updates_keep_ids [simp]:
  "adm_id (deactivate_row t r) = adm_id r" "adm_id (activate_row ty t r) = adm_id r"
  "adm_clerk_user_id (deactivate_row t r) = adm_clerk_user_id r"
  "adm_clerk_user_id (activate_row ty t r) = adm_clerk_user_id r"
  "adm_clerk_org_id (deactivate_row t r) = adm_clerk_org_id r"
  "adm_clerk_org_id (activate_row ty t r) = adm_clerk_org_id r"
  "adm_org_id (deactivate_row t r) = adm_org_id r" "adm_org_id (activate_row ty t r) = adm_org_id r"
  "adm_status (deactivate_row t r) = ''inactive''" "adm_status (activate_row ty t r) = ''active''"
  "adm_admin_type (activate_row ty t r) = ty" "adm_email (activate_row ty t r) = adm_email r"
  "adm_email (deactivate_row t r) = adm_email r"
  "adm_updated_at (deactivate_row t r) = Some t" "adm_updated_at (activate_row ty t r) = Some t"
  by (simp_all add: deactivate_row_def activate_row_def)

lemma sequences_confined [keep_rules]:
  "keeps (confined S H L) next_admin_id" "keeps (confined S H L) next_user_id"
  by (simp_all add: keeps_def next_admin_id_def next_user_id_def confined_frame)

lemma admin_repo_confined [keep_rules]:
  "keeps (confined S H L) (admin_by_clerk_id u)"
  "keeps (confined S H L) (admin_upsert u c org email ty)"
  "keeps (confined S H L) (admin_deactivate u)"
  "keeps (confined S H L) (reactivate_or_create u c org email ty)"
  "keeps (confined S H L) (reactivate_if_exists u ty)"
  "keeps (confined S H L) count_active_admins"
  unfolding admin_by_clerk_id_def admin_upsert_def admin_deactivate_def reactivate_or_create_def
    reactivate_if_exists_def count_active_admins_def
  by (intro keep_rules admins.update_confined admins.insert_do_update_confined
      admins.insert_do_nothing_confined admins.sql_first_keeps admins.sql_select_keeps; simp)+

lemma user_repo_confined [keep_rules]:
  "keeps (confined S H L) (user_by_clerk_id u)"
  "keeps (confined S H L) (user_by_id i)"
  "keeps (confined S H L) (user_upsert org u c role m)"
  "keeps (confined S H L) (user_reactivate u)"
  unfolding user_by_clerk_id_def user_by_id_def user_upsert_def user_reactivate_def
  by (intro keep_rules users.update_confined users.insert_do_nothing_confined
      users.sql_first_keeps; simp)+

lemma product_repo_confined [keep_rules]:
  "keeps (confined S H L) (audit_append e)"
  "keeps (confined S H L) (audit_list_recent n)"
  "keeps (confined S H L) audit_all_event_types"
  "keeps (confined S H L) (data_source_create d)"
  "keeps (confined S H L) (data_source_by_id i)"
  "keeps (confined S H L) (find_dedupe_candidate i h)"
  "keeps (confined S H L) (update_status i st fp)"
  "keeps (confined S H L) (deal_by_id i)"
  "keeps (confined S H L) deal_list"
  "keeps (confined S H L) (dashboard_aggregates a b c)"
  "keeps (confined S H L) (session_by_id i)"
  "keeps (confined S H L) session_list_for_org"
  "keeps (confined S H L) (latest_for_deal i)"
  "keeps (confined S H L) (session_delete i)"
  "keeps (confined S H L) session_delete_all"
  "keeps (confined S H L) profile_for_org"
  unfolding audit_append_def audit_list_recent_def audit_all_event_types_def data_source_create_def
    data_source_by_id_def find_dedupe_candidate_def update_status_def deal_by_id_def deal_list_def
    dashboard_aggregates_def session_by_id_def session_list_for_org_def latest_for_deal_def
    session_delete_def session_delete_all_def profile_for_org_def Let_def
  by (intro keep_rules sources.update_confined sess.delete_confined audits.sql_select_keeps
      sources.sql_first_keeps deals.sql_first_keeps deals.sql_select_keeps sess.sql_first_keeps
      sess.sql_select_keeps profiles.sql_first_keeps; simp)+

end
