(* ===== verification/Security.thy ===== *)
theory Security
  imports Repos
begin

section \<open>Authentication: the JWKS cache, token claims, \<open>get_claims\<close>\<close>

text \<open>
  \<open>app/core/security.py\<close> and \<open>get_claims\<close> of \<open>app/core/dependencies.py\<close>. The cache is the
  module's two globals, kept in the world because it outlives a request. Signature
  checking is python-jose's: \<open>jwt_decode\<close> is a parameter, and what the program does
  before and after it is written out.
\<close>

definition JWKS_TTL_SECONDS :: rat where
  "JWKS_TTL_SECONDS = 3600"

definition jwks_fresh :: "'c env \<Rightarrow> 'c world \<Rightarrow> bool" where
  "jwks_fresh env w \<longleftrightarrow> monotonic env (svc w) - jwks_fetched_at w < JWKS_TTL_SECONDS"

definition jwks_request :: "'c env \<Rightarrow> http_request" where
  "jwks_request env =
     \<lparr>req_method = GET, req_url = clerk_jwks_url (settings env), req_headers = [],
      req_params = [], req_json = None\<rparr>"

definition store_jwks :: "'c env \<Rightarrow> json \<Rightarrow> ('c, unit) act" where
  "store_jwks env jwks =
     modify (\<lambda>w. w\<lparr>jwks_cache := Some jwks, jwks_fetched_at := monotonic env (svc w)\<rparr>)"

definition get_jwks :: "'c env \<Rightarrow> bool \<Rightarrow> ('c, json) act" where
  "get_jwks env force_refresh = (\<lambda>w.
     case jwks_cache w of
       Some jwks \<Rightarrow>
         if jwks_fresh env w \<and> \<not> force_refresh then (Inr jwks, w)
         else bnd (fetch_json env (jwks_request env)) (\<lambda>j. seq (store_jwks env j) (ret j)) w
     | None \<Rightarrow> bnd (fetch_json env (jwks_request env)) (\<lambda>j. seq (store_jwks env j) (ret j)) w)"

text \<open>\<open>rol.removeprefix("org:") if isinstance(rol, str) else None\<close>\<close>

definition role_of :: "json \<Rightarrow> string option" where
  "role_of rol = (case rol of JStr s \<Rightarrow> Some (py_removeprefix s ''org:'') | _ \<Rightarrow> None)"

fun dict_get :: "(string \<times> json) list \<Rightarrow> string \<Rightarrow> json" where
  "dict_get kvs k = (case map_of kvs k of None \<Rightarrow> JNull | Some v \<Rightarrow> v)"

fun nonempty_str :: "json \<Rightarrow> string option" where
  "nonempty_str (JStr s) = (if s = [] then None else Some s)"
| "nonempty_str _ = None"

definition extract_org :: "(string \<times> json) list \<Rightarrow> string option \<times> string option" where
  "extract_org claims =
     (let v1 = (nonempty_str (dict_get claims ''org_id''), role_of (dict_get claims ''org_role'')) in
      case dict_get claims ''o'' of
        JObj o1 \<Rightarrow> (case nonempty_str (dict_get o1 ''id'') of
            Some i \<Rightarrow> (Some i, role_of (dict_get o1 ''rol''))
          | None \<Rightarrow> v1)
      | _ \<Rightarrow> v1)"

fun find_key_in :: "json \<Rightarrow> json list \<Rightarrow> exn + json option" where
  "find_key_in kid [] = Inr None"
| "find_key_in kid (k # ks) =
     sbind (json_get k ''kid'') (\<lambda>v. if v = kid then Inr (Some k) else find_key_in kid ks)"

text \<open>\<open>jwks.get("keys", [])\<close> searched for the header's \<open>kid\<close>.\<close>

definition find_key :: "json \<Rightarrow> json \<Rightarrow> exn + json option" where
  "find_key header jwks = (case jwks of
      JObj kvs \<Rightarrow>
        sbind (json_iter (case map_of kvs ''keys'' of None \<Rightarrow> JArr [] | Some v \<Rightarrow> v)) (\<lambda>ks.
          if ks = [] then Inr None
          else sbind (json_get header ''kid'') (\<lambda>kid. find_key_in kid ks))
    | _ \<Rightarrow> Inl AttributeError)"

record token_claims =
  tenant_id :: string
  user_id :: string
  org_role :: "string option"
  raw_claims :: json

definition claims_of :: "json \<Rightarrow> exn + token_claims" where
  "claims_of decoded = (case decoded of
      JObj kvs \<Rightarrow> (case nonempty_str (dict_get kvs ''sub'') of
          None \<Rightarrow> Inl (AuthenticationError ''Token missing 'sub' claim'')
        | Some sub \<Rightarrow> (case extract_org kvs of
              (None, _) \<Rightarrow> Inl (AuthenticationError ''Token has no active organization'')
            | (Some t, r) \<Rightarrow>
                Inr \<lparr>tenant_id = t, user_id = sub, org_role = r, raw_claims = decoded\<rparr>))
    | _ \<Rightarrow> Inl AttributeError)"

definition signing_key :: "'c env \<Rightarrow> json \<Rightarrow> ('c, json) act" where
  "signing_key env header =
     bnd (get_jwks env False) (\<lambda>jwks.
     bnd (lift_sum (find_key header jwks)) (\<lambda>k. case k of
         Some key \<Rightarrow> ret key
       | None \<Rightarrow>
           bnd (get_jwks env True) (\<lambda>jwks2.
           bnd (lift_sum (find_key header jwks2)) (\<lambda>k2. case k2 of
               Some key \<Rightarrow> ret key
             | None \<Rightarrow> throw (AuthenticationError ''Token signed with unknown key'')))))"

definition verify_token :: "'c env \<Rightarrow> string \<Rightarrow> json \<Rightarrow> ('c, json) act" where
  "verify_token env token key = (\<lambda>w. case jwt_decode env token key (clock w) of
      Decoded j \<Rightarrow> (Inr j, w)
    | JWTError m \<Rightarrow> (Inl (AuthenticationError (''Token verification failed: '' @ m)), w)
    | OtherJOSEError m \<Rightarrow> (Inl (RuntimeError m), w))"

definition decode_clerk_jwt :: "'c env \<Rightarrow> string \<Rightarrow> ('c, token_claims) act" where
  "decode_clerk_jwt env token =
     (case jwt_header env token of
        None \<Rightarrow> throw (AuthenticationError ''Malformed token'')
      | Some header \<Rightarrow>
          bnd (signing_key env header) (\<lambda>key.
          bnd (verify_token env token key) (\<lambda>decoded. lift_sum (claims_of decoded))))"

definition get_claims :: "'c env \<Rightarrow> string \<Rightarrow> ('c, token_claims) act" where
  "get_claims env authorization =
     (if \<not> py_startswith authorization ''Bearer '' then
        throw (HTTPException 401 (JStr ''Invalid authorization header''))
      else let token = py_strip (py_removeprefix authorization ''Bearer '') in
        try_catch (decode_clerk_jwt env token) (\<lambda>e. case e of
            AuthenticationError m \<Rightarrow> throw (HTTPException 401 (JStr m))
          | HttpxError _ \<Rightarrow> throw (HTTPException 503
              (JStr ''Unable to verify credentials (signing keys unavailable)''))
          | _ \<Rightarrow> throw e))"

subsection \<open>Claims\<close>

lemma nonempty_str_Some: "nonempty_str j = Some s \<longleftrightarrow> j = JStr s \<and> s \<noteq> []"
  by (cases j) auto

lemma extract_org_nonempty: "extract_org claims = (Some t, r) \<Longrightarrow> t \<noteq> []"
  by (auto simp: extract_org_def Let_def nonempty_str_Some split: json.splits option.splits)

lemma claims_of_Inr:
  assumes "claims_of decoded = Inr c"
  obtains kvs where "decoded = JObj kvs" "map_of kvs ''sub'' = Some (JStr (user_id c))"
    "user_id c \<noteq> []" "tenant_id c \<noteq> []" "extract_org kvs = (Some (tenant_id c), org_role c)"
    "raw_claims c = decoded"
proof (cases decoded)
  case (JObj kvs)
  with assms that show thesis
    by (auto simp: claims_of_def nonempty_str_Some dest: extract_org_nonempty
        split: option.splits prod.splits)
qed (use assms in \<open>auto simp: claims_of_def\<close>)

lemma find_key_in_sound: "find_key_in kid ks = Inr (Some k) \<Longrightarrow> k \<in> set ks \<and> json_get k ''kid'' = Inr kid"
  by (induction ks) (auto simp: sbind_Inr_iff split: if_splits)

text \<open>The key a successful lookup returns is one of the document's, and has the header's \<open>kid\<close>.\<close>

definition published_key :: "json \<Rightarrow> json \<Rightarrow> json \<Rightarrow> bool" where
  "published_key header jwks k \<longleftrightarrow> find_key header jwks = Inr (Some k)"

lemma published_key_kid:
  "published_key header jwks k \<Longrightarrow> json_get k ''kid'' = json_get header ''kid''"
  by (cases jwks)
    (auto simp: published_key_def find_key_def sbind_Inr_iff dest!: find_key_in_sound
      split: if_splits option.splits)

lemma get_jwks_cached:
  "get_jwks env force w = (Inr j, w') \<Longrightarrow> jwks_cache w' = Some j"
  by (auto simp: get_jwks_def store_jwks_def split: option.splits if_splits elim!: bnd_InrE)

lemma signing_key_published:
  assumes "signing_key env header w = (Inr k, w')"
  shows "\<exists>jwks. jwks_cache w' = Some jwks \<and> published_key header jwks k"
proof -
  from assms obtain j w1 where "get_jwks env False w = (Inr j, w1)"
    and rest: "bnd (lift_sum (find_key header j)) (\<lambda>k. case k of Some key \<Rightarrow> ret key
       | None \<Rightarrow> bnd (get_jwks env True) (\<lambda>jwks2. bnd (lift_sum (find_key header jwks2)) (\<lambda>k2. case k2 of
               Some key \<Rightarrow> ret key
             | None \<Rightarrow> throw (AuthenticationError ''Token signed with unknown key'')))) w1 = (Inr k, w')"
    unfolding signing_key_def by (rule bnd_InrE)
  note c1 = get_jwks_cached [OF this(1)]
  show ?thesis
  proof (cases "find_key header j")
    case (Inr r)
    show ?thesis
    proof (cases r)
      case None
      with rest Inr obtain j2 w2 where j2: "get_jwks env True w1 = (Inr j2, w2)"
        and "bnd (lift_sum (find_key header j2)) (\<lambda>k2. case k2 of Some key \<Rightarrow> ret key
             | None \<Rightarrow> throw (AuthenticationError ''Token signed with unknown key'')) w2 = (Inr k, w')"
        by (auto elim: bnd_InrE)
      then show ?thesis using get_jwks_cached [OF j2]
        by (cases "find_key header j2") (auto simp: published_key_def split: option.splits)
    qed (use rest Inr c1 in \<open>auto simp: published_key_def\<close>)
  qed (use rest in simp)
qed

lemma decode_InrE:
  assumes "decode_clerk_jwt env token w = (Inr c, w')"
  obtains header jwks key decoded where "jwt_header env token = Some header"
    and "jwks_cache w' = Some jwks" and "published_key header jwks key"
    and "jwt_decode env token key (clock w') = Decoded decoded" and "claims_of decoded = Inr c"
proof -
  from assms obtain header where h: "jwt_header env token = Some header"
    and run: "bnd (signing_key env header) (\<lambda>key.
          bnd (verify_token env token key) (\<lambda>decoded. lift_sum (claims_of decoded))) w = (Inr c, w')"
    by (auto simp: decode_clerk_jwt_def split: option.splits)
  from run obtain key w1 where k: "signing_key env header w = (Inr key, w1)"
    and "bnd (verify_token env token key) (\<lambda>decoded. lift_sum (claims_of decoded)) w1 = (Inr c, w')"
    by (rule bnd_InrE)
  then obtain decoded w2 where v: "verify_token env token key w1 = (Inr decoded, w2)"
    and "lift_sum (claims_of decoded) w2 = (Inr c, w')"
    by (auto elim: bnd_InrE)
  then have "claims_of decoded = Inr c" and "w' = w2" by (cases "claims_of decoded"; simp)+
  moreover have "w2 = w1" and "jwt_decode env token key (clock w1) = Decoded decoded"
    using v by (auto simp: verify_token_def split: jwt_result.splits)
  ultimately show thesis using that h signing_key_published [OF k] by auto
qed

subsection \<open>Authentication touches no table\<close>

lemma get_jwks_confined [keep_rules]: "keeps (confined S H L) (get_jwks env force)"
proof -
  have "keeps (confined S H L) (store_jwks env j)" for j
    by (simp add: keeps_def store_jwks_def confined_frame)
  then have "keeps (confined S H L)
      (bnd (fetch_json env (jwks_request env)) (\<lambda>j. seq (store_jwks env j) (ret j)))"
    by (intro keep_rules)
  then show ?thesis by (auto simp: keeps_def get_jwks_def split: option.split)
qed

lemma decode_confined [keep_rules]: "keeps (confined S H L) (decode_clerk_jwt env token)"
proof -
  have "keeps (confined S H L) (verify_token env token key)" for key
    by (auto simp: keeps_def verify_token_def split: jwt_result.split)
  then show ?thesis
    unfolding decode_clerk_jwt_def signing_key_def by (intro keep_rules)
qed

lemma get_claims_confined [keep_rules]: "keeps (confined S H L) (get_claims env authorization)"
  unfolding get_claims_def Let_def
  by (intro keep_rules) (auto intro: keeps_throw split: exn.split)

end
