(* ===== verification/Provision.thy ===== *)
theory Provision
  imports Security
begin

section \<open>Just-in-time provisioning and the product session\<close>

text \<open>
  \<open>app/core/dependencies.py\<close>: \<open>_ensure_user_provisioned\<close> and \<open>get_db\<close>, with the
  organisation branch both provisioning paths have (\<open>_ensure_org_provisioned\<close> of
  \<open>app/core/admin_dependencies.py\<close> repeats it). \<open>product_request\<close> is a route of the product
  API: verify the token, open the transaction, scope it to the token's organisation,
  provision, run the handler, commit.
\<close>

text \<open>What asyncpg accepts for a text column; anything else is refused before it is sent.\<close>

fun column_text :: "json \<Rightarrow> exn + string option" where
  "column_text JNull = Inr None"
| "column_text (JStr s) = Inr (Some s)"
| "column_text _ = Inl TypeError"

fun column_str :: "json \<Rightarrow> exn + string" where
  "column_str (JStr s) = Inr s"
| "column_str _ = Inl TypeError"

definition next_org_id :: "('c, int) act" where
  "next_org_id = (\<lambda>w. (Inr (seq_organisation w), w\<lparr>seq_organisation := seq_organisation w + 1\<rparr>))"

text \<open>\<open>select(Organisation.id).where(Organisation.clerk_org_id == tenant)\<close>\<close>

definition org_pk :: "string \<Rightarrow> ('c, int option) act" where
  "org_pk tenant =
     bnd (sql_first organisation_table (\<lambda>r. org_clerk_org_id r = tenant))
       (\<lambda>r. ret (map_option org_id r))"

text \<open>\<open>OrgType(raw_type) if raw_type else None\<close>, \<open>None\<close> on \<open>ValueError\<close>.\<close>

definition clerk_org_type :: "json \<Rightarrow> exn + OrgType option" where
  "clerk_org_type clerk_org =
     sbind (json_get clerk_org ''public_metadata'') (\<lambda>m.
     sbind (json_get (py_or m (JObj [])) ''type'') (\<lambda>raw_type.
       Inr (case raw_type of JStr s \<Rightarrow> OrgType_of_value s | _ \<Rightarrow> None)))"

definition clerk_org_name :: "json \<Rightarrow> string \<Rightarrow> exn + string" where
  "clerk_org_name clerk_org tenant =
     sbind (json_get clerk_org ''name'') (\<lambda>n. column_str (py_or n (JStr tenant)))"

definition insert_organisation :: "string \<Rightarrow> string \<Rightarrow> OrgType option \<Rightarrow> ('c, unit) act" where
  "insert_organisation tenant nm ty =
     bnd next_org_id (\<lambda>i. bnd utc_now (\<lambda>t.
       sql_insert_do_nothing organisation_table org_clerk_org_id
         \<lparr>org_id = i, org_clerk_org_id = tenant, org_name = nm, org_type = ty, org_created_at = t\<rparr>))"

definition organisation_from_clerk :: "string \<Rightarrow> json \<Rightarrow> ('c, int) act" where
  "organisation_from_clerk tenant clerk_org =
     bnd (lift_sum (clerk_org_type clerk_org)) (\<lambda>ty.
     bnd (lift_sum (clerk_org_name clerk_org tenant)) (\<lambda>nm.
     seq (insert_organisation tenant nm ty)
     (bnd (org_pk tenant) (\<lambda>again. case again of
         Some pk \<Rightarrow> ret pk
       | None \<Rightarrow> throw (RuntimeError ''Organisation row not visible after provisioning'')))))"

definition ensure_org_provisioned :: "'c env \<Rightarrow> token_claims \<Rightarrow> ('c, int) act" where
  "ensure_org_provisioned env claims =
     bnd (org_pk (tenant_id claims)) (\<lambda>found. case found of
         Some pk \<Rightarrow> ret pk
       | None \<Rightarrow> bnd (fetch_clerk_organization env (tenant_id claims))
                   (organisation_from_clerk (tenant_id claims)))"

definition ensure_user_provisioned :: "'c env \<Rightarrow> token_claims \<Rightarrow> ('c, unit) act" where
  "ensure_user_provisioned env claims =
     bnd (user_by_clerk_id (user_id claims)) (\<lambda>existing. case existing of
         Some u \<Rightarrow> whenA (usr_status u \<noteq> ''active'') (user_reactivate (user_id claims))
       | None \<Rightarrow>
           bnd (ensure_org_provisioned env claims) (\<lambda>pk.
             user_upsert pk (user_id claims) (tenant_id claims)
               (str_or (org_role claims) ''member'') ''clerk''))"

text \<open>A transaction whose first statement scopes it to the token's organisation.\<close>

definition scoped_run :: "token_claims \<Rightarrow> ('c, 'a) act \<Rightarrow> ('c, 'a) act" where
  "scoped_run claims m = in_transaction (seq (set_org_scope (tenant_id claims)) m)"

definition get_db :: "'c env \<Rightarrow> token_claims \<Rightarrow> ('c, 'a) act \<Rightarrow> ('c, 'a) act" where
  "get_db env claims handler =
     scoped_run claims (seq (ensure_user_provisioned env claims) handler)"

definition product_request ::
  "'c env \<Rightarrow> string \<Rightarrow> (token_claims \<Rightarrow> ('c, 'a) act) \<Rightarrow> ('c, 'a) act" where
  "product_request env authorization handler =
     bnd (get_claims env authorization) (\<lambda>claims. get_db env claims (handler claims))"

subsection \<open>The tenant invariant\<close>

lemma org_pk_confined [keep_rules]: "keeps (confined S H L) (org_pk t)"
  unfolding org_pk_def by (intro keep_rules orgs.sql_first_keeps)

lemma insert_organisation_confined [keep_rules]:
  "keeps (confined S H L) (insert_organisation t nm ty)"
  unfolding insert_organisation_def
  by (intro keep_rules) (simp add: keeps_def next_org_id_def confined_frame)

lemma ensure_org_confined [keep_rules]:
  "keeps (confined S H L) (ensure_org_provisioned env claims)"
  unfolding ensure_org_provisioned_def organisation_from_clerk_def by (intro keep_rules)

lemma ensure_user_confined [keep_rules]:
  "keeps (confined S H L) (ensure_user_provisioned env claims)"
  unfolding ensure_user_provisioned_def by (intro keep_rules)

lemma scoped_run_confined:
  "keeps (confined S H L) m \<Longrightarrow> tenant_id claims \<in> S \<Longrightarrow> keeps (confined S H L) (scoped_run claims m)"
  unfolding scoped_run_def by (intro transaction_confined keeps_bnd scope_confined)

lemma scoped_run_InrE:
  assumes "scoped_run c m w = (Inr x, w')"
  obtains w1 w2 where "m (w\<lparr>uow := [], guc := Some (tenant_id c)\<rparr>) = (Inr x, w1)"
    and "run_writes (uow w1) (w1\<lparr>uow := []\<rparr>) = (Inr (), w2)" and "w' = w2\<lparr>guc := None, uow := []\<rparr>"
  using assms unfolding scoped_run_def
  by (elim transaction_InrE) (auto simp: set_org_scope_def flush_def)

lemma scoped_run_Inl: "scoped_run c m w = (Inl e, w') \<Longrightarrow> db w' = db w"
  unfolding scoped_run_def by (rule transaction_Inl)

lemma scoped_run_idle: "scoped_run c m w = (r, w') \<Longrightarrow> guc w' = None \<and> uow w' = []"
  by (auto simp: scoped_run_def in_transaction_def split: prod.splits sum.splits)

lemma get_db_confined:
  assumes "keeps (confined S H L) handler" and "tenant_id claims \<in> S"
  shows "keeps (confined S H L) (get_db env claims handler)"
  unfolding get_db_def
  by (intro scoped_run_confined keeps_bnd ensure_user_confined assms)

subsection \<open>What provisioning finds\<close>

text \<open>
  In a session scoped to the caller's organisation an organisation is found exactly when
  one of the table's rows has that Clerk id: the policy and the WHERE clause coincide.
\<close>

definition org_of :: "string \<Rightarrow> db \<Rightarrow> organisation option" where
  "org_of tenant d = first_match (\<lambda>r. org_clerk_org_id r = tenant) (t_organisation d)"

lemma org_pk_scoped:
  "guc w = Some t \<Longrightarrow> org_pk t w = (Inr (map_option org_id (org_of t (db w))), w)"
  by (simp add: org_pk_def sql_first_def first_row_def visible_def clerk_policy_def org_of_def)
    (auto intro: arg_cong [where f = "map_option org_id"] first_match_cong)

lemma org_of_None: "org_of t d = None \<longleftrightarrow> t \<notin> org_clerk_org_id ` set (t_organisation d)"
  by (auto simp: org_of_def first_match_None)

lemma insert_organisation_scoped:
  assumes "guc w = Some t" and "org_of t (db w) = None"
    and "insert_organisation t nm ty w = (Inr x, w')"
  shows "guc w' = Some t" and "org_of t (db w') \<noteq> None"
  using assms
  by (auto simp: insert_organisation_def next_org_id_def utc_now_def act_simps
      sql_insert_do_nothing_def sql_insert_def visible_def clerk_policy_def org_of_None
      split: if_splits option.splits)

lemma external_guc: "external m \<Longrightarrow> m w = (r, w') \<Longrightarrow> guc w' = guc w \<and> db w' = db w"
  by (erule (1) externalE) simp

lemma from_clerk_scoped:
  assumes "guc w = Some t" and "org_of t (db w) = None"
    and "organisation_from_clerk t j w = (Inr pk, w')"
  shows "guc w' = Some t \<and> map_option org_id (org_of t (db w')) = Some pk"
proof -
  from assms(3) obtain ty nm u w2 where ins: "insert_organisation t nm ty w = (Inr u, w2)"
    and last: "bnd (org_pk t) (\<lambda>again. case again of Some pk \<Rightarrow> ret pk
       | None \<Rightarrow> throw (RuntimeError ''Organisation row not visible after provisioning'')) w2 = (Inr pk, w')"
    unfolding organisation_from_clerk_def by (auto elim!: bnd_InrE dest!: lift_sum_InrE)
  from insert_organisation_scoped [OF assms(1,2) ins] last show ?thesis
    by (auto simp: bnd_app org_pk_scoped)
qed

lemma ensure_org_scoped:
  assumes "guc w = Some (tenant_id c)" and "ensure_org_provisioned env c w = (Inr pk, w')"
  shows "guc w' = Some (tenant_id c) \<and> map_option org_id (org_of (tenant_id c) (db w')) = Some pk"
proof (cases "org_of (tenant_id c) (db w)")
  case (Some r)
  with assms show ?thesis
    by (simp add: ensure_org_provisioned_def bnd_app org_pk_scoped)
next
  case None
  with assms have "bnd (fetch_clerk_organization env (tenant_id c))
      (organisation_from_clerk (tenant_id c)) w = (Inr pk, w')"
    by (simp add: ensure_org_provisioned_def bnd_app [of "org_pk t" for t] org_pk_scoped)
  then obtain j w1 where f: "fetch_clerk_organization env (tenant_id c) w = (Inr j, w1)"
    and g: "organisation_from_clerk (tenant_id c) j w1 = (Inr pk, w')" by (rule bnd_InrE)
  from external_guc [OF clerk_external(12) f] assms(1) None from_clerk_scoped [OF _ _ g]
  show ?thesis by simp
qed

lemma insert_organisation_error:
  "insert_organisation t nm ty w \<noteq> (Inl (RuntimeError m), w')"
  by (auto simp: insert_organisation_def next_org_id_def utc_now_def act_simps
      sql_insert_do_nothing_def sql_insert_def split: if_splits option.splits)

lemma json_get_error: "json_get j k \<noteq> Inl (RuntimeError m)"
  by (cases j) auto

lemma org_fields_error:
  "clerk_org_type j \<noteq> Inl (RuntimeError m)" "clerk_org_name j t \<noteq> Inl (RuntimeError m)"
proof -
  show "clerk_org_type j \<noteq> Inl (RuntimeError m)"
    unfolding clerk_org_type_def sbind_def by (auto simp: json_get_error split: sum.split)
  have "column_str v \<noteq> Inl (RuntimeError m)" for v by (cases v) auto
  then show "clerk_org_name j t \<noteq> Inl (RuntimeError m)"
    unfolding clerk_org_name_def sbind_def by (auto simp: json_get_error split: sum.split)
qed

lemma fetch_organisation_error: "fetch_clerk_organization env t w \<noteq> (Inl (RuntimeError m), w')"
  by (auto simp: fetch_clerk_organization_def fetch_json_def http_call_def raise_for_status_def
      response_json_def act_simps split: prod.splits option.splits if_splits)

text \<open>The branch the code marks unreachable is: the inserted row is always visible.\<close>

lemma from_clerk_never_invisible:
  assumes "guc w = Some t" and "org_of t (db w) = None"
  shows "organisation_from_clerk t j w \<noteq> (Inl (RuntimeError m), w')"
proof
  assume "organisation_from_clerk t j w = (Inl (RuntimeError m), w')"
  then obtain ty nm u w2
    where ins: "insert_organisation t nm ty w = (Inr u, w2)"
    and last: "bnd (org_pk t) (\<lambda>again. case again of Some pk \<Rightarrow> ret pk
       | None \<Rightarrow> throw (RuntimeError ''Organisation row not visible after provisioning'')) w2
         = (Inl (RuntimeError m), w')"
    unfolding organisation_from_clerk_def
    by (auto simp: org_fields_error insert_organisation_error
        elim!: bnd_InlE dest!: lift_sum_InrE lift_sum_InlE)
  from insert_organisation_scoped [OF assms ins] last show False
    by (auto simp: bnd_app org_pk_scoped)
qed

lemma ensure_org_never_invisible:
  assumes "guc w = Some (tenant_id c)"
  shows "ensure_org_provisioned env c w \<noteq> (Inl (RuntimeError m), w')"
proof (cases "org_of (tenant_id c) (db w)")
  case (Some r)
  with assms show ?thesis by (simp add: ensure_org_provisioned_def bnd_app org_pk_scoped)
next
  case None
  have "bnd (fetch_clerk_organization env (tenant_id c)) (organisation_from_clerk (tenant_id c)) w
      \<noteq> (Inl (RuntimeError m), w')"
  proof
    assume "bnd (fetch_clerk_organization env (tenant_id c))
      (organisation_from_clerk (tenant_id c)) w = (Inl (RuntimeError m), w')"
    then show False
    proof (cases rule: bnd_InlE)
      case (second j w1)
      with external_guc [OF clerk_external(12) second(1)] assms None
        from_clerk_never_invisible [of w1 "tenant_id c" j m w'] show False by simp
    qed (simp add: fetch_organisation_error)
  qed
  with None assms show ?thesis
    by (simp add: ensure_org_provisioned_def bnd_app [of "org_pk t" for t] org_pk_scoped)
qed

end
