(* ===== verification/AdminGuard.thy ===== *)
theory AdminGuard
  imports Provision
begin

section \<open>Admin provisioning, the downgrade sync, and the guards\<close>

text \<open>
  \<open>app/core/admin_dependencies.py\<close>. An admin route runs two transactions: provisioning
  (organisation, then the \<open>clerk_admin_users\<close> row with the downgrade-only sync), committed
  on its own, and the guard followed by the handler. A guard that refuses rolls back the
  second one only. \<open>admin_in t u d\<close> is the row a session scoped to \<open>t\<close> finds for \<open>u\<close>.
\<close>

definition is_admin_now :: "token_claims \<Rightarrow> bool" where
  "is_admin_now c \<longleftrightarrow> org_role c = Some ''admin''"

text \<open>\<open>updated_at is not None and (utc_now() - updated_at) < grace\<close>\<close>

definition in_grace :: "'c env \<Rightarrow> instant \<Rightarrow> clerk_admin_user \<Rightarrow> bool" where
  "in_grace env now r \<longleftrightarrow> (case adm_updated_at r of
      None \<Rightarrow> False
    | Some t \<Rightarrow> now - t < admin_role_sync_grace_seconds (settings env) * 1000000)"

definition admin_type_for :: "'c env \<Rightarrow> token_claims \<Rightarrow> AdminType" where
  "admin_type_for env c =
     (if tenant_id c = simpero_platform_org_id (settings env) then Platform else Client)"

definition grant_admin :: "'c env \<Rightarrow> token_claims \<Rightarrow> ('c, unit) act" where
  "grant_admin env c =
     bnd (org_pk (tenant_id c)) (\<lambda>pk.
     bnd (fetch_clerk_user_primary_email env (user_id c)) (\<lambda>j.
     bnd (lift_sum (column_text j)) (\<lambda>email.
       case pk of
         None \<Rightarrow> throw (DbError NotNullViolation)
       | Some i \<Rightarrow> reactivate_or_create (user_id c) (tenant_id c) i email (admin_type_for env c))))"

definition ensure_admin_provisioned :: "'c env \<Rightarrow> token_claims \<Rightarrow> ('c, unit) act" where
  "ensure_admin_provisioned env c =
     bnd (admin_by_clerk_id (user_id c)) (\<lambda>existing.
       case (case existing of Some r \<Rightarrow> if adm_status r = ''active'' then Some r else None
             | None \<Rightarrow> None) of
         Some r \<Rightarrow>
           if \<not> is_admin_now c then
             bnd utc_now (\<lambda>now. if in_grace env now r then ret () else admin_deactivate (user_id c))
           else ret ()
       | None \<Rightarrow> if \<not> is_admin_now c then ret () else grant_admin env c)"

definition provision_admin :: "'c env \<Rightarrow> token_claims \<Rightarrow> ('c, unit) act" where
  "provision_admin env c =
     scoped_run c (bnd (ensure_org_provisioned env c) (\<lambda>_. ensure_admin_provisioned env c))"

definition get_admin_db :: "'c env \<Rightarrow> token_claims \<Rightarrow> ('c, 'a) act \<Rightarrow> ('c, 'a) act" where
  "get_admin_db env c handler =
     seq (provision_admin env c) (scoped_run c handler)"

definition require_org_admin :: "token_claims \<Rightarrow> ('c, unit) act" where
  "require_org_admin c =
     bnd (admin_by_clerk_id (user_id c)) (\<lambda>row. case row of
         Some r \<Rightarrow> guard (adm_status r = ''active'') (AuthorizationError ''Org admin privileges required'')
       | None \<Rightarrow> throw (AuthorizationError ''Org admin privileges required''))"

definition require_platform_admin :: "'c env \<Rightarrow> token_claims \<Rightarrow> ('c, unit) act" where
  "require_platform_admin env c =
     (let platform_org = simpero_platform_org_id (settings env) in
      if platform_org = [] then throw (AuthorizationError ''Platform admin surface not configured'')
      else bnd (admin_by_clerk_id (user_id c)) (\<lambda>row. case row of
          Some r \<Rightarrow>
            guard (adm_status r = ''active'' \<and> adm_admin_type r = Platform \<and> tenant_id c = platform_org)
              (AuthorizationError ''Platform admin privileges required'')
        | None \<Rightarrow> throw (AuthorizationError ''Platform admin privileges required'')))"

definition admin_actor :: "token_claims \<Rightarrow> ('c, int \<times> string \<times> string option) act" where
  "admin_actor c =
     bnd (admin_by_clerk_id (user_id c)) (\<lambda>row. case row of
         Some r \<Rightarrow> ret (adm_org_id r, user_id c, adm_email r)
       | None \<Rightarrow> throw AssertionError)"

definition org_admin_route :: "'c env \<Rightarrow> token_claims \<Rightarrow> ('c, 'a) act \<Rightarrow> ('c, 'a) act" where
  "org_admin_route env c handler = get_admin_db env c (seq (require_org_admin c) handler)"

definition platform_route :: "'c env \<Rightarrow> token_claims \<Rightarrow> ('c, 'a) act \<Rightarrow> ('c, 'a) act" where
  "platform_route env c handler = get_admin_db env c (seq (require_platform_admin env c) handler)"

text \<open>
  The audit row every mutating admin router appends: the caller is looked up first, then
  the payload is built, which may raise on a value Clerk returned.
\<close>

definition admin_audit :: "token_claims \<Rightarrow> string \<Rightarrow> exn + json \<Rightarrow> ('c, unit) act" where
  "admin_audit c event payload =
     bnd (admin_actor c) (\<lambda>(org, actor, email).
     bnd (lift_sum payload) (\<lambda>p.
       audit_append \<lparr>ent_org_id = org, ent_actor_id = Some actor, ent_actor_email = email,
         ent_event_type = event, ent_deal_id = None, ent_session_id = None,
         ent_payload = Some p\<rparr>))"

subsection \<open>The tenant invariant\<close>

lemma ensure_admin_confined [keep_rules]:
  "keeps (confined S H L) (ensure_admin_provisioned env c)"
  unfolding ensure_admin_provisioned_def grant_admin_def by (intro keep_rules)

lemma provision_admin_confined:
  "tenant_id c \<in> S \<Longrightarrow> keeps (confined S H L) (provision_admin env c)"
  unfolding provision_admin_def
  by (intro scoped_run_confined keep_rules)

lemma get_admin_db_confined:
  assumes "keeps (confined S H L) handler" and "tenant_id c \<in> S"
  shows "keeps (confined S H L) (get_admin_db env c handler)"
  unfolding get_admin_db_def
  by (intro keeps_bnd provision_admin_confined scoped_run_confined assms)

lemma guards_confined [keep_rules]:
  "keeps (confined S H L) (require_org_admin c)"
  "keeps (confined S H L) (require_platform_admin env c)"
  "keeps (confined S H L) (admin_actor c)"
  "keeps (confined S H L) (admin_audit c event payload)"
  unfolding require_org_admin_def require_platform_admin_def admin_actor_def admin_audit_def Let_def
  by (intro keep_rules)+

lemma org_admin_route_confined:
  "keeps (confined S H L) handler \<Longrightarrow> tenant_id c \<in> S \<Longrightarrow>
     keeps (confined S H L) (org_admin_route env c handler)"
  unfolding org_admin_route_def by (intro get_admin_db_confined keep_rules)

lemma platform_route_confined:
  "keeps (confined S H L) handler \<Longrightarrow> tenant_id c \<in> S \<Longrightarrow>
     keeps (confined S H L) (platform_route env c handler)"
  unfolding platform_route_def by (intro get_admin_db_confined keep_rules)

subsection \<open>The caller's row\<close>

definition admin_in :: "string \<Rightarrow> string \<Rightarrow> db \<Rightarrow> clerk_admin_user option" where
  "admin_in t u d =
     first_match (\<lambda>r. adm_clerk_org_id r = t \<and> adm_clerk_user_id r = u) (t_clerk_admin_users d)"

definition active_admin :: "string \<Rightarrow> string \<Rightarrow> db \<Rightarrow> bool" where
  "active_admin t u d \<longleftrightarrow> (case admin_in t u d of None \<Rightarrow> False | Some r \<Rightarrow> adm_status r = ''active'')"

lemma admin_by_clerk_id_scoped [act_simps]:
  "guc w = Some t \<Longrightarrow> admin_by_clerk_id u w = (Inr (admin_in t u (db w)), w)"
  by (auto simp: admin_by_clerk_id_def sql_first_def first_row_def visible_def clerk_policy_def
      admin_in_def intro: first_match_cong)

lemma require_org_admin_scoped [act_simps]:
  "guc w = Some (tenant_id c) \<Longrightarrow> require_org_admin c w =
     (if active_admin (tenant_id c) (user_id c) (db w) then Inr ()
      else Inl (AuthorizationError ''Org admin privileges required''), w)"
  by (simp add: require_org_admin_def act_simps active_admin_def split: option.split)

lemma require_platform_admin_scoped:
  assumes "guc w = Some (tenant_id c)"
  shows "fst (require_platform_admin env c w) = Inr () \<longleftrightarrow>
    simpero_platform_org_id (settings env) \<noteq> [] \<and> tenant_id c = simpero_platform_org_id (settings env)
    \<and> (\<exists>r. admin_in (tenant_id c) (user_id c) (db w) = Some r \<and> adm_status r = ''active''
          \<and> adm_admin_type r = Platform)"
    and "snd (require_platform_admin env c w) = w"
  using assms
  by (auto simp: require_platform_admin_def Let_def act_simps split: option.splits)

subsection \<open>The statements of provisioning in a scoped session\<close>

definition admins_where ::
  "string \<Rightarrow> string \<Rightarrow> (clerk_admin_user \<Rightarrow> clerk_admin_user) \<Rightarrow> db \<Rightarrow> db" where
  "admins_where t u f d = t_clerk_admin_users_update
     (map_where (\<lambda>r. adm_clerk_org_id r = t \<and> adm_clerk_user_id r = u) f) d"

definition keeps_admin_keys :: "(clerk_admin_user \<Rightarrow> clerk_admin_user) \<Rightarrow> bool" where
  "keeps_admin_keys f \<longleftrightarrow> (\<forall>r. adm_id (f r) = adm_id r \<and> adm_clerk_user_id (f r) = adm_clerk_user_id r
     \<and> adm_clerk_org_id (f r) = adm_clerk_org_id r \<and> adm_org_id (f r) = adm_org_id r)"

lemma row_updates_keep_keys [simp]:
  "keeps_admin_keys (deactivate_row t)" "keeps_admin_keys (activate_row ty t)"
  by (simp_all add: keeps_admin_keys_def)

lemma admin_in_where:
  "keeps_admin_keys f \<Longrightarrow> admin_in t u (admins_where t u f d) = map_option f (admin_in t u d)"
  by (simp add: admin_in_def admins_where_def keeps_admin_keys_def first_match_map_where)

lemma admin_in_where_other:
  "keeps_admin_keys f \<Longrightarrow> u \<noteq> v \<Longrightarrow> admin_in t v (admins_where t u f d) = admin_in t v d"
  by (auto simp: admin_in_def admins_where_def keeps_admin_keys_def
      intro: first_match_map_where_other)

lemma admins_update_scoped:
  assumes wf: "wf_db (db w)" and g: "guc w = Some t" and f: "keeps_admin_keys f"
  shows "sql_update admins_table cols (\<lambda>r. adm_clerk_user_id r = u) f w =
    (Inr (map f (select_rows admins_table (\<lambda>r. adm_clerk_user_id r = u) w)),
     w\<lparr>db := admins_where t u f (db w)\<rparr>)"
proof -
  have ids: "map adm_id (map_where q f xs) = map adm_id xs"
    "map adm_clerk_user_id (map_where q f xs) = map adm_clerk_user_id xs" for q xs
    using f by (simp_all add: keeps_admin_keys_def map_map_where)
  have "update_error admins_table cols (\<lambda>r. adm_clerk_user_id r = u) f w = None"
    using wf_tableD(2) [OF wf] f g
    by (auto simp: update_error_def Let_def wf_table_def ids list_ex_iff visible_def
        clerk_policy_def keeps_admin_keys_def)
  then show ?thesis
    using g by (simp add: sql_update_def admins_where_def visible_def clerk_policy_def eq_commute)
qed

lemma admin_deactivate_scoped:
  "wf_db (db w) \<Longrightarrow> guc w = Some t \<Longrightarrow>
     admin_deactivate u w = (Inr (), w\<lparr>db := admins_where t u (deactivate_row (clock w)) (db w)\<rparr>)"
  by (simp add: admin_deactivate_def utc_now_def bnd_app admins_update_scoped)

lemma admin_in_SomeD: "admin_in t u d = Some r \<Longrightarrow>
    r \<in> set (t_clerk_admin_users d) \<and> adm_clerk_org_id r = t \<and> adm_clerk_user_id r = u"
  unfolding admin_in_def by (drule first_match_Some) simp

text \<open>A row found for \<open>u\<close> in \<open>t\<close> is the only row of that Clerk user.\<close>

lemma admin_in_first:
  assumes "wf_db d" and "admin_in t u d = Some r"
  shows "first_match (\<lambda>r. adm_clerk_user_id r = u) (t_clerk_admin_users d) = Some r"
  using wf_tableD(2) [OF assms(1)] admin_in_SomeD [OF assms(2)]
  by (intro first_match_unique [where k = adm_clerk_user_id]) (auto simp: wf_table_def)

lemma reactivate_existing_scoped:
  assumes wf: "wf_db (db w)" and g: "guc w = Some t" and ex: "admin_in t u (db w) = Some r"
  shows "reactivate_or_create u t i email ty w =
    (Inr (), w\<lparr>seq_admin := seq_admin w + 1,
       db := admins_where t u (activate_row ty (clock w)) (db w)\<rparr>)"
proof -
  have vis: "visible admins_table (w\<lparr>seq_admin := s\<rparr>) r" for s
    using admin_in_SomeD [OF ex] g by (simp add: visible_def clerk_policy_def)
  show ?thesis
    using admin_in_first [OF wf ex] wf g vis
    by (simp add: reactivate_or_create_def next_admin_id_def utc_now_def bnd_app
        sql_insert_do_update_def visible_def clerk_policy_def new_admin_row_def admins_update_scoped)
qed

lemma reactivate_new_scoped:
  assumes "guc w = Some t" and "u \<notin> adm_clerk_user_id ` set (t_clerk_admin_users (db w))"
    and "reactivate_or_create u t i email ty w = (Inr x, w')"
  shows "w' = w\<lparr>seq_admin := seq_admin w + 1, db := t_clerk_admin_users_update
     (\<lambda>rs. rs @ [new_admin_row (seq_admin w) (clock w) u t i email ty]) (db w)\<rparr>"
proof -
  have "first_match (\<lambda>r. adm_clerk_user_id r = u) (t_clerk_admin_users (db w)) = None"
    using assms(2) by (auto simp: first_match_None)
  with assms(1,3) show ?thesis
    by (auto simp: reactivate_or_create_def next_admin_id_def utc_now_def bnd_app
        sql_insert_do_update_def visible_def clerk_policy_def new_admin_row_def sql_insert_def
        split: if_splits option.splits)
qed

lemma reactivate_hidden_scoped:
  assumes "guc w = Some t" and "admin_in t u (db w) = None"
    and "u \<in> adm_clerk_user_id ` set (t_clerk_admin_users (db w))"
  shows "fst (reactivate_or_create u t i email ty w) = Inl (DbError RowSecurity)"
proof -
  obtain r0 where "r0 \<in> set (t_clerk_admin_users (db w))" and "adm_clerk_user_id r0 = u"
    using assms(3) by auto
  then obtain r where r: "first_match (\<lambda>r. adm_clerk_user_id r = u) (t_clerk_admin_users (db w)) = Some r"
    using first_match_ex [of r0 _ "\<lambda>r. adm_clerk_user_id r = u"] by blast
  with assms(2) have "adm_clerk_org_id r \<noteq> t"
    by (auto simp: admin_in_def first_match_None dest: first_match_Some)
  with r assms(1) show ?thesis
    by (simp add: reactivate_or_create_def next_admin_id_def utc_now_def bnd_app
        sql_insert_do_update_def visible_def clerk_policy_def new_admin_row_def)
qed

text \<open>Whatever path it takes, a grant that succeeds leaves an active row of the given type.\<close>

lemma reactivate_or_create_active:
  assumes wf: "wf_db (db w)" and g: "guc w = Some t"
    and run: "reactivate_or_create u t i email ty w = (Inr x, w')"
  shows "\<exists>r. admin_in t u (db w') = Some r \<and> adm_status r = ''active'' \<and> adm_admin_type r = ty"
proof (cases "admin_in t u (db w)")
  case (Some r)
  with reactivate_existing_scoped [OF wf g Some] run show ?thesis by (auto simp: admin_in_where)
next
  case None
  have "u \<notin> adm_clerk_user_id ` set (t_clerk_admin_users (db w))"
    using reactivate_hidden_scoped [OF g None, of i email ty] run by auto
  with None reactivate_new_scoped [OF g _ run] show ?thesis
    by (simp add: admin_in_def first_match_append new_admin_row_def)
qed

end
