(* ===== verification/Fixtures.thy ===== *)
theory Fixtures
  imports AdminGuard
begin

section \<open>A concrete database and concrete services\<close>

text \<open>
  Inputs the witnesses of the properties evaluate on: three organisations (\<open>org_A\<close>,
  \<open>org_B\<close>, and the platform's \<open>org_P\<close>) with a few rows each, and an environment whose HTTP
  peer answers from a fixed table and logs every request, so that a witness also sees
  what was sent. Token decoding is a fixed table as well.
\<close>

definition orgs_demo :: "organisation list" where
  "orgs_demo =
     [\<lparr>org_id = 1, org_clerk_org_id = ''org_A'', org_name = ''Acme Capital'', org_type = Some PE_FIRM, org_created_at = 0\<rparr>,
      \<lparr>org_id = 2, org_clerk_org_id = ''org_B'', org_name = ''Birch'', org_type = None, org_created_at = 0\<rparr>,
      \<lparr>org_id = 3, org_clerk_org_id = ''org_P'', org_name = ''Simpero'', org_type = None, org_created_at = 0\<rparr>]"

definition user_demo :: "int \<Rightarrow> int \<Rightarrow> string \<Rightarrow> string \<Rightarrow> string \<Rightarrow> string \<Rightarrow> user" where
  "user_demo i org c u role st =
     \<lparr>usr_id = i, usr_org_id = org, usr_name = None, usr_email = None, usr_role = role,
      usr_login_method = ''clerk'', usr_clerk_user_id = u, usr_clerk_org_id = c,
      usr_status = st, usr_deactivated_at = None\<rparr>"

definition admin_demo :: "int \<Rightarrow> int \<Rightarrow> string \<Rightarrow> string \<Rightarrow> AdminType \<Rightarrow> string \<Rightarrow> clerk_admin_user" where
  "admin_demo i org c u ty st =
     \<lparr>adm_id = i, adm_clerk_user_id = u, adm_clerk_org_id = c, adm_org_id = org,
      adm_email = Some ''a@example.com'', adm_admin_type = ty, adm_status = st,
      adm_created_at = Some 0, adm_updated_at = None\<rparr>"

definition deal_demo :: "uuid \<Rightarrow> int \<Rightarrow> instant \<Rightarrow> deal" where
  "deal_demo i org t =
     \<lparr>deal_id = i, deal_org_id = org, deal_fund_id = None, deal_name = ''Deal'',
      deal_gp_source = None, deal_size_min_usd = Some 5, deal_size_max_usd = None,
      deal_sector_tags = None, deal_status = ''pending'', deal_created_at = t, deal_updated_at = t\<rparr>"

definition session_demo :: "uuid \<Rightarrow> int \<Rightarrow> uuid \<Rightarrow> session" where
  "session_demo i org deal =
     \<lparr>ses_id = i, ses_org_id = org, ses_user_id = None, ses_deal_id = deal, ses_file_name = ''f.pdf'',
      ses_memo_json = None, ses_composed_at = None, ses_created_at = 0\<rparr>"

definition source_demo :: "uuid \<Rightarrow> int \<Rightarrow> uuid \<Rightarrow> string \<Rightarrow> string \<Rightarrow> data_source" where
  "source_demo i org deal h st =
     \<lparr>ds_id = i, ds_org_id = org, ds_deal_id = deal, ds_storage_key = ''k'', ds_filename = ''f.pdf'',
      ds_declared_sha256 = h, ds_fingerprint = None, ds_status = st, ds_status_updated_at = None,
      ds_created_at = 0\<rparr>"

definition db_demo :: db where
  "db_demo =
     \<lparr>t_organisation = orgs_demo,
      t_users = [user_demo 1 1 ''org_A'' ''carol'' ''member'' ''active'',
                 user_demo 2 1 ''org_A'' ''bob'' ''admin'' ''active'',
                 user_demo 3 2 ''org_B'' ''dave'' ''member'' ''active''],
      t_clerk_admin_users = [admin_demo 1 1 ''org_A'' ''alice'' Client ''active'',
                 admin_demo 2 1 ''org_A'' ''bob'' Client ''active'',
                 admin_demo 3 3 ''org_P'' ''root'' Platform ''active''],
      t_deals = [deal_demo 10 1 0, deal_demo 20 2 0],
      t_sessions = [session_demo 11 1 10, session_demo 21 2 20],
      t_data_source = [source_demo 12 1 10 ''aa'' ''pending'', source_demo 22 2 20 ''aa'' ''verified''],
      t_human_audit_log = [], t_chunks = [], t_claims = [], t_investment_profiles = [],
      t_funds = [], t_ai_audit_log = [], t_corroboration_events = []\<rparr>"

definition ok_json :: "json \<Rightarrow> http_response option" where
  "ok_json j = Some \<lparr>resp_status = 200, resp_json = Some j, resp_text = ''''\<rparr>"

definition membership_demo :: "string \<Rightarrow> string \<Rightarrow> json" where
  "membership_demo u role =
     JObj [(''id'', JStr ''mem_1''), (''role'', JStr role),
           (''public_user_data'', JObj [(''user_id'', JStr u), (''identifier'', JStr ''d@example.com'')])]"

definition answer_demo :: "http_request \<Rightarrow> http_response option" where
  "answer_demo rq =
     (case req_method rq of
        GET \<Rightarrow> ok_json (JObj [(''data'', JArr [membership_demo ''dave'' ''org:member'']),
                          (''keys'', JArr [JObj [(''kid'', JStr ''k1'')]])])
      | PATCH \<Rightarrow> ok_json (membership_demo ''dave'' ''org:admin'')
      | POST \<Rightarrow> ok_json (JObj [(''id'', JStr ''inv_1''), (''email_address'', JStr ''n@example.com''),
                           (''status'', JStr ''pending''), (''created_at'', JInt 1000), (''name'', JStr ''Org'')])
      | DELETE \<Rightarrow> ok_json (JObj []))"

definition settings_demo :: settings where
  "settings_demo =
     \<lparr>clerk_secret_key = ''sk'', clerk_jwks_url = ''https://jwks'', voyage_api_key = ''vk'',
      embedding_model = ''voyage-4-large'', embedding_dimension = 2,
      simpero_platform_org_id = ''org_P'', app_base_url = ''https://app'',
      admin_role_sync_grace_seconds = 120, spaces_bucket = ''bkt''\<rparr>"

definition env_demo :: "http_request list env" where
  "env_demo =
     \<lparr>settings = settings_demo,
      http_send = (\<lambda>rq c. (answer_demo rq, c @ [rq])),
      jwt_header = (\<lambda>t. if t = [] then None else Some (JObj [(''kid'', JStr ''k1'')])),
      jwt_decode = (\<lambda>t k now. Decoded (JObj [(''sub'', JStr t), (''org_id'', JStr ''org_A''),
                                    (''org_role'', JStr ''org:admin'')])),
      pyd_int_of_str = (\<lambda>s. None), pyd_float_of_str = (\<lambda>s. None),
      float_repr = (\<lambda>r. ''0.5''), sha256 = (\<lambda>b. take 1 b),
      monotonic = (\<lambda>c. 0),
      s3_presign = (\<lambda>b k ttl. ''https://s3/'' @ k),
      s3_head = (\<lambda>b k c. (None, c)),
      s3_get = (\<lambda>b k c. (Inr [1, 2, 3], c))\<rparr>"

definition world_demo :: "http_request list world" where
  "world_demo =
     \<lparr>db = db_demo, guc = None, uow = [], svc = [], clock = 500000000,
      rnd = (\<lambda>n. of_nat (100 + n)), rnd_next = 0, seq_organisation = 4, seq_users = 4,
      seq_admin = 4, queue = [], jwks_cache = None, jwks_fetched_at = 0\<rparr>"

definition claims_demo :: "string \<Rightarrow> string \<Rightarrow> string \<Rightarrow> token_claims" where
  "claims_demo t u role = \<lparr>tenant_id = t, user_id = u, org_role = Some role, raw_claims = JNull\<rparr>"

text \<open>The callers of the witnesses.\<close>

definition alice :: token_claims where
  "alice = claims_demo ''org_A'' ''alice'' ''admin''"

definition root :: token_claims where
  "root = claims_demo ''org_P'' ''root'' ''admin''"

definition carol :: token_claims where
  "carol = claims_demo ''org_A'' ''carol'' ''member''"

lemmas demo_defs = db_demo_def orgs_demo_def user_demo_def admin_demo_def deal_demo_def
  session_demo_def source_demo_def env_demo_def world_demo_def claims_demo_def settings_demo_def

lemma wf_db_demo: "wf_db db_demo"
  by (simp add: wf_db_def wf_table_def demo_defs org_ids_def refers_def non_null_def
      ck_data_source_status_def data_source_statuses_def)

lemma world_demo_simps [simp]:
  "db world_demo = db_demo" "guc world_demo = None" "uow world_demo = []" "svc world_demo = []"
  "clock world_demo = 500000000"
  by (simp_all add: world_demo_def)

lemma claims_demo_simps [simp]:
  "tenant_id (claims_demo t u role) = t" "user_id (claims_demo t u role) = u"
  "org_role (claims_demo t u role) = Some role"
  by (simp_all add: claims_demo_def)

lemma env_demo_simps [simp]:
  "settings env_demo = settings_demo" "http_send env_demo rq c = (answer_demo rq, c @ [rq])"
  "simpero_platform_org_id settings_demo = ''org_P''"
  "admin_role_sync_grace_seconds settings_demo = 120" "app_base_url settings_demo = ''https://app''"
  by (simp_all add: env_demo_def settings_demo_def)

lemma callers_demo [simp]:
  "tenant_id alice = ''org_A''" "user_id alice = ''alice''" "org_role alice = Some ''admin''"
  "tenant_id root = ''org_P''" "user_id root = ''root''" "org_role root = Some ''admin''"
  "tenant_id carol = ''org_A''" "user_id carol = ''carol''" "org_role carol = Some ''member''"
  by (simp_all add: alice_def root_def carol_def)

lemma lookups_demo [simp]:
  "org_of ''org_A'' db_demo = Some (orgs_demo ! 0)" "org_of ''org_P'' db_demo = Some (orgs_demo ! 2)"
  "admin_in ''org_A'' ''alice'' db_demo = Some (admin_demo 1 1 ''org_A'' ''alice'' Client ''active'')"
  "admin_in ''org_A'' ''bob'' db_demo = Some (admin_demo 2 1 ''org_A'' ''bob'' Client ''active'')"
  "admin_in ''org_P'' ''root'' db_demo = Some (admin_demo 3 3 ''org_P'' ''root'' Platform ''active'')"
  "admin_in ''org_A'' ''carol'' db_demo = None"
  by (simp_all add: org_of_def admin_in_def demo_defs)

lemma admin_demo_simps [simp]:
  "adm_status (admin_demo i org c u ty st) = st" "adm_updated_at (admin_demo i org c u ty st) = None"
  "adm_admin_type (admin_demo i org c u ty st) = ty" "adm_org_id (admin_demo i org c u ty st) = org"
  by (simp_all add: admin_demo_def)

end
