(* ===== verification/AdminAccess.thy ===== *)
theory AdminAccess
  imports Fixtures
begin

section \<open>Who is an administrator\<close>

text \<open>
  What an admin route decides, seen from outside: the abstract rule for being an active
  administrator after provisioning, the guards that read it, and the durability of the
  downgrade sync. The lemmas first establish that provisioning keeps the session's scope,
  clock and (empty) unit of work, and that its organisation branch leaves every other
  table alone.
\<close>

subsection \<open>Session frame of provisioning\<close>

definition sess :: "string option \<Rightarrow> instant \<Rightarrow> orm_write list \<Rightarrow> 'c world \<Rightarrow> bool" where
  "sess g k us w \<longleftrightarrow> guc w = g \<and> clock w = k \<and> uow w = us"

lemma statements_sess [keep_rules]:
  "keeps (sess g k us) (sql_insert T r)"
  "keeps (sess g k us) (sql_update T cols p f)"
  "keeps (sess g k us) (sql_delete T p)"
  "keeps (sess g k us) (sql_first T p)"
  "keeps (sess g k us) (sql_select T p)"
  by (auto simp: keeps_def sess_def statement_defs split: option.split)

lemma insert_do_nothing_sess [keep_rules]: "keeps (sess g k us) (sql_insert_do_nothing T key r :: ('b, unit) act)"
proof (rule keepsI)
  fix w :: "'b world" assume I: "sess g k us w"
  with keepsD [OF statements_sess(1) I, of T r]
  show "sess g k us (snd (sql_insert_do_nothing T key r w))"
    by (simp add: sql_insert_do_nothing_def)
qed

lemma insert_do_update_sess [keep_rules]: "keeps (sess g k us) (sql_insert_do_update T key r cols f :: ('b, unit) act)"
proof (rule keepsI)
  fix w :: "'b world" assume I: "sess g k us w"
  have "keeps (sess g k us) (seq (sql_update T cols (\<lambda>r'. key r' = key r) f) (ret ()))"
    by (intro keep_rules)
  from keepsD [OF this I] keepsD [OF statements_sess(1) I, of T r] I
  show "sess g k us (snd (sql_insert_do_update T key r cols f w))"
    by (simp add: sql_insert_do_update_def split: option.split)
qed

lemma external_sess: "external m \<Longrightarrow> keeps (sess g k us) m"
  unfolding external_def keeps_def sess_def by (metis outside_simps(2,3,5))

lemma sequences_sess [keep_rules]:
  "keeps (sess g k us) next_admin_id" "keeps (sess g k us) next_user_id"
  "keeps (sess g k us) next_org_id"
  by (simp_all add: keeps_def sess_def next_admin_id_def next_user_id_def next_org_id_def)

lemma ensure_org_sess [keep_rules]: "keeps (sess g k us) (ensure_org_provisioned env c)"
  unfolding ensure_org_provisioned_def organisation_from_clerk_def insert_organisation_def org_pk_def
  by (intro keep_rules external_sess clerk_external)

lemma ensure_admin_sess [keep_rules]: "keeps (sess g k us) (ensure_admin_provisioned env c)"
  unfolding ensure_admin_provisioned_def grant_admin_def org_pk_def admin_by_clerk_id_def
    admin_deactivate_def reactivate_or_create_def
  by (intro keep_rules external_sess clerk_external)

lemma external_keeps_db: "external m \<Longrightarrow> keeps (\<lambda>w. P (db w)) m"
  unfolding external_def keeps_def by (metis outside_simps(1))

definition same_people :: "clerk_admin_user list \<Rightarrow> user list \<Rightarrow> db \<Rightarrow> bool" where
  "same_people A U d \<longleftrightarrow> t_clerk_admin_users d = A \<and> t_users d = U"

lemma ensure_org_other_tables:
  "keeps (\<lambda>w. same_people A U (db w)) (ensure_org_provisioned env c)"
proof -
  have ins: "keeps (\<lambda>w. same_people A U (db w)) (insert_organisation t nm ty :: ('c, unit) act)" for t nm ty
    by (auto simp: same_people_def keeps_def insert_organisation_def next_org_id_def utc_now_def act_simps
        sql_insert_do_nothing_def sql_insert_def split: option.split)
  then show ?thesis
    unfolding ensure_org_provisioned_def organisation_from_clerk_def org_pk_def
    by (intro keep_rules orgs.sql_first_keeps ins external_keeps_db clerk_external)
qed

lemma wf_kept:
  fixes m :: "('c, 'a) act"
  assumes "\<And>S H L. keeps (confined S H L) m" and "wf_db (db w)"
  shows "wf_db (db (snd (m w)))"
proof -
  have "confined UNIV (hidden UNIV (db w)) ([], []) w"
    using assms(2) by (simp add: confined_def scoped_def grown_from_def split: option.split)
  then have "confined UNIV (hidden UNIV (db w)) ([], []) (snd (m w))"
    by (rule keepsD [OF assms(1)])
  then show ?thesis by (simp add: confined_def)
qed

lemma flush_nothing: "uow w = [] \<Longrightarrow> flush w = (Inr (), w)"
  by (simp add: flush_def)

lemma idle_world: "guc w = None \<Longrightarrow> uow w = [] \<Longrightarrow> w\<lparr>guc := None, uow := []\<rparr> = w"
  by (cases w) simp

subsection \<open>The rule\<close>

text \<open>
  An abstract specification of provisioning: who is an active administrator afterwards,
  given the token's role and the row found.
\<close>

definition entitled :: "'c env \<Rightarrow> token_claims \<Rightarrow> instant \<Rightarrow> clerk_admin_user option \<Rightarrow> bool" where
  "entitled env c now existing \<longleftrightarrow> is_admin_now c
     \<or> (case existing of None \<Rightarrow> False | Some r \<Rightarrow> adm_status r = ''active'' \<and> in_grace env now r)"

lemma grant_admin_active:
  assumes wf: "wf_db (db w)" and g: "guc w = Some (tenant_id c)"
    and run: "grant_admin env c w = (Inr x, w')"
  shows "\<exists>r. admin_in (tenant_id c) (user_id c) (db w') = Some r \<and> adm_status r = ''active''
    \<and> adm_admin_type r = admin_type_for env c"
proof -
  from run g obtain j email i w1 where f: "fetch_clerk_user_primary_email env (user_id c) w = (Inr j, w1)"
    and r: "reactivate_or_create (user_id c) (tenant_id c) i email (admin_type_for env c) w1 = (Inr x, w')"
    by (auto simp: grant_admin_def bnd_app [of "org_pk t" for t] org_pk_scoped elim!: bnd_InrE
        dest!: lift_sum_InrE split: option.splits)
  from external_guc [OF clerk_external(11) f] wf g show ?thesis
    by (intro reactivate_or_create_active [OF _ _ r]) simp_all
qed

lemma ensure_admin_entitled:
  assumes wf: "wf_db (db w)" and g: "guc w = Some (tenant_id c)"
    and run: "ensure_admin_provisioned env c w = (Inr x, w')"
  shows "active_admin (tenant_id c) (user_id c) (db w') \<longleftrightarrow>
    entitled env c (clock w) (admin_in (tenant_id c) (user_id c) (db w))"
proof (cases "admin_in (tenant_id c) (user_id c) (db w)")
  case None
  with run g grant_admin_active [OF wf g, of env x w'] show ?thesis
    by (auto simp: ensure_admin_provisioned_def act_simps active_admin_def entitled_def
        split: if_splits)
next
  case (Some r)
  show ?thesis
  proof (cases "adm_status r = ''active''")
    case True
    with Some run g wf show ?thesis
      by (auto simp: ensure_admin_provisioned_def act_simps active_admin_def entitled_def utc_now_def
          admin_deactivate_scoped admin_in_where split: if_splits)
  next
    case False
    with Some run g grant_admin_active [OF wf g, of env x w'] show ?thesis
      by (auto simp: ensure_admin_provisioned_def act_simps active_admin_def entitled_def
          split: if_splits)
  qed
qed

lemma provision_admin_InrE:
  assumes wf: "wf_db (db w)" and run: "provision_admin env c w = (Inr x, w')"
  obtains w1 w2 pk where "ensure_org_provisioned env c
      (w\<lparr>uow := [], guc := Some (tenant_id c)\<rparr>) = (Inr pk, w1)"
    and "ensure_admin_provisioned env c w1 = (Inr x, w2)" and "w' = w2\<lparr>guc := None, uow := []\<rparr>"
    and "guc w1 = Some (tenant_id c)" and "clock w1 = clock w" and "wf_db (db w1)"
    and "t_clerk_admin_users (db w1) = t_clerk_admin_users (db w)" and "t_users (db w1) = t_users (db w)"
proof -
  let ?w = "w\<lparr>uow := [], guc := Some (tenant_id c)\<rparr>"
  from run obtain wa wb
    where body: "bnd (ensure_org_provisioned env c) (\<lambda>_. ensure_admin_provisioned env c) ?w = (Inr x, wa)"
    and fl: "run_writes (uow wa) (wa\<lparr>uow := []\<rparr>) = (Inr (), wb)" and w': "w' = wb\<lparr>guc := None, uow := []\<rparr>"
    unfolding provision_admin_def by (rule scoped_run_InrE)
  from body obtain pk w1 where o: "ensure_org_provisioned env c ?w = (Inr pk, w1)"
    and a: "ensure_admin_provisioned env c w1 = (Inr x, wa)" by (rule bnd_InrE)
  have s1: "sess (Some (tenant_id c)) (clock w) [] w1"
    by (rule keeps_fst [OF ensure_org_sess _ o]) (simp add: sess_def)
  have "sess (Some (tenant_id c)) (clock w) [] wa" by (rule keeps_fst [OF ensure_admin_sess s1 a])
  with fl have "wb = wa" by (cases wa) (simp add: sess_def)
  have same: "t_clerk_admin_users (db w1) = t_clerk_admin_users (db w) \<and> t_users (db w1) = t_users (db w)"
    using keeps_fst [OF ensure_org_other_tables _ o] by (simp add: same_people_def)
  have "wf_db (db w1)"
    using wf_kept [OF ensure_org_confined, of ?w env c] wf o by simp
  with that [OF o a _ _ _ _ _ _] w' s1 same \<open>wb = wa\<close> show thesis by (simp add: sess_def)
qed

subsection \<open>Provisioning when the organisation is known\<close>

lemma ensure_org_found:
  "guc w = Some (tenant_id c) \<Longrightarrow> org_of (tenant_id c) (db w) = Some o1 \<Longrightarrow>
     ensure_org_provisioned env c w = (Inr (org_id o1), w)"
  by (simp add: ensure_org_provisioned_def bnd_app org_pk_scoped)

lemma provision_known_org:
  assumes "org_of (tenant_id c) (db w) \<noteq> None"
    and "ensure_admin_provisioned env c (w\<lparr>uow := [], guc := Some (tenant_id c)\<rparr>) = (Inr (), w1)"
    and "uow w1 = []"
  shows "provision_admin env c w = (Inr (), w1\<lparr>guc := None\<rparr>)"
proof -
  obtain o1 where "org_of (tenant_id c) (db w) = Some o1" using assms(1) by blast
  with assms(2,3) show ?thesis
    by (simp add: provision_admin_def scoped_run_def in_transaction_def bnd_app set_org_scope_def
        ensure_org_found flush_nothing)
qed

lemma idle_scope_refused:
  assumes "guc w = None" and "uow w = []" and "m (w\<lparr>guc := Some t\<rparr>) = (Inl e, w\<lparr>guc := Some t\<rparr>)"
  shows "in_transaction (seq (set_org_scope t) m) w = (Inl e, w)"
  using assms by (cases w) (simp add: in_transaction_def set_org_scope_def bnd_app)

lemma provision_leaves_idle:
  "provision_admin env c w = (r, w') \<Longrightarrow> guc w' = None \<and> uow w' = []"
  by (auto simp: provision_admin_def scoped_run_def in_transaction_def split: prod.splits sum.splits)

subsection \<open>The properties of the admin surface\<close>

text \<open>
  C3: whatever the database held and whatever Clerk answered, an administrator provisioning
  that succeeds leaves the caller an active administrator of the token's organisation
  exactly when the token's role is admin, or when an active row was found that this
  application updated within the grace window.
\<close>

theorem provision_admin_rule:
  assumes "wf_db (db w)" and "provision_admin env c w = (Inr x, w')"
  shows "active_admin (tenant_id c) (user_id c) (db w') \<longleftrightarrow>
    entitled env c (clock w) (admin_in (tenant_id c) (user_id c) (db w))"
proof -
  obtain w1 w2 where a: "ensure_admin_provisioned env c w1 = (Inr x, w2)"
    and w1: "guc w1 = Some (tenant_id c)" "clock w1 = clock w" "wf_db (db w1)"
      "t_clerk_admin_users (db w1) = t_clerk_admin_users (db w)"
    and w': "w' = w2\<lparr>guc := None, uow := []\<rparr>"
    using provision_admin_InrE [OF assms] by metis
  have "admin_in t u (db w1) = admin_in t u (db w)" for t u by (simp add: admin_in_def w1)
  with ensure_admin_entitled [OF w1(3,1) a] w1(2) w' show ?thesis by simp
qed

theorem provision_admin_rule_witness:
  "active_admin ''org_A'' ''alice''
     (db (snd (provision_admin env_demo (claims_demo ''org_A'' ''alice'' ''admin'') world_demo)))"
proof -
  let ?c = "claims_demo ''org_A'' ''alice'' ''admin''"
  have "provision_admin env_demo ?c world_demo = (Inr (), world_demo)"
    by (simp add: provision_admin_def scoped_run_def in_transaction_def set_org_scope_def bnd_app ensure_org_found
        ensure_admin_provisioned_def act_simps is_admin_now_def flush_nothing idle_world)
  with provision_admin_rule [OF _ this] wf_db_demo show ?thesis
    by (simp add: entitled_def is_admin_now_def)
qed

lemma org_admin_gate:
  assumes "provision_admin env c w = (Inr x, w1)"
  shows "org_admin_route env c h w =
    (if active_admin (tenant_id c) (user_id c) (db w1)
     then scoped_run c h w1
     else (Inl (AuthorizationError ''Org admin privileges required''), w1))"
proof -
  let ?m = "seq (require_org_admin c) h"
  have idle: "guc w1 = None" "uow w1 = []" using provision_leaves_idle [OF assms] by simp_all
  have "?m (w1\<lparr>guc := Some (tenant_id c)\<rparr>) =
      (Inl (AuthorizationError ''Org admin privileges required''), w1\<lparr>guc := Some (tenant_id c)\<rparr>)"
    if "\<not> active_admin (tenant_id c) (user_id c) (db w1)"
    using that by (simp add: bnd_app require_org_admin_scoped)
  moreover have "scoped_run c ?m w1 =
      scoped_run c h w1"
    if "active_admin (tenant_id c) (user_id c) (db w1)"
    using that by (simp add: scoped_run_def in_transaction_def set_org_scope_def bnd_app require_org_admin_scoped)
  ultimately show ?thesis
    using assms idle by (simp add: org_admin_route_def get_admin_db_def bnd_app scoped_run_def idle_scope_refused)
qed

text \<open>
  C2: an organisation-admin route runs its handler exactly for callers entitled by the
  rule above. For anyone else it answers 403 without running any of it, and what stays
  is precisely what provisioning committed.
\<close>

theorem org_admin_route_guard:
  assumes "wf_db (db w)" and "provision_admin env c w = (Inr x, w1)"
  shows "org_admin_route env c h w =
    (if entitled env c (clock w) (admin_in (tenant_id c) (user_id c) (db w))
     then scoped_run c h w1
     else (Inl (AuthorizationError ''Org admin privileges required''), w1))"
proof -
  obtain wa wb where a: "ensure_admin_provisioned env c wa = (Inr x, wb)"
    and wa: "guc wa = Some (tenant_id c)" "clock wa = clock w" "wf_db (db wa)"
      "t_clerk_admin_users (db wa) = t_clerk_admin_users (db w)"
    and w1: "w1 = wb\<lparr>guc := None, uow := []\<rparr>"
    using provision_admin_InrE [OF assms] by metis
  have "admin_in t u (db wa) = admin_in t u (db w)" for t u by (simp add: admin_in_def wa)
  with ensure_admin_entitled [OF wa(3,1) a] wa(2) w1
  have "active_admin (tenant_id c) (user_id c) (db w1) \<longleftrightarrow>
      entitled env c (clock w) (admin_in (tenant_id c) (user_id c) (db w))" by simp
  then show ?thesis unfolding org_admin_gate [OF assms(2)] by simp
qed

theorem org_admin_route_guard_witness:
  "fst (org_admin_route env_demo (claims_demo ''org_A'' ''alice'' ''admin'') (ret True) world_demo) = Inr True"
proof -
  let ?c = "claims_demo ''org_A'' ''alice'' ''admin''"
  have p: "provision_admin env_demo ?c world_demo = (Inr (), world_demo)"
    by (simp add: provision_admin_def scoped_run_def in_transaction_def set_org_scope_def bnd_app ensure_org_found
        ensure_admin_provisioned_def act_simps is_admin_now_def flush_nothing idle_world)
  show ?thesis
    using org_admin_route_guard [OF _ p, of "ret True"] wf_db_demo
    by (simp add: entitled_def is_admin_now_def scoped_run_def in_transaction_def set_org_scope_def flush_nothing)
qed

text \<open>
  C20: the downgrade sync is durable. When an active administrator arrives with a token
  that no longer says admin, outside the grace window, the answer is 403 and the row is
  nevertheless left inactive, stamped with the time; nothing else in the database and no
  external service is touched.
\<close>

theorem downgrade_is_durable:
  assumes wf: "wf_db (db w)" and org: "org_of (tenant_id c) (db w) \<noteq> None"
    and row: "admin_in (tenant_id c) (user_id c) (db w) = Some r" "adm_status r = ''active''"
    and tok: "\<not> is_admin_now c" "\<not> in_grace env (clock w) r"
  shows "org_admin_route env c h w =
    (Inl (AuthorizationError ''Org admin privileges required''),
     w\<lparr>guc := None, uow := [],
       db := admins_where (tenant_id c) (user_id c) (deactivate_row (clock w)) (db w)\<rparr>)"
proof -
  let ?d = "admins_where (tenant_id c) (user_id c) (deactivate_row (clock w)) (db w)"
  have "ensure_admin_provisioned env c (w\<lparr>uow := [], guc := Some (tenant_id c)\<rparr>) =
      (Inr (), w\<lparr>uow := [], guc := Some (tenant_id c), db := ?d\<rparr>)"
    using row tok wf
    by (simp add: ensure_admin_provisioned_def act_simps utc_now_def admin_deactivate_scoped)
  then have p: "provision_admin env c w = (Inr (), w\<lparr>uow := [], guc := None, db := ?d\<rparr>)"
    using provision_known_org [OF org] by simp
  show ?thesis
    unfolding org_admin_gate [OF p] using row by (simp add: active_admin_def admin_in_where)
qed

theorem downgrade_is_durable_witness:
  "let r = org_admin_route env_demo (claims_demo ''org_A'' ''bob'' ''member'') (ret ()) world_demo in
     fst r = Inl (AuthorizationError ''Org admin privileges required'')
     \<and> admin_in ''org_A'' ''bob'' (db (snd r))
       = Some (deactivate_row 500000000 (admin_demo 2 1 ''org_A'' ''bob'' Client ''active''))"
proof -
  let ?c = "claims_demo ''org_A'' ''bob'' ''member''"
  have "org_admin_route env_demo ?c (ret ()) world_demo =
      (Inl (AuthorizationError ''Org admin privileges required''),
       world_demo\<lparr>guc := None, uow := [],
         db := admins_where (tenant_id ?c) (user_id ?c) (deactivate_row (clock world_demo)) (db world_demo)\<rparr>)"
    by (rule downgrade_is_durable [where r = "admin_demo 2 1 ''org_A'' ''bob'' Client ''active''"])
      (simp_all add: wf_db_demo is_admin_now_def in_grace_def)
  then show ?thesis by (simp add: admin_in_where)
qed

text \<open>
  No escalation. A caller whose token does not say admin and who has no active row is
  refused with 403 by every organisation-admin route, and the database is unchanged.
\<close>

theorem no_escalation:
  assumes org: "org_of (tenant_id c) (db w) \<noteq> None" and tok: "\<not> is_admin_now c"
    and row: "\<not> active_admin (tenant_id c) (user_id c) (db w)"
  shows "org_admin_route env c h w =
    (Inl (AuthorizationError ''Org admin privileges required''), w\<lparr>guc := None, uow := []\<rparr>)"
proof -
  have "ensure_admin_provisioned env c (w\<lparr>uow := [], guc := Some (tenant_id c)\<rparr>) =
      (Inr (), w\<lparr>uow := [], guc := Some (tenant_id c)\<rparr>)"
    using row tok
    by (auto simp: ensure_admin_provisioned_def act_simps active_admin_def split: option.splits)
  then have p: "provision_admin env c w = (Inr (), w\<lparr>uow := [], guc := None\<rparr>)"
    using provision_known_org [OF org] by simp
  show ?thesis unfolding org_admin_gate [OF p] using row by simp
qed

theorem no_escalation_witness:
  "org_admin_route env_demo (claims_demo ''org_A'' ''carol'' ''member'') (ret ()) world_demo
     = (Inl (AuthorizationError ''Org admin privileges required''), world_demo)"
  using no_escalation [of "claims_demo ''org_A'' ''carol'' ''member''" world_demo env_demo "ret ()"]
  by (simp add: is_admin_now_def active_admin_def idle_world)

end
