(* ===== verification/Scoped.thy ===== *)
theory Scoped
  imports AdminAccess
begin

section \<open>Statements and commits of a scoped session\<close>

text \<open>
  What the repositories' statements and the flush of the unit of work do in a session
  scoped to organisation \<open>t\<close>, as equations on the database: \<open>users_where t i f\<close> and
  \<open>admins_where t u f\<close> update the one row the statement reaches, \<open>with_audit a\<close> appends an
  audit row. The handlers' functional properties are stated in these terms.
\<close>

subsection \<open>The statements in a scoped session\<close>

definition user_in :: "string \<Rightarrow> int \<Rightarrow> db \<Rightarrow> user option" where
  "user_in t i d = first_match (\<lambda>u. usr_clerk_org_id u = t \<and> usr_id u = i) (t_users d)"

definition active_admins :: "string \<Rightarrow> db \<Rightarrow> int" where
  "active_admins t d = int (length (filter (\<lambda>r. adm_clerk_org_id r = t \<and> adm_status r = ''active'')
     (t_clerk_admin_users d)))"

lemma user_by_id_scoped [act_simps]:
  "guc w = Some t \<Longrightarrow> user_by_id i w = (Inr (user_in t i (db w)), w)"
  by (auto simp: user_by_id_def sql_first_def first_row_def visible_def clerk_policy_def user_in_def
      intro: first_match_cong)

lemma count_active_admins_scoped [act_simps]:
  "guc w = Some t \<Longrightarrow> count_active_admins w = (Inr (active_admins t (db w)), w)"
  by (auto simp: count_active_admins_def sql_select_def select_rows_def visible_def clerk_policy_def
      active_admins_def eq_commute bnd_app)

lemma admin_actor_scoped [act_simps]:
  "guc w = Some (tenant_id c) \<Longrightarrow> admin_actor c w =
     (case admin_in (tenant_id c) (user_id c) (db w) of
        None \<Rightarrow> Inl AssertionError | Some r \<Rightarrow> Inr (adm_org_id r, user_id c, adm_email r), w)"
  by (simp add: admin_actor_def act_simps split: option.split)

lemma user_in_SomeD: "user_in t i d = Some u \<Longrightarrow>
    u \<in> set (t_users d) \<and> usr_clerk_org_id u = t \<and> usr_id u = i"
  unfolding user_in_def by (drule first_match_Some) simp

definition users_where :: "string \<Rightarrow> int \<Rightarrow> (user \<Rightarrow> user) \<Rightarrow> db \<Rightarrow> db" where
  "users_where t i f d = t_users_update (map_where (\<lambda>u. usr_clerk_org_id u = t \<and> usr_id u = i) f) d"

definition with_audit :: "human_audit_log \<Rightarrow> db \<Rightarrow> db" where
  "with_audit a d = t_human_audit_log_update (\<lambda>l. l @ [a]) d"

definition keeps_user_keys :: "(user \<Rightarrow> user) \<Rightarrow> bool" where
  "keeps_user_keys f \<longleftrightarrow> (\<forall>u. usr_id (f u) = usr_id u \<and> usr_clerk_user_id (f u) = usr_clerk_user_id u
     \<and> usr_clerk_org_id (f u) = usr_clerk_org_id u \<and> usr_org_id (f u) = usr_org_id u
     \<and> usr_email (f u) = usr_email u)"

lemma users_update_scoped:
  assumes wf: "wf_db (db w)" and g: "guc w = Some t" and f: "keeps_user_keys f"
  shows "sql_update users_table cols (\<lambda>u. usr_id u = i) f w =
    (Inr (map f (select_rows users_table (\<lambda>u. usr_id u = i) w)),
     w\<lparr>db := users_where t i f (db w)\<rparr>)"
proof -
  have ids: "map usr_id (map_where q f xs) = map usr_id xs"
    "map usr_clerk_user_id (map_where q f xs) = map usr_clerk_user_id xs"
    "map usr_email (map_where q f xs) = map usr_email xs" for q xs
    using f by (simp_all add: keeps_user_keys_def map_map_where)
  have "update_error users_table cols (\<lambda>u. usr_id u = i) f w = None"
    using wf_tableD(1) [OF wf] f g
    by (auto simp: update_error_def Let_def wf_table_def ids list_ex_iff visible_def
        clerk_policy_def keeps_user_keys_def)
  then show ?thesis
    using g by (simp add: sql_update_def users_where_def visible_def clerk_policy_def eq_commute)
qed

lemma select_user_row:
  "guc w = Some t \<Longrightarrow> user_in t i (db w) = Some u \<Longrightarrow>
     select_rows users_table (\<lambda>u. usr_id u = i) w \<noteq> []"
  by (drule user_in_SomeD) (auto simp: select_rows_def visible_def clerk_policy_def filter_empty_conv)

lemma user_status_write_scoped:
  assumes "wf_db (db w)" and "guc w = Some t" and "user_in t i (db w) = Some u"
  shows "run_write (UpdateUserStatus i st tm) w =
    (Inr (), w\<lparr>db := users_where t i (\<lambda>u. u\<lparr>usr_status := st, usr_deactivated_at := tm\<rparr>) (db w)\<rparr>)"
  using select_user_row [OF assms(2,3)] users_update_scoped [OF assms(1,2)]
  by (simp add: run_write.simps bnd_app require_rows_def keeps_user_keys_def)

lemma user_role_write_scoped:
  assumes "wf_db (db w)" and "guc w = Some t" and "user_in t i (db w) = Some u"
  shows "run_write (UpdateUserRole i ro) w =
    (Inr (), w\<lparr>db := users_where t i (\<lambda>u. u\<lparr>usr_role := ro\<rparr>) (db w)\<rparr>)"
  using select_user_row [OF assms(2,3)] users_update_scoped [OF assms(1,2)]
  by (simp add: run_write.simps bnd_app require_rows_def keeps_user_keys_def)

lemma audit_write_Inr:
  "run_write (InsertAudit e) w = (Inr x, w') \<Longrightarrow>
     w' = w\<lparr>rnd_next := Suc (rnd_next w), db := with_audit (audit_row e (rnd w (rnd_next w)) (clock w)) (db w)\<rparr>"
  by (auto simp: run_write.simps gen_random_uuid_def utc_now_def bnd_app sql_insert_def with_audit_def
      split: option.splits)

lemma admins_where_users [simp]:
  "t_users (admins_where t u f d) = t_users d" "user_in t i (admins_where t' u f d) = user_in t i d"
  "t_human_audit_log (admins_where t u f d) = t_human_audit_log d"
  by (simp_all add: admins_where_def user_in_def)

lemma users_where_other [simp]:
  "t_clerk_admin_users (users_where t i f d) = t_clerk_admin_users d"
  "admin_in t' u (users_where t i f d) = admin_in t' u d"
  "active_admins t' (users_where t i f d) = active_admins t' d"
  by (simp_all add: users_where_def admin_in_def active_admins_def)

lemma with_audit_other [simp]:
  "t_clerk_admin_users (with_audit a d) = t_clerk_admin_users d" "t_users (with_audit a d) = t_users d"
  "t_human_audit_log (with_audit a d) = t_human_audit_log d @ [a]"
  "admin_in t u (with_audit a d) = admin_in t u d" "user_in t i (with_audit a d) = user_in t i d"
  "active_admins t (with_audit a d) = active_admins t d"
  by (simp_all add: with_audit_def admin_in_def user_in_def active_admins_def)

lemma external_unitE:
  assumes "external m" and "m w = (Inr x, w')"
  obtains c where "w' = outside w c"
  using externalE [OF assms] .


definition user_of :: "string \<Rightarrow> string \<Rightarrow> db \<Rightarrow> user option" where
  "user_of t v d = first_match (\<lambda>u. usr_clerk_org_id u = t \<and> usr_clerk_user_id u = v) (t_users d)"

lemma user_by_clerk_id_scoped [act_simps]:
  "guc w = Some t \<Longrightarrow> user_by_clerk_id v w = (Inr (user_of t v (db w)), w)"
  by (auto simp: user_by_clerk_id_def sql_first_def first_row_def visible_def clerk_policy_def
      user_of_def intro: first_match_cong)

lemma user_of_SomeD: "user_of t v d = Some u \<Longrightarrow>
    u \<in> set (t_users d) \<and> usr_clerk_org_id u = t \<and> usr_clerk_user_id u = v"
  unfolding user_of_def by (drule first_match_Some) simp

lemma user_of_in:
  assumes "wf_db d" and "user_of t v d = Some u"
  shows "user_in t (usr_id u) d = Some u"
  unfolding user_in_def using wf_tableD(1) [OF assms(1)] user_of_SomeD [OF assms(2)]
  by (intro first_match_unique [where k = usr_id]) (auto simp: wf_table_def)

lemma user_of_other [simp]:
  "user_of t v (admins_where t' u f d) = user_of t v d" "user_of t v (with_audit a d) = user_of t v d"
  by (simp_all add: user_of_def)

lemma wf_admins_update:
  fixes w :: "'c world"
  assumes wf: "wf_db (db w)" and g: "guc w = Some t" and f: "keeps_admin_keys f"
  shows "wf_db (admins_where t u f (db w))"
proof -
  have "keeps (confined S H L) (sql_update admins_table [] (\<lambda>r. adm_clerk_user_id r = u) f :: ('c, _) act)" for S H L
    using f by (intro admins.update_confined) (simp add: keeps_admin_keys_def)
  then have "wf_db (db (snd (sql_update admins_table [] (\<lambda>r. adm_clerk_user_id r = u) f w)))"
    using wf by (rule wf_kept)
  then show ?thesis by (simp add: admins_update_scoped [OF wf g f])
qed

subsection \<open>Which steps call an external service\<close>

definition svc_is :: "'c \<Rightarrow> 'c world \<Rightarrow> bool" where
  "svc_is s w \<longleftrightarrow> svc w = s"

lemma statements_svc [keep_rules]:
  "keeps (svc_is s) (sql_insert T r)"
  "keeps (svc_is s) (sql_update T cols p f)"
  "keeps (svc_is s) (sql_first T p)"
  "keeps (svc_is s) (sql_select T p)"
  "keeps (svc_is s) (session_add x)"
  "keeps (svc_is s) gen_random_uuid"
  by (auto simp: keeps_def svc_is_def statement_defs session_add_def gen_random_uuid_def
      split: option.split)

lemma run_writes_svc [keep_rules]: "keeps (svc_is s) (run_writes us)"
proof (induction us)
  case (Cons u us)
  have "keeps (svc_is s) (run_write u)"
    by (cases u) (auto simp: run_write.simps intro!: keep_rules)
  with Cons show ?case by (auto simp: run_writes.simps(2) intro!: keep_rules)
qed (simp add: keep_rules)

lemma flush_svc: "svc (snd (seq flush (ret x) w)) = svc w"
proof -
  have "svc_is (svc w) (w\<lparr>uow := []\<rparr>)" by (simp add: svc_is_def)
  then have "svc_is (svc w) (snd (run_writes (uow w) (w\<lparr>uow := []\<rparr>)))"
    by (rule keepsD [OF run_writes_svc])
  then show ?thesis by (auto simp: svc_is_def flush_def bnd_app split: prod.split sum.split)
qed

lemma scoped_run_svc:
  "svc (snd (scoped_run c m w)) = svc (snd (m (w\<lparr>uow := [], guc := Some (tenant_id c)\<rparr>)))"
proof (cases "m (w\<lparr>uow := [], guc := Some (tenant_id c)\<rparr>)")
  case (Pair r w1)
  show ?thesis
  proof (cases r)
    case (Inr x)
    with Pair flush_svc [of x w1] show ?thesis
      by (auto simp: scoped_run_def in_transaction_def set_org_scope_def split: prod.split sum.split)
  qed (use Pair in \<open>simp add: scoped_run_def in_transaction_def set_org_scope_def\<close>)
qed

lemma scoped_run_throw:
  assumes "m (w\<lparr>uow := [], guc := Some (tenant_id c)\<rparr>) = (Inl e, w\<lparr>uow := [], guc := Some (tenant_id c)\<rparr>)"
  shows "scoped_run c m w = (Inl e, w\<lparr>guc := None, uow := []\<rparr>)"
  using assms by (simp add: scoped_run_def in_transaction_def bnd_app set_org_scope_def)

lemma insert_do_update_svc [keep_rules]:
  "keeps (svc_is s) (sql_insert_do_update T k r cols f :: ('c, unit) act)"
proof (rule keepsI)
  fix w :: "'c world" assume I: "svc_is s w"
  have "keeps (svc_is s) (seq (sql_update T cols (\<lambda>r'. k r' = k r) f) (ret ()) :: ('c, unit) act)"
    by (intro keep_rules)
  from keepsD [OF this I] keepsD [OF statements_svc(1) I, of T r] I
  show "svc_is s (snd (sql_insert_do_update T k r cols f w))"
    by (simp add: sql_insert_do_update_def split: option.split)
qed

lemma next_admin_id_svc [keep_rules]: "keeps (svc_is s) next_admin_id"
  by (simp add: keeps_def next_admin_id_def svc_is_def)

lemma admin_steps_svc [keep_rules]:
  "keeps (svc_is s) (admin_deactivate u)" "keeps (svc_is s) (admin_actor c)"
  "keeps (svc_is s) (admin_audit c event payload)" "keeps (svc_is s) (audit_append e)"
  "keeps (svc_is s) (reactivate_or_create u t org email ty)"
  unfolding admin_deactivate_def admin_actor_def admin_audit_def audit_append_def admin_by_clerk_id_def
    reactivate_or_create_def
  by (intro keep_rules)+

lemma via_clerk_svc: "svc (snd (via_clerk m w)) = svc (snd (m w))"
  by (auto simp: via_clerk_def catch_httpx_def try_catch_def split: prod.split sum.split exn.split)

lemma then_svc:
  assumes "\<And>s x. keeps (svc_is s) (f x)"
  shows "svc (snd (bnd m f w)) = svc (snd (m w))"
proof (cases "m w")
  case (Pair r w1)
  show ?thesis
  proof (cases r)
    case (Inr x)
    from keepsD [OF assms [of "svc w1" x], of w1] Pair Inr show ?thesis by (simp add: svc_is_def)
  qed (use Pair in simp)
qed

end
