(* ===== verification/Accounts.thy ===== *)
theory Accounts
  imports Scoped
begin

section \<open>Product sign-in: provisioning, profile, the sign-in and sign-out trail\<close>

text \<open>
  \<open>app/api/auth.py\<close>, and what \<open>_ensure_user_provisioned\<close> does to the caller's \<open>users\<close> row
  in the scoped session every product request starts with. A request of a known active
  user is its handler alone; of a removed one, the handler after a reactivation; of a new
  one, the handler after an insert; and of a user another organisation's row already
  claims, a handler that finds no user.
\<close>

subsection \<open>The routes\<close>

record user_response =
  ur_id :: int
  ur_org_id :: int
  ur_name :: "string option"
  ur_email :: "string option"
  ur_role :: string
  ur_login_method :: string

definition user_response_of :: "user \<Rightarrow> user_response" where
  "user_response_of u =
     \<lparr>ur_id = usr_id u, ur_org_id = usr_org_id u, ur_name = usr_name u, ur_email = usr_email u,
      ur_role = usr_role u, ur_login_method = usr_login_method u\<rparr>"

definition user_entry :: "token_claims \<Rightarrow> user \<Rightarrow> string \<Rightarrow> audit_entry" where
  "user_entry c u event =
     \<lparr>ent_org_id = usr_org_id u, ent_actor_id = Some (user_id c), ent_actor_email = usr_email u,
      ent_event_type = event, ent_deal_id = None, ent_session_id = None, ent_payload = None\<rparr>"

text \<open>\<open>user = await UserRepo(db).get_by_clerk_id(...); assert user is not None\<close>\<close>

definition caller_row :: "token_claims \<Rightarrow> ('c, user) act" where
  "caller_row c = bnd (user_by_clerk_id (user_id c)) (\<lambda>row. case row of
      None \<Rightarrow> throw AssertionError | Some u \<Rightarrow> ret u)"

definition me :: "token_claims \<Rightarrow> ('c, user_response) act" where
  "me c = bnd (caller_row c) (\<lambda>u.
     seq (audit_append (user_entry c u ''auth_login'')) (ret (user_response_of u)))"

record profile_sync_request =
  ps_name :: "string option"
  ps_email :: "string option"

definition set_fields :: "profile_sync_request \<Rightarrow> user \<Rightarrow> user" where
  "set_fields p u = u\<lparr>usr_name := (case ps_name p of None \<Rightarrow> usr_name u | Some n \<Rightarrow> Some n),
     usr_email := (case ps_email p of None \<Rightarrow> usr_email u | Some e \<Rightarrow> Some e)\<rparr>"

definition sync_profile :: "token_claims \<Rightarrow> profile_sync_request \<Rightarrow> ('c, bool) act" where
  "sync_profile c payload =
     (let fields = (if ps_name payload = None then [] else [''name''])
                 @ (if ps_email payload = None then [] else [''email'']) in
      seq (whenA (fields \<noteq> [])
            (bnd (sql_update users_table fields (\<lambda>u. usr_clerk_user_id u = user_id c)
                    (set_fields payload)) (\<lambda>_. ret ())))
          (ret True))"

definition logout :: "token_claims \<Rightarrow> ('c, bool) act" where
  "logout c = bnd (caller_row c) (\<lambda>u.
     seq (audit_append (user_entry c u ''auth_sign_out'')) (ret True))"

lemma caller_row_scoped [act_simps]:
  "guc w = Some t \<Longrightarrow> caller_row c w =
     (case user_of t (user_id c) (db w) of None \<Rightarrow> Inl AssertionError | Some u \<Rightarrow> Inr u, w)"
  by (simp add: caller_row_def act_simps split: option.split)

lemma accounts_confined [keep_rules]:
  "keeps (confined S H L) (caller_row c)" "keeps (confined S H L) (me c)"
  "keeps (confined S H L) (sync_profile c payload)" "keeps (confined S H L) (logout c)"
  unfolding caller_row_def me_def sync_profile_def logout_def Let_def
  by (intro keep_rules users.update_confined; simp add: set_fields_def)+

subsection \<open>Provisioning the caller\<close>

definition users_of :: "string \<Rightarrow> string \<Rightarrow> (user \<Rightarrow> user) \<Rightarrow> db \<Rightarrow> db" where
  "users_of t v f d = t_users_update (map_where (\<lambda>u. usr_clerk_org_id u = t \<and> usr_clerk_user_id u = v) f) d"

definition reactivated :: "user \<Rightarrow> user" where
  "reactivated u = u\<lparr>usr_status := ''active'', usr_deactivated_at := None\<rparr>"

lemma users_update_by_clerk_id:
  assumes wf: "wf_db (db w)" and g: "guc w = Some t" and f: "keeps_user_keys f"
  shows "sql_update users_table cols (\<lambda>u. usr_clerk_user_id u = v) f w =
    (Inr (map f (select_rows users_table (\<lambda>u. usr_clerk_user_id u = v) w)),
     w\<lparr>db := users_of t v f (db w)\<rparr>)"
proof -
  have ids: "map usr_id (map_where q f xs) = map usr_id xs"
    "map usr_clerk_user_id (map_where q f xs) = map usr_clerk_user_id xs"
    "map usr_email (map_where q f xs) = map usr_email xs" for q xs
    using f by (simp_all add: keeps_user_keys_def map_map_where)
  have "update_error users_table cols (\<lambda>u. usr_clerk_user_id u = v) f w = None"
    using wf_tableD(1) [OF wf] f g
    by (auto simp: update_error_def Let_def wf_table_def ids list_ex_iff visible_def
        clerk_policy_def keeps_user_keys_def)
  then show ?thesis
    using g by (simp add: sql_update_def users_of_def visible_def clerk_policy_def eq_commute)
qed

lemma user_of_update:
  "keeps_user_keys f \<Longrightarrow> user_of t v (users_of t v f d) = map_option f (user_of t v d)"
  by (simp add: user_of_def users_of_def keeps_user_keys_def first_match_map_where)

lemma reactivate_scoped:
  "wf_db (db w) \<Longrightarrow> guc w = Some t \<Longrightarrow>
     user_reactivate v w = (Inr (), w\<lparr>db := users_of t v reactivated (db w)\<rparr>)"
  by (simp add: user_reactivate_def bnd_app users_update_by_clerk_id keeps_user_keys_def
      reactivated_def [abs_def])

lemma provision_active:
  assumes "guc w = Some (tenant_id c)"
    and "user_of (tenant_id c) (user_id c) (db w) = Some u" and "usr_status u = ''active''"
  shows "ensure_user_provisioned env c w = (Inr (), w)"
  using assms by (simp add: ensure_user_provisioned_def act_simps)

lemma provision_removed:
  assumes "wf_db (db w)" and "guc w = Some (tenant_id c)"
    and "user_of (tenant_id c) (user_id c) (db w) = Some u" and "usr_status u \<noteq> ''active''"
  shows "ensure_user_provisioned env c w =
    (Inr (), w\<lparr>db := users_of (tenant_id c) (user_id c) reactivated (db w)\<rparr>)"
  using assms by (simp add: ensure_user_provisioned_def act_simps reactivate_scoped)

definition new_user :: "token_claims \<Rightarrow> int \<Rightarrow> int \<Rightarrow> user" where
  "new_user c i pk = new_user_row i pk (user_id c) (tenant_id c) (str_or (org_role c) ''member'') ''clerk''"

lemma provision_unknown:
  assumes g: "guc w = Some (tenant_id c)" and org: "org_of (tenant_id c) (db w) = Some r"
    and none: "user_of (tenant_id c) (user_id c) (db w) = None"
  shows "ensure_user_provisioned env c w =
    sql_insert_do_nothing users_table usr_clerk_user_id (new_user c (seq_users w) (org_id r))
      (w\<lparr>seq_users := seq_users w + 1\<rparr>)"
  using assms
  by (simp add: ensure_user_provisioned_def ensure_org_provisioned_def bnd_app org_pk_scoped
      user_by_clerk_id_scoped user_upsert_def next_user_id_def new_user_def)

lemma provision_hidden:
  assumes "guc w = Some (tenant_id c)" and "org_of (tenant_id c) (db w) = Some r"
    and "user_of (tenant_id c) (user_id c) (db w) = None"
    and "user_id c \<in> usr_clerk_user_id ` set (t_users (db w))"
  shows "ensure_user_provisioned env c w = (Inr (), w\<lparr>seq_users := seq_users w + 1\<rparr>)"
  using assms
  by (simp add: provision_unknown sql_insert_do_nothing_def new_user_def new_user_row_def
      visible_def clerk_policy_def)

lemma provision_new:
  assumes "guc w = Some (tenant_id c)" and "org_of (tenant_id c) (db w) = Some r"
    and "user_of (tenant_id c) (user_id c) (db w) = None"
    and "user_id c \<notin> usr_clerk_user_id ` set (t_users (db w))"
    and "ensure_user_provisioned env c w = (Inr x, w')"
  shows "w' = w\<lparr>seq_users := seq_users w + 1,
    db := t_users_update (\<lambda>us. us @ [new_user c (seq_users w) (org_id r)]) (db w)\<rparr>"
  using assms
  by (auto simp: provision_unknown sql_insert_do_nothing_def sql_insert_def new_user_def new_user_row_def
      visible_def clerk_policy_def split: if_splits option.splits)

subsection \<open>Commits with one audit row\<close>

text \<open>
  What the policy, the foreign key and the primary key of \<open>human_audit_log\<close> ask of a row
  written in a session scoped to \<open>t\<close>: its organisation is the session's, its id is new.
\<close>

definition audit_accepted :: "string \<Rightarrow> int \<Rightarrow> uuid \<Rightarrow> db \<Rightarrow> bool" where
  "audit_accepted t org u d \<longleftrightarrow> org_policy (Some t) d org \<and> u \<notin> aud_id ` set (t_human_audit_log d)"

lemma scoped_run_cong:
  "m (w\<lparr>uow := [], guc := Some (tenant_id c)\<rparr>) = n (w\<lparr>uow := [], guc := Some (tenant_id c)\<rparr>) \<Longrightarrow>
     scoped_run c m w = scoped_run c n w"
  by (simp add: scoped_run_def in_transaction_def set_org_scope_def bnd_app)

lemma scoped_run_plain:
  assumes "m (w\<lparr>uow := [], guc := Some (tenant_id c)\<rparr>) = (Inr x, w1)" and "uow w1 = []"
  shows "scoped_run c m w = (Inr x, w1\<lparr>guc := None, uow := []\<rparr>)"
  using assms
  by (simp add: scoped_run_def in_transaction_def set_org_scope_def bnd_app flush_def)

lemma audit_write_accepted:
  assumes "wf_db (db w)" and "guc w = Some t"
    and "audit_accepted t (ent_org_id e) (rnd w (rnd_next w)) (db w)"
  shows "run_write (InsertAudit e) w = (Inr (), w\<lparr>rnd_next := Suc (rnd_next w),
    db := with_audit (audit_row e (rnd w (rnd_next w)) (clock w)) (db w)\<rparr>)"
  using assms wf_tableD(7) [OF assms(1)]
  by (auto simp: run_write.simps gen_random_uuid_def utc_now_def bnd_app sql_insert_def insert_error_def
      with_audit_def visible_def audit_accepted_def audit_row_def wf_table_def dest: org_policy_id)

lemma commit_audit:
  assumes m: "m (w\<lparr>uow := [], guc := Some (tenant_id c)\<rparr>) = (Inr x, w1)"
    and w1: "uow w1 = [InsertAudit e]" "guc w1 = Some (tenant_id c)" "wf_db (db w1)"
    and ok: "audit_accepted (tenant_id c) (ent_org_id e) (rnd w1 (rnd_next w1)) (db w1)"
  shows "scoped_run c m w = (Inr x, w1\<lparr>guc := None, uow := [], rnd_next := Suc (rnd_next w1),
    db := with_audit (audit_row e (rnd w1 (rnd_next w1)) (clock w1)) (db w1)\<rparr>)"
proof -
  have "run_write (InsertAudit e) (w1\<lparr>uow := []\<rparr>) = (Inr (), w1\<lparr>uow := [], rnd_next := Suc (rnd_next w1),
      db := with_audit (audit_row e (rnd w1 (rnd_next w1)) (clock w1)) (db w1)\<rparr>)"
    using audit_write_accepted [of "w1\<lparr>uow := []\<rparr>" "tenant_id c" e] w1 ok by simp
  with m w1(1) show ?thesis
    by (simp add: scoped_run_def in_transaction_def set_org_scope_def bnd_app flush_def run_writes_one)
qed

subsection \<open>What a sign-in does\<close>

definition as_active :: "user \<Rightarrow> user" where
  "as_active u = (if usr_status u = ''active'' then u else reactivated u)"

definition provisioned :: "token_claims \<Rightarrow> user \<Rightarrow> db \<Rightarrow> db" where
  "provisioned c u d =
     (if usr_status u = ''active'' then d else users_of (tenant_id c) (user_id c) reactivated d)"

lemma reactivated_keeps: "keeps_user_keys reactivated"
  by (simp add: keeps_user_keys_def reactivated_def)

lemma as_active_fields [simp]:
  "usr_org_id (as_active u) = usr_org_id u" "usr_email (as_active u) = usr_email u"
  "usr_status (as_active u) = ''active''"
  by (simp_all add: as_active_def reactivated_def)

lemma provisioned_user:
  "user_of (tenant_id c) (user_id c) d = Some u \<Longrightarrow>
     user_of (tenant_id c) (user_id c) (provisioned c u d) = Some (as_active u)"
  by (simp add: provisioned_def as_active_def user_of_update reactivated_keeps)

lemma provisioned_other [simp]:
  "t_organisation (provisioned c u d) = t_organisation d"
  "t_human_audit_log (provisioned c u d) = t_human_audit_log d"
  by (simp_all add: provisioned_def users_of_def)

lemma provision_known:
  assumes "wf_db (db w)" and "guc w = Some (tenant_id c)"
    and "user_of (tenant_id c) (user_id c) (db w) = Some u"
  shows "ensure_user_provisioned env c w = (Inr (), w\<lparr>db := provisioned c u (db w)\<rparr>)"
  using provision_active [OF assms(2,3)] provision_removed [OF assms] by (simp add: provisioned_def)

lemma provisioned_wf:
  fixes w :: "'c world"
  assumes "wf_db (db w)" and "user_of (tenant_id c) (user_id c) (db w) = Some u"
  shows "wf_db (provisioned c u (db w))"
proof -
  let ?w = "w\<lparr>guc := Some (tenant_id c)\<rparr>"
  have "wf_db (db (snd (ensure_user_provisioned env c ?w)))" for env :: "'c env"
    by (rule wf_kept [OF ensure_user_confined]) (simp add: assms)
  then show ?thesis using assms by (simp add: provision_known)
qed

lemma audit_accepted_provisioned:
  "audit_accepted t i u (provisioned c v d) = audit_accepted t i u d"
  by (simp add: audit_accepted_def org_policy_def)

text \<open>
  C22: signing in, for a user the organisation's \<open>users\<close> table knows. The request answers
  with the caller's row, appends one \<open>auth_login\<close> row naming the caller, and changes
  nothing else, except that a removed member's row becomes active again: whoever still
  holds a valid token of the organisation undoes the removal by using it.
\<close>

theorem sign_in:
  assumes wf: "wf_db (db w)" and u: "user_of (tenant_id c) (user_id c) (db w) = Some u"
    and ok: "audit_accepted (tenant_id c) (usr_org_id u) (rnd w (rnd_next w)) (db w)"
  shows "get_db env c (me c) w =
    (Inr (user_response_of (as_active u)), w\<lparr>guc := None, uow := [], rnd_next := Suc (rnd_next w),
       db := with_audit (audit_row (user_entry c (as_active u) ''auth_login'') (rnd w (rnd_next w)) (clock w))
         (provisioned c u (db w))\<rparr>)"
proof -
  let ?w = "w\<lparr>uow := [], guc := Some (tenant_id c)\<rparr>"
  let ?v = "?w\<lparr>db := provisioned c u (db w)\<rparr>"
  let ?e = "user_entry c (as_active u) ''auth_login''"
  have prov: "ensure_user_provisioned env c ?w = (Inr (), ?v)" using wf u by (simp add: provision_known)
  have "me c ?v = (Inr (user_response_of (as_active u)), ?v\<lparr>uow := [InsertAudit ?e]\<rparr>)"
    using u by (simp add: me_def act_simps provisioned_user audit_append_def session_add_def)
  with prov have run: "seq (ensure_user_provisioned env c) (me c) ?w =
      (Inr (user_response_of (as_active u)), ?v\<lparr>uow := [InsertAudit ?e]\<rparr>)" by simp
  have "ent_org_id ?e = usr_org_id u" by (simp add: user_entry_def)
  with commit_audit [where m = "seq (ensure_user_provisioned env c) (me c)" and w = w and c = c, OF run] ok provisioned_wf [OF wf u] show ?thesis
    by (simp add: get_db_def audit_accepted_provisioned)
qed

text \<open>
  C39: \<open>users.clerk_user_id\<close> is unique across organisations while the lookup sees only the
  caller's: someone whom another organisation's table already holds is inserted nowhere,
  so the handler's assertion fails and every request of theirs that needs the row is a 500
  that changes no table.
\<close>

theorem second_organisation_sign_in_fails:
  assumes "user_of (tenant_id c) (user_id c) (db w) = None"
    and "user_id c \<in> usr_clerk_user_id ` set (t_users (db w))"
    and "org_of (tenant_id c) (db w) = Some r"
  shows "fst (get_db env c (me c) w) = Inl AssertionError \<and> http_status AssertionError = 500
    \<and> db (snd (get_db env c (me c) w)) = db w"
proof -
  let ?w = "w\<lparr>uow := [], guc := Some (tenant_id c)\<rparr>"
  have "ensure_user_provisioned env c ?w = (Inr (), ?w\<lparr>seq_users := seq_users w + 1\<rparr>)"
    using assms by (simp add: provision_hidden)
  moreover have "me c (?w\<lparr>seq_users := seq_users w + 1\<rparr>) =
      (Inl AssertionError, ?w\<lparr>seq_users := seq_users w + 1\<rparr>)"
    using assms(1) by (simp add: me_def bnd_app caller_row_scoped)
  ultimately have "seq (ensure_user_provisioned env c) (me c) ?w =
      (Inl AssertionError, ?w\<lparr>seq_users := seq_users w + 1\<rparr>)" by simp
  then show ?thesis
    by (simp add: get_db_def scoped_run_def in_transaction_def set_org_scope_def bnd_app)
qed

text \<open>
  The first sign-in of a user no organisation knows creates exactly their row, active,
  in the caller's organisation, with the token's role or \<open>member\<close>, and the \<open>auth_login\<close> row.
\<close>

theorem first_sign_in:
  assumes wf: "wf_db (db w)" and org: "org_of (tenant_id c) (db w) = Some r"
    and new: "user_id c \<notin> usr_clerk_user_id ` set (t_users (db w))"
      "seq_users w \<notin> usr_id ` set (t_users (db w))"
    and ok: "audit_accepted (tenant_id c) (org_id r) (rnd w (rnd_next w)) (db w)"
  shows "let u = new_user c (seq_users w) (org_id r) in get_db env c (me c) w =
    (Inr (user_response_of u), w\<lparr>guc := None, uow := [], rnd_next := Suc (rnd_next w),
       seq_users := seq_users w + 1,
       db := with_audit (audit_row (user_entry c u ''auth_login'') (rnd w (rnd_next w)) (clock w))
         (t_users_update (\<lambda>us. us @ [u]) (db w))\<rparr>)"
proof -
  define u where "u = new_user c (seq_users w) (org_id r)"
  define w1 where "w1 = w\<lparr>uow := [], guc := Some (tenant_id c), seq_users := seq_users w + 1\<rparr>"
  let ?d = "t_users_update (\<lambda>us. us @ [u]) (db w)"
  have fields: "usr_clerk_user_id u = user_id c" "usr_clerk_org_id u = tenant_id c" "usr_id u = seq_users w"
    "usr_org_id u = org_id r" "usr_email u = None" by (simp_all add: u_def new_user_def new_user_row_def)
  have none: "user_of (tenant_id c) (user_id c) (db w) = None"
    using new(1) by (simp add: user_of_def first_match_None) (metis image_eqI)
  have "org_id r \<in> org_ids (db w)" using ok by (auto simp: audit_accepted_def dest: org_policy_id)
  then have "insert_error users_table u w1 = None"
    using wf_tableD(1) [OF wf] new fields
    by (auto simp: insert_error_def w1_def visible_def clerk_policy_def wf_table_def non_null_def)
  then have ins: "sql_insert users_table u w1 = (Inr (), w1\<lparr>db := ?d\<rparr>)"
    by (simp add: sql_insert_def w1_def)
  have "ensure_user_provisioned env c (w\<lparr>uow := [], guc := Some (tenant_id c)\<rparr>) =
      sql_insert_do_nothing users_table usr_clerk_user_id u w1"
    using provision_unknown [of "w\<lparr>uow := [], guc := Some (tenant_id c)\<rparr>" c r env] org none
    by (simp add: u_def w1_def)
  also have "\<dots> = (Inr (), w1\<lparr>db := ?d\<rparr>)"
    using ins fields new(1) by (simp add: sql_insert_do_nothing_def visible_def clerk_policy_def w1_def)
  finally have prov: "ensure_user_provisioned env c (w\<lparr>uow := [], guc := Some (tenant_id c)\<rparr>)
      = (Inr (), w1\<lparr>db := ?d\<rparr>)" .
  have "user_of (tenant_id c) (user_id c) ?d = Some u"
    using none fields by (simp add: user_of_def first_match_append)
  then have run: "seq (ensure_user_provisioned env c) (me c) (w\<lparr>uow := [], guc := Some (tenant_id c)\<rparr>) =
      (Inr (user_response_of u), w1\<lparr>db := ?d, uow := [InsertAudit (user_entry c u ''auth_login'')]\<rparr>)"
    using prov
    by (simp add: me_def act_simps audit_append_def session_add_def w1_def)
  have "wf_db (db (snd (sql_insert users_table u w1)))"
    by (rule wf_kept [OF users.insert_confined]) (simp add: w1_def wf)
  then have "wf_db ?d" using ins by simp
  moreover have "ent_org_id (user_entry c u ''auth_login'') = org_id r" by (simp add: user_entry_def fields)
  ultimately have "get_db env c (me c) w =
    (Inr (user_response_of u), w\<lparr>guc := None, uow := [], rnd_next := Suc (rnd_next w),
       seq_users := seq_users w + 1,
       db := with_audit (audit_row (user_entry c u ''auth_login'') (rnd w (rnd_next w)) (clock w)) ?d\<rparr>)"
    using commit_audit [where m = "seq (ensure_user_provisioned env c) (me c)" and w = w and c = c, OF run] ok
    by (simp add: get_db_def audit_accepted_def org_policy_def w1_def)
  then show ?thesis by (simp add: u_def)
qed

subsection \<open>The profile sync\<close>

lemma non_null_simps [simp]:
  "non_null [] = []" "non_null (None # xs) = non_null xs" "non_null (Some x # xs) = x # non_null xs"
  "non_null (xs @ ys) = non_null xs @ non_null ys"
  by (simp_all add: non_null_def)

lemma set_non_null: "x \<in> set (non_null xs) \<longleftrightarrow> Some x \<in> set xs"
  by (auto simp: non_null_def image_iff)

lemma split_hit:
  assumes "distinct (map k us)" and "x \<in> set us" and "hit x" and "\<And>y. hit y \<Longrightarrow> k y = k x"
  obtains as bs where "us = as @ x # bs" and "\<And>f. map_where hit f us = as @ f x # bs"
    and "\<And>y. y \<in> set as \<union> set bs \<Longrightarrow> \<not> hit y"
proof -
  obtain as bs where us: "us = as @ x # bs" using split_list [OF assms(2)] by blast
  have no: "\<not> hit y" if "y \<in> set as \<union> set bs" for y
  proof
    assume "hit y"
    then have "k y = k x" by (rule assms(4))
    moreover have "k x \<notin> k ` (set as \<union> set bs)" using assms(1) us by auto
    ultimately show False using that by (metis image_eqI)
  qed
  then have "map_where hit f us = as @ f x # bs" for f
    using assms(3) us map_where_none [of as hit f] map_where_none [of bs hit f]
    by (simp add: map_where_def)
  with us no that show thesis by blast
qed

definition email_taken :: "string \<Rightarrow> string \<Rightarrow> string \<Rightarrow> db \<Rightarrow> bool" where
  "email_taken t v e d \<longleftrightarrow> list_ex (\<lambda>u. usr_email u = Some e
     \<and> \<not> (usr_clerk_org_id u = t \<and> usr_clerk_user_id u = v)) (t_users d)"

text \<open>
  The profile sync. It fills in the caller's own name and email and no other row;
  unless the given email belongs to any other row of the table, of whatever organisation,
  which is refused with a unique violation: the index sees the rows the policy hides.
\<close>

theorem sync_profile_spec:
  assumes wf: "wf_db (db w)" and g: "guc w = Some (tenant_id c)"
    and u: "user_of (tenant_id c) (user_id c) (db w) = Some u"
  shows "sync_profile c p w =
    (if \<exists>e. ps_email p = Some e \<and> email_taken (tenant_id c) (user_id c) e (db w)
     then (Inl (DbError UniqueViolation), w)
     else (Inr True, w\<lparr>db := users_of (tenant_id c) (user_id c) (set_fields p) (db w)\<rparr>))"
proof -
  let ?hit = "\<lambda>u. usr_clerk_org_id u = tenant_id c \<and> usr_clerk_user_id u = user_id c"
  let ?us = "t_users (db w)"
  have uniq: "distinct (map usr_id ?us)" "distinct (map usr_clerk_user_id ?us)"
    "distinct (non_null (map usr_email ?us))" and fk: "\<forall>r\<in>set ?us. usr_org_id r \<in> org_ids (db w)"
    using wf_tableD(1) [OF wf] by (auto simp: wf_table_def)
  obtain as bs where us: "?us = as @ u # bs" and upd: "\<And>f. map_where ?hit f ?us = as @ f u # bs"
    and others: "\<And>y. y \<in> set as \<union> set bs \<Longrightarrow> \<not> ?hit y"
    using split_hit [OF uniq(2), of u ?hit] user_of_SomeD [OF u] by auto
  have taken: "email_taken (tenant_id c) (user_id c) e (db w) \<longleftrightarrow> (\<exists>x \<in> set as \<union> set bs. usr_email x = Some e)" for e
    using user_of_SomeD [OF u] others unfolding email_taken_def list_ex_iff us by auto
  show ?thesis
  proof (cases "ps_name p = None \<and> ps_email p = None")
    case True
    then have "set_fields p = (\<lambda>u. u)" by (auto simp: set_fields_def)
    then have "users_of (tenant_id c) (user_id c) (set_fields p) (db w) = db w"
      by (simp add: users_of_def map_where_def)
    with True show ?thesis by (simp add: sync_profile_def)
  next
    case False
    have keys: "usr_id (set_fields p x) = usr_id x" "usr_clerk_user_id (set_fields p x) = usr_clerk_user_id x"
      "usr_clerk_org_id (set_fields p x) = usr_clerk_org_id x" "usr_org_id (set_fields p x) = usr_org_id x" for x
      by (simp_all add: set_fields_def)
    have ids: "map usr_id (map_where q (set_fields p) xs) = map usr_id xs"
      "map usr_clerk_user_id (map_where q (set_fields p) xs) = map usr_clerk_user_id xs" for q xs
      by (simp_all add: keys map_map_where)
    have emails: "distinct (non_null (map usr_email (map_where ?hit (set_fields p) ?us)))
        \<longleftrightarrow> \<not> (\<exists>e. ps_email p = Some e \<and> email_taken (tenant_id c) (user_id c) e (db w))"
    proof (cases "ps_email p")
      case None
      then have "usr_email (set_fields p u) = usr_email u" by (simp add: set_fields_def)
      with uniq(3) None show ?thesis unfolding upd by (simp add: us)
    next
      case (Some e)
      then have "usr_email (set_fields p u) = Some e" by (simp add: set_fields_def)
      with uniq(3) Some show ?thesis
        unfolding upd taken by (cases "usr_email u") (auto simp: us set_non_null image_iff)
    qed
    have "update_error users_table cols (\<lambda>u. usr_clerk_user_id u = user_id c) (set_fields p) w =
      (if \<exists>e. ps_email p = Some e \<and> email_taken (tenant_id c) (user_id c) e (db w)
       then Some UniqueViolation else None)" for cols
      using g fk emails uniq
      by (simp add: update_error_def Let_def visible_def clerk_policy_def keys list_ex_iff ids eq_commute [of "tenant_id c"]) blast
    with False g show ?thesis
      by (auto simp: sync_profile_def sql_update_def bnd_app users_of_def visible_def clerk_policy_def
          eq_commute [of "tenant_id c"])
  qed
qed

end
