(* ===== verification/JsonText.thy ===== *)
theory JsonText
  imports Environment
begin

section \<open>JSON text and Pydantic's reading of JSON values\<close>

text \<open>
  \<open>json.dumps\<close> with its defaults (\<open>ensure_ascii\<close>, separators \<open>", "\<close> and \<open>": "\<close>), which
  two responses carry, and the lax reading Pydantic gives a decoded value in the numeric
  and list fields of the response models. A value a field refuses is a
  \<open>ValidationError\<close>, which is a \<open>ValueError\<close>. The values read come from JSONB columns, which
  hold no non-finite number.
\<close>

subsection \<open>\<open>json.dumps\<close>\<close>

fun str_nat :: "nat \<Rightarrow> string" where
  "str_nat n = (if n < 10 then [hex_digit n] else str_nat (n div 10) @ [hex_digit (n mod 10)])"

declare str_nat.simps [simp del]

definition str_int :: "int \<Rightarrow> string" where
  "str_int i = (if i < 0 then CHR ''-'' # str_nat (nat (- i)) else str_nat (nat i))"

definition json_escape :: "char \<Rightarrow> string" where
  "json_escape c =
     (let n = (of_char c :: nat) in
      if c = CHR 0x22 then [CHR 0x5C, CHR 0x22]
      else if n = 92 then [CHR 0x5C, CHR 0x5C]
      else if n = 10 then [CHR 0x5C, CHR ''n'']
      else if n = 13 then [CHR 0x5C, CHR ''r'']
      else if n = 9 then [CHR 0x5C, CHR ''t'']
      else if n = 12 then [CHR 0x5C, CHR ''f'']
      else if n = 8 then [CHR 0x5C, CHR ''b'']
      else if 32 \<le> n \<and> n \<le> 126 then [c]
      else [CHR 0x5C, CHR ''u''] @ hex_pad 4 n)"

definition json_string :: "string \<Rightarrow> string" where
  "json_string s = [CHR 0x22] @ concat (map json_escape s) @ [CHR 0x22]"

fun json_dumps :: "(rat \<Rightarrow> string) \<Rightarrow> json \<Rightarrow> string" where
  "json_dumps fl JNull = ''null''"
| "json_dumps fl (JBool b) = (if b then ''true'' else ''false'')"
| "json_dumps fl (JInt i) = str_int i"
| "json_dumps fl (JFloat r) = fl r"
| "json_dumps fl (JNonFinite x) = (case x of NaN \<Rightarrow> ''NaN'' | PosInf \<Rightarrow> ''Infinity'' | NegInf \<Rightarrow> ''-Infinity'')"
| "json_dumps fl (JStr s) = json_string s"
| "json_dumps fl (JArr xs) = ''['' @ py_join '', '' (map (json_dumps fl) xs) @ '']''"
| "json_dumps fl (JObj kvs) =
     ''{'' @ py_join '', '' (map (\<lambda>kv. json_string (fst kv) @ '': '' @ json_dumps fl (snd kv)) kvs) @ ''}''"

definition printable :: "string \<Rightarrow> bool" where
  "printable s \<longleftrightarrow> (\<forall>c \<in> set s. 32 \<le> (of_char c :: nat) \<and> (of_char c :: nat) \<le> 126)"

lemma printable_simps [simp]:
  "printable []" "printable (c # s) \<longleftrightarrow> 32 \<le> (of_char c :: nat) \<and> (of_char c :: nat) \<le> 126 \<and> printable s"
  "printable (s @ t) \<longleftrightarrow> printable s \<and> printable t"
  by (auto simp: printable_def)

lemma printable_concat: "(\<And>s. s \<in> set ss \<Longrightarrow> printable s) \<Longrightarrow> printable (concat ss)"
  by (auto simp: printable_def)

lemma printable_join:
  "printable sep \<Longrightarrow> (\<And>s. s \<in> set ss \<Longrightarrow> printable s) \<Longrightarrow> printable (py_join sep ss)"
  by (induction sep ss rule: py_join.induct) auto

lemma printable_hex: "set s \<subseteq> set hex_chars \<Longrightarrow> printable s"
proof -
  assume "set s \<subseteq> set hex_chars"
  moreover have "printable hex_chars" by (simp add: hex_chars_def)
  ultimately show "printable s" by (auto simp: printable_def)
qed

lemma printable_str_nat: "printable (str_nat n)"
proof (induction n rule: str_nat.induct)
  case (1 n)
  have digit: "printable [hex_digit k]" if "k < 10" for k
    using that by (intro printable_hex) (simp add: hex_digit_set)
  show ?case
  proof (cases "n < 10")
    case True
    with digit [of n] show ?thesis by (subst str_nat.simps) simp
  next
    case False
    with 1 digit [of "n mod 10"] show ?thesis by (subst str_nat.simps) simp
  qed
qed

lemma printable_str_int: "printable (str_int i)"
  by (simp add: str_int_def printable_str_nat)

lemma printable_escape: "printable (json_escape c)"
  using printable_hex [OF hex_pad_set, of 4 "of_char c"]
  by (simp add: json_escape_def Let_def)

lemma printable_string: "printable (json_string s)"
  by (auto simp: json_string_def printable_escape intro!: printable_concat)

lemma dumps_printable:
  assumes "\<And>r. printable (fl r)"
  shows "printable (json_dumps fl j)"
  using assms
proof (induction fl j rule: json_dumps.induct)
  case (7 fl xs)
  then have "printable (py_join '', '' (map (json_dumps fl) xs))"
    by (intro printable_join) auto
  then show ?case by simp
next
  case (8 fl kvs)
  have "printable (json_string (fst kv) @ '': '' @ json_dumps fl (snd kv))" if "kv \<in> set kvs" for kv
    using 8 that by (simp add: printable_string)
  then have "printable (py_join '', '' (map (\<lambda>kv. json_string (fst kv) @ '': '' @ json_dumps fl (snd kv)) kvs))"
    by (intro printable_join) auto
  then show ?case by simp
qed (simp_all add: printable_str_int printable_string split: nonfinite.split)

subsection \<open>Response fields\<close>

definition invalid :: "exn + 'a" where
  "invalid = Inl (ValueError ''validation error'')"

fun pyd_opt_int :: "(string \<Rightarrow> int option) \<Rightarrow> json \<Rightarrow> exn + int option" where
  "pyd_opt_int rd JNull = Inr None"
| "pyd_opt_int rd (JInt i) = Inr (Some i)"
| "pyd_opt_int rd (JBool b) = Inr (Some (if b then 1 else 0))"
| "pyd_opt_int rd (JFloat r) = (if r = of_int \<lfloor>r\<rfloor> then Inr (Some \<lfloor>r\<rfloor>) else invalid)"
| "pyd_opt_int rd (JStr s) = (case rd s of None \<Rightarrow> invalid | Some i \<Rightarrow> Inr (Some i))"
| "pyd_opt_int rd _ = invalid"

fun pyd_opt_float :: "(string \<Rightarrow> rat option) \<Rightarrow> json \<Rightarrow> exn + rat option" where
  "pyd_opt_float rd JNull = Inr None"
| "pyd_opt_float rd (JInt i) = Inr (Some (of_int i))"
| "pyd_opt_float rd (JBool b) = Inr (Some (if b then 1 else 0))"
| "pyd_opt_float rd (JFloat r) = Inr (Some r)"
| "pyd_opt_float rd (JStr s) = (case rd s of None \<Rightarrow> invalid | Some r \<Rightarrow> Inr (Some r))"
| "pyd_opt_float rd _ = invalid"

fun pyd_str_list :: "json \<Rightarrow> exn + string list" where
  "pyd_str_list (JArr xs) = smap pyd_str xs"
| "pyd_str_list _ = invalid"

fun pyd_opt_str_list :: "json \<Rightarrow> exn + string list option" where
  "pyd_opt_str_list JNull = Inr None"
| "pyd_opt_str_list j = sbind (pyd_str_list j) (\<lambda>xs. Inr (Some xs))"

fun pyd_dict :: "json \<Rightarrow> exn + (string \<times> json) list" where
  "pyd_dict (JObj kvs) = Inr kvs"
| "pyd_dict _ = invalid"

definition pyd_opt_literal :: "string list \<Rightarrow> json \<Rightarrow> exn + string option" where
  "pyd_opt_literal vs j = (case j of JNull \<Rightarrow> Inr None
     | JStr s \<Rightarrow> if s \<in> set vs then Inr (Some s) else invalid | _ \<Rightarrow> invalid)"

lemma pyd_str_list_strs: "pyd_str_list (JArr (map JStr ss)) = Inr ss"
proof -
  have "smap pyd_str (map JStr ss) = Inr ss" by (induction ss) simp_all
  then show ?thesis by simp
qed

end
