(* ===== verification/Summaries.thy ===== *)
theory Summaries
  imports JsonText
begin

section \<open>Memo summaries and pipeline steps\<close>

text \<open>
  \<open>app/services/memo_summary.py\<close> and \<open>app/services/pipeline_steps.py\<close>: the columns the
  history and pipeline listings derive from a session's \<open>memo_json\<close> at read time. The
  memo is whatever JSON value the column holds; \<open>x.get(k)\<close> on a value that is not an
  object raises, so each summary is a value or an exception. \<open>dict_like\<close> is what the
  \<open>(x or {}).get(...)\<close> idiom tolerates.
\<close>

subsection \<open>Nested reads\<close>

definition dict_like :: "json \<Rightarrow> bool" where
  "dict_like j \<longleftrightarrow> \<not> py_truthy j \<or> (\<exists>kvs. j = JObj kvs)"

text \<open>\<open>(x or {}).get(k)\<close>\<close>

definition or_get :: "json \<Rightarrow> string \<Rightarrow> exn + json" where
  "or_get j k = json_get (py_or j (JObj [])) k"

text \<open>The value such a read gives when it does not raise: \<open>None\<close> for whatever is missing.\<close>

definition field :: "json \<Rightarrow> string \<Rightarrow> json" where
  "field j k = (case j of JObj kvs \<Rightarrow> (case map_of kvs k of None \<Rightarrow> JNull | Some v \<Rightarrow> v) | _ \<Rightarrow> JNull)"

lemma or_get_eq: "or_get j k = (if dict_like j then Inr (field j k) else Inl AttributeError)"
  by (cases j) (auto simp: or_get_def py_or_def dict_like_def field_def)

lemma json_get_eq: "json_get j k = (if \<exists>kvs. j = JObj kvs then Inr (field j k) else Inl AttributeError)"
  by (cases j) (auto simp: field_def)

lemma sbind_if: "sbind (if b then Inr x else Inl e) f = (if b then f x else Inl e)"
  by simp

subsection \<open>\<open>summarize_history\<close>\<close>

record history_summary =
  hs_page_count :: json
  hs_claims_extracted :: json
  hs_claims_matched :: json
  hs_claims_flagged :: json
  hs_match_rate :: json
  hs_verdict :: json
  hs_score :: json
  hs_selected_frameworks :: json

definition no_summary :: history_summary where
  "no_summary =
     \<lparr>hs_page_count = JNull, hs_claims_extracted = JNull, hs_claims_matched = JNull,
      hs_claims_flagged = JNull, hs_match_rate = JNull, hs_verdict = JNull, hs_score = JNull,
      hs_selected_frameworks = JNull\<rparr>"

definition summarize_history :: "json \<Rightarrow> exn + history_summary" where
  "summarize_history memo_json =
     (if \<not> py_truthy memo_json then Inr no_summary
      else
        sbind (json_get memo_json ''scorecard'') (\<lambda>sc. let scorecard = py_or sc (JObj []) in
        sbind (json_get memo_json ''deliverable'') (\<lambda>deliverable.
        sbind (or_get deliverable ''recommendation'') (\<lambda>rc. let recommendation = py_or rc (JObj []) in
        sbind (json_get recommendation ''verdict'') (\<lambda>v. sbind (or_get v ''value'') (\<lambda>verdict.
        sbind (json_get recommendation ''score'') (\<lambda>s. sbind (or_get s ''value'') (\<lambda>score.
        sbind (json_get memo_json ''pageCount'') (\<lambda>pages.
        sbind (json_get scorecard ''claimsExtracted'') (\<lambda>extracted.
        sbind (json_get scorecard ''claimsMatched'') (\<lambda>matched.
        sbind (json_get scorecard ''claimsFlagged'') (\<lambda>flagged.
        sbind (json_get scorecard ''matchRate'') (\<lambda>rate.
        sbind (json_get memo_json ''selectedFrameworks'') (\<lambda>frameworks.
          Inr \<lparr>hs_page_count = pages, hs_claims_extracted = extracted, hs_claims_matched = matched,
               hs_claims_flagged = flagged, hs_match_rate = rate, hs_verdict = verdict,
               hs_score = score, hs_selected_frameworks = frameworks\<rparr>))))))))))))))"

subsection \<open>\<open>derive_pipeline_metrics\<close>\<close>

record pipeline_metrics =
  pm_valuation_usd :: json
  pm_ev_revenue :: json
  pm_ai_score :: json
  pm_mandate_fit_pct :: json
  pm_irr_pct :: json
  pm_action_pill :: "string option"
  pm_metric_discrepancy_fields :: "json list option"

definition no_metrics :: pipeline_metrics where
  "no_metrics =
     \<lparr>pm_valuation_usd = JNull, pm_ev_revenue = JNull, pm_ai_score = JNull,
      pm_mandate_fit_pct = JNull, pm_irr_pct = JNull, pm_action_pill = None,
      pm_metric_discrepancy_fields = None\<rparr>"

definition action_pill_by_verdict :: "string \<Rightarrow> string option" where
  "action_pill_by_verdict v =
     (if v = ''PROCEED'' then Some ''approve'' else if v = ''CAUTION'' then Some ''review''
      else if v = ''DECLINE'' then Some ''decline'' else None)"

text \<open>\<open>[d.get("field") for d in discrepancies if isinstance(d, dict) and d.get("field")]\<close>\<close>

fun discrepancy_fields :: "json list \<Rightarrow> json list" where
  "discrepancy_fields [] = []"
| "discrepancy_fields (d # ds) =
     (case d of JObj kvs \<Rightarrow>
        if py_truthy (field d ''field'') then field d ''field'' # discrepancy_fields ds
        else discrepancy_fields ds
      | _ \<Rightarrow> discrepancy_fields ds)"

definition derive_pipeline_metrics :: "json \<Rightarrow> exn + pipeline_metrics" where
  "derive_pipeline_metrics memo_json =
     (if \<not> py_truthy memo_json then Inr no_metrics
      else
        sbind (json_get memo_json ''dealMetrics'') (\<lambda>dm. let deal_metrics = py_or dm (JObj []) in
        sbind (json_get memo_json ''scoringResult'') (\<lambda>sr. let scoring = py_or sr (JObj []) in
        sbind (json_get memo_json ''deliverable'') (\<lambda>deliverable.
        sbind (or_get deliverable ''recommendation'') (\<lambda>rc. let recommendation = py_or rc (JObj []) in
        sbind (json_get recommendation ''verdict'') (\<lambda>v. sbind (or_get v ''value'') (\<lambda>verdict.
        sbind (json_get memo_json ''dealMetricDiscrepancies'') (\<lambda>discrepancies.
        sbind (json_get deal_metrics ''valuationPostUsd'') (\<lambda>x. sbind (or_get x ''value'') (\<lambda>valuation.
        sbind (json_get deal_metrics ''evRevenue'') (\<lambda>x. sbind (or_get x ''value'') (\<lambda>ev.
        sbind (json_get scoring ''aiScore'') (\<lambda>ai.
        sbind (json_get scoring ''mandateFitPct'') (\<lambda>fit.
        sbind (json_get deal_metrics ''irrPct'') (\<lambda>x. sbind (or_get x ''value'') (\<lambda>irr.
          Inr \<lparr>pm_valuation_usd = valuation, pm_ev_revenue = ev, pm_ai_score = ai,
               pm_mandate_fit_pct = fit, pm_irr_pct = irr,
               pm_action_pill = (case verdict of JStr s \<Rightarrow> action_pill_by_verdict s | _ \<Rightarrow> None),
               pm_metric_discrepancy_fields =
                 (case discrepancies of JArr ds \<Rightarrow> Some (discrepancy_fields ds) | _ \<Rightarrow> None)\<rparr>))))))))))))))))"

subsection \<open>Exactly which memos the summaries survive\<close>

definition recommendation_of :: "json \<Rightarrow> json" where
  "recommendation_of memo = field (field memo ''deliverable'') ''recommendation''"

definition verdict_readable :: "json \<Rightarrow> bool" where
  "verdict_readable memo \<longleftrightarrow> dict_like (field memo ''deliverable'')
     \<and> dict_like (recommendation_of memo) \<and> dict_like (field (recommendation_of memo) ''verdict'')"

definition history_readable :: "json \<Rightarrow> bool" where
  "history_readable memo \<longleftrightarrow> dict_like memo \<and> dict_like (field memo ''scorecard'')
     \<and> verdict_readable memo \<and> dict_like (field (recommendation_of memo) ''score'')"

definition metrics_readable :: "json \<Rightarrow> bool" where
  "metrics_readable memo \<longleftrightarrow> dict_like memo \<and> dict_like (field memo ''dealMetrics'')
     \<and> dict_like (field memo ''scoringResult'') \<and> verdict_readable memo
     \<and> (\<forall>k \<in> {''valuationPostUsd'', ''evRevenue'', ''irrPct''}.
          dict_like (field (field memo ''dealMetrics'') k))"

lemma field_falsy: "\<not> py_truthy j \<Longrightarrow> field j k = JNull"
  by (cases j) (auto simp: field_def)

lemma or_dict: "json_get (py_or j (JObj [])) k = (if dict_like j then Inr (field j k) else Inl AttributeError)"
  using or_get_eq [of j k] by (simp add: or_get_def)

lemma dict_like_JNull [simp]: "dict_like JNull"
  by (simp add: dict_like_def)

lemma truthy_get:
  "py_truthy j \<Longrightarrow> json_get j k = (if dict_like j then Inr (field j k) else Inl AttributeError)"
  by (auto simp: json_get_eq dict_like_def)

lemma summarize_total: "(\<exists>r. summarize_history memo = Inr r) \<longleftrightarrow> history_readable memo"
proof (cases "py_truthy memo")
  case True
  then show ?thesis
    by (simp add: summarize_history_def truthy_get or_get_eq or_dict sbind_if Let_def
        history_readable_def verdict_readable_def recommendation_of_def)
next
  case False
  then show ?thesis
    by (simp add: summarize_history_def history_readable_def verdict_readable_def
        recommendation_of_def field_falsy dict_like_def [of memo])
qed

lemma metrics_total: "(\<exists>r. derive_pipeline_metrics memo = Inr r) \<longleftrightarrow> metrics_readable memo"
proof (cases "py_truthy memo")
  case True
  then show ?thesis
    by (auto simp: derive_pipeline_metrics_def truthy_get or_get_eq or_dict sbind_if Let_def
        metrics_readable_def verdict_readable_def recommendation_of_def)
next
  case False
  then show ?thesis
    by (simp add: derive_pipeline_metrics_def metrics_readable_def verdict_readable_def
        recommendation_of_def field_falsy dict_like_def [of memo])
qed

lemma discrepancy_fields_truthy: "f \<in> set (discrepancy_fields ds) \<Longrightarrow> py_truthy f"
  by (induction ds) (auto split: json.splits if_splits)

text \<open>
  The derived columns are defensive up to one level: reading a memo raises exactly when
  the memo, or a nested object on the path to a derived field, is a truthy value that is
  not an object; a missing, null or empty one reads as \<open>None\<close>.
\<close>

theorem memo_readers_total:
  "((\<exists>r. summarize_history memo = Inr r) \<longleftrightarrow> history_readable memo)
   \<and> ((\<exists>r. derive_pipeline_metrics memo = Inr r) \<longleftrightarrow> metrics_readable memo)"
  by (simp add: summarize_total metrics_total)

subsection \<open>Pipeline steps\<close>

record pipeline_step =
  st_phase :: string
  st_title :: string
  st_detail :: string

definition PIPELINE_STEPS :: "pipeline_step list" where
  "PIPELINE_STEPS =
     [\<lparr>st_phase = ''parsing'', st_title = ''Parsing document'',
       st_detail = ''Reading structure and extracting text''\<rparr>,
      \<lparr>st_phase = ''classify'', st_title = ''Classifying document'',
       st_detail = ''Identifying document type and sections''\<rparr>,
      \<lparr>st_phase = ''pass1'', st_title = ''Verifying claims'',
       st_detail = ''Extracting and verifying claims against the source''\<rparr>,
      \<lparr>st_phase = ''pass2'', st_title = ''Cross-checking sources'',
       st_detail = ''Deeper source verification for unresolved claims''\<rparr>,
      \<lparr>st_phase = ''governance'', st_title = ''Governance review'',
       st_detail = ''Checking compliance flags and policy signals''\<rparr>,
      \<lparr>st_phase = ''ofac'', st_title = ''OFAC screening'',
       st_detail = ''Sanctions and watchlist checks''\<rparr>,
      \<lparr>st_phase = ''pass3_compose'', st_title = ''Drafting analysis'',
       st_detail = ''Composing memo sections from verified evidence''\<rparr>,
      \<lparr>st_phase = ''pass4_score'', st_title = ''Scoring deal'',
       st_detail = ''Running mandate fit and investment scoring''\<rparr>,
      \<lparr>st_phase = ''finalize'', st_title = ''Finalising'',
       st_detail = ''Saving the analysis and memo''\<rparr>]"

definition no_job_steps :: "(pipeline_step \<times> string) list" where
  "no_job_steps = map (\<lambda>step. (step, ''pending'')) PIPELINE_STEPS"

end
