(* ===== verification/Calendar.thy ===== *)
theory Calendar
  imports Models "HOL-Library.Product_Lexorder"
begin

section \<open>UTC dates and months\<close>

text \<open>
  The part of Python's \<open>datetime\<close> the dashboard uses: an aware UTC datetime, its order,
  \<open>replace\<close>, and the conversions to and from the microseconds the tables store, with
  the standard library's ordinal arithmetic (day 1 is 1 January of year 1).
\<close>

datatype datetime = Datetime
  (dt_year: int) (dt_month: int) (dt_day: int)
  (dt_hour: int) (dt_minute: int) (dt_second: int) (dt_microsecond: int)

definition dt_key :: "datetime \<Rightarrow> int \<times> int \<times> int \<times> int \<times> int \<times> int \<times> int" where
  "dt_key d = (dt_year d, dt_month d, dt_day d, dt_hour d, dt_minute d, dt_second d, dt_microsecond d)"

lemma dt_key_inj: "dt_key d = dt_key e \<Longrightarrow> d = e"
  by (cases d; cases e) (simp add: dt_key_def)

text \<open>Two aware datetimes of the same zone compare field by field.\<close>

instantiation datetime :: linorder
begin

definition less_eq_datetime :: "datetime \<Rightarrow> datetime \<Rightarrow> bool" where
  "less_eq_datetime d e \<longleftrightarrow> dt_key d \<le> dt_key e"

definition less_datetime :: "datetime \<Rightarrow> datetime \<Rightarrow> bool" where
  "less_datetime d e \<longleftrightarrow> dt_key d < dt_key e"

instance
  by standard (auto simp: less_eq_datetime_def less_datetime_def intro: dt_key_inj)

end

subsection \<open>Ordinals\<close>

definition is_leap :: "int \<Rightarrow> bool" where
  "is_leap y \<longleftrightarrow> y mod 4 = 0 \<and> (y mod 100 \<noteq> 0 \<or> y mod 400 = 0)"

definition days_before_year :: "int \<Rightarrow> int" where
  "days_before_year year =
     (let y = year - 1 in y * 365 + y div 4 - y div 100 + y div 400)"

definition days_in_month :: "bool \<Rightarrow> int \<Rightarrow> int" where
  "days_in_month leap m =
     (if m = 2 then (if leap then 29 else 28) else if m \<in> {4, 6, 9, 11} then 30 else 31)"

text \<open>\<open>_DAYS_BEFORE_MONTH[m] + (m > 2 and leap)\<close>; index 13 is the length of the year.\<close>

definition days_before_month :: "bool \<Rightarrow> int \<Rightarrow> int" where
  "days_before_month leap m =
     [0, 0, 31, 59, 90, 120, 151, 181, 212, 243, 273, 304, 334, 365] ! nat m
       + (if m > 2 \<and> leap then 1 else 0)"

definition ymd2ord :: "int \<Rightarrow> int \<Rightarrow> int \<Rightarrow> int" where
  "ymd2ord y m d = days_before_year y + days_before_month (is_leap y) m + d"

text \<open>Month and day of the \<open>n\<close>-th day of a year, counted from 0.\<close>

definition month_day :: "bool \<Rightarrow> int \<Rightarrow> int \<times> int" where
  "month_day leap n =
     (let month = (n + 50) div 32; preceding = days_before_month leap month in
      if preceding > n
      then (month - 1, n - (preceding - days_in_month leap (month - 1)) + 1)
      else (month, n - preceding + 1))"

definition ord2ymd :: "int \<Rightarrow> int \<times> int \<times> int" where
  "ord2ymd ordinal =
     (let n = ordinal - 1;
          n400 = n div 146097; n = n mod 146097;
          n100 = n div 36524; n = n mod 36524;
          n4 = n div 1461; n = n mod 1461;
          n1 = n div 365; n = n mod 365;
          year = n400 * 400 + 1 + n100 * 100 + n4 * 4 + n1
      in if n1 = 4 \<or> n100 = 4 then (year - 1, 12, 31)
         else (year, month_day (n1 = 3 \<and> (n4 \<noteq> 24 \<or> n100 = 3)) n))"

subsection \<open>Instants\<close>

definition day_us :: int where
  "day_us = 86400000000"

definition epoch_ordinal :: int where
  "epoch_ordinal = 719163"

definition timestamp :: "datetime \<Rightarrow> instant" where
  "timestamp d =
     (ymd2ord (dt_year d) (dt_month d) (dt_day d) - epoch_ordinal) * day_us
     + ((dt_hour d * 60 + dt_minute d) * 60 + dt_second d) * 1000000 + dt_microsecond d"

definition utc_datetime :: "instant \<Rightarrow> datetime" where
  "utc_datetime t =
     (let us = t mod day_us; s = us div 1000000 in
      case ord2ymd (t div day_us + epoch_ordinal) of (y, m, d) \<Rightarrow>
        Datetime y m d (s div 3600) (s div 60 mod 60) (s mod 60) (us mod 1000000))"

subsection \<open>The ordinal arithmetic is right\<close>

definition in_month :: "bool \<Rightarrow> int \<Rightarrow> bool" where
  "in_month leap n \<longleftrightarrow> (case month_day leap n of (m, d) \<Rightarrow>
     1 \<le> m \<and> m \<le> 12 \<and> 1 \<le> d \<and> days_before_month leap m + d = n + 1
     \<and> days_before_month leap m + d \<le> days_before_month leap (m + 1))"

lemma month_day_ok:
  assumes "0 \<le> n" and "n < (if leap then 366 else 365)"
  shows "in_month leap n"
proof -
  define m where "m = (n + 50) div 32"
  have b: "32 * m \<le> n + 50" "n + 50 < 32 * m + 32" by (simp_all add: m_def)
  have lo: "1 \<le> m" and hi: "m \<le> 12" using assms b by (simp_all split: if_splits)
  then have "m \<in> {1, 2, 3, 4, 5, 6, 7, 8, 9, 10, 11, 12}"
    by simp presburger
  then show ?thesis
    using assms b
    unfolding in_month_def month_day_def Let_def m_def [symmetric]
    by (elim insertE emptyE; simp add: days_before_month_def days_in_month_def split: if_splits)
qed

lemma mod_by_shift: "x = y + q * d \<Longrightarrow> x mod d = y mod (d :: int)"
  by simp

lemma mod_zero_iff: "0 < x \<Longrightarrow> x \<le> d \<Longrightarrow> x mod d = 0 \<longleftrightarrow> x = (d :: int)"
  by (cases "x = d") auto

lemma year_days:
  fixes a b c e :: int
  assumes "0 \<le> b" "b \<le> 3" "0 \<le> c" "c \<le> 24" "0 \<le> e" "e \<le> 3"
  shows "days_before_year (a * 400 + 1 + b * 100 + c * 4 + e)
      = a * 146097 + b * 36524 + c * 1461 + e * 365"
    and "is_leap (a * 400 + 1 + b * 100 + c * 4 + e) \<longleftrightarrow> e = 3 \<and> (c \<noteq> 24 \<or> b = 3)"
proof -
  let ?y = "a * 400 + b * 100 + c * 4 + e"
  have "?y div 4 = a * 100 + b * 25 + c" "?y div 100 = a * 4 + b" "?y div 400 = a"
  proof -
    show "?y div 4 = a * 100 + b * 25 + c"
      by (rule int_div_pos_eq [where r = e]) (use assms in auto)
    show "?y div 100 = a * 4 + b"
      by (rule int_div_pos_eq [where r = "c * 4 + e"]) (use assms in auto)
    show "?y div 400 = a"
      by (rule int_div_pos_eq [where r = "b * 100 + c * 4 + e"]) (use assms in auto)
  qed
  then show "days_before_year (a * 400 + 1 + b * 100 + c * 4 + e)
      = a * 146097 + b * 36524 + c * 1461 + e * 365"
    by (simp add: days_before_year_def Let_def algebra_simps)
  let ?z = "a * 400 + 1 + b * 100 + c * 4 + e"
  have m4: "?z mod 4 = 0 \<longleftrightarrow> e = 3"
  proof -
    have "?z mod 4 = (e + 1) mod 4" by (rule mod_by_shift [where q = "a * 100 + b * 25 + c"]) simp
    then show ?thesis using assms mod_zero_iff [of "e + 1" 4] by auto
  qed
  have m100: "?z mod 100 = 0 \<longleftrightarrow> c = 24" if "e = 3"
  proof -
    have "?z mod 100 = (c * 4 + 4) mod 100"
      by (rule mod_by_shift [where q = "a * 4 + b"]) (simp add: that)
    then show ?thesis using assms mod_zero_iff [of "c * 4 + 4" 100] by auto
  qed
  have m400: "?z mod 400 = 0 \<longleftrightarrow> b = 3" if "e = 3" "c = 24"
  proof -
    have "?z mod 400 = (b * 100 + 100) mod 400"
      by (rule mod_by_shift [where q = a]) (simp add: that)
    then show ?thesis using assms mod_zero_iff [of "b * 100 + 100" 400] by auto
  qed
  have m400c: "c = 24" if "e = 3" "?z mod 400 = 0"
  proof -
    have "100 dvd ?z" by (rule dvd_trans [of 100 400]) (use that in \<open>simp_all add: dvd_eq_mod_eq_0\<close>)
    then show ?thesis using m100 [OF that(1)] by (simp only: dvd_eq_mod_eq_0)
  qed
  show "is_leap ?z \<longleftrightarrow> e = 3 \<and> (c \<noteq> 24 \<or> b = 3)"
    unfolding is_leap_def using m4 m100 m400 m400c by metis
qed

definition valid_ymd :: "int \<Rightarrow> int \<times> int \<times> int \<Rightarrow> bool" where
  "valid_ymd n r \<longleftrightarrow> (case r of (y, m, d) \<Rightarrow> 1 \<le> m \<and> m \<le> 12 \<and> 1 \<le> d \<and> ymd2ord y m d = n
     \<and> days_before_month (is_leap y) m + d \<le> days_before_month (is_leap y) (m + 1))"

lemma ord2ymd_ok: "valid_ymd n (ord2ymd n)"
proof -
  define a k where ak: "a = (n - 1) div 146097" "k = (n - 1) mod 146097"
  define b l where bl: "b = k div 36524" "l = k mod 36524"
  define c h where ch: "c = l div 1461" "h = l mod 1461"
  define e r where er: "e = h div 365" "r = h mod 365"
  have n: "n = a * 146097 + b * 36524 + c * 1461 + e * 365 + r + 1"
    unfolding er ch bl ak using div_mult_mod_eq [of "n - 1" 146097] by (simp add: algebra_simps)
  have bounds: "0 \<le> b" "b \<le> 4" "0 \<le> c" "c \<le> 24" "0 \<le> e" "e \<le> 4" "0 \<le> r" "r < 365"
    and last: "e = 4 \<longrightarrow> r = 0 \<and> c \<le> 23" "b = 4 \<longrightarrow> c = 0 \<and> e = 0 \<and> r = 0"
  proof -
    have k: "0 \<le> k" "k < 146097" by (simp_all add: ak)
    have b: "k = b * 36524 + l" "0 \<le> l" "l < 36524" by (simp_all add: bl)
    have c: "l = c * 1461 + h" "0 \<le> h" "h < 1461" by (simp_all add: ch)
    have e: "h = e * 365 + r" "0 \<le> r" "r < 365" by (simp_all add: er)
    show "0 \<le> b" "b \<le> 4" using k b by linarith+
    show "0 \<le> c" "c \<le> 24" using b c by linarith+
    show "0 \<le> e" "e \<le> 4" using c e by linarith+
    show "0 \<le> r" "r < 365" using e by simp_all
    show "e = 4 \<longrightarrow> r = 0 \<and> c \<le> 23" using b c e by auto
    show "b = 4 \<longrightarrow> c = 0 \<and> e = 0 \<and> r = 0"
    proof
      assume "b = 4"
      with k b have "l = 0" by linarith
      with c have "c = 0" by linarith
      with c \<open>l = 0\<close> have "h = 0" by simp
      note \<open>c = 0\<close> this
      with e have "e = 0" by linarith
      with e \<open>h = 0\<close> \<open>c = 0\<close> show "c = 0 \<and> e = 0 \<and> r = 0" by simp
    qed
  qed
  let ?y = "a * 400 + 1 + b * 100 + c * 4 + e"
  have split: "ord2ymd n = (if e = 4 \<or> b = 4 then (?y - 1, 12, 31)
      else (?y, month_day (e = 3 \<and> (c \<noteq> 24 \<or> b = 3)) r))"
    by (simp only: ord2ymd_def Let_def ak bl ch er)
  show ?thesis
  proof (cases "e = 4 \<or> b = 4")
    case True
    show ?thesis
    proof (cases "b = 4")
      case True
      with last have "?y - 1 = a * 400 + 1 + 3 * 100 + 24 * 4 + 3" by simp
      with True last split n year_days [of 3 24 3 a] show ?thesis
        by (simp add: valid_ymd_def ymd2ord_def days_before_month_def)
    next
      case False
      with True last have e: "e = 4" "r = 0" "c \<le> 23" by auto
      then have "?y - 1 = a * 400 + 1 + b * 100 + c * 4 + 3" by simp
      with False e bounds split n year_days [of b c 3 a] show ?thesis
        by (simp add: valid_ymd_def ymd2ord_def days_before_month_def)
    qed
  next
    case False
    with bounds have "e \<le> 3" "b \<le> 3" by auto
    with bounds year_days [of b c e a]
    have y: "days_before_year ?y = a * 146097 + b * 36524 + c * 1461 + e * 365"
      and leap: "is_leap ?y \<longleftrightarrow> e = 3 \<and> (c \<noteq> 24 \<or> b = 3)" by blast+
    have "in_month (is_leap ?y) r" using bounds by (intro month_day_ok) auto
    with False y leap n split show ?thesis
      by (auto simp: valid_ymd_def ymd2ord_def in_month_def)
  qed
qed

end
