(* ===== verification/Dashboard.thy ===== *)
theory Dashboard
  imports Calendar Repos
begin

section \<open>Dashboard statistics\<close>

text \<open>
  \<open>app/services/dashboard_stats.py\<close>: the month windows and the pipeline-value delta behind
  \<open>deals.dashboardStats\<close>. The windows are proved to be calendar months: an instant falls
  into the current (prior) window exactly when its UTC date lies in the current or a later
  (the previous) month.
\<close>

definition compute_month_bounds :: "datetime \<Rightarrow> datetime \<times> datetime \<times> datetime" where
  "compute_month_bounds now =
     (let current_start = Datetime (dt_year now) (dt_month now) 1 0 0 0 0;
          prior_start =
            (if dt_month current_start = 1
             then Datetime (dt_year current_start - 1) 12 1 0 0 0 0
             else Datetime (dt_year current_start) (dt_month current_start - 1) 1 0 0 0 0)
      in (current_start, prior_start, current_start))"

datatype value_delta = Delta int | New | NoDelta

definition compute_pipeline_value_delta :: "int \<Rightarrow> int \<Rightarrow> value_delta" where
  "compute_pipeline_value_delta current prior =
     (if prior = 0 then (if current > 0 then New else NoDelta) else Delta (current - prior))"

subsection \<open>Months as consecutive runs of days\<close>

definition month_index :: "instant \<Rightarrow> int" where
  "month_index t = (let d = utc_datetime t in 12 * dt_year d + dt_month d - 1)"

definition month_ord :: "int \<Rightarrow> int" where
  "month_ord k = ymd2ord (k div 12) (k mod 12 + 1) 1"

lemma div_step: "0 < n \<Longrightarrow> (y :: int) div n = (y - 1) div n + (if n dvd y then 1 else 0)"
proof -
  assume n: "0 < n"
  show ?thesis
  proof (cases "n dvd y")
    case True
    then obtain q where y: "y = n * q" by (rule dvdE)
    have "(n * q - 1) div n = q - 1"
      by (rule int_div_pos_eq [where r = "n - 1"]) (use n in \<open>simp_all add: algebra_simps\<close>)
    with True n y show ?thesis by simp
  next
    case False
    then have "0 < y mod n" using n by (metis dvd_eq_mod_eq_0 order_le_less pos_mod_sign)
    moreover have "y mod n < n" using n by simp
    moreover have "y = n * (y div n) + y mod n" by simp
    ultimately have "(y - 1) div n = y div n"
      by (intro int_div_pos_eq [where r = "y mod n - 1"]) simp_all
    with False show ?thesis by simp
  qed
qed

lemma leap_day:
  fixes y a b c :: int
  assumes "C \<Longrightarrow> B" and "B \<Longrightarrow> A"
  shows "y * 365 + (a + (if A then 1 else 0)) - (b + (if B then 1 else 0)) + (c + (if C then 1 else 0))
    = (y - 1) * 365 + a - b + c + (if A \<and> (\<not> B \<or> C) then 366 else 365)"
  using assms by (cases A; cases B; cases C) simp_all

lemma year_length: "days_before_year (y + 1) = days_before_year y + (if is_leap y then 366 else 365)"
proof -
  define a where "a = (y - 1) div 4"
  define b where "b = (y - 1) div 100"
  define c where "c = (y - 1) div 400"
  have steps: "y div 4 = a + (if 4 dvd y then 1 else 0)" "y div 100 = b + (if 100 dvd y then 1 else 0)"
    "y div 400 = c + (if 400 dvd y then 1 else 0)"
    unfolding a_def b_def c_def by (rule div_step, simp)+
  have new: "days_before_year (y + 1) = y * 365 + (a + (if 4 dvd y then 1 else 0))
      - (b + (if 100 dvd y then 1 else 0)) + (c + (if 400 dvd y then 1 else 0))"
    by (simp only: days_before_year_def Let_def add_diff_cancel_right' steps)
  have old: "days_before_year y = (y - 1) * 365 + a - b + c"
    by (simp only: days_before_year_def Let_def a_def b_def c_def)
  have leap: "is_leap y \<longleftrightarrow> 4 dvd y \<and> (\<not> 100 dvd y \<or> 400 dvd y)"
    by (simp only: is_leap_def dvd_eq_mod_eq_0)
  show ?thesis
    unfolding new old leap
    by (rule leap_day) (erule dvd_trans [rotated], simp)+
qed

lemma le_div_pos: "0 < d \<Longrightarrow> x * d \<le> t \<longleftrightarrow> x \<le> t div (d :: int)"
proof
  assume "0 < d" and "x * d \<le> t"
  then show "x \<le> t div d" using zdiv_mono1 [of "x * d" t d] by simp
next
  assume "0 < d" and "x \<le> t div d"
  then have "x * d \<le> t div d * d" by (simp add: mult_right_mono)
  also have "\<dots> \<le> t" using \<open>0 < d\<close> by (simp add: minus_mod_eq_div_mult [symmetric])
  finally show "x * d \<le> t" .
qed

lemma month_length:
  assumes "1 \<le> m" and "m \<le> 12"
  shows "days_before_month leap m < days_before_month leap (m + 1)"
proof -
  have "m \<in> {1, 2, 3, 4, 5, 6, 7, 8, 9, 10, 11, 12}" using assms by simp presburger
  then show ?thesis by (elim insertE emptyE) (simp_all add: days_before_month_def)
qed

lemma month_ord_step:
  assumes "1 \<le> m" and "m \<le> 12"
  shows "month_ord (12 * y + m - 1) = ymd2ord y m 1"
    and "month_ord (12 * y + m) = days_before_year y + days_before_month (is_leap y) (m + 1) + 1"
proof -
  have "(12 * y + (m - 1)) div 12 = y" "(12 * y + (m - 1)) mod 12 = m - 1" using assms by auto
  then show "month_ord (12 * y + m - 1) = ymd2ord y m 1" by (simp add: month_ord_def algebra_simps)
  show "month_ord (12 * y + m) = days_before_year y + days_before_month (is_leap y) (m + 1) + 1"
  proof (cases "m = 12")
    case True
    then have "12 * y + m = 12 * (y + 1)" by simp
    then have "month_ord (12 * y + m) = ymd2ord (y + 1) 1 1"
      by (simp only: month_ord_def) simp
    with True year_length [of y] show ?thesis by (simp add: ymd2ord_def days_before_month_def)
  next
    case False
    with assms have "(12 * y + m) div 12 = y" "(12 * y + m) mod 12 = m" by auto
    then show ?thesis by (simp add: month_ord_def ymd2ord_def)
  qed
qed

lemma month_ord_Suc: "month_ord k < month_ord (k + 1)"
proof -
  have m: "1 \<le> k mod 12 + 1" "k mod 12 + 1 \<le> 12" by (simp_all add: pos_mod_bound [of 12 k, simplified])
  have k: "k = 12 * (k div 12) + (k mod 12 + 1) - 1" by simp
  have "month_ord (k + 1) = month_ord (12 * (k div 12) + (k mod 12 + 1))" by simp
  also have "\<dots> > month_ord (12 * (k div 12) + (k mod 12 + 1) - 1)"
    using month_ord_step [OF m, of "k div 12"] month_length [OF m, of "is_leap (k div 12)"]
    by (simp add: ymd2ord_def)
  finally show ?thesis using k by simp
qed

lemma month_ord_mono: "k < l \<Longrightarrow> month_ord k < month_ord l"
proof (induction l rule: int_gr_induct)
  case base
  then show ?case by (rule month_ord_Suc)
next
  case (step l)
  then show ?case using month_ord_Suc [of l] by simp
qed

lemma month_ord_le: "month_ord k \<le> month_ord l \<longleftrightarrow> k \<le> l"
  using month_ord_mono [of k l] month_ord_mono [of l k] by (cases k l rule: linorder_cases) auto

lemma month_of_instant:
  "month_ord (month_index t) \<le> t div day_us + epoch_ordinal
   \<and> t div day_us + epoch_ordinal < month_ord (month_index t + 1)"
proof -
  let ?n = "t div day_us + epoch_ordinal"
  obtain y m d where ymd: "ord2ymd ?n = (y, m, d)" by (cases "ord2ymd ?n")
  with ord2ymd_ok [of ?n] have v: "1 \<le> m" "m \<le> 12" "1 \<le> d" "ymd2ord y m d = ?n"
    "days_before_month (is_leap y) m + d \<le> days_before_month (is_leap y) (m + 1)"
    by (simp_all add: valid_ymd_def)
  have "month_index t = 12 * y + m - 1"
    by (simp add: month_index_def utc_datetime_def Let_def ymd)
  with v month_ord_step [OF v(1,2), of y] show ?thesis by (simp add: ymd2ord_def)
qed

lemma reaches_month: "month_ord k \<le> t div day_us + epoch_ordinal \<longleftrightarrow> k \<le> month_index t"
proof
  assume "month_ord k \<le> t div day_us + epoch_ordinal"
  with month_of_instant [of t] have "month_ord k < month_ord (month_index t + 1)" by linarith
  then show "k \<le> month_index t" using month_ord_le [of "month_index t + 1" k] by linarith
next
  assume "k \<le> month_index t"
  then show "month_ord k \<le> t div day_us + epoch_ordinal"
    using month_of_instant [of t] month_ord_le [of k "month_index t"] by linarith
qed

lemma start_reached:
  assumes "1 \<le> m" and "m \<le> 12"
  shows "timestamp (Datetime y m 1 0 0 0 0) \<le> t \<longleftrightarrow> 12 * y + m - 1 \<le> month_index t"
proof -
  have "timestamp (Datetime y m 1 0 0 0 0) = (month_ord (12 * y + m - 1) - epoch_ordinal) * day_us"
    using month_ord_step(1) [OF assms, of y] by (simp add: timestamp_def)
  moreover have "x * day_us \<le> t \<longleftrightarrow> x \<le> t div day_us" for x
    by (rule le_div_pos) (simp add: day_us_def)
  ultimately have "timestamp (Datetime y m 1 0 0 0 0) \<le> t
      \<longleftrightarrow> month_ord (12 * y + m - 1) - epoch_ordinal \<le> t div day_us" by simp
  then show ?thesis using reaches_month [of "12 * y + m - 1" t] by linarith
qed

lemma month_range: "1 \<le> dt_month (utc_datetime t) \<and> dt_month (utc_datetime t) \<le> 12"
  using ord2ymd_ok [of "t div day_us + epoch_ordinal"]
  by (auto simp: utc_datetime_def Let_def valid_ymd_def split: prod.splits)

text \<open>
  The dashboard's windows are calendar months in UTC. Seen from \<open>now\<close>, a row created at
  \<open>t\<close> counts for the current window exactly when it was created in the current month or
  later, and for the prior window exactly when it was created in the month before, year
  ends and leap years included.
\<close>

lemma month_windows:
  "case compute_month_bounds (utc_datetime now) of (current_start, prior_start, prior_end) \<Rightarrow>
     (timestamp current_start \<le> t \<longleftrightarrow> month_index now \<le> month_index t)
     \<and> (timestamp prior_start \<le> t \<and> t < timestamp prior_end \<longleftrightarrow> month_index t = month_index now - 1)"
proof -
  let ?y = "dt_year (utc_datetime now)" and ?m = "dt_month (utc_datetime now)"
  have now: "month_index now = 12 * ?y + ?m - 1" by (simp add: month_index_def Let_def)
  have m: "1 \<le> ?m" "?m \<le> 12" using month_range [of now] by simp_all
  note cur = start_reached [OF m, of ?y t]
  show ?thesis
  proof (cases "?m = 1")
    case True
    with cur now start_reached [of 12 "?y - 1" t] show ?thesis
      by (simp add: compute_month_bounds_def Let_def not_le [symmetric]) linarith
  next
    case False
    with m cur now start_reached [of "?m - 1" ?y t] show ?thesis
      by (simp add: compute_month_bounds_def Let_def not_le [symmetric]) linarith
  qed
qed

end
