(* ===== verification/Deals.thy ===== *)
theory Deals
  imports Accounts Summaries Dashboard
begin

section \<open>The deal routes\<close>

text \<open>
  \<open>app/api/deals.py\<close>: the pipeline listing, the dashboard statistics, one deal with its
  latest memo, and the job status every deal reports until there is a job model. Reading a
  deal writes a \<open>document_access\<close> row; the other routes write nothing.
\<close>

subsection \<open>Responses\<close>

definition jopt :: "json option \<Rightarrow> json" where
  "jopt j = (case j of None \<Rightarrow> JNull | Some x \<Rightarrow> x)"

record deal_status_response =
  dst_job_status :: string
  dst_current_phase :: "string option"
  dst_steps :: "(pipeline_step \<times> string) list"
  dst_phase_progress :: "(string \<times> int) list option"
  dst_error_message :: "string option"

definition no_job_status :: deal_status_response where
  "no_job_status =
     \<lparr>dst_job_status = ''no_job'', dst_current_phase = None,
      dst_steps = map (\<lambda>step. (fst step, ''pending'')) no_job_steps,
      dst_phase_progress = None, dst_error_message = None\<rparr>"

record deal_row_response =
  dr_id :: string
  dr_name :: string
  dr_gp_source :: "string option"
  dr_deal_size_min_usd :: "int option"
  dr_deal_size_max_usd :: "int option"
  dr_sector_tags :: string
  dr_state :: string
  dr_created_at :: instant
  dr_updated_at :: instant

definition deal_row_response_of :: "(rat \<Rightarrow> string) \<Rightarrow> deal \<Rightarrow> deal_row_response" where
  "deal_row_response_of fl d =
     \<lparr>dr_id = str_uuid (deal_id d), dr_name = deal_name d, dr_gp_source = deal_gp_source d,
      dr_deal_size_min_usd = deal_size_min_usd d, dr_deal_size_max_usd = deal_size_max_usd d,
      dr_sector_tags = json_dumps fl (py_or (jopt (deal_sector_tags d)) (JArr [])),
      dr_state = deal_status d, dr_created_at = deal_created_at d, dr_updated_at = deal_updated_at d\<rparr>"

record latest_memo_response =
  lm_id :: string
  lm_session_id :: string
  lm_file_name :: string
  lm_memo_json :: string
  lm_created_at :: instant

definition latest_memo_of :: "(rat \<Rightarrow> string) \<Rightarrow> session \<Rightarrow> latest_memo_response" where
  "latest_memo_of fl s =
     \<lparr>lm_id = str_uuid (ses_id s), lm_session_id = str_uuid (ses_id s), lm_file_name = ses_file_name s,
      lm_memo_json = json_dumps fl (jopt (ses_memo_json s)), lm_created_at = ses_created_at s\<rparr>"

record pipeline_row =
  pr_deal_id :: string
  pr_name :: string
  pr_gp_source :: string
  pr_sector_tags :: "string list"
  pr_state :: string
  pr_created_at :: instant
  pr_valuation_usd :: "int option"
  pr_ev_revenue :: "rat option"
  pr_ai_score :: "rat option"
  pr_mandate_fit_pct :: "rat option"
  pr_irr_pct :: "int option"
  pr_action_pill :: "string option"
  pr_metric_discrepancy_fields :: "string list option"
  pr_agent_status :: deal_status_response

definition pipeline_row_of :: "'c env \<Rightarrow> deal \<Rightarrow> pipeline_metrics \<Rightarrow> exn + pipeline_row" where
  "pipeline_row_of env d m =
     (let rdi = pyd_opt_int (pyd_int_of_str env); rdf = pyd_opt_float (pyd_float_of_str env) in
      sbind (pyd_str_list (py_or (jopt (deal_sector_tags d)) (JArr []))) (\<lambda>tags.
      sbind (rdi (pm_valuation_usd m)) (\<lambda>valuation. sbind (rdf (pm_ev_revenue m)) (\<lambda>ev.
      sbind (rdf (pm_ai_score m)) (\<lambda>ai. sbind (rdf (pm_mandate_fit_pct m)) (\<lambda>fit.
      sbind (rdi (pm_irr_pct m)) (\<lambda>irr.
      sbind (case pm_metric_discrepancy_fields m of None \<Rightarrow> Inr None
             | Some fs \<Rightarrow> pyd_opt_str_list (JArr fs)) (\<lambda>fields.
        Inr \<lparr>pr_deal_id = str_uuid (deal_id d), pr_name = deal_name d,
             pr_gp_source = str_or (deal_gp_source d) '''', pr_sector_tags = tags,
             pr_state = deal_status d, pr_created_at = deal_created_at d,
             pr_valuation_usd = valuation, pr_ev_revenue = ev, pr_ai_score = ai,
             pr_mandate_fit_pct = fit, pr_irr_pct = irr, pr_action_pill = pm_action_pill m,
             pr_metric_discrepancy_fields = fields, pr_agent_status = no_job_status\<rparr>))))))))"

record dashboard_stats_response =
  dsr_total_deals :: "int \<times> int"
  dsr_pipeline_value_usd :: "int \<times> value_delta"
  dsr_avg_ai_score :: "rat option \<times> rat option"
  dsr_dd_completion_pct :: "int \<times> int"

subsection \<open>The routes\<close>

definition pipeline_row_for :: "'c env \<Rightarrow> deal \<Rightarrow> ('c, pipeline_row) act" where
  "pipeline_row_for env d =
     bnd (latest_for_deal (deal_id d)) (\<lambda>latest_session.
     bnd (lift_sum (derive_pipeline_metrics
            (case latest_session of None \<Rightarrow> JNull | Some s \<Rightarrow> jopt (ses_memo_json s)))) (\<lambda>metrics.
       lift_sum (pipeline_row_of env d metrics)))"

definition list_pipeline :: "'c env \<Rightarrow> ('c, pipeline_row list) act" where
  "list_pipeline env = bnd deal_list (mmap (pipeline_row_for env))"

definition dashboard_stats :: "('c, dashboard_stats_response) act" where
  "dashboard_stats =
     bnd utc_now (\<lambda>now. case compute_month_bounds (utc_datetime now) of (cs, ps, pe) \<Rightarrow>
     bnd (dashboard_aggregates (timestamp cs) (timestamp ps) (timestamp pe)) (\<lambda>agg.
       ret \<lparr>dsr_total_deals = (total_deals agg, current_window_deals agg - prior_window_deals agg),
            dsr_pipeline_value_usd = (total_pipeline_value agg,
              compute_pipeline_value_delta (current_window_value agg) (prior_window_value agg)),
            dsr_avg_ai_score = (None, None), dsr_dd_completion_pct = (0, 0)\<rparr>))"

definition access_entry :: "token_claims \<Rightarrow> user \<Rightarrow> uuid \<Rightarrow> audit_entry" where
  "access_entry c u i = (user_entry c u ''document_access'')\<lparr>ent_deal_id := Some i\<rparr>"

definition get_deal ::
  "'c env \<Rightarrow> token_claims \<Rightarrow> uuid \<Rightarrow> ('c, deal_row_response \<times> latest_memo_response option) act" where
  "get_deal env c i =
     bnd (deal_by_id i) (\<lambda>deal. case deal of
         None \<Rightarrow> throw (HTTPException 404 (JStr ''Deal not found''))
       | Some d \<Rightarrow>
           bnd (caller_row c) (\<lambda>u.
           seq (audit_append (access_entry c u i))
           (bnd (latest_for_deal i) (\<lambda>latest_session.
              ret (deal_row_response_of (float_repr env) d,
                   map_option (latest_memo_of (float_repr env)) latest_session)))))"

definition get_deal_status :: "uuid \<Rightarrow> ('c, deal_status_response) act" where
  "get_deal_status i = bnd (deal_by_id i) (\<lambda>deal.
     seq (guard (deal \<noteq> None) (HTTPException 404 (JStr ''Deal not found''))) (ret no_job_status))"

lemma deal_routes_confined [keep_rules]:
  "keeps (confined S H L) (list_pipeline env)" "keeps (confined S H L) dashboard_stats"
  "keeps (confined S H L) (get_deal env c i)" "keeps (confined S H L) (get_deal_status i)"
  unfolding list_pipeline_def pipeline_row_for_def dashboard_stats_def get_deal_def get_deal_status_def
  by (intro keep_rules)+

subsection \<open>What the session sees\<close>

definition deals_of :: "string \<Rightarrow> db \<Rightarrow> deal list" where
  "deals_of t d = filter (\<lambda>x. org_policy (Some t) d (deal_org_id x)) (t_deals d)"

definition sessions_of :: "string \<Rightarrow> db \<Rightarrow> session list" where
  "sessions_of t d = filter (\<lambda>s. org_policy (Some t) d (ses_org_id s)) (t_sessions d)"

definition deal_in :: "string \<Rightarrow> uuid \<Rightarrow> db \<Rightarrow> deal option" where
  "deal_in t i d = first_match (\<lambda>x. deal_id x = i) (deals_of t d)"

definition latest_session :: "string \<Rightarrow> uuid \<Rightarrow> db \<Rightarrow> session option" where
  "latest_session t i d =
     (case sort_key (\<lambda>s. - ses_created_at s) (filter (\<lambda>s. ses_deal_id s = i) (sessions_of t d)) of
        [] \<Rightarrow> None | s # _ \<Rightarrow> Some s)"

lemma deal_list_scoped [act_simps]:
  "guc w = Some t \<Longrightarrow> deal_list w = (Inr (sort_key (\<lambda>x. - deal_created_at x) (deals_of t (db w))), w)"
  by (simp add: deal_list_def sql_select_def select_rows_def visible_def deals_of_def)

lemma deal_by_id_scoped [act_simps]:
  "guc w = Some t \<Longrightarrow> deal_by_id i w = (Inr (deal_in t i (db w)), w)"
  by (simp add: deal_by_id_def sql_first_def first_row_def visible_def deal_in_def deals_of_def
      first_match_filter)

lemma latest_for_deal_scoped [act_simps]:
  "guc w = Some t \<Longrightarrow> latest_for_deal i w = (Inr (latest_session t i (db w)), w)"
  by (simp add: latest_for_deal_def sql_select_def select_rows_def visible_def latest_session_def
      sessions_of_def)

lemma latest_session_newest:
  assumes "latest_session t i d = Some s"
  shows "s \<in> set (sessions_of t d) \<and> ses_deal_id s = i
    \<and> (\<forall>s' \<in> set (sessions_of t d). ses_deal_id s' = i \<longrightarrow> ses_created_at s' \<le> ses_created_at s)"
proof -
  let ?xs = "filter (\<lambda>s. ses_deal_id s = i) (sessions_of t d)"
  obtain ss where ss: "sort_key (\<lambda>s. - ses_created_at s) ?xs = s # ss"
    using assms by (auto simp: latest_session_def split: list.splits)
  have "set (s # ss) = set ?xs" unfolding ss [symmetric] by simp
  moreover have "sorted (map (\<lambda>s. - ses_created_at s) (s # ss))" unfolding ss [symmetric] by simp
  ultimately show ?thesis by auto
qed

lemma pipeline_row_for_scoped:
  "guc w = Some t \<Longrightarrow> pipeline_row_for env d w =
     (sbind (derive_pipeline_metrics
        (case latest_session t (deal_id d) (db w) of None \<Rightarrow> JNull | Some s \<Rightarrow> jopt (ses_memo_json s)))
      (pipeline_row_of env d), w)"
  by (simp add: pipeline_row_for_def act_simps sbind_def lift_sum_def split: sum.split)

lemma mmap_pure:
  assumes "\<And>x. x \<in> set xs \<Longrightarrow> f x w = (g x, w)"
  shows "mmap f xs w = (smap g xs, w)"
  using assms by (induction xs) (auto simp: bnd_app sbind_def split: sum.split)

text \<open>
  The pipeline lists exactly the deals the caller's organisation owns, newest first,
  each with the metrics of its newest session; it writes nothing. It fails, as a whole,
  exactly when one of those deals' metrics or tags does not fit its response field.
\<close>

theorem pipeline_listing:
  assumes "guc w = Some t"
  shows "list_pipeline env w =
    (smap (\<lambda>d. sbind (derive_pipeline_metrics
        (case latest_session t (deal_id d) (db w) of None \<Rightarrow> JNull | Some s \<Rightarrow> jopt (ses_memo_json s)))
        (pipeline_row_of env d))
      (sort_key (\<lambda>x. - deal_created_at x) (deals_of t (db w))), w)"
  using assms
  by (simp add: list_pipeline_def act_simps mmap_pure [OF pipeline_row_for_scoped])

definition created_in :: "(int \<Rightarrow> bool) \<Rightarrow> deal list \<Rightarrow> deal list" where
  "created_in p = filter (\<lambda>d. p (month_index (deal_created_at d)))"

text \<open>
  The dashboard counts. Totals and sums run over the organisation's own deals; the
  change is the number created this calendar month (or later) minus last month's; the
  value change is \<open>new\<close> or absent when last month's value is zero, else the difference.
\<close>

theorem dashboard_counts:
  assumes "guc w = Some t"
  shows "let ds = deals_of t (db w); k = month_index (clock w);
             cur = created_in (\<lambda>m. k \<le> m) ds; prior = created_in (\<lambda>m. m = k - 1) ds
    in dashboard_stats w = (Inr \<lparr>dsr_total_deals = (int (length ds), int (length cur) - int (length prior)),
         dsr_pipeline_value_usd = (sum_list (map size_expr ds),
           compute_pipeline_value_delta (sum_list (map size_expr cur)) (sum_list (map size_expr prior))),
         dsr_avg_ai_score = (None, None), dsr_dd_completion_pct = (0, 0)\<rparr>, w)"
proof -
  obtain cs ps pe where b: "compute_month_bounds (utc_datetime (clock w)) = (cs, ps, pe)"
    by (cases "compute_month_bounds (utc_datetime (clock w))")
  have w1: "timestamp cs \<le> x \<longleftrightarrow> month_index (clock w) \<le> month_index x"
    and w2: "timestamp ps \<le> x \<and> x < timestamp pe \<longleftrightarrow> month_index x = month_index (clock w) - 1" for x
    using month_windows [where now = "clock w" and t = x] by (simp_all add: b)
  have "select_rows deals_table (\<lambda>_. True) w = deals_of t (db w)"
    using assms by (simp add: select_rows_def visible_def deals_of_def)
  then show ?thesis
    by (simp add: dashboard_stats_def utc_now_def b bnd_app dashboard_aggregates_def sql_select_def Let_def
        deal_count_def deal_sum_def created_in_def w1 w2)
qed

text \<open>
  Opening a deal. A deal of another organisation is indistinguishable from a missing
  one: 404 and no audit row. Otherwise the answer carries the deal and its newest memo, and
  exactly one \<open>document_access\<close> row, by the caller and naming the deal, is committed.
\<close>

theorem get_deal_effect:
  assumes wf: "wf_db (db w)" and u: "user_of (tenant_id c) (user_id c) (db w) = Some u"
    and act: "usr_status u = ''active''"
    and ok: "audit_accepted (tenant_id c) (usr_org_id u) (rnd w (rnd_next w)) (db w)"
  shows "get_db env c (get_deal env c i) w = (case deal_in (tenant_id c) i (db w) of
      None \<Rightarrow> (Inl (HTTPException 404 (JStr ''Deal not found'')), w\<lparr>guc := None, uow := []\<rparr>)
    | Some d \<Rightarrow>
        (Inr (deal_row_response_of (float_repr env) d,
              map_option (latest_memo_of (float_repr env)) (latest_session (tenant_id c) i (db w))),
         w\<lparr>guc := None, uow := [], rnd_next := Suc (rnd_next w),
           db := with_audit (audit_row (access_entry c u i) (rnd w (rnd_next w)) (clock w)) (db w)\<rparr>))"
proof -
  let ?w = "w\<lparr>uow := [], guc := Some (tenant_id c)\<rparr>"
  have "ensure_user_provisioned env c ?w = (Inr (), ?w)" using u act by (simp add: provision_active)
  then have "get_db env c (get_deal env c i) w = scoped_run c (get_deal env c i) w"
    unfolding get_db_def by (intro scoped_run_cong) simp
  moreover have "scoped_run c (get_deal env c i) w = (case deal_in (tenant_id c) i (db w) of
      None \<Rightarrow> (Inl (HTTPException 404 (JStr ''Deal not found'')), w\<lparr>guc := None, uow := []\<rparr>)
    | Some d \<Rightarrow>
        (Inr (deal_row_response_of (float_repr env) d,
              map_option (latest_memo_of (float_repr env)) (latest_session (tenant_id c) i (db w))),
         w\<lparr>guc := None, uow := [], rnd_next := Suc (rnd_next w),
           db := with_audit (audit_row (access_entry c u i) (rnd w (rnd_next w)) (clock w)) (db w)\<rparr>))"
  proof (cases "deal_in (tenant_id c) i (db w)")
    case None
    then have "get_deal env c i ?w = (Inl (HTTPException 404 (JStr ''Deal not found'')), ?w)"
      by (simp add: get_deal_def act_simps)
    with None show ?thesis by (simp add: scoped_run_throw)
  next
    case (Some d)
    then have run: "get_deal env c i ?w = (Inr (deal_row_response_of (float_repr env) d,
        map_option (latest_memo_of (float_repr env)) (latest_session (tenant_id c) i (db w))),
        ?w\<lparr>uow := [InsertAudit (access_entry c u i)]\<rparr>)"
      using u by (simp add: get_deal_def act_simps audit_append_def session_add_def)
    have "ent_org_id (access_entry c u i) = usr_org_id u" by (simp add: access_entry_def user_entry_def)
    with commit_audit [where m = "get_deal env c i" and w = w and c = c, OF run] ok wf Some
    show ?thesis by simp
  qed
  ultimately show ?thesis by simp
qed

end
