(* ===== verification/History.thy ===== *)
theory History
  imports Deals "HOL-Library.Multiset"
begin

section \<open>History, activity log, investment profile\<close>

text \<open>
  \<open>app/api/history.py\<close>, \<open>app/api/logs.py\<close> and \<open>app/api/investment_profile.py\<close>. Deleting
  history removes sessions of the caller's organisation and writes the audit row in the
  same transaction; the activity log counts and lists that organisation's audit trail.
\<close>

subsection \<open>Routes\<close>

record history_summary_response =
  hr_id :: string
  hr_session_id :: string
  hr_deal_id :: "string option"
  hr_file_name :: string
  hr_created_at :: instant
  hr_composed_at :: "instant option"
  hr_page_count :: "int option"
  hr_claims_extracted :: "int option"
  hr_claims_matched :: "int option"
  hr_claims_flagged :: "int option"
  hr_match_rate :: "rat option"
  hr_verdict :: "string option"
  hr_score :: "rat option"
  hr_selected_frameworks :: "string list option"

definition history_summary_of :: "'c env \<Rightarrow> session \<Rightarrow> exn + history_summary_response" where
  "history_summary_of env s =
     (let rdi = pyd_opt_int (pyd_int_of_str env); rdf = pyd_opt_float (pyd_float_of_str env) in
      sbind (summarize_history (jopt (ses_memo_json s))) (\<lambda>h.
      sbind (rdi (hs_page_count h)) (\<lambda>pages. sbind (rdi (hs_claims_extracted h)) (\<lambda>extracted.
      sbind (rdi (hs_claims_matched h)) (\<lambda>matched. sbind (rdi (hs_claims_flagged h)) (\<lambda>flagged.
      sbind (rdf (hs_match_rate h)) (\<lambda>rate.
      sbind (pyd_opt_literal [''PROCEED'', ''CAUTION'', ''DECLINE''] (hs_verdict h)) (\<lambda>verdict.
      sbind (rdf (hs_score h)) (\<lambda>score.
      sbind (pyd_opt_str_list (hs_selected_frameworks h)) (\<lambda>frameworks.
        Inr \<lparr>hr_id = str_uuid (ses_id s), hr_session_id = str_uuid (ses_id s),
             hr_deal_id = Some (str_uuid (ses_deal_id s)), hr_file_name = ses_file_name s,
             hr_created_at = ses_created_at s, hr_composed_at = ses_composed_at s,
             hr_page_count = pages, hr_claims_extracted = extracted, hr_claims_matched = matched,
             hr_claims_flagged = flagged, hr_match_rate = rate, hr_verdict = verdict,
             hr_score = score, hr_selected_frameworks = frameworks\<rparr>))))))))))"

definition list_history :: "'c env \<Rightarrow> ('c, history_summary_response list) act" where
  "list_history env = bnd session_list_for_org (\<lambda>ss. lift_sum (smap (history_summary_of env) ss))"

record history_get_response =
  hg_memo :: "(string \<times> json) list"
  hg_deal_id :: "string option"

definition get_history :: "uuid \<Rightarrow> ('c, history_get_response option) act" where
  "get_history i =
     bnd (session_by_id i) (\<lambda>row. case row of
         None \<Rightarrow> ret None
       | Some s \<Rightarrow>
           bnd (lift_sum (pyd_dict (py_or (jopt (ses_memo_json s)) (JObj [])))) (\<lambda>memo.
             ret (Some \<lparr>hg_memo = memo, hg_deal_id = Some (str_uuid (ses_deal_id s))\<rparr>)))"

definition deleted_entry :: "token_claims \<Rightarrow> user \<Rightarrow> uuid \<Rightarrow> bool \<Rightarrow> audit_entry" where
  "deleted_entry c u i deleted = (user_entry c u ''memo_deleted'')
     \<lparr>ent_session_id := Some i, ent_payload := Some (JObj [(''deleted'', JBool deleted)])\<rparr>"

definition delete_history :: "token_claims \<Rightarrow> uuid \<Rightarrow> ('c, bool) act" where
  "delete_history c i =
     bnd (session_delete i) (\<lambda>deleted. bnd (caller_row c) (\<lambda>u.
     seq (audit_append (deleted_entry c u i deleted)) (ret deleted)))"

definition cleared_entry :: "token_claims \<Rightarrow> user \<Rightarrow> int \<Rightarrow> audit_entry" where
  "cleared_entry c u n = (user_entry c u ''history_cleared'')
     \<lparr>ent_payload := Some (JObj [(''deleted_count'', JInt n)])\<rparr>"

definition clear_all_history :: "token_claims \<Rightarrow> ('c, int) act" where
  "clear_all_history c =
     bnd session_delete_all (\<lambda>deleted_count. bnd (caller_row c) (\<lambda>u.
     seq (audit_append (cleared_entry c u deleted_count)) (ret deleted_count)))"

definition severity :: "string \<Rightarrow> string" where
  "severity event_type =
     (if event_type \<in> set [''auth_sign_out''] then ''critical''
      else if event_type \<in> set [''section_regenerate_scaffold'', ''section_regenerate_failed'',
                                 ''memo_deliverable_patched''] then ''warn''
      else ''info'')"

record activity_row =
  ac_id :: string
  ac_created_at :: instant
  ac_action :: string
  ac_session_id :: "string option"
  ac_job_id :: "string option"

definition activity_row_of :: "human_audit_log \<Rightarrow> activity_row" where
  "activity_row_of r =
     \<lparr>ac_id = str_uuid (aud_id r), ac_created_at = aud_created_at r, ac_action = aud_event_type r,
      ac_session_id = map_option str_uuid (aud_session_id r), ac_job_id = None\<rparr>"

record recent_activity_response =
  ra_total :: int
  ra_warnings :: int
  ra_critical :: int
  ra_rows :: "activity_row list"

definition recent_activity :: "nat \<Rightarrow> ('c, recent_activity_response) act" where
  "recent_activity limit =
     bnd audit_all_event_types (\<lambda>event_types. bnd (audit_list_recent limit) (\<lambda>rows.
       ret \<lparr>ra_total = int (length event_types),
            ra_warnings = int (length (filter (\<lambda>e. severity e = ''warn'') event_types)),
            ra_critical = int (length (filter (\<lambda>e. severity e = ''critical'') event_types)),
            ra_rows = map activity_row_of rows\<rparr>))"

record investment_profile_response =
  ip_firm_name :: "string option"
  ip_firm_type :: "string option"
  ip_aum_band :: "string option"
  ip_mandate :: "(string \<times> json) list"
  ip_weights :: "(string \<times> json) list"
  ip_updated_at :: instant

definition get_investment_profile :: "('c, investment_profile_response option) act" where
  "get_investment_profile =
     bnd profile_for_org (\<lambda>row. case row of
         None \<Rightarrow> ret None
       | Some p \<Rightarrow>
           bnd (lift_sum (pyd_dict (py_or (jopt (prof_mandate p)) (JObj [])))) (\<lambda>mandate.
           bnd (lift_sum (pyd_dict (py_or (jopt (prof_weights p)) (JObj [])))) (\<lambda>weights.
             ret (Some \<lparr>ip_firm_name = prof_firm_name p, ip_firm_type = prof_firm_type p,
               ip_aum_band = prof_aum_band p, ip_mandate = mandate, ip_weights = weights,
               ip_updated_at = prof_updated_at p\<rparr>))))"

lemma history_routes_confined [keep_rules]:
  "keeps (confined S H L) (list_history env)" "keeps (confined S H L) (get_history i)"
  "keeps (confined S H L) (delete_history c i)" "keeps (confined S H L) (clear_all_history c)"
  "keeps (confined S H L) (recent_activity n)" "keeps (confined S H L) get_investment_profile"
  unfolding list_history_def get_history_def delete_history_def clear_all_history_def
    recent_activity_def get_investment_profile_def
  by (intro keep_rules)+

subsection \<open>Deleting sessions\<close>

definition without_sessions :: "string \<Rightarrow> (session \<Rightarrow> bool) \<Rightarrow> db \<Rightarrow> db" where
  "without_sessions t p d = t_sessions_update
     (filter (\<lambda>s. \<not> (org_policy (Some t) d (ses_org_id s) \<and> p s))) d"

lemma without_sessions_other [simp]:
  "user_of t v (without_sessions t' p d) = user_of t v d"
  "t_organisation (without_sessions t' p d) = t_organisation d"
  "t_human_audit_log (without_sessions t' p d) = t_human_audit_log d"
  by (simp_all add: without_sessions_def user_of_def)

lemma delete_scoped:
  assumes "guc w = Some t"
  shows "sql_delete sessions_table p w =
    (Inr (filter p (sessions_of t (db w))), w\<lparr>db := without_sessions t p (db w)\<rparr>)"
  using assms
  by (simp add: sql_delete_def select_rows_def visible_def without_sessions_def sessions_of_def)

lemma without_sessions_wf:
  fixes w :: "'c world"
  assumes "wf_db (db w)"
  shows "wf_db (without_sessions t p (db w))"
proof -
  let ?w = "w\<lparr>guc := Some t\<rparr>"
  have "wf_db (db (snd (sql_delete sessions_table p ?w)))"
    by (rule wf_kept [OF sess.delete_confined]) (simp add: assms)
  then show ?thesis by (simp add: delete_scoped)
qed

lemma session_delete_scoped:
  "guc w = Some t \<Longrightarrow> session_delete i w =
     (Inr (\<exists>s \<in> set (sessions_of t (db w)). ses_id s = i),
      w\<lparr>db := without_sessions t (\<lambda>s. ses_id s = i) (db w)\<rparr>)"
  by (auto simp: session_delete_def bnd_app delete_scoped filter_empty_conv)

lemma session_delete_all_scoped:
  "guc w = Some t \<Longrightarrow> session_delete_all w =
     (Inr (int (length (sessions_of t (db w)))), w\<lparr>db := without_sessions t (\<lambda>_. True) (db w)\<rparr>)"
  by (simp add: session_delete_all_def bnd_app delete_scoped sql_select_def select_rows_def
      visible_def sessions_of_def)

lemma scoped_active:
  assumes "user_of (tenant_id c) (user_id c) (db w) = Some u" and "usr_status u = ''active''"
  shows "get_db env c h w = scoped_run c h w"
proof -
  let ?w = "w\<lparr>uow := [], guc := Some (tenant_id c)\<rparr>"
  have "ensure_user_provisioned env c ?w = (Inr (), ?w)" using assms by (simp add: provision_active)
  then show ?thesis unfolding get_db_def by (intro scoped_run_cong) simp
qed

lemma accepted_without [simp]:
  "audit_accepted t i x (without_sessions t' p d) = audit_accepted t i x d"
  by (simp add: audit_accepted_def org_policy_def)

text \<open>
  Deleting one memo. In one commit the session with that id is removed if, and only if,
  the caller's organisation owns it, the answer says which, and a \<open>memo_deleted\<close> row records
  it; sessions of other organisations stay, whatever their id.
\<close>

theorem delete_history_effect:
  assumes wf: "wf_db (db w)" and u: "user_of (tenant_id c) (user_id c) (db w) = Some u"
    and act: "usr_status u = ''active''"
    and ok: "audit_accepted (tenant_id c) (usr_org_id u) (rnd w (rnd_next w)) (db w)"
  shows "let found = (\<exists>s \<in> set (sessions_of (tenant_id c) (db w)). ses_id s = i) in
    get_db env c (delete_history c i) w =
      (Inr found, w\<lparr>guc := None, uow := [], rnd_next := Suc (rnd_next w),
         db := with_audit (audit_row (deleted_entry c u i found) (rnd w (rnd_next w)) (clock w))
           (without_sessions (tenant_id c) (\<lambda>s. ses_id s = i) (db w))\<rparr>)"
proof -
  let ?t = "tenant_id c" and ?w = "w\<lparr>uow := [], guc := Some (tenant_id c)\<rparr>"
  define found where "found = (\<exists>s \<in> set (sessions_of ?t (db w)). ses_id s = i)"
  have run: "delete_history c i ?w = (Inr found,
      ?w\<lparr>db := without_sessions ?t (\<lambda>s. ses_id s = i) (db w), uow := [InsertAudit (deleted_entry c u i found)]\<rparr>)"
    using u by (simp add: delete_history_def bnd_app session_delete_scoped caller_row_scoped
        audit_append_def session_add_def found_def)
  have "ent_org_id (deleted_entry c u i found) = usr_org_id u"
    by (simp add: deleted_entry_def user_entry_def)
  with commit_audit [where m = "delete_history c i" and w = w and c = c, OF run] ok
    without_sessions_wf [OF wf] scoped_active [OF u act, of env "delete_history c i"]
  show ?thesis by (simp add: Let_def found_def)
qed

text \<open>
  Clearing the history removes every session of the caller's organisation and none of
  any other, reports how many there were, records that number in one \<open>history_cleared\<close> row,
  and leaves a history whose listing is empty.
\<close>

theorem clear_history_effect:
  assumes wf: "wf_db (db w)" and u: "user_of (tenant_id c) (user_id c) (db w) = Some u"
    and act: "usr_status u = ''active''"
    and ok: "audit_accepted (tenant_id c) (usr_org_id u) (rnd w (rnd_next w)) (db w)"
  shows "let n = int (length (sessions_of (tenant_id c) (db w)));
      w' = w\<lparr>guc := None, uow := [], rnd_next := Suc (rnd_next w),
         db := with_audit (audit_row (cleared_entry c u n) (rnd w (rnd_next w)) (clock w))
           (without_sessions (tenant_id c) (\<lambda>_. True) (db w))\<rparr> in
    get_db env c (clear_all_history c) w = (Inr n, w')
    \<and> sessions_of (tenant_id c) (db w') = []
    \<and> fst (get_db env c (list_history env) w') = Inr []"
proof -
  let ?t = "tenant_id c" and ?w = "w\<lparr>uow := [], guc := Some (tenant_id c)\<rparr>"
  define n where "n = int (length (sessions_of ?t (db w)))"
  define w' where "w' = w\<lparr>guc := None, uow := [], rnd_next := Suc (rnd_next w),
    db := with_audit (audit_row (cleared_entry c u n) (rnd w (rnd_next w)) (clock w))
           (without_sessions ?t (\<lambda>_. True) (db w))\<rparr>"
  have run: "clear_all_history c ?w = (Inr n,
      ?w\<lparr>db := without_sessions ?t (\<lambda>_. True) (db w), uow := [InsertAudit (cleared_entry c u n)]\<rparr>)"
    using u by (simp add: clear_all_history_def bnd_app session_delete_all_scoped caller_row_scoped
        audit_append_def session_add_def n_def)
  have "ent_org_id (cleared_entry c u n) = usr_org_id u" by (simp add: cleared_entry_def user_entry_def)
  with commit_audit [where m = "clear_all_history c" and w = w and c = c, OF run] ok
    without_sessions_wf [OF wf] scoped_active [OF u act, of env "clear_all_history c"]
  have eff: "get_db env c (clear_all_history c) w = (Inr n, w')" by (simp add: w'_def)
  have none: "sessions_of ?t (db w') = []"
    by (auto simp: w'_def sessions_of_def without_sessions_def with_audit_def org_policy_def filter_empty_conv)
  have u': "user_of ?t (user_id c) (db w') = Some u" using u by (simp add: w'_def)
  have "list_history env (w'\<lparr>uow := [], guc := Some ?t\<rparr>) = (Inr [], w'\<lparr>uow := [], guc := Some ?t\<rparr>)"
    using none by (simp add: list_history_def session_list_for_org_def bnd_app sql_select_def
        select_rows_def visible_def sessions_of_def)
  then have "fst (get_db env c (list_history env) w') = Inr []"
    unfolding scoped_active [OF u' act]
    using scoped_run_plain [where m = "list_history env" and w = w' and c = c] by (simp add: w'_def)
  with eff none show ?thesis by (simp add: Let_def n_def w'_def)
qed

subsection \<open>The activity log\<close>

definition trail_of :: "string \<Rightarrow> db \<Rightarrow> human_audit_log list" where
  "trail_of t d = filter (\<lambda>r. org_policy (Some t) d (aud_org_id r)) (t_human_audit_log d)"

definition graded :: "string \<Rightarrow> human_audit_log list \<Rightarrow> int" where
  "graded s rs = int (length (filter (\<lambda>r. severity (aud_event_type r) = s) rs))"

lemma recent_activity_scoped:
  "guc w = Some t \<Longrightarrow> recent_activity n w =
     (Inr \<lparr>ra_total = int (length (trail_of t (db w))), ra_warnings = graded ''warn'' (trail_of t (db w)),
        ra_critical = graded ''critical'' (trail_of t (db w)),
        ra_rows = map activity_row_of (take n (sort_key (\<lambda>r. - aud_created_at r) (trail_of t (db w))))\<rparr>, w)"
  by (simp add: recent_activity_def audit_all_event_types_def audit_list_recent_def bnd_app sql_select_def
      select_rows_def visible_def trail_of_def graded_def filter_map o_def)

lemma severity_cases: "severity e \<in> {''critical'', ''warn'', ''info''}"
  by (simp add: severity_def)

lemma graded_total: "graded ''warn'' rs + graded ''critical'' rs + graded ''info'' rs = int (length rs)"
proof (induction rs)
  case (Cons r rs)
  with severity_cases [of "aud_event_type r"] show ?case by (auto simp: graded_def)
qed (simp add: graded_def)

text \<open>
  The activity log. Totals are over the organisation's whole trail, every event counts
  for exactly one grade, at most \<open>limit\<close> rows are listed and no unlisted event is newer than
  a listed one; reading the log writes nothing.
\<close>

theorem recent_activity_spec:
  assumes "guc w = Some t"
  shows "\<exists>resp rows rest. recent_activity n w = (Inr resp, w) \<and> ra_rows resp = map activity_row_of rows
    \<and> length rows = min n (length (trail_of t (db w))) \<and> ra_total resp = int (length (trail_of t (db w)))
    \<and> ra_warnings resp + ra_critical resp + graded ''info'' (trail_of t (db w)) = ra_total resp
    \<and> mset (trail_of t (db w)) = mset rows + mset rest
    \<and> list_all (\<lambda>r. list_all (\<lambda>r'. aud_created_at r' \<le> aud_created_at r) rest) rows"
proof -
  let ?all = "sort_key (\<lambda>r. - aud_created_at r) (trail_of t (db w))"
  have split: "mset (trail_of t (db w)) = mset (take n ?all) + mset (drop n ?all)"
    by (simp flip: mset_append)
  have "sorted (map (\<lambda>r. - aud_created_at r) (take n ?all @ drop n ?all))" by simp
  then have "list_all (\<lambda>r. list_all (\<lambda>r'. aud_created_at r' \<le> aud_created_at r) (drop n ?all)) (take n ?all)"
    unfolding map_append sorted_append by (auto simp: list_all_iff)
  note newest = this
  have "length (take n ?all) = min n (length (trail_of t (db w)))" by simp
  with split newest graded_total [of "trail_of t (db w)"] recent_activity_scoped [OF assms, of n]
  show ?thesis by (metis recent_activity_response.select_convs(1,2,3,4))
qed

end
