(* ===== verification/Members.thy ===== *)
theory Members
  imports Scoped
begin

section \<open>Own-organisation members\<close>

text \<open>
  \<open>app/api/admin/members.py\<close>: listing, removing and changing the role of a member of the
  caller's organisation. \<open>remove_member\<close> and \<open>update_member_role\<close> are the handlers' bodies,
  each inside \<open>org_admin_route\<close>. Changes to the loaded ORM object (\<open>target.status = ...\<close>)
  go to the unit of work and reach the database at the commit; the response is built from
  the object, so it already shows them. \<open>new_role\<close> comes from \<open>UpdateMemberRoleRequest\<close>,
  whose \<open>Literal["member", "admin"]\<close> is the datatype \<open>member_role\<close>.
\<close>

datatype member_role = RoleMember | RoleAdmin

fun role_text :: "member_role \<Rightarrow> string" where
  "role_text RoleMember = ''member''"
| "role_text RoleAdmin = ''admin''"

text \<open>\<open>_CLERK_ROLE\<close>\<close>

fun clerk_role :: "member_role \<Rightarrow> string" where
  "clerk_role RoleMember = ''org:member''"
| "clerk_role RoleAdmin = ''org:admin''"

record member_response =
  mr_id :: int
  mr_clerk_user_id :: string
  mr_name :: "string option"
  mr_email :: "string option"
  mr_role :: string
  mr_status :: string

text \<open>\<open>MemberResponse(...)\<close>; its \<open>status\<close> is \<open>Literal["active", "inactive"]\<close>.\<close>

definition member_response_of :: "user \<Rightarrow> exn + member_response" where
  "member_response_of u =
     (if usr_status u \<in> {''active'', ''inactive''} then
        Inr \<lparr>mr_id = usr_id u, mr_clerk_user_id = usr_clerk_user_id u, mr_name = usr_name u,
             mr_email = usr_email u, mr_role = usr_role u, mr_status = usr_status u\<rparr>
      else Inl (ValueError ''validation error''))"

definition list_members :: "('c, member_response list) act" where
  "list_members = bnd (sql_select users_table (\<lambda>_. True)) (\<lambda>us. lift_sum (smap member_response_of us))"

definition last_admin_guard :: "string \<Rightarrow> ('c, unit) act" where
  "last_admin_guard detail =
     bnd count_active_admins (\<lambda>n. guard (\<not> n \<le> 1) (HTTPException 403 (JStr detail)))"

definition is_active_row :: "clerk_admin_user option \<Rightarrow> bool" where
  "is_active_row row \<longleftrightarrow> (case row of None \<Rightarrow> False | Some r \<Rightarrow> adm_status r = ''active'')"

definition removed_payload :: "user \<Rightarrow> bool \<Rightarrow> json" where
  "removed_payload target target_is_active_admin =
     JObj [(''removed_clerk_user_id'', JStr (usr_clerk_user_id target)),
           (''removed_email'', opt_str (usr_email target)),
           (''admin_role_deactivated'', JBool target_is_active_admin),
           (''clerk_membership_revoked'', JBool True)]"

text \<open>What \<open>remove_member\<close> does once Clerk has revoked the membership.\<close>

definition removal_writes :: "token_claims \<Rightarrow> user \<Rightarrow> bool \<Rightarrow> ('c, bool) act" where
  "removal_writes c target target_is_active_admin =
     bnd utc_now (\<lambda>now.
     seq (session_add (UpdateUserStatus (usr_id target) ''inactive'' (Some now)))
     (seq (whenA target_is_active_admin (admin_deactivate (usr_clerk_user_id target)))
     (seq (admin_audit c ''admin_member_removed'' (Inr (removed_payload target target_is_active_admin)))
     (ret True))))"

definition remove_member :: "'c env \<Rightarrow> token_claims \<Rightarrow> int \<Rightarrow> ('c, bool) act" where
  "remove_member env c i =
     bnd (user_by_id i) (\<lambda>found. case found of
       None \<Rightarrow> throw (HTTPException 404 (JStr ''Member not found''))
     | Some target \<Rightarrow>
         seq (guard (usr_clerk_user_id target \<noteq> user_id c)
                (HTTPException 403 (JStr ''Cannot remove yourself'')))
         (bnd (admin_by_clerk_id (usr_clerk_user_id target)) (\<lambda>admin_row.
         seq (whenA (is_active_row admin_row) (last_admin_guard ''Cannot remove the last active admin''))
         (seq (via_clerk (remove_organization_membership env (tenant_id c) (usr_clerk_user_id target)))
         (removal_writes c target (is_active_row admin_row))))))"

definition role_changed_payload :: "user \<Rightarrow> member_role \<Rightarrow> json" where
  "role_changed_payload target new_role =
     JObj [(''target_clerk_user_id'', JStr (usr_clerk_user_id target)),
           (''target_email'', opt_str (usr_email target)),
           (''old_role'', JStr (usr_role target)), (''new_role'', JStr (role_text new_role)),
           (''clerk_membership_role_updated'', JBool True), (''users_role_updated'', JBool True)]"

text \<open>What \<open>update_member_role\<close> does once Clerk has changed the membership.\<close>

definition role_change_writes ::
  "'c env \<Rightarrow> token_claims \<Rightarrow> user \<Rightarrow> member_role \<Rightarrow> ('c, member_response) act" where
  "role_change_writes env c target new_role =
     bnd (admin_actor c) (\<lambda>(org, actor, actor_email).
     seq (case new_role of
            RoleAdmin \<Rightarrow> reactivate_or_create (usr_clerk_user_id target) (tenant_id c) org
                          (usr_email target) (admin_type_for env c)
          | RoleMember \<Rightarrow> admin_deactivate (usr_clerk_user_id target))
     (seq (session_add (UpdateUserRole (usr_id target) (role_text new_role)))
     (seq (audit_append \<lparr>ent_org_id = org, ent_actor_id = Some actor, ent_actor_email = actor_email,
             ent_event_type = ''admin_member_role_changed'', ent_deal_id = None,
             ent_session_id = None,
             ent_payload = Some (role_changed_payload target new_role)\<rparr>)
     (lift_sum (member_response_of (target\<lparr>usr_role := role_text new_role\<rparr>))))))"

definition update_member_role ::
  "'c env \<Rightarrow> token_claims \<Rightarrow> int \<Rightarrow> member_role \<Rightarrow> ('c, member_response) act" where
  "update_member_role env c i new_role =
     bnd (user_by_id i) (\<lambda>found. case found of
       None \<Rightarrow> throw (HTTPException 404 (JStr ''Member not found''))
     | Some target \<Rightarrow>
         seq (guard (usr_clerk_user_id target \<noteq> user_id c)
                (HTTPException 403 (JStr ''Cannot change your own role'')))
         (seq (whenA (usr_role target = ''admin'' \<and> new_role = RoleMember)
                (last_admin_guard ''Cannot demote the last active admin''))
         (if role_text new_role = usr_role target then lift_sum (member_response_of target)
          else
            seq (via_clerk (bnd (update_organization_membership env (tenant_id c)
                   (usr_clerk_user_id target) (clerk_role new_role)) (\<lambda>_. ret ())))
            (role_change_writes env c target new_role))))"

subsection \<open>The tenant invariant\<close>

lemma keeps_role [keep_rules]:
  "keeps I m \<Longrightarrow> keeps I n \<Longrightarrow> keeps I (case ro of RoleMember \<Rightarrow> m | RoleAdmin \<Rightarrow> n)"
  by (cases ro) simp_all

lemma last_admin_guard_confined [keep_rules]: "keeps (confined S H L) (last_admin_guard d)"
  unfolding last_admin_guard_def by (intro keep_rules)

lemma members_confined [keep_rules]:
  "keeps (confined S H L) list_members"
  "keeps (confined S H L) (remove_member env c i)"
  "keeps (confined S H L) (update_member_role env c i new_role)"
  unfolding list_members_def remove_member_def removal_writes_def update_member_role_def
    role_change_writes_def
  by (intro keep_rules users.sql_select_keeps)+

subsection \<open>Guards in a scoped session\<close>

lemma last_admin_guard_scoped [act_simps]:
  "guc w = Some t \<Longrightarrow> last_admin_guard detail w =
     (if active_admins t (db w) \<le> 1 then Inl (HTTPException 403 (JStr detail)) else Inr (), w)"
  by (simp add: last_admin_guard_def bnd_app count_active_admins_scoped)

subsection \<open>Removing a member\<close>

definition is_active_admin_in :: "string \<Rightarrow> string \<Rightarrow> db \<Rightarrow> bool" where
  "is_active_admin_in t u d \<longleftrightarrow> is_active_row (admin_in t u d)"

text \<open>The database after a removal, as a function of the one before.\<close>

definition after_removal :: "string \<Rightarrow> user \<Rightarrow> instant \<Rightarrow> human_audit_log \<Rightarrow> db \<Rightarrow> db" where
  "after_removal t target now a d =
     with_audit a
       (users_where t (usr_id target) (\<lambda>u. u\<lparr>usr_status := ''inactive'', usr_deactivated_at := Some now\<rparr>)
         (if is_active_admin_in t (usr_clerk_user_id target) d
          then admins_where t (usr_clerk_user_id target) (deactivate_row now) d else d))"

definition admin_entry :: "token_claims \<Rightarrow> clerk_admin_user \<Rightarrow> string \<Rightarrow> json \<Rightarrow> audit_entry" where
  "admin_entry c r event payload =
     \<lparr>ent_org_id = adm_org_id r, ent_actor_id = Some (user_id c), ent_actor_email = adm_email r,
      ent_event_type = event, ent_deal_id = None, ent_session_id = None, ent_payload = Some payload\<rparr>"

lemma admin_audit_scoped:
  "guc w = Some (tenant_id c) \<Longrightarrow> admin_in (tenant_id c) (user_id c) (db w) = Some r \<Longrightarrow>
     admin_audit c event (Inr payload) w = (Inr (), w\<lparr>uow := uow w @ [InsertAudit (admin_entry c r event payload)]\<rparr>)"
  by (simp add: admin_audit_def bnd_app admin_actor_scoped audit_append_def session_add_def admin_entry_def)

lemma admin_audit_error:
  "guc w = Some (tenant_id c) \<Longrightarrow> admin_in (tenant_id c) (user_id c) (db w) = Some r \<Longrightarrow>
     admin_audit c event (Inl e) w = (Inl e, w)"
  by (simp add: admin_audit_def bnd_app admin_actor_scoped)

lemma admin_audit_nobody:
  "guc w = Some (tenant_id c) \<Longrightarrow> admin_in (tenant_id c) (user_id c) (db w) = None \<Longrightarrow>
     admin_audit c event payload w = (Inl AssertionError, w)"
  by (simp add: admin_audit_def bnd_app admin_actor_scoped)

lemma remove_member_InrE:
  assumes wf: "wf_db (db w)" and g: "guc w = Some (tenant_id c)" and us: "uow w = []"
    and run: "remove_member env c i w = (Inr b, w')"
  obtains target r s where "user_in (tenant_id c) i (db w) = Some target"
    and "usr_clerk_user_id target \<noteq> user_id c"
    and "is_active_admin_in (tenant_id c) (usr_clerk_user_id target) (db w) \<longrightarrow>
           2 \<le> active_admins (tenant_id c) (db w)"
    and "admin_in (tenant_id c) (user_id c) (db w) = Some r" and "b = True"
    and "w' = w\<lparr>svc := s,
        uow := [UpdateUserStatus (usr_id target) ''inactive'' (Some (clock w)),
                InsertAudit (admin_entry c r ''admin_member_removed'' (removed_payload target
                  (is_active_admin_in (tenant_id c) (usr_clerk_user_id target) (db w))))],
        db := (if is_active_admin_in (tenant_id c) (usr_clerk_user_id target) (db w)
               then admins_where (tenant_id c) (usr_clerk_user_id target) (deactivate_row (clock w)) (db w)
               else db w)\<rparr>"
proof -
  let ?t = "tenant_id c"
  from run g obtain target where target: "user_in ?t i (db w) = Some target"
    and ne: "usr_clerk_user_id target \<noteq> user_id c"
    by (auto simp: remove_member_def bnd_app [of "user_by_id i"] user_by_id_scoped
        split: option.splits if_splits)
  let ?v = "usr_clerk_user_id target"
  let ?act = "is_active_admin_in ?t ?v (db w)"
  let ?m = "via_clerk (remove_organization_membership env ?t ?v)"
  let ?rest = "removal_writes c target ?act"
  have "(?act \<longrightarrow> 2 \<le> active_admins ?t (db w)) \<and> seq ?m ?rest w = (Inr b, w')"
    using run target ne g
    by (auto simp: remove_member_def bnd_app [of "user_by_id i"] user_by_id_scoped
        bnd_app [of "admin_by_clerk_id u" for u] admin_by_clerk_id_scoped is_active_admin_in_def
        bnd_app [of "last_admin_guard d" for d] last_admin_guard_scoped split: if_splits)
  then have two: "?act \<longrightarrow> 2 \<le> active_admins ?t (db w)" and go: "seq ?m ?rest w = (Inr b, w')" by auto
  from go obtain u w1 where m: "?m w = (Inr u, w1)" and r: "?rest w1 = (Inr b, w')" by (rule bnd_InrE)
  obtain s where w1: "w1 = outside w s"
    using externalE [OF external_via_clerk [OF clerk_external(7)] m] .
  let ?d = "if ?act then admins_where ?t ?v (deactivate_row (clock w)) (db w) else db w"
  have same: "admin_in ?t (user_id c) ?d = admin_in ?t (user_id c) (db w)"
    using ne by (simp add: admin_in_where_other)
  show thesis
  proof (cases "admin_in ?t (user_id c) (db w)")
    case None
    with r w1 g wf us same show thesis
      by (auto simp: removal_writes_def bnd_app utc_now_def session_add_def admin_deactivate_scoped admin_audit_nobody
          split: if_splits)
  next
    case (Some ra)
    with r w1 g wf us same show thesis
      by (intro that [OF target ne two Some, of s])
        (auto simp: removal_writes_def bnd_app utc_now_def session_add_def admin_deactivate_scoped admin_audit_scoped
          outside_def split: if_splits)
  qed
qed

lemma remove_member_commits:
  assumes wf: "wf_db (db w)" and run: "scoped_run c (remove_member env c i) w = (x, w')"
  shows "case x of
      Inl e \<Rightarrow> db w' = db w
    | Inr b \<Rightarrow> b = True \<and> (\<exists>target r.
        user_in (tenant_id c) i (db w) = Some target \<and> usr_clerk_user_id target \<noteq> user_id c
        \<and> admin_in (tenant_id c) (user_id c) (db w) = Some r
        \<and> (is_active_admin_in (tenant_id c) (usr_clerk_user_id target) (db w) \<longrightarrow>
             2 \<le> active_admins (tenant_id c) (db w))
        \<and> db w' = after_removal (tenant_id c) target (clock w)
            (audit_row (admin_entry c r ''admin_member_removed'' (removed_payload target
               (is_active_admin_in (tenant_id c) (usr_clerk_user_id target) (db w))))
             (rnd w (rnd_next w)) (clock w)) (db w))"
proof (cases x)
  case (Inl e)
  with run show ?thesis by (simp add: scoped_run_Inl)
next
  case (Inr b)
  let ?t = "tenant_id c" and ?w = "w\<lparr>uow := [], guc := Some (tenant_id c)\<rparr>"
  obtain wa wb where body: "remove_member env c i ?w = (Inr b, wa)"
    and fl: "run_writes (uow wa) (wa\<lparr>uow := []\<rparr>) = (Inr (), wb)"
    and w': "w' = wb\<lparr>guc := None, uow := []\<rparr>"
    using run Inr by (auto elim: scoped_run_InrE)
  have "wf_db (db ?w)" "guc ?w = Some ?t" "uow ?w = []" using wf by simp_all
  from remove_member_InrE [OF this body] obtain target r s
    where target: "user_in ?t i (db ?w) = Some target" and ne: "usr_clerk_user_id target \<noteq> user_id c"
    and two: "is_active_admin_in ?t (usr_clerk_user_id target) (db ?w) \<longrightarrow> 2 \<le> active_admins ?t (db ?w)"
    and r: "admin_in ?t (user_id c) (db ?w) = Some r" and b: "b = True"
    and wa: "wa = ?w\<lparr>svc := s,
        uow := [UpdateUserStatus (usr_id target) ''inactive'' (Some (clock ?w)),
                InsertAudit (admin_entry c r ''admin_member_removed'' (removed_payload target
                  (is_active_admin_in ?t (usr_clerk_user_id target) (db ?w))))],
        db := (if is_active_admin_in ?t (usr_clerk_user_id target) (db ?w)
               then admins_where ?t (usr_clerk_user_id target) (deactivate_row (clock ?w)) (db ?w)
               else db ?w)\<rparr>" .
  let ?d = "if is_active_admin_in ?t (usr_clerk_user_id target) (db w)
    then admins_where ?t (usr_clerk_user_id target) (deactivate_row (clock w)) (db w) else db w"
  have "wf_db ?d" using wf_admins_update [of ?w ?t] wf by simp
  moreover have "user_in ?t (usr_id target) ?d = Some target"
    using target user_in_SomeD [OF target] by simp
  ultimately have "run_write (UpdateUserStatus (usr_id target) ''inactive'' (Some (clock w)))
      (wa\<lparr>uow := []\<rparr>) = (Inr (), wa\<lparr>uow := [], db := users_where ?t (usr_id target)
        (\<lambda>u. u\<lparr>usr_status := ''inactive'', usr_deactivated_at := Some (clock w)\<rparr>) ?d\<rparr>)"
    by (subst user_status_write_scoped [where t = ?t and u = target])
      (auto simp: wa split: if_splits)
  from run_writes_step [OF this] fl have "run_write (InsertAudit (admin_entry c r ''admin_member_removed''
        (removed_payload target (is_active_admin_in ?t (usr_clerk_user_id target) (db w)))))
      (wa\<lparr>uow := [], db := users_where ?t (usr_id target)
        (\<lambda>u. u\<lparr>usr_status := ''inactive'', usr_deactivated_at := Some (clock w)\<rparr>) ?d\<rparr>) = (Inr (), wb)"
    by (simp add: wa run_writes_one)
  from audit_write_Inr [OF this] target ne two r b w' Inr show ?thesis
    by (auto simp: wa after_removal_def)
qed

text \<open>
  C23: a member removal that succeeds had a target in the caller's own organisation other
  than the caller, and, when that target was an active administrator, another active one
  besides; afterwards the database is exactly the one before with the member's row marked
  inactive and stamped, an active administrator row of theirs deactivated, and one audit
  row of the caller appended. A removal that fails leaves the database as it was.
\<close>

theorem remove_member_effect:
  assumes wf: "wf_db (db w)" and run: "scoped_run c (remove_member env c i) w = (x, w')"
  shows "case x of
      Inl e \<Rightarrow> db w' = db w
    | Inr b \<Rightarrow> b = True \<and> (\<exists>target r.
        user_in (tenant_id c) i (db w) = Some target \<and> usr_clerk_user_id target \<noteq> user_id c
        \<and> admin_in (tenant_id c) (user_id c) (db w) = Some r
        \<and> (is_active_admin_in (tenant_id c) (usr_clerk_user_id target) (db w) \<longrightarrow>
             2 \<le> active_admins (tenant_id c) (db w))
        \<and> db w' = after_removal (tenant_id c) target (clock w)
            (audit_row (admin_entry c r ''admin_member_removed'' (removed_payload target
               (is_active_admin_in (tenant_id c) (usr_clerk_user_id target) (db w))))
             (rnd w (rnd_next w)) (clock w)) (db w))"
  by (rule remove_member_commits [OF wf run])

subsection \<open>Guards come before Clerk\<close>

text \<open>Which refusal, if any, the guards of \<open>remove_member\<close> give, in their order.\<close>

definition removal_refusal :: "token_claims \<Rightarrow> int \<Rightarrow> db \<Rightarrow> exn option" where
  "removal_refusal c i d = (case user_in (tenant_id c) i d of
      None \<Rightarrow> Some (HTTPException 404 (JStr ''Member not found''))
    | Some target \<Rightarrow>
        if usr_clerk_user_id target = user_id c
        then Some (HTTPException 403 (JStr ''Cannot remove yourself''))
        else if is_active_admin_in (tenant_id c) (usr_clerk_user_id target) d
                \<and> active_admins (tenant_id c) d \<le> 1
        then Some (HTTPException 403 (JStr ''Cannot remove the last active admin''))
        else None)"

lemma remove_membership_svc:
  "svc (snd (remove_organization_membership env t v w)) =
     snd (http_send env (clerk_request env DELETE (membership_path t v) [] None) (svc w))"
  by (auto simp: remove_organization_membership_def http_call_def raise_for_status_def bnd_app
      split: prod.split option.split)

text \<open>
  The guards of a member removal come before Clerk. When the target is missing, is the
  caller, or is the last active administrator, the answer is that refusal and neither the
  database nor any external service has been touched. Otherwise Clerk has been sent
  exactly one request, the deletion of that membership.
\<close>

theorem remove_member_guards:
  "case removal_refusal c i (db w) of
     Some e \<Rightarrow> scoped_run c (remove_member env c i) w = (Inl e, w\<lparr>guc := None, uow := []\<rparr>)
   | None \<Rightarrow> \<exists>target. user_in (tenant_id c) i (db w) = Some target
       \<and> svc (snd (scoped_run c (remove_member env c i) w)) =
           snd (http_send env (clerk_request env DELETE
             (membership_path (tenant_id c) (usr_clerk_user_id target)) [] None) (svc w))"
proof (cases "removal_refusal c i (db w)")
  case (Some e)
  let ?w = "w\<lparr>uow := [], guc := Some (tenant_id c)\<rparr>"
  have "remove_member env c i ?w = (Inl e, ?w)"
    using Some
    by (auto simp: removal_refusal_def remove_member_def bnd_app [of "user_by_id i"] user_by_id_scoped
        bnd_app [of "admin_by_clerk_id u" for u] admin_by_clerk_id_scoped is_active_admin_in_def
        bnd_app [of "last_admin_guard d" for d] last_admin_guard_scoped split: option.splits if_splits)
  then show ?thesis using Some by (simp add: scoped_run_throw)
next
  case None
  let ?w = "w\<lparr>uow := [], guc := Some (tenant_id c)\<rparr>"
  from None obtain target where target: "user_in (tenant_id c) i (db w) = Some target"
    by (auto simp: removal_refusal_def split: option.splits)
  let ?v = "usr_clerk_user_id target"
  let ?act = "is_active_admin_in (tenant_id c) ?v (db w)"
  let ?rest = "removal_writes c target ?act"
  have "remove_member env c i ?w = seq (via_clerk (remove_organization_membership env (tenant_id c) ?v)) ?rest ?w"
    using None target
    by (auto simp: removal_refusal_def remove_member_def bnd_app [of "user_by_id i"] user_by_id_scoped
        bnd_app [of "admin_by_clerk_id u" for u] admin_by_clerk_id_scoped is_active_admin_in_def
        bnd_app [of "last_admin_guard d" for d] last_admin_guard_scoped split: if_splits)
  moreover have "svc (snd (seq (via_clerk (remove_organization_membership env (tenant_id c) ?v)) ?rest ?w)) =
      svc (snd (via_clerk (remove_organization_membership env (tenant_id c) ?v) ?w))"
    by (rule then_svc) (unfold removal_writes_def, intro keep_rules)
  ultimately have "svc (snd (remove_member env c i ?w)) =
      snd (http_send env (clerk_request env DELETE (membership_path (tenant_id c) ?v) [] None) (svc w))"
    by (simp add: via_clerk_svc remove_membership_svc)
  with None target show ?thesis by (simp add: scoped_run_svc)
qed

subsection \<open>Changing a member's role\<close>

text \<open>What becomes of the target's administrator row.\<close>

definition admins_after_change ::
  "'c env \<Rightarrow> token_claims \<Rightarrow> user \<Rightarrow> member_role \<Rightarrow> int \<Rightarrow> int \<Rightarrow> instant \<Rightarrow> db \<Rightarrow> db" where
  "admins_after_change env c target new_role org i now d =
     (let t = tenant_id c; v = usr_clerk_user_id target in
      case new_role of
        RoleMember \<Rightarrow> admins_where t v (deactivate_row now) d
      | RoleAdmin \<Rightarrow>
          (case admin_in t v d of
             Some _ \<Rightarrow> admins_where t v (activate_row (admin_type_for env c) now) d
           | None \<Rightarrow> t_clerk_admin_users_update
               (\<lambda>rs. rs @ [new_admin_row i now v t org (usr_email target) (admin_type_for env c)]) d))"

definition after_role_change ::
  "'c env \<Rightarrow> token_claims \<Rightarrow> user \<Rightarrow> member_role \<Rightarrow> int \<Rightarrow> int \<Rightarrow> instant \<Rightarrow> human_audit_log \<Rightarrow> db \<Rightarrow> db"
where
  "after_role_change env c target new_role org i now a d =
     with_audit a (users_where (tenant_id c) (usr_id target) (\<lambda>u. u\<lparr>usr_role := role_text new_role\<rparr>)
       (admins_after_change env c target new_role org i now d))"

lemma admins_after_change_users [simp]:
  "t_users (admins_after_change env c target ro org i now d) = t_users d"
  "user_in t j (admins_after_change env c target ro org i now d) = user_in t j d"
  "t_human_audit_log (admins_after_change env c target ro org i now d) = t_human_audit_log d"
  by (cases ro; simp add: admins_after_change_def Let_def user_in_def split: option.split)+

lemma admin_step_scoped:
  assumes wf: "wf_db (db w)" and g: "guc w = Some (tenant_id c)"
    and run: "(case ro of
        RoleAdmin \<Rightarrow> reactivate_or_create (usr_clerk_user_id target) (tenant_id c) org
                      (usr_email target) (admin_type_for env c)
      | RoleMember \<Rightarrow> admin_deactivate (usr_clerk_user_id target)) w = (Inr x, w')"
  shows "db w' = admins_after_change env c target ro org (seq_admin w) (clock w) (db w)
    \<and> w' = w\<lparr>seq_admin := seq_admin w', db := db w'\<rparr>"
proof (cases ro)
  case RoleMember
  then have "w' = w\<lparr>db := admins_where (tenant_id c) (usr_clerk_user_id target)
      (deactivate_row (clock w)) (db w)\<rparr>"
    using run admin_deactivate_scoped [OF wf g] by simp
  then show ?thesis
    using RoleMember by (cases w) (simp add: admins_after_change_def Let_def)
next
  case RoleAdmin
  let ?t = "tenant_id c" and ?v = "usr_clerk_user_id target"
  from RoleAdmin run have r: "reactivate_or_create ?v ?t org (usr_email target) (admin_type_for env c) w
      = (Inr x, w')" by simp
  show ?thesis
  proof (cases "admin_in ?t ?v (db w)")
    case (Some ra)
    have "w' = w\<lparr>seq_admin := seq_admin w + 1,
        db := admins_where ?t ?v (activate_row (admin_type_for env c) (clock w)) (db w)\<rparr>"
      using r reactivate_existing_scoped [OF wf g Some] by simp
    with RoleAdmin Some show ?thesis by (simp add: admins_after_change_def Let_def)
  next
    case None
    have "?v \<notin> adm_clerk_user_id ` set (t_clerk_admin_users (db w))"
      using reactivate_hidden_scoped [OF g None] r by (metis fst_conv sum.distinct(1))
    with RoleAdmin None reactivate_new_scoped [OF g _ r] show ?thesis
      by (simp add: admins_after_change_def Let_def)
  qed
qed

lemma role_change_writes_InrE:
  fixes w :: "'c world"
  assumes wf: "wf_db (db w)" and g: "guc w = Some (tenant_id c)" and us: "uow w = []"
    and run: "role_change_writes env c target ro w = (Inr resp, w')"
  obtains r where "admin_in (tenant_id c) (user_id c) (db w) = Some r"
    and "member_response_of (target\<lparr>usr_role := role_text ro\<rparr>) = Inr resp"
    and "uow w' = [UpdateUserRole (usr_id target) (role_text ro),
       InsertAudit (admin_entry c r ''admin_member_role_changed'' (role_changed_payload target ro))]"
    and "db w' = admins_after_change env c target ro (adm_org_id r) (seq_admin w) (clock w) (db w)"
    and "wf_db (db w')" and "guc w' = guc w" and "clock w' = clock w" and "rnd w' = rnd w"
    and "rnd_next w' = rnd_next w"
proof -
  let ?step = "\<lambda>r. case ro of
        RoleAdmin \<Rightarrow> reactivate_or_create (usr_clerk_user_id target) (tenant_id c) (adm_org_id r)
                      (usr_email target) (admin_type_for env c)
      | RoleMember \<Rightarrow> admin_deactivate (usr_clerk_user_id target)"
  from run g obtain r w1 where r: "admin_in (tenant_id c) (user_id c) (db w) = Some r"
    and s: "?step r w = (Inr (), w1)"
    and rest: "seq (session_add (UpdateUserRole (usr_id target) (role_text ro)))
     (seq (audit_append (admin_entry c r ''admin_member_role_changed'' (role_changed_payload target ro)))
     (lift_sum (member_response_of (target\<lparr>usr_role := role_text ro\<rparr>)))) w1 = (Inr resp, w')"
    by (auto simp: role_change_writes_def bnd_app [of "admin_actor c"] admin_actor_scoped admin_entry_def
        elim!: bnd_InrE split: option.splits)
  note step = admin_step_scoped [OF wf g s]
  have "keeps (confined S H L) (?step r)" for S H L by (intro keep_rules)
  then have "wf_db (db (snd (?step r w)))" using wf by (rule wf_kept)
  then have "wf_db (db w1)" using s by simp
  moreover have "w' = w1\<lparr>uow := uow w1 @ [UpdateUserRole (usr_id target) (role_text ro),
       InsertAudit (admin_entry c r ''admin_member_role_changed'' (role_changed_payload target ro))]\<rparr>"
    and "member_response_of (target\<lparr>usr_role := role_text ro\<rparr>) = Inr resp"
    using rest by (auto simp: session_add_def audit_append_def dest!: lift_sum_InrE)
  moreover obtain k d where "w1 = w\<lparr>seq_admin := k, db := d\<rparr>" using step by blast
  then have "guc w1 = guc w" "clock w1 = clock w" "uow w1 = []" "rnd w1 = rnd w" "rnd_next w1 = rnd_next w"
    by (simp_all add: us)
  ultimately show thesis using that r step by simp
qed

text \<open>A role change from the call to Clerk to the commit.\<close>

lemma role_change_commits:
  fixes w :: "'c world"
  assumes wf: "wf_db (db w)" and g: "guc w = Some (tenant_id c)" "uow w = []"
    and target: "user_in (tenant_id c) i (db w) = Some target"
    and run: "seq (via_clerk (bnd (update_organization_membership env (tenant_id c) (usr_clerk_user_id target) (clerk_role ro))
       (\<lambda>_. ret ()))) (role_change_writes env c target ro) w = (Inr resp, wa)"
    and fl: "run_writes (uow wa) (wa\<lparr>uow := []\<rparr>) = (Inr (), wb)"
  obtains r where "admin_in (tenant_id c) (user_id c) (db w) = Some r"
    and "member_response_of (target\<lparr>usr_role := role_text ro\<rparr>) = Inr resp"
    and "db wb = after_role_change env c target ro (adm_org_id r) (seq_admin w) (clock w)
        (audit_row (admin_entry c r ''admin_member_role_changed'' (role_changed_payload target ro))
          (rnd w (rnd_next w)) (clock w)) (db w)"
proof -
  let ?t = "tenant_id c"
  let ?call = "via_clerk (bnd (update_organization_membership env ?t (usr_clerk_user_id target) (clerk_role ro)) (\<lambda>_. ret ()))"
  from run obtain u w1 where call: "?call w = (Inr u, w1)"
    and wr: "role_change_writes env c target ro w1 = (Inr resp, wa)" by (rule bnd_InrE)
  have "external ?call" by (intro external_rules)
  then obtain s where w1: "w1 = outside w s" using call by (rule externalE)
  have "wf_db (db w1)" "guc w1 = Some ?t" "uow w1 = []" using wf g w1 by simp_all
  from role_change_writes_InrE [OF this wr] obtain r
    where r: "admin_in ?t (user_id c) (db w1) = Some r"
    and resp: "member_response_of (target\<lparr>usr_role := role_text ro\<rparr>) = Inr resp"
    and us: "uow wa = [UpdateUserRole (usr_id target) (role_text ro),
       InsertAudit (admin_entry c r ''admin_member_role_changed'' (role_changed_payload target ro))]"
    and d: "db wa = admins_after_change env c target ro (adm_org_id r) (seq_admin w1) (clock w1) (db w1)"
    and wfa: "wf_db (db wa)" and same: "guc wa = guc w1" "clock wa = clock w1" "rnd wa = rnd w1"
      "rnd_next wa = rnd_next w1" .
  let ?wa = "wa\<lparr>uow := []\<rparr>"
  have "wf_db (db ?wa)" "guc ?wa = Some ?t" "user_in ?t (usr_id target) (db ?wa) = Some target"
    using wfa same(1) w1 d g target user_in_SomeD [OF target] by simp_all
  from run_writes_step [OF user_role_write_scoped [OF this]] fl us
  have "run_write (InsertAudit (admin_entry c r ''admin_member_role_changed'' (role_changed_payload target ro)))
      (?wa\<lparr>db := users_where ?t (usr_id target) (\<lambda>u. u\<lparr>usr_role := role_text ro\<rparr>) (db wa)\<rparr>)
      = (Inr (), wb)"
    by (simp add: run_writes_one)
  from audit_write_Inr [OF this] d r w1 same(2-4) resp show thesis
    by (intro that [of r]) (simp_all add: after_role_change_def)
qed

text \<open>
  A role change that succeeds concerns a member of the caller's own organisation other
  than the caller. If the member already has the role nothing is written and Clerk is not
  called; otherwise the member's row gets the role, their administrator row is activated,
  created or deactivated to match, and one audit row is appended. A demotion requires two
  active administrators. A change that fails leaves the database as it was.
\<close>

theorem update_member_role_effect:
  fixes w :: "'c world"
  assumes wf: "wf_db (db w)" and run: "scoped_run c (update_member_role env c i ro) w = (x, w')"
  shows "case x of
      Inl e \<Rightarrow> db w' = db w
    | Inr resp \<Rightarrow> (\<exists>target. user_in (tenant_id c) i (db w) = Some target
        \<and> usr_clerk_user_id target \<noteq> user_id c
        \<and> (usr_role target = ''admin'' \<and> ro = RoleMember \<longrightarrow> 2 \<le> active_admins (tenant_id c) (db w))
        \<and> member_response_of (target\<lparr>usr_role := role_text ro\<rparr>) = Inr resp
        \<and> (if role_text ro = usr_role target then db w' = db w \<and> svc w' = svc w
           else \<exists>r. admin_in (tenant_id c) (user_id c) (db w) = Some r
             \<and> db w' = after_role_change env c target ro (adm_org_id r) (seq_admin w) (clock w)
                 (audit_row (admin_entry c r ''admin_member_role_changed'' (role_changed_payload target ro))
                   (rnd w (rnd_next w)) (clock w)) (db w)))"
proof (cases x)
  case (Inl e)
  with run show ?thesis by (simp add: scoped_run_Inl)
next
  case (Inr resp)
  let ?t = "tenant_id c" and ?w = "w\<lparr>uow := [], guc := Some (tenant_id c)\<rparr>"
  obtain wa wb where body: "update_member_role env c i ro ?w = (Inr resp, wa)"
    and fl: "run_writes (uow wa) (wa\<lparr>uow := []\<rparr>) = (Inr (), wb)"
    and w': "w' = wb\<lparr>guc := None, uow := []\<rparr>"
    using run Inr by (auto elim: scoped_run_InrE)
  from body obtain target where target: "user_in ?t i (db w) = Some target"
    and ne: "usr_clerk_user_id target \<noteq> user_id c"
    by (auto simp: update_member_role_def bnd_app [of "user_by_id i"] user_by_id_scoped
        split: option.splits if_splits)
  let ?call = "via_clerk (bnd (update_organization_membership env ?t
       (usr_clerk_user_id target) (clerk_role ro)) (\<lambda>_. ret ()))"
  from body target ne
  have two: "usr_role target = ''admin'' \<and> ro = RoleMember \<longrightarrow> 2 \<le> active_admins ?t (db w)"
    and tail: "(if role_text ro = usr_role target then lift_sum (member_response_of target)
      else seq ?call (role_change_writes env c target ro)) ?w = (Inr resp, wa)"
    by (auto simp: update_member_role_def bnd_app [of "user_by_id i"] user_by_id_scoped
        bnd_app [of "last_admin_guard d" for d] last_admin_guard_scoped split: if_splits)
  show ?thesis
  proof (cases "role_text ro = usr_role target")
    case True
    with tail fl w' Inr target ne two show ?thesis by (auto dest!: lift_sum_InrE)
  next
    case False
    with tail have "seq ?call (role_change_writes env c target ro) ?w = (Inr resp, wa)" by simp
    from role_change_commits [OF _ _ _ _ this fl] wf target obtain r where "admin_in ?t (user_id c) (db w) = Some r"
      "member_response_of (target\<lparr>usr_role := role_text ro\<rparr>) = Inr resp"
      "db wb = after_role_change env c target ro (adm_org_id r) (seq_admin w) (clock w)
        (audit_row (admin_entry c r ''admin_member_role_changed'' (role_changed_payload target ro))
          (rnd w (rnd_next w)) (clock w)) (db w)" by auto
    with Inr False target ne two w' show ?thesis by auto
  qed
qed

lemma active_admin_where_other:
  assumes "keeps_admin_keys f" and "u \<noteq> v"
  shows "active_admin t v (admins_where t' u f d) = active_admin t v d"
proof -
  have "admin_in t v (admins_where t' u f d) = admin_in t v d"
    unfolding admin_in_def admins_where_def using assms
    by (auto simp: keeps_admin_keys_def intro!: first_match_map_where_other)
  then show ?thesis by (simp add: active_admin_def)
qed

lemma active_admin_append:
  "active_admin t u d \<Longrightarrow> active_admin t u (t_clerk_admin_users_update (\<lambda>rs. rs @ xs) d)"
  by (auto simp: active_admin_def admin_in_def first_match_append split: option.splits)

lemma active_admin_other_tables [simp]:
  "active_admin t u (users_where t' i f d) = active_admin t u d"
  "active_admin t u (with_audit a d) = active_admin t u d"
  by (simp_all add: active_admin_def)

lemma active_admin_after_change:
  "usr_clerk_user_id target \<noteq> u \<Longrightarrow> active_admin t u d \<Longrightarrow>
     active_admin t u (admins_after_change env c target ro org i now d)"
  by (simp add: admins_after_change_def Let_def active_admin_where_other active_admin_append
      split: member_role.split option.split)

text \<open>
  C11: an administrator cannot lock the organisation out. Whatever a removal or a role
  change does, and however it ends, the calling administrator is still an active
  administrator of the organisation afterwards.
\<close>

theorem caller_stays_admin:
  assumes wf: "wf_db (db w)" and caller: "active_admin (tenant_id c) (user_id c) (db w)"
  shows "active_admin (tenant_id c) (user_id c) (db (snd (scoped_run c (remove_member env c i) w)))
    \<and> active_admin (tenant_id c) (user_id c) (db (snd (scoped_run c (update_member_role env c i ro) w)))"
proof
  obtain x w1 where r: "scoped_run c (remove_member env c i) w = (x, w1)" by fastforce
  show "active_admin (tenant_id c) (user_id c) (db (snd (scoped_run c (remove_member env c i) w)))"
    using remove_member_commits [OF wf r] caller
    by (auto simp: r after_removal_def active_admin_where_other split: sum.splits)
  obtain y w2 where u: "scoped_run c (update_member_role env c i ro) w = (y, w2)" by fastforce
  show "active_admin (tenant_id c) (user_id c) (db (snd (scoped_run c (update_member_role env c i ro) w)))"
    using update_member_role_effect [OF wf u] caller
    by (auto simp: u after_role_change_def active_admin_after_change split: sum.splits if_splits)
qed

end
