(* ===== verification/PlatformMembers.thy ===== *)
theory PlatformMembers
  imports Members
begin

section \<open>Cross-organisation members\<close>

text \<open>
  \<open>app/api/admin/platform_members.py\<close>: a platform administrator lists, removes and changes
  members of another organisation. The session starts scoped to the platform's own
  organisation; the handlers re-point it to the target with \<open>_set_org_scope\<close>, flush, and
  point it back for the audit row, all in one transaction. Memberships come from Clerk as
  JSON of any shape.
\<close>

subsection \<open>Reading Clerk's memberships\<close>

text \<open>\<open>" ".join(p for p in parts if p)\<close> over the two names, \<open>None\<close> when empty.\<close>

fun join_names :: "json list \<Rightarrow> exn + string list" where
  "join_names [] = Inr []"
| "join_names (p # ps) =
     (if \<not> py_truthy p then join_names ps
      else case p of JStr s \<Rightarrow> sbind (join_names ps) (\<lambda>ss. Inr (s # ss)) | _ \<Rightarrow> Inl TypeError)"

definition member_name :: "json \<Rightarrow> exn + string option" where
  "member_name pud =
     sbind (json_get pud ''first_name'') (\<lambda>a.
     sbind (json_get pud ''last_name'') (\<lambda>b.
     sbind (join_names [a, b]) (\<lambda>parts.
       let nm = py_join '' '' parts in Inr (if nm = [] then None else Some nm))))"

record org_member_response =
  om_id :: string
  om_user_id :: string
  om_name :: "string option"
  om_email :: "string option"
  om_role :: string
  om_status :: string

definition to_org_member_response :: "json \<Rightarrow> exn + org_member_response" where
  "to_org_member_response m =
     sbind (json_idx m ''id'') (\<lambda>i.
     sbind (json_idx m ''public_user_data'') (\<lambda>pud.
     sbind (json_idx pud ''user_id'') (\<lambda>u.
     sbind (member_name pud) (\<lambda>nm.
     sbind (json_get pud ''identifier'') (\<lambda>email.
     sbind (json_idx m ''role'') (\<lambda>role.
     sbind (pyd_str i) (\<lambda>i'. sbind (pyd_str u) (\<lambda>u'. sbind (pyd_opt_str email) (\<lambda>e'.
     sbind (pyd_str role) (\<lambda>r'.
       Inr \<lparr>om_id = i', om_user_id = u', om_name = nm, om_email = e', om_role = r',
            om_status = ''active''\<rparr>))))))))))"

definition inactive_local_response :: "user \<Rightarrow> exn + org_member_response" where
  "inactive_local_response u =
     (if usr_role u = ''member'' \<or> usr_role u = ''admin'' then
        Inr \<lparr>om_id = usr_clerk_user_id u, om_user_id = usr_clerk_user_id u, om_name = usr_name u,
             om_email = usr_email u,
             om_role = (if usr_role u = ''admin'' then ''org:admin'' else ''org:member''),
             om_status = ''inactive''\<rparr>
      else Inl (KeyError (usr_role u)))"

text \<open>\<open>m["public_user_data"]["user_id"]\<close>\<close>

definition membership_user :: "json \<Rightarrow> exn + json" where
  "membership_user m = sbind (json_idx m ''public_user_data'') (\<lambda>pud. json_idx pud ''user_id'')"

text \<open>Membership of a Python set: lists and dicts are unhashable.\<close>

fun hashable :: "json \<Rightarrow> exn + json" where
  "hashable (JArr xs) = Inl TypeError"
| "hashable (JObj kvs) = Inl TypeError"
| "hashable j = Inr j"

definition live_user_ids :: "json list \<Rightarrow> exn + json list" where
  "live_user_ids = smap (\<lambda>m. sbind (membership_user m) hashable)"

text \<open>\<open>next((m for m in memberships if ... == clerk_user_id), None)\<close>\<close>

fun find_membership :: "string \<Rightarrow> json list \<Rightarrow> exn + json option" where
  "find_membership u [] = Inr None"
| "find_membership u (m # ms) =
     sbind (membership_user m) (\<lambda>v. if v = JStr u then Inr (Some m) else find_membership u ms)"

subsection \<open>The handlers\<close>

definition list_org_members :: "'c env \<Rightarrow> string \<Rightarrow> ('c, org_member_response list) act" where
  "list_org_members env clerk_org_id =
     bnd (via_clerk (list_organization_memberships env clerk_org_id)) (\<lambda>memberships.
     bnd (lift_sum (live_user_ids memberships)) (\<lambda>live.
     seq (set_org_scope clerk_org_id)
     (bnd (sql_select users_table (\<lambda>u. usr_status u = ''inactive'')) (\<lambda>local_inactive.
     bnd (lift_sum (smap to_org_member_response memberships)) (\<lambda>xs.
     bnd (lift_sum (smap inactive_local_response
            (filter (\<lambda>u. JStr (usr_clerk_user_id u) \<notin> set live) local_inactive))) (\<lambda>ys.
     ret (xs @ ys)))))))"

text \<open>The three checks both mutating handlers start with, and the member they are about.\<close>

definition manage_target ::
  "'c env \<Rightarrow> token_claims \<Rightarrow> string \<Rightarrow> string \<Rightarrow> string \<Rightarrow> ('c, json) act" where
  "manage_target env c clerk_org_id clerk_user_id self_detail =
     seq (guard (clerk_org_id \<noteq> simpero_platform_org_id (settings env))
            (HTTPException 403 (JStr ''Cannot manage members of the platform org'')))
     (seq (guard (clerk_user_id \<noteq> user_id c) (HTTPException 403 (JStr self_detail)))
     (bnd (via_clerk (list_organization_memberships env clerk_org_id)) (\<lambda>memberships.
     bnd (lift_sum (find_membership clerk_user_id memberships)) (\<lambda>found.
       case found of
         None \<Rightarrow> throw (HTTPException 404 (JStr ''Member not found in organization''))
       | Some m \<Rightarrow> ret m))))"

definition org_role_payload :: "string \<Rightarrow> string \<Rightarrow> json \<Rightarrow> json \<Rightarrow> member_role \<Rightarrow> bool \<Rightarrow> json" where
  "org_role_payload clerk_org_id clerk_user_id email old_role new_role users_role_updated =
     JObj [(''target_clerk_org_id'', JStr clerk_org_id), (''target_clerk_user_id'', JStr clerk_user_id),
           (''target_email'', email), (''old_role'', old_role), (''new_role'', JStr (clerk_role new_role)),
           (''clerk_membership_role_updated'', JBool True),
           (''users_role_updated'', JBool users_role_updated)]"

text \<open>\<open>await HumanAuditRepo(db).append({..., "target_email": await fetch_...})\<close>, in the platform's scope.\<close>

definition platform_audit ::
  "'c env \<Rightarrow> token_claims \<Rightarrow> string \<Rightarrow> string \<Rightarrow> (json \<Rightarrow> json) \<Rightarrow> ('c, unit) act" where
  "platform_audit env c clerk_user_id event payload_with =
     seq (set_org_scope (tenant_id c))
     (bnd (admin_actor c) (\<lambda>(org, actor, actor_email).
     bnd (fetch_clerk_user_primary_email env clerk_user_id) (\<lambda>email.
       audit_append \<lparr>ent_org_id = org, ent_actor_id = Some actor, ent_actor_email = actor_email,
         ent_event_type = event, ent_deal_id = None, ent_session_id = None,
         ent_payload = Some (payload_with email)\<rparr>)))"

text \<open>The local writes of the role change, under the target organisation's scope.\<close>

definition org_role_writes :: "string \<Rightarrow> string \<Rightarrow> member_role \<Rightarrow> ('c, bool) act" where
  "org_role_writes clerk_org_id clerk_user_id new_role =
     seq (set_org_scope clerk_org_id)
     (seq (case new_role of
             RoleAdmin \<Rightarrow> bnd (reactivate_if_exists clerk_user_id Client) (\<lambda>_. ret ())
           | RoleMember \<Rightarrow> admin_deactivate clerk_user_id)
     (bnd (user_by_clerk_id clerk_user_id) (\<lambda>local_user. case local_user of
         None \<Rightarrow> ret False
       | Some u \<Rightarrow>
           seq (session_add (UpdateUserRole (usr_id u) (role_text new_role)))
           (seq flush (ret True)))))"

definition update_org_member_role ::
  "'c env \<Rightarrow> token_claims \<Rightarrow> string \<Rightarrow> string \<Rightarrow> member_role \<Rightarrow> ('c, org_member_response) act" where
  "update_org_member_role env c clerk_org_id clerk_user_id new_role =
     bnd (manage_target env c clerk_org_id clerk_user_id ''Cannot change your own role'') (\<lambda>current.
     bnd (lift_sum (json_idx current ''role'')) (\<lambda>old_role.
     if JStr (clerk_role new_role) = old_role then lift_sum (to_org_member_response current)
     else
       seq (whenA (old_role = JStr ''org:admin'' \<and> new_role = RoleMember)
              (seq (set_org_scope clerk_org_id) (last_admin_guard ''Cannot demote the last active admin'')))
       (bnd (via_clerk (update_organization_membership env clerk_org_id clerk_user_id
               (clerk_role new_role))) (\<lambda>updated.
       bnd (org_role_writes clerk_org_id clerk_user_id new_role) (\<lambda>users_role_updated.
       seq (platform_audit env c clerk_user_id ''admin_member_role_changed''
              (\<lambda>email. org_role_payload clerk_org_id clerk_user_id email old_role new_role users_role_updated))
       (lift_sum (to_org_member_response updated)))))))"

definition org_removed_payload :: "string \<Rightarrow> string \<Rightarrow> json \<Rightarrow> bool \<Rightarrow> json" where
  "org_removed_payload clerk_org_id clerk_user_id email target_is_admin =
     JObj [(''target_clerk_org_id'', JStr clerk_org_id), (''target_clerk_user_id'', JStr clerk_user_id),
           (''target_email'', email), (''admin_role_deactivated'', JBool target_is_admin),
           (''clerk_membership_revoked'', JBool True)]"

definition org_removal_writes :: "string \<Rightarrow> string \<Rightarrow> bool \<Rightarrow> ('c, unit) act" where
  "org_removal_writes clerk_org_id clerk_user_id target_is_admin =
     seq (set_org_scope clerk_org_id)
     (seq (whenA target_is_admin (admin_deactivate clerk_user_id))
     (bnd (user_by_clerk_id clerk_user_id) (\<lambda>local_user. case local_user of
         None \<Rightarrow> ret ()
       | Some u \<Rightarrow>
           bnd utc_now (\<lambda>now.
           seq (session_add (UpdateUserStatus (usr_id u) ''inactive'' (Some now))) flush))))"

text \<open>The handler from \<open>target_is_admin = ...\<close> on.\<close>

definition remove_org_member_as ::
  "'c env \<Rightarrow> token_claims \<Rightarrow> string \<Rightarrow> string \<Rightarrow> bool \<Rightarrow> ('c, bool) act" where
  "remove_org_member_as env c clerk_org_id clerk_user_id target_is_admin =
     seq (whenA target_is_admin
            (seq (set_org_scope clerk_org_id) (last_admin_guard ''Cannot remove the last active admin'')))
     (seq (via_clerk (remove_organization_membership env clerk_org_id clerk_user_id))
     (seq (org_removal_writes clerk_org_id clerk_user_id target_is_admin)
     (seq (platform_audit env c clerk_user_id ''admin_member_removed''
            (\<lambda>email. org_removed_payload clerk_org_id clerk_user_id email target_is_admin))
     (ret True))))"

definition remove_org_member ::
  "'c env \<Rightarrow> token_claims \<Rightarrow> string \<Rightarrow> string \<Rightarrow> ('c, bool) act" where
  "remove_org_member env c clerk_org_id clerk_user_id =
     bnd (manage_target env c clerk_org_id clerk_user_id ''Cannot remove yourself'') (\<lambda>current.
     bnd (lift_sum (json_idx current ''role'')) (\<lambda>role.
       remove_org_member_as env c clerk_org_id clerk_user_id (role = JStr ''org:admin'')))"

subsection \<open>The tenant invariant: the platform's rows and the target's, nothing else\<close>

lemma platform_members_confined:
  assumes "clerk_org_id \<in> S" and "tenant_id c \<in> S"
  shows "keeps (confined S H L) (list_org_members env clerk_org_id)"
    and "keeps (confined S H L) (update_org_member_role env c clerk_org_id u ro)"
    and "keeps (confined S H L) (remove_org_member env c clerk_org_id u)"
  unfolding list_org_members_def update_org_member_role_def remove_org_member_def manage_target_def
    org_role_writes_def org_removal_writes_def platform_audit_def remove_org_member_as_def
  by (intro keep_rules scope_confined assms users.sql_select_keeps)+

subsection \<open>The local writes\<close>

definition admin_change :: "member_role \<Rightarrow> instant \<Rightarrow> clerk_admin_user \<Rightarrow> clerk_admin_user" where
  "admin_change ro now = (case ro of RoleAdmin \<Rightarrow> activate_row Client now | RoleMember \<Rightarrow> deactivate_row now)"

text \<open>The target organisation's rows after a role change, and after a removal.\<close>

definition org_role_db :: "string \<Rightarrow> string \<Rightarrow> member_role \<Rightarrow> instant \<Rightarrow> db \<Rightarrow> db" where
  "org_role_db t v ro now d =
     (let d1 = admins_where t v (admin_change ro now) d in
      case user_of t v d of None \<Rightarrow> d1
      | Some u \<Rightarrow> users_where t (usr_id u) (\<lambda>u. u\<lparr>usr_role := role_text ro\<rparr>) d1)"

definition org_removal_db :: "string \<Rightarrow> string \<Rightarrow> bool \<Rightarrow> instant \<Rightarrow> db \<Rightarrow> db" where
  "org_removal_db t v was_admin now d =
     (let d1 = (if was_admin then admins_where t v (deactivate_row now) d else d) in
      case user_of t v d of None \<Rightarrow> d1
      | Some u \<Rightarrow> users_where t (usr_id u)
          (\<lambda>u. u\<lparr>usr_status := ''inactive'', usr_deactivated_at := Some now\<rparr>) d1)"

lemma admin_change_keys [simp]: "keeps_admin_keys (admin_change ro now)"
  by (cases ro) (simp_all add: admin_change_def)

lemma flush_one_user_role:
  assumes "wf_db (db w)" and "guc w = Some t" and "user_in t i (db w) = Some u" and "uow w = []"
  shows "bnd (session_add (UpdateUserRole i ro)) (\<lambda>_. flush) w =
    (Inr (), w\<lparr>db := users_where t i (\<lambda>u. u\<lparr>usr_role := ro\<rparr>) (db w)\<rparr>)"
proof -
  have "run_write (UpdateUserRole i ro) (w\<lparr>uow := []\<rparr>) =
      (Inr (), w\<lparr>db := users_where t i (\<lambda>u. u\<lparr>usr_role := ro\<rparr>) (db w)\<rparr>)"
    using user_role_write_scoped [OF assms(1-3)] assms(4) by (cases w) simp
  then show ?thesis using assms(4)
    by (simp add: session_add_def flush_def run_writes_one)
qed

lemma flush_one_user_status:
  assumes "wf_db (db w)" and "guc w = Some t" and "user_in t i (db w) = Some u" and "uow w = []"
  shows "bnd (session_add (UpdateUserStatus i st tm)) (\<lambda>_. flush) w =
    (Inr (), w\<lparr>db := users_where t i (\<lambda>u. u\<lparr>usr_status := st, usr_deactivated_at := tm\<rparr>) (db w)\<rparr>)"
proof -
  have "run_write (UpdateUserStatus i st tm) (w\<lparr>uow := []\<rparr>) =
      (Inr (), w\<lparr>db := users_where t i (\<lambda>u. u\<lparr>usr_status := st, usr_deactivated_at := tm\<rparr>) (db w)\<rparr>)"
    using user_status_write_scoped [OF assms(1-3)] assms(4) by (cases w) simp
  then show ?thesis using assms(4)
    by (simp add: session_add_def flush_def run_writes_one)
qed

lemma admin_change_step:
  assumes wf: "wf_db (db w)" and g: "guc w = Some t"
  shows "(case ro of RoleAdmin \<Rightarrow> bnd (reactivate_if_exists v Client) (\<lambda>_. ret ())
      | RoleMember \<Rightarrow> admin_deactivate v) w =
    (Inr (), w\<lparr>db := admins_where t v (admin_change ro (clock w)) (db w)\<rparr>)"
proof (cases ro)
  case RoleMember
  with admin_deactivate_scoped [OF wf g] show ?thesis by (simp add: admin_change_def)
next
  case RoleAdmin
  have "sql_update admins_table cols (\<lambda>r. adm_clerk_user_id r = v) (activate_row Client (clock w)) w =
    (Inr (map (activate_row Client (clock w)) (select_rows admins_table (\<lambda>r. adm_clerk_user_id r = v) w)),
     w\<lparr>db := admins_where t v (activate_row Client (clock w)) (db w)\<rparr>)" for cols
    by (rule admins_update_scoped [OF wf g]) simp
  with RoleAdmin show ?thesis
    by (simp add: reactivate_if_exists_def utc_now_def bnd_app admin_change_def)
qed

lemma org_role_writes_effect:
  assumes wf: "wf_db (db w)" and us: "uow w = []"
  shows "org_role_writes t v ro w =
    (Inr (user_of t v (db w) \<noteq> None), w\<lparr>guc := Some t, db := org_role_db t v ro (clock w) (db w)\<rparr>)"
proof -
  let ?w = "w\<lparr>guc := Some t\<rparr>"
  let ?d = "admins_where t v (admin_change ro (clock w)) (db w)"
  have wf1: "wf_db ?d" using wf_admins_update [of ?w t "admin_change ro (clock w)" v] wf by simp
  have step: "(case ro of RoleAdmin \<Rightarrow> bnd (reactivate_if_exists v Client) (\<lambda>_. ret ())
      | RoleMember \<Rightarrow> admin_deactivate v) ?w = (Inr (), ?w\<lparr>db := ?d\<rparr>)"
    using admin_change_step [where w = ?w and t = t and ro = ro and v = v] wf by simp
  show ?thesis
  proof (cases "user_of t v (db w)")
    case None
    with step show ?thesis
      by (simp add: org_role_writes_def set_org_scope_def bnd_app [of "user_by_clerk_id v"]
          user_by_clerk_id_scoped org_role_db_def)
  next
    case (Some u)
    then have "user_in t (usr_id u) ?d = Some u" using user_of_in [OF wf1, of t v u] by simp
    with wf1 us have "bnd (session_add (UpdateUserRole (usr_id u) (role_text ro))) (\<lambda>_. flush) (?w\<lparr>db := ?d\<rparr>)
        = (Inr (), ?w\<lparr>db := users_where t (usr_id u) (\<lambda>u. u\<lparr>usr_role := role_text ro\<rparr>) ?d\<rparr>)"
      by (subst flush_one_user_role) simp_all
    then have "bnd (session_add (UpdateUserRole (usr_id u) (role_text ro))) (\<lambda>_. seq flush (ret True)) (?w\<lparr>db := ?d\<rparr>)
        = (Inr True, ?w\<lparr>db := users_where t (usr_id u) (\<lambda>u. u\<lparr>usr_role := role_text ro\<rparr>) ?d\<rparr>)"
      by (simp add: bnd_assoc [symmetric])
    with step Some show ?thesis
      by (simp add: org_role_writes_def set_org_scope_def bnd_app [of "user_by_clerk_id v"]
          user_by_clerk_id_scoped org_role_db_def)
  qed
qed

lemma org_removal_writes_effect:
  assumes wf: "wf_db (db w)" and us: "uow w = []"
  shows "org_removal_writes t v adm w =
    (Inr (), w\<lparr>guc := Some t, db := org_removal_db t v adm (clock w) (db w)\<rparr>)"
proof -
  let ?w = "w\<lparr>guc := Some t\<rparr>"
  let ?d = "if adm then admins_where t v (deactivate_row (clock w)) (db w) else db w"
  have wf1: "wf_db ?d" using wf_admins_update [of ?w t "deactivate_row (clock w)" v] wf by simp
  have step: "whenA adm (admin_deactivate v) ?w = (Inr (), ?w\<lparr>db := ?d\<rparr>)"
    using admin_deactivate_scoped [of ?w t v] wf by (cases w) simp
  show ?thesis
  proof (cases "user_of t v (db w)")
    case None
    with step show ?thesis
      by (simp add: org_removal_writes_def set_org_scope_def bnd_app [of "user_by_clerk_id v"]
          user_by_clerk_id_scoped org_removal_db_def)
  next
    case (Some u)
    then have "user_of t v ?d = Some u" by simp
    then have "user_in t (usr_id u) ?d = Some u" by (rule user_of_in [OF wf1])
    with wf1 us have "bnd (session_add (UpdateUserStatus (usr_id u) ''inactive'' (Some (clock w)))) (\<lambda>_. flush)
        (?w\<lparr>db := ?d\<rparr>) = (Inr (), ?w\<lparr>db := users_where t (usr_id u)
          (\<lambda>u. u\<lparr>usr_status := ''inactive'', usr_deactivated_at := Some (clock w)\<rparr>) ?d\<rparr>)"
      by (subst flush_one_user_status) simp_all
    with step Some show ?thesis
      by (cases adm; cases w) (simp_all add: org_removal_writes_def set_org_scope_def bnd_app [of "user_by_clerk_id v"]
          user_by_clerk_id_scoped org_removal_db_def utc_now_def)
  qed
qed

lemma platform_audit_InrE:
  assumes "platform_audit env c v event pl w = (Inr x, w')"
  obtains r email s where "admin_in (tenant_id c) (user_id c) (db w) = Some r"
    and "w' = w\<lparr>guc := Some (tenant_id c), svc := s,
           uow := uow w @ [InsertAudit (admin_entry c r event (pl email))]\<rparr>"
proof -
  let ?w = "w\<lparr>guc := Some (tenant_id c)\<rparr>"
  from assms obtain r email w1 where r: "admin_in (tenant_id c) (user_id c) (db w) = Some r"
    and f: "fetch_clerk_user_primary_email env v ?w = (Inr email, w1)"
    and w': "w' = w1\<lparr>uow := uow w1 @ [InsertAudit (admin_entry c r event (pl email))]\<rparr>"
    by (auto simp: platform_audit_def set_org_scope_def bnd_app [of "admin_actor c"] admin_actor_scoped
        admin_entry_def audit_append_def session_add_def elim!: bnd_InrE split: option.splits)
  obtain s where "w1 = outside ?w s" using externalE [OF clerk_external(11) f] .
  with that r w' show thesis by (simp add: outside_def)
qed

lemma manage_target_InrE:
  assumes "manage_target env c t v d w = (Inr m, w')"
  obtains s where "t \<noteq> simpero_platform_org_id (settings env)" and "v \<noteq> user_id c"
    and "w' = w\<lparr>svc := s\<rparr>"
proof -
  have "external (manage_target env c t v d)"
    unfolding manage_target_def by (intro external_rules)
  then obtain s where "w' = outside w s" using assms by (rule externalE)
  moreover have "t \<noteq> simpero_platform_org_id (settings env)" "v \<noteq> user_id c"
    using assms by (auto simp: manage_target_def split: if_splits)
  ultimately show thesis using that by (simp add: outside_def)
qed

lemma admin_in_other_org:
  "keeps_admin_keys f \<Longrightarrow> t \<noteq> t' \<Longrightarrow> admin_in t u (admins_where t' v f d) = admin_in t u d"
  by (auto simp: admin_in_def admins_where_def keeps_admin_keys_def intro!: first_match_map_where_other)

lemma org_dbs_other_org:
  assumes "t \<noteq> t'"
  shows "admin_in t u (org_role_db t' v ro now d) = admin_in t u d"
    and "admin_in t u (org_removal_db t' v b now d) = admin_in t u d"
  using assms
  by (auto simp: org_role_db_def org_removal_db_def Let_def admin_in_other_org split: option.split)

text \<open>The guard on the last administrator, under the target's scope; it changes the scope only.\<close>

lemma rescoped_guard:
  assumes "whenA b (seq (set_org_scope t) (last_admin_guard d)) w = (Inr x, w')"
  shows "(b \<longrightarrow> 2 \<le> active_admins t (db w)) \<and> (\<exists>g. w' = w\<lparr>guc := g\<rparr>)"
proof (cases b)
  case True
  with assms show ?thesis
    by (auto simp: set_org_scope_def last_admin_guard_scoped split: if_splits)
next
  case False
  with assms have "w' = w\<lparr>guc := guc w\<rparr>" by (cases w) simp
  with False show ?thesis by blast
qed

lemma platform_commit:
  assumes a: "platform_audit env c v event pl w1 = (Inr x, w2)"
    and us: "uow w1 = []" and fl: "run_writes (uow w2) (w2\<lparr>uow := []\<rparr>) = (Inr (), w3)"
  obtains r email where "admin_in (tenant_id c) (user_id c) (db w1) = Some r"
    and "db w3 = with_audit (audit_row (admin_entry c r event (pl email)) (rnd w1 (rnd_next w1)) (clock w1)) (db w1)"
proof -
  obtain r email s where r: "admin_in (tenant_id c) (user_id c) (db w1) = Some r"
    and w2: "w2 = w1\<lparr>guc := Some (tenant_id c), svc := s,
           uow := uow w1 @ [InsertAudit (admin_entry c r event (pl email))]\<rparr>"
    using platform_audit_InrE [OF a] .
  with fl us have "run_write (InsertAudit (admin_entry c r event (pl email))) (w2\<lparr>uow := []\<rparr>) = (Inr (), w3)"
    by (simp add: run_writes_one)
  from audit_write_Inr [OF this] w2 r that show thesis by simp
qed

text \<open>The second part of a role change, from the guard to the commit.\<close>

lemma org_role_change_InrE:
  fixes w :: "'c world"
  assumes wf: "wf_db (db w)" "uow w = []" and ne: "t \<noteq> tenant_id c"
    and run: "seq (whenA demotes (seq (set_org_scope t) (last_admin_guard detail)))
       (bnd (via_clerk (update_organization_membership env t v (clerk_role ro))) (\<lambda>updated.
       bnd (org_role_writes t v ro) (\<lambda>b.
       seq (platform_audit env c v event (pl b)) (lift_sum (to_org_member_response updated))))) w = (Inr resp, wa)"
    and fl: "run_writes (uow wa) (wa\<lparr>uow := []\<rparr>) = (Inr (), wb)"
  obtains r email where "demotes \<longrightarrow> 2 \<le> active_admins t (db w)"
    and "admin_in (tenant_id c) (user_id c) (db w) = Some r"
    and "db wb = with_audit (audit_row (admin_entry c r event (pl (user_of t v (db w) \<noteq> None) email))
           (rnd w (rnd_next w)) (clock w)) (org_role_db t v ro (clock w) (db w))"
proof -
  from run obtain u w2 updated w3 b w4 u' w5
    where g: "whenA demotes (seq (set_org_scope t) (last_admin_guard detail)) w = (Inr u, w2)"
    and call: "via_clerk (update_organization_membership env t v (clerk_role ro)) w2 = (Inr updated, w3)"
    and wr: "org_role_writes t v ro w3 = (Inr b, w4)" and au: "platform_audit env c v event (pl b) w4 = (Inr u', w5)"
    and last: "lift_sum (to_org_member_response updated) w5 = (Inr resp, wa)"
    by (auto elim!: bnd_InrE)
  obtain gg where two: "demotes \<longrightarrow> 2 \<le> active_admins t (db w)" and w2: "w2 = w\<lparr>guc := gg\<rparr>"
    using rescoped_guard [OF g] by blast
  obtain s3 where w3: "w3 = outside w2 s3"
    using externalE [OF external_via_clerk [OF clerk_external(8)] call] .
  have "wf_db (db w3)" "uow w3 = []" using wf w2 w3 by simp_all
  from org_role_writes_effect [OF this, of t v ro] wr
  have b: "b = (user_of t v (db w) \<noteq> None)"
    and w4: "w4 = w3\<lparr>guc := Some t, db := org_role_db t v ro (clock w3) (db w3)\<rparr>"
    using w2 w3 by auto
  have "wa = w5" using last by (auto dest: lift_sum_InrE)
  have "uow w4 = []" using wf w2 w3 w4 by simp
  from platform_commit [OF au this] fl \<open>wa = w5\<close> obtain r email
    where r: "admin_in (tenant_id c) (user_id c) (db w4) = Some r"
    and d: "db wb = with_audit (audit_row (admin_entry c r event (pl b email)) (rnd w4 (rnd_next w4)) (clock w4)) (db w4)"
    by metis
  have "admin_in (tenant_id c) (user_id c) (db w) = Some r"
    using r w2 w3 w4 org_dbs_other_org(1) [OF ne [symmetric]] by simp
  with two d b w2 w3 w4 show thesis by (intro that [of r email]) simp_all
qed

text \<open>
  A cross-organisation role change that succeeds targets another organisation than the
  platform's and another user than the caller. Unless Clerk already lists the role, the
  target organisation's own rows are updated under its own scope, before the session is
  pointed back: the member's administrator row is activated or deactivated, their user row
  gets the role if there is one, and the single audit row is the platform's. Demoting an
  \<open>org:admin\<close> requires two active administrators there. A failure leaves the database alone.
\<close>

theorem update_org_member_role_effect:
  fixes w :: "'c world"
  assumes wf: "wf_db (db w)" and plat: "tenant_id c = simpero_platform_org_id (settings env)"
    and run: "scoped_run c (update_org_member_role env c t v ro) w = (x, w')"
  shows "case x of
      Inl e \<Rightarrow> db w' = db w
    | Inr resp \<Rightarrow> t \<noteq> tenant_id c \<and> v \<noteq> user_id c \<and> (\<exists>old.
        (old = JStr ''org:admin'' \<and> ro = RoleMember \<longrightarrow> 2 \<le> active_admins t (db w))
        \<and> (if old = JStr (clerk_role ro) then db w' = db w
           else \<exists>r email. admin_in (tenant_id c) (user_id c) (db w) = Some r
             \<and> db w' = with_audit
                 (audit_row (admin_entry c r ''admin_member_role_changed''
                    (org_role_payload t v email old ro (user_of t v (db w) \<noteq> None)))
                    (rnd w (rnd_next w)) (clock w))
                 (org_role_db t v ro (clock w) (db w))))"
proof (cases x)
  case (Inl e)
  with run show ?thesis by (simp add: scoped_run_Inl)
next
  case (Inr resp)
  let ?w = "w\<lparr>uow := [], guc := Some (tenant_id c)\<rparr>"
  obtain wa wb where body: "update_org_member_role env c t v ro ?w = (Inr resp, wa)"
    and fl: "run_writes (uow wa) (wa\<lparr>uow := []\<rparr>) = (Inr (), wb)"
    and w': "w' = wb\<lparr>guc := None, uow := []\<rparr>"
    using run Inr by (auto elim: scoped_run_InrE)
  from body obtain m w1 old where mt: "manage_target env c t v ''Cannot change your own role'' ?w = (Inr m, w1)"
    and rest: "(if JStr (clerk_role ro) = old then lift_sum (to_org_member_response m)
     else
       seq (whenA (old = JStr ''org:admin'' \<and> ro = RoleMember)
              (seq (set_org_scope t) (last_admin_guard ''Cannot demote the last active admin'')))
       (bnd (via_clerk (update_organization_membership env t v (clerk_role ro))) (\<lambda>updated.
       bnd (org_role_writes t v ro) (\<lambda>b.
       seq (platform_audit env c v ''admin_member_role_changed''
              (\<lambda>email. org_role_payload t v email old ro b))
       (lift_sum (to_org_member_response updated)))))) w1 = (Inr resp, wa)"
    unfolding update_org_member_role_def by (auto elim!: bnd_InrE dest!: lift_sum_InrE)
  obtain s where ne: "t \<noteq> tenant_id c" "v \<noteq> user_id c" and w1: "w1 = ?w\<lparr>svc := s\<rparr>"
    using manage_target_InrE [OF mt] plat by metis
  show ?thesis
  proof (cases "JStr (clerk_role ro) = old")
    case True
    with rest have "wa = w1" by (auto dest!: lift_sum_InrE)
    with fl w1 w' have "db w' = db w" by auto
    moreover have "\<not> (old = JStr ''org:admin'' \<and> ro = RoleMember)" using True by auto
    ultimately show ?thesis using Inr ne True by auto
  next
    case False
    with rest have "seq (whenA (old = JStr ''org:admin'' \<and> ro = RoleMember)
          (seq (set_org_scope t) (last_admin_guard ''Cannot demote the last active admin'')))
       (bnd (via_clerk (update_organization_membership env t v (clerk_role ro))) (\<lambda>updated.
       bnd (org_role_writes t v ro) (\<lambda>b.
       seq (platform_audit env c v ''admin_member_role_changed'' (\<lambda>email. org_role_payload t v email old ro b))
       (lift_sum (to_org_member_response updated))))) w1 = (Inr resp, wa)" by simp
    from org_role_change_InrE [OF _ _ ne(1) this fl] wf w1 obtain r email
      where "old = JStr ''org:admin'' \<and> ro = RoleMember \<longrightarrow> 2 \<le> active_admins t (db w)"
        "admin_in (tenant_id c) (user_id c) (db w) = Some r"
        "db w' = with_audit (audit_row (admin_entry c r ''admin_member_role_changed''
          (org_role_payload t v email old ro (user_of t v (db w) \<noteq> None))) (rnd w (rnd_next w)) (clock w))
          (org_role_db t v ro (clock w) (db w))" using w' by auto
    moreover have "old \<noteq> JStr (clerk_role ro)" using False by blast
    ultimately show ?thesis
      unfolding Inr sum.case using ne by (intro conjI exI [of _ old]) (simp_all, blast)
  qed
qed

text \<open>
  A cross-organisation removal that succeeds targets another organisation than the
  platform's and another user than the caller. The member's user row there is marked
  inactive, their administrator row is deactivated when Clerk lists them as \<open>org:admin\<close>
  (which then required two active administrators), and the platform's trail gains one row.
  A failure leaves the database alone.
\<close>

theorem remove_org_member_effect:
  fixes w :: "'c world"
  assumes wf: "wf_db (db w)" and plat: "tenant_id c = simpero_platform_org_id (settings env)"
    and run: "scoped_run c (remove_org_member env c t v) w = (x, w')"
  shows "case x of
      Inl e \<Rightarrow> db w' = db w
    | Inr b \<Rightarrow> t \<noteq> tenant_id c \<and> v \<noteq> user_id c \<and> (\<exists>was_admin r email.
        (was_admin \<longrightarrow> 2 \<le> active_admins t (db w))
        \<and> admin_in (tenant_id c) (user_id c) (db w) = Some r
        \<and> db w' = with_audit
            (audit_row (admin_entry c r ''admin_member_removed'' (org_removed_payload t v email was_admin))
               (rnd w (rnd_next w)) (clock w))
            (org_removal_db t v was_admin (clock w) (db w)))"
proof (cases x)
  case (Inl e)
  with run show ?thesis by (simp add: scoped_run_Inl)
next
  case (Inr ok)
  let ?w = "w\<lparr>uow := [], guc := Some (tenant_id c)\<rparr>"
  obtain wa wb where body: "remove_org_member env c t v ?w = (Inr ok, wa)"
    and fl: "run_writes (uow wa) (wa\<lparr>uow := []\<rparr>) = (Inr (), wb)"
    and w': "w' = wb\<lparr>guc := None, uow := []\<rparr>"
    using run Inr by (auto elim: scoped_run_InrE)
  from body obtain m w1 role
    where mt: "manage_target env c t v ''Cannot remove yourself'' ?w = (Inr m, w1)"
    and "remove_org_member_as env c t v (role = JStr ''org:admin'') w1 = (Inr ok, wa)"
    unfolding remove_org_member_def by (auto elim!: bnd_InrE dest!: lift_sum_InrE)
  then obtain adm where rest: "remove_org_member_as env c t v adm w1 = (Inr ok, wa)" by blast
  then obtain u w2 u3 w3 u4 w4 u5
    where g: "whenA adm
        (seq (set_org_scope t) (last_admin_guard ''Cannot remove the last active admin'')) w1 = (Inr u, w2)"
    and call: "via_clerk (remove_organization_membership env t v) w2 = (Inr u3, w3)"
    and wr: "org_removal_writes t v adm w3 = (Inr u4, w4)"
    and au: "platform_audit env c v ''admin_member_removed''
        (\<lambda>email. org_removed_payload t v email adm) w4 = (Inr u5, wa)"
    unfolding remove_org_member_as_def
    by (elim bnd_InrE) (rule that, assumption+, simp)
  obtain s where ne: "t \<noteq> tenant_id c" "v \<noteq> user_id c" and w1: "w1 = ?w\<lparr>svc := s\<rparr>"
    using manage_target_InrE [OF mt] plat by metis
  obtain gg where two: "adm \<longrightarrow> 2 \<le> active_admins t (db w1)" and w2: "w2 = w1\<lparr>guc := gg\<rparr>"
    using rescoped_guard [OF g] by blast
  obtain s3 where w3: "w3 = outside w2 s3"
    using externalE [OF external_via_clerk [OF clerk_external(7)] call] .
  have "wf_db (db w3)" "uow w3 = []" using wf w1 w2 w3 by simp_all
  from org_removal_writes_effect [OF this, of t v "adm"] wr
  have w4: "w4 = w3\<lparr>guc := Some t, db := org_removal_db t v adm (clock w3) (db w3)\<rparr>" by simp
  have "uow w4 = []" using w1 w2 w3 w4 by simp
  from platform_commit [OF au this fl] obtain r email
    where r: "admin_in (tenant_id c) (user_id c) (db w4) = Some r"
    and d: "db wb = with_audit (audit_row (admin_entry c r ''admin_member_removed''
        (org_removed_payload t v email adm)) (rnd w4 (rnd_next w4)) (clock w4)) (db w4)" by metis
  have "admin_in (tenant_id c) (user_id c) (db w) = Some r"
    using r w1 w2 w3 w4 org_dbs_other_org(2) [OF ne(1) [symmetric]] by simp
  moreover have "db w' = with_audit (audit_row (admin_entry c r ''admin_member_removed''
      (org_removed_payload t v email adm)) (rnd w (rnd_next w)) (clock w))
      (org_removal_db t v adm (clock w) (db w))"
    using d w' w1 w2 w3 w4 by simp
  moreover have "adm \<longrightarrow> 2 \<le> active_admins t (db w)" using two w1 by simp
  ultimately show ?thesis using Inr ne by auto
qed

subsection \<open>An organisation is not left without administrators\<close>

lemma active_admins_deactivate:
  assumes "wf_db d"
  shows "active_admins t d \<le> active_admins t (admins_where t v (deactivate_row now) d) + 1"
proof (cases "admin_in t v d")
  case None
  then have "admins_where t v (deactivate_row now) d = d"
    by (simp add: admin_in_def first_match_None admins_where_def map_where_none)
  then show ?thesis by simp
next
  case (Some r)
  let ?q = "\<lambda>r. adm_clerk_org_id r = t \<and> adm_status r = ''active''"
  let ?p = "\<lambda>r. adm_clerk_org_id r = t \<and> adm_clerk_user_id r = v"
  note r = admin_in_SomeD [OF Some]
  have d: "distinct (map adm_clerk_user_id (t_clerk_admin_users d))"
    using wf_tableD(2) [OF assms] by (simp add: wf_table_def)
  show ?thesis
  proof (cases "adm_status r = ''active''")
    case True
    have "Suc (length (filter ?q (map_where ?p (deactivate_row now) (t_clerk_admin_users d)))) =
        length (filter ?q (t_clerk_admin_users d))"
      using r True by (intro length_filter_drop_one [OF d, of r]) auto
    then show ?thesis by (simp add: active_admins_def admins_where_def)
  next
    case False
    have "length (filter ?q (map_where ?p (deactivate_row now) (t_clerk_admin_users d))) =
        length (filter ?q (t_clerk_admin_users d))"
    proof (rule length_filter_map_where)
      fix x assume "x \<in> set (t_clerk_admin_users d)" and "?p x"
      moreover from this r d have "x = r" by (auto simp: distinct_map dest: inj_onD)
      ultimately show "?q (deactivate_row now x) \<longleftrightarrow> ?q x" using False by auto
    qed
    then show ?thesis by (simp add: active_admins_def admins_where_def)
  qed
qed

lemma active_admins_org_removal:
  "wf_db d \<Longrightarrow> (b \<longrightarrow> 2 \<le> active_admins t d) \<Longrightarrow> 1 \<le> active_admins t d \<Longrightarrow>
     1 \<le> active_admins t (org_removal_db t v b now d)"
  using active_admins_deactivate [of d t v now]
  by (auto simp: org_removal_db_def Let_def split: option.split)

text \<open>
  C7: the removal of a member by the platform never takes the target organisation's last
  active administrator: an organisation that has one before has one after, whatever Clerk
  answers and however the request ends.
\<close>

theorem platform_removal_keeps_an_admin:
  assumes wf: "wf_db (db w)" and plat: "tenant_id c = simpero_platform_org_id (settings env)"
    and one: "1 \<le> active_admins t (db w)"
  shows "1 \<le> active_admins t (db (snd (scoped_run c (remove_org_member env c t v) w)))"
proof -
  obtain x w' where r: "scoped_run c (remove_org_member env c t v) w = (x, w')" by fastforce
  from remove_org_member_effect [OF wf plat r] one active_admins_org_removal [OF wf, of _ t v "clock w"]
  show ?thesis by (auto simp: r split: sum.splits)
qed

end
