(* ===== verification/AdminRoutes.thy ===== *)
theory AdminRoutes
  imports PlatformMembers
begin

section \<open>Invitations, organisations, admin context\<close>

text \<open>
  The remaining routes of \<open>app/api/admin\<close>: invitations (own organisation and, for the
  platform, any), creating, listing and deleting organisations, and the capability context
  of the admin portal. Their only database effect is the audit row; what they change is
  Clerk. Deleting an organisation leaves its local rows in place by design.
\<close>

record invitation_response =
  ir_id :: string
  ir_email_address :: string
  ir_status :: string
  ir_created_at :: instant

definition invitation_response_of :: "json \<Rightarrow> exn + invitation_response" where
  "invitation_response_of invn =
     sbind (json_idx invn ''id'') (\<lambda>i. sbind (json_idx invn ''email_address'') (\<lambda>e.
     sbind (json_idx invn ''status'') (\<lambda>st. sbind (clerk_created_at invn) (\<lambda>t.
     sbind (pyd_str i) (\<lambda>i'. sbind (pyd_str e) (\<lambda>e'. sbind (pyd_str st) (\<lambda>st'.
       Inr \<lparr>ir_id = i', ir_email_address = e', ir_status = st', ir_created_at = t\<rparr>)))))))"

record pending_invitation =
  pi_id :: string
  pi_email_address :: string
  pi_role :: string
  pi_status :: string
  pi_created_at :: instant

definition pending_invitation_of :: "json \<Rightarrow> exn + pending_invitation" where
  "pending_invitation_of invn =
     sbind (json_idx invn ''id'') (\<lambda>i. sbind (json_idx invn ''email_address'') (\<lambda>e.
     sbind (json_idx invn ''role'') (\<lambda>r. sbind (json_idx invn ''status'') (\<lambda>st.
     sbind (clerk_created_at invn) (\<lambda>t.
     sbind (pyd_str i) (\<lambda>i'. sbind (pyd_str e) (\<lambda>e'. sbind (pyd_str r) (\<lambda>r'. sbind (pyd_str st) (\<lambda>st'.
       Inr \<lparr>pi_id = i', pi_email_address = e', pi_role = r', pi_status = st', pi_created_at = t\<rparr>)))))))))"

subsection \<open>\<open>invitations.py\<close>\<close>

definition create_invitation ::
  "'c env \<Rightarrow> token_claims \<Rightarrow> string \<Rightarrow> member_role \<Rightarrow> ('c, invitation_response) act" where
  "create_invitation env c email role =
     seq (guard (role = RoleMember)
            (HTTPException 403 (JStr ''Only member invitations are supported here'')))
     (bnd (via_clerk (create_organization_invitation env (tenant_id c) email ''org:member''
             (app_base_url (settings env) @ ''/sign-up'') (Some (user_id c)))) (\<lambda>invitation.
     seq (admin_audit c ''admin_invitation_created'' (sbind (json_idx invitation ''id'') (\<lambda>i.
            Inr (JObj [(''email'', JStr email), (''role'', JStr ''member''), (''clerk_invitation_id'', i)]))))
     (lift_sum (invitation_response_of invitation))))"

definition list_invitations :: "'c env \<Rightarrow> token_claims \<Rightarrow> ('c, pending_invitation list) act" where
  "list_invitations env c =
     bnd (via_clerk (list_organization_invitations env (tenant_id c) ''pending'')) (\<lambda>invitations.
       lift_sum (smap pending_invitation_of invitations))"

definition revoke_invitation :: "'c env \<Rightarrow> token_claims \<Rightarrow> string \<Rightarrow> ('c, bool) act" where
  "revoke_invitation env c invitation_id =
     bnd (via_clerk (revoke_organization_invitation env (tenant_id c) invitation_id (user_id c))) (\<lambda>_.
     seq (admin_audit c ''admin_invitation_revoked''
            (Inr (JObj [(''clerk_invitation_id'', JStr invitation_id)])))
     (ret True))"

subsection \<open>\<open>platform_invitations.py\<close>\<close>

fun redirect_path :: "member_role \<Rightarrow> string" where
  "redirect_path RoleMember = ''/sign-up''"
| "redirect_path RoleAdmin = ''/admin/sign-up''"

definition invite_into_org ::
  "'c env \<Rightarrow> token_claims \<Rightarrow> string \<Rightarrow> string \<Rightarrow> member_role \<Rightarrow> ('c, invitation_response) act" where
  "invite_into_org env c clerk_org_id email role =
     seq (guard (clerk_org_id \<noteq> simpero_platform_org_id (settings env))
            (HTTPException 403 (JStr ''Cannot invite into the platform org'')))
     (bnd (via_clerk (seq (fetch_clerk_organization env clerk_org_id)
             (create_organization_invitation env clerk_org_id email (clerk_role role)
                (app_base_url (settings env) @ redirect_path role) None))) (\<lambda>invitation.
     seq (admin_audit c ''admin_member_invited_by_platform'' (sbind (json_idx invitation ''id'') (\<lambda>i.
            Inr (JObj [(''target_clerk_org_id'', JStr clerk_org_id), (''email'', JStr email),
                       (''role'', JStr (role_text role)), (''clerk_invitation_id'', i)]))))
     (lift_sum (invitation_response_of invitation))))"

subsection \<open>\<open>organizations.py\<close>, \<open>platform_organization_delete.py\<close>\<close>

record organization_response =
  or_clerk_org_id :: string
  or_name :: string
  or_type :: "OrgType option"
  or_created_at :: instant

text \<open>\<open>Literal["PE Firm", "Family Office"] | None\<close>\<close>

fun pyd_org_type :: "json \<Rightarrow> exn + OrgType option" where
  "pyd_org_type JNull = Inr None"
| "pyd_org_type (JStr s) = (case OrgType_of_value s of
      None \<Rightarrow> Inl (ValueError ''validation error'') | Some t \<Rightarrow> Inr (Some t))"
| "pyd_org_type _ = Inl (ValueError ''validation error'')"

definition organization_response_of :: "json \<Rightarrow> exn + organization_response" where
  "organization_response_of org =
     sbind (json_idx org ''id'') (\<lambda>i. sbind (json_idx org ''name'') (\<lambda>n.
     sbind (json_get org ''public_metadata'') (\<lambda>m.
     sbind (json_get (py_or m (JObj [])) ''type'') (\<lambda>ty.
     sbind (clerk_created_at org) (\<lambda>t.
     sbind (pyd_str i) (\<lambda>i'. sbind (pyd_str n) (\<lambda>n'. sbind (pyd_org_type ty) (\<lambda>ty'.
       Inr \<lparr>or_clerk_org_id = i', or_name = n', or_type = ty', or_created_at = t\<rparr>))))))))"

text \<open>\<open>[... for org in orgs if org["id"] != platform]\<close>\<close>

fun client_orgs :: "string \<Rightarrow> json list \<Rightarrow> exn + organization_response list" where
  "client_orgs platform [] = Inr []"
| "client_orgs platform (org # orgs) =
     sbind (json_idx org ''id'') (\<lambda>i.
       if i = JStr platform then client_orgs platform orgs
       else sbind (organization_response_of org) (\<lambda>r.
            sbind (client_orgs platform orgs) (\<lambda>rs. Inr (r # rs))))"

definition list_orgs :: "'c env \<Rightarrow> ('c, organization_response list) act" where
  "list_orgs env =
     bnd (via_clerk (list_organizations env)) (\<lambda>orgs.
       lift_sum (client_orgs (simpero_platform_org_id (settings env)) orgs))"

record create_org_result =
  co_clerk_org_id :: string
  co_name :: string
  co_type :: "OrgType option"
  co_invitation :: "invitation_response option"

definition create_org_result_of ::
  "json \<Rightarrow> OrgType option \<Rightarrow> json option \<Rightarrow> exn + create_org_result" where
  "create_org_result_of clerk_org ty invitation =
     sbind (json_idx clerk_org ''id'') (\<lambda>i. sbind (json_idx clerk_org ''name'') (\<lambda>n.
     sbind (case invitation of
              Some invn \<Rightarrow> if py_truthy invn then sbind (invitation_response_of invn) (\<lambda>r. Inr (Some r)) else Inr None
            | None \<Rightarrow> Inr None) (\<lambda>invn.
     sbind (pyd_str i) (\<lambda>i'. sbind (pyd_str n) (\<lambda>n'.
       Inr \<lparr>co_clerk_org_id = i', co_name = n', co_type = ty, co_invitation = invn\<rparr>)))))"

text \<open>The organisation and the optional seed invitation, both inside one \<open>try\<close>.\<close>

definition create_in_clerk ::
  "'c env \<Rightarrow> token_claims \<Rightarrow> string \<Rightarrow> OrgType option \<Rightarrow> string option \<Rightarrow> ('c, json \<times> json option) act" where
  "create_in_clerk env c nm ty manager =
     bnd (create_organization env nm ty (user_id c)) (\<lambda>clerk_org.
       case manager of
         None \<Rightarrow> ret (clerk_org, None)
       | Some email \<Rightarrow>
           bnd (lift_sum (sbind (json_idx clerk_org ''id'') column_str)) (\<lambda>i.
           bnd (create_organization_invitation env i email ''org:admin''
                  (app_base_url (settings env) @ ''/admin/sign-up'') (Some (user_id c))) (\<lambda>invn.
           ret (clerk_org, Some invn))))"

definition org_created_payload ::
  "string \<Rightarrow> string \<Rightarrow> OrgType option \<Rightarrow> string option \<Rightarrow> json \<Rightarrow> bool \<Rightarrow> json" where
  "org_created_payload org nm ty manager seed removed =
     JObj [(''clerk_org_id'', JStr org), (''name'', JStr nm),
           (''type'', opt_str (map_option OrgType_value ty)),
           (''account_manager_email'', opt_str manager), (''seed_invitation_id'', seed),
           (''creator_membership_removed'', JBool removed)]"

text \<open>\<open>invitation["id"] if invitation else None\<close>\<close>

definition seed_invitation_id :: "json option \<Rightarrow> exn + json" where
  "seed_invitation_id invitation = (case invitation of
      None \<Rightarrow> Inr JNull
    | Some invn \<Rightarrow> if py_truthy invn then json_idx invn ''id'' else Inr JNull)"

definition create_org ::
  "'c env \<Rightarrow> token_claims \<Rightarrow> string \<Rightarrow> OrgType option \<Rightarrow> string option \<Rightarrow> ('c, create_org_result) act" where
  "create_org env c nm ty manager =
     bnd (via_clerk (create_in_clerk env c nm ty manager)) (\<lambda>(clerk_org, invitation).
     bnd (lift_sum (sbind (json_idx clerk_org ''id'') column_str)) (\<lambda>org.
     bnd (catch_httpx (seq (remove_organization_membership env org (user_id c)) (ret True))
            (\<lambda>_. ret False)) (\<lambda>removed.
     seq (admin_audit c ''admin_organization_created''
            (sbind (seed_invitation_id invitation) (\<lambda>seed.
               Inr (org_created_payload org nm ty manager seed removed))))
     (lift_sum (create_org_result_of clerk_org ty invitation)))))"

definition delete_org :: "'c env \<Rightarrow> token_claims \<Rightarrow> string \<Rightarrow> ('c, bool) act" where
  "delete_org env c clerk_org_id =
     seq (guard (clerk_org_id \<noteq> simpero_platform_org_id (settings env))
            (HTTPException 403 (JStr ''Cannot delete the platform org'')))
     (bnd (via_clerk (bnd (fetch_clerk_organization env clerk_org_id) (\<lambda>org.
             seq (delete_organization env clerk_org_id) (ret org)))) (\<lambda>org.
     seq (admin_audit c ''admin_organization_deleted'' (sbind (json_idx org ''name'') (\<lambda>nm.
            Inr (JObj [(''clerk_org_id'', JStr clerk_org_id), (''name'', nm)]))))
     (ret True)))"

subsection \<open>\<open>context.py\<close>\<close>

record admin_context =
  is_platform_admin :: bool
  is_org_admin :: bool
  ctx_clerk_org_id :: string
  ctx_name :: string
  ctx_type :: "string option"

definition get_context :: "'c env \<Rightarrow> token_claims \<Rightarrow> ('c, admin_context) act" where
  "get_context env c =
     bnd (sql_first organisation_table (\<lambda>r. org_clerk_org_id r = tenant_id c)) (\<lambda>found.
     case found of
       None \<Rightarrow> throw AssertionError
     | Some org \<Rightarrow>
         bnd (admin_by_clerk_id (user_id c)) (\<lambda>row.
         ret \<lparr>is_platform_admin = (case row of None \<Rightarrow> False | Some r \<Rightarrow>
                  adm_status r = ''active'' \<and> adm_admin_type r = Platform
                  \<and> tenant_id c = simpero_platform_org_id (settings env)),
              is_org_admin = is_active_row row,
              ctx_clerk_org_id = org_clerk_org_id org, ctx_name = org_name org,
              ctx_type = map_option OrgType_value (org_type org)\<rparr>))"

subsection \<open>The tenant invariant\<close>

lemma admin_routes_confined [keep_rules]:
  "keeps (confined S H L) (create_invitation env c email role)"
  "keeps (confined S H L) (list_invitations env c)"
  "keeps (confined S H L) (revoke_invitation env c i)"
  "keeps (confined S H L) (invite_into_org env c t email role)"
  "keeps (confined S H L) (list_orgs env)"
  "keeps (confined S H L) (create_org env c nm ty manager)"
  "keeps (confined S H L) (delete_org env c t)"
  "keeps (confined S H L) (get_context env c)"
  unfolding create_invitation_def list_invitations_def revoke_invitation_def invite_into_org_def
    list_orgs_def create_org_def create_in_clerk_def delete_org_def get_context_def
  by (intro keep_rules orgs.sql_first_keeps)+

subsection \<open>Their only write is the audit row\<close>

definition audited :: "token_claims \<Rightarrow> string \<Rightarrow> 'c world \<Rightarrow> (exn + 'a) \<times> 'c world \<Rightarrow> bool" where
  "audited c event w res \<longleftrightarrow> (case res of
      (Inl e, w') \<Rightarrow> db w' = db w
    | (Inr x, w') \<Rightarrow> (\<exists>r payload. admin_in (tenant_id c) (user_id c) (db w) = Some r
        \<and> db w' = with_audit (audit_row (admin_entry c r event payload) (rnd w (rnd_next w)) (clock w)) (db w)))"

lemma audited_run:
  assumes ext: "external m" and fin: "\<And>x. external (f x)"
  shows "audited c event w (scoped_run c (bnd m (\<lambda>x. seq (admin_audit c event (pl x)) (f x))) w)"
proof -
  obtain y w' where run: "scoped_run c (bnd m (\<lambda>x. seq (admin_audit c event (pl x)) (f x))) w = (y, w')"
    by fastforce
  show ?thesis
  proof (cases y)
    case (Inl e)
    with run scoped_run_Inl [of c _ w e w'] show ?thesis by (simp add: audited_def)
  next
    case (Inr z)
    let ?w = "w\<lparr>uow := [], guc := Some (tenant_id c)\<rparr>"
    obtain wa wb where body: "bnd m (\<lambda>x. seq (admin_audit c event (pl x)) (f x)) ?w = (Inr z, wa)"
      and fl: "run_writes (uow wa) (wa\<lparr>uow := []\<rparr>) = (Inr (), wb)"
      and w': "w' = wb\<lparr>guc := None, uow := []\<rparr>"
      using run Inr by (auto elim: scoped_run_InrE)
    from body obtain x w1 u w2 where m: "m ?w = (Inr x, w1)"
      and au: "admin_audit c event (pl x) w1 = (Inr u, w2)" and f: "f x w2 = (Inr z, wa)"
      by (auto elim!: bnd_InrE)
    obtain s where w1: "w1 = outside ?w s" using externalE [OF ext m] .
    obtain s2 where wa: "wa = outside w2 s2" using externalE [OF fin f] .
    have g: "guc w1 = Some (tenant_id c)" using w1 by simp
    from au admin_audit_nobody [OF g] obtain r
      where r: "admin_in (tenant_id c) (user_id c) (db w1) = Some r"
      by (cases "admin_in (tenant_id c) (user_id c) (db w1)") auto
    with au admin_audit_error [OF g r] obtain p where p: "pl x = Inr p" by (cases "pl x") auto
    with au admin_audit_scoped [OF g r]
    have w2: "w2 = w1\<lparr>uow := uow w1 @ [InsertAudit (admin_entry c r event p)]\<rparr>" by simp
    with fl w1 wa have "run_write (InsertAudit (admin_entry c r event p)) (wa\<lparr>uow := []\<rparr>) = (Inr (), wb)"
      by (simp add: run_writes_one)
    from audit_write_Inr [OF this] r w1 w2 wa w' Inr run show ?thesis by (auto simp: audited_def)
  qed
qed

lemma audited_guarded:
  assumes "\<And>w. audited c event w (scoped_run c m w)"
  shows "audited c event w (scoped_run c (seq (guard b e) m) w)"
  using assms by (auto simp: audited_def scoped_run_throw)

lemma create_org_shape:
  "create_org env c nm ty manager =
    bnd (bnd (via_clerk (create_in_clerk env c nm ty manager)) (\<lambda>y.
       bnd (lift_sum (sbind (json_idx (fst y) ''id'') column_str)) (\<lambda>org.
       bnd (catch_httpx (seq (remove_organization_membership env org (user_id c)) (ret True))
            (\<lambda>_. ret False)) (\<lambda>removed. ret (y, org, removed)))))
    (\<lambda>x. seq (admin_audit c ''admin_organization_created''
            (sbind (seed_invitation_id (snd (fst x))) (\<lambda>seed.
               Inr (org_created_payload (fst (snd x)) nm ty manager seed (snd (snd x))))))
      (lift_sum (create_org_result_of (fst (fst x)) ty (snd (fst x)))))"
  by (simp add: create_org_def bnd_assoc case_prod_unfold)

text \<open>
  C24: inviting, revoking, creating and deleting organisations and inviting across
  organisations write exactly one audit row, by the caller, in the caller's organisation,
  when they succeed, and nothing when they fail; no other row of any table changes.
\<close>

theorem admin_routes_audited:
  "audited c ''admin_invitation_created'' w (scoped_run c (create_invitation env c email role) w)
   \<and> audited c ''admin_invitation_revoked'' w (scoped_run c (revoke_invitation env c i) w)
   \<and> audited c ''admin_member_invited_by_platform'' w (scoped_run c (invite_into_org env c t email role) w)
   \<and> audited c ''admin_organization_created'' w (scoped_run c (create_org env c nm ty manager) w)
   \<and> audited c ''admin_organization_deleted'' w (scoped_run c (delete_org env c t) w)"
proof (intro conjI)
  show "audited c ''admin_invitation_created'' w (scoped_run c (create_invitation env c email role) w)"
    unfolding create_invitation_def by (intro audited_guarded audited_run external_rules)
  show "audited c ''admin_invitation_revoked'' w (scoped_run c (revoke_invitation env c i) w)"
    unfolding revoke_invitation_def by (intro audited_run external_rules)
  show "audited c ''admin_member_invited_by_platform'' w (scoped_run c (invite_into_org env c t email role) w)"
    unfolding invite_into_org_def by (intro audited_guarded audited_run external_rules)
  have "external (create_in_clerk env c nm ty manager)"
    unfolding create_in_clerk_def by (intro external_rules)
  then show "audited c ''admin_organization_created'' w (scoped_run c (create_org env c nm ty manager) w)"
    unfolding create_org_shape by (intro audited_run external_rules)
  show "audited c ''admin_organization_deleted'' w (scoped_run c (delete_org env c t) w)"
    unfolding delete_org_def by (intro audited_guarded audited_run external_rules)
qed


lemma organization_response_id:
  "organization_response_of org = Inr r \<Longrightarrow> json_idx org ''id'' = Inr (JStr (or_clerk_org_id r))"
  by (auto simp: organization_response_of_def sbind_Inr_iff elim!: pyd_str.elims)

lemma client_orgs_ids:
  "client_orgs p orgs = Inr rs \<Longrightarrow> r \<in> set rs \<Longrightarrow>
     or_clerk_org_id r \<noteq> p \<and> (\<exists>org \<in> set orgs. organization_response_of org = Inr r)"
proof (induction orgs arbitrary: rs)
  case (Cons org orgs)
  with organization_response_id [of org r] show ?case
    by (auto simp: sbind_Inr_iff split: if_splits)
qed simp

lemma active_row_scoped: "is_active_row (admin_in t u d) = active_admin t u d"
  by (simp add: is_active_row_def active_admin_def)

lemma org_first_scoped:
  "guc w = Some t \<Longrightarrow>
     sql_first organisation_table (\<lambda>r. org_clerk_org_id r = t) w = (Inr (org_of t (db w)), w)"
  by (auto simp: sql_first_def first_row_def visible_def clerk_policy_def org_of_def
      intro: first_match_cong)

text \<open>
  The capability context tells the truth about the guards. In the caller's session
  the two flags it returns are exactly whether \<open>require_org_admin\<close> and, once the platform
  organisation is configured, \<open>require_platform_admin\<close> would let the caller through.
\<close>

theorem context_matches_guards:
  assumes "guc w = Some (tenant_id c)" and "simpero_platform_org_id (settings env) \<noteq> []"
    and "get_context env c w = (Inr ctx, w')"
  shows "(is_org_admin ctx \<longleftrightarrow> fst (require_org_admin c w) = Inr ())
    \<and> (is_platform_admin ctx \<longleftrightarrow> fst (require_platform_admin env c w) = Inr ())"
  using assms
  by (auto simp: get_context_def bnd_app org_first_scoped admin_by_clerk_id_scoped
      require_org_admin_scoped require_platform_admin_scoped active_row_scoped
      split: option.splits)

end
