(* ===== verification/Uploads.thy ===== *)
theory Uploads
  imports History AdminRoutes
begin

section \<open>Document uploads\<close>

text \<open>
  \<open>app/api/uploads.py\<close> and \<open>app/services/uploads/spaces.py\<close>: the presigned upload (checks,
  dedupe, object key, URL) and its completion, which confirms the object, adds the
  \<open>data_source\<close> row and enqueues the ingest job. The object store is the environment's; an
  enqueued job is not part of the transaction. An object arrives whole or as an error; the
  hashing loop reads it in the code's fixed-size chunks.
\<close>

subsection \<open>Object keys\<close>

definition key_safe :: "char \<Rightarrow> bool" where
  "key_safe ch \<longleftrightarrow>
     (let n = (of_char ch :: nat) in 65 \<le> n \<and> n \<le> 90 \<or> 97 \<le> n \<and> n \<le> 122 \<or> 48 \<le> n \<and> n \<le> 57)
     \<or> ch \<in> {CHR ''.'', CHR ''_'', CHR ''-''}"

definition safe_name :: "string \<Rightarrow> string" where
  "safe_name s = map (\<lambda>ch. if key_safe ch then ch else CHR ''_'') s"

definition build_object_key :: "string \<Rightarrow> string \<Rightarrow> uuid \<Rightarrow> uuid \<Rightarrow> string \<Rightarrow> string" where
  "build_object_key nm clerk_org_id deal upload_id filename =
     safe_name nm @ ''-'' @ clerk_org_id @ ''/'' @ str_uuid deal @ ''/'' @ str_uuid upload_id @ ''-'' @ filename"

lemma safe_name_no_slash: "CHR ''/'' \<notin> set (safe_name nm)"
  by (auto simp: safe_name_def key_safe_def Let_def split: if_splits)

lemma same_until:
  "c \<notin> set xs \<Longrightarrow> c \<notin> set ys \<Longrightarrow> xs @ c # r = ys @ c # s \<Longrightarrow> xs = ys \<and> r = s"
proof (induction xs arbitrary: ys)
  case Nil
  then show ?case by (cases ys) auto
next
  case (Cons x xs)
  then show ?case by (cases ys) auto
qed

lemma same_from:
  assumes "c \<notin> set r" and "c \<notin> set s" and "xs @ c # r = ys @ c # s"
  shows "xs = ys \<and> r = s"
proof -
  have "rev r @ c # rev xs = rev s @ c # rev ys" using arg_cong [OF assms(3), of rev] by simp
  with same_until [of c "rev r" "rev s" "rev xs" "rev ys"] assms(1,2) show ?thesis by simp
qed

text \<open>The part of a key before the deal names the tenant.\<close>

definition key_folder :: "string \<Rightarrow> string \<Rightarrow> string" where
  "key_folder nm t = safe_name nm @ ''-'' @ t"

lemma folder_key: "build_object_key nm t deal up f = key_folder nm t @ CHR ''/'' # (str_uuid deal @ ''/'' @ str_uuid up @ ''-'' @ f)"
  by (simp add: build_object_key_def key_folder_def)

lemma same_file:
  assumes "str_uuid deal @ ''/'' @ str_uuid up @ ''-'' @ f = str_uuid deal' @ ''/'' @ str_uuid up' @ ''-'' @ f'"
  shows "deal = deal' \<and> up = up' \<and> f = f'"
proof -
  have "str_uuid deal = str_uuid deal'" and rest: "str_uuid up @ ''-'' @ f = str_uuid up' @ ''-'' @ f'"
    using assms append_eq_append_conv [of "str_uuid deal" "str_uuid deal'"] by (simp_all add: str_uuid_length)
  moreover from rest have "str_uuid up = str_uuid up'" and "f = f'"
    using append_eq_append_conv [of "str_uuid up" "str_uuid up'"] by (simp_all add: str_uuid_length)
  ultimately show ?thesis by (auto dest: str_uuid_inj)
qed

lemma folder_no_slash: "CHR ''/'' \<notin> set t \<Longrightarrow> CHR ''/'' \<notin> set (key_folder nm t)"
  using safe_name_no_slash by (simp add: key_folder_def)



subsection \<open>The object store\<close>

definition presign_put :: "'c env \<Rightarrow> string \<Rightarrow> int \<Rightarrow> string" where
  "presign_put env key ttl_seconds = s3_presign env (spaces_bucket (settings env)) key ttl_seconds"

definition head_object :: "'c env \<Rightarrow> string \<Rightarrow> ('c, bool) act" where
  "head_object env key = (\<lambda>w. case s3_head env (spaces_bucket (settings env)) key (svc w) of
      (None, c) \<Rightarrow> (Inr True, w\<lparr>svc := c\<rparr>)
    | (Some code, c) \<Rightarrow>
        if code \<in> set [''404'', ''NoSuchKey'', ''NotFound''] then (Inr False, w\<lparr>svc := c\<rparr>)
        else (Inl (ClientError code), w\<lparr>svc := c\<rparr>))"

definition CHUNK_SIZE :: nat where
  "CHUNK_SIZE = 64 * 1024"

definition too_large :: "int option \<Rightarrow> nat \<Rightarrow> bool" where
  "too_large max_bytes n \<longleftrightarrow> (case max_bytes of None \<Rightarrow> False | Some m \<Rightarrow> int n > m)"

definition oversize :: "string \<Rightarrow> int option \<Rightarrow> exn" where
  "oversize key max_bytes = ObjectTooLargeError (''object '' @ py_repr key @ '' exceeds ''
     @ (case max_bytes of None \<Rightarrow> ''None'' | Some m \<Rightarrow> str_int m) @ '' bytes'')"

text \<open>
  The loop of \<open>stream_and_hash\<close>: \<open>digest\<close> is what \<open>update\<close> has been fed so far, \<open>body\<close> what
  is left of the stream. An empty read ends it.
\<close>

function hash_loop :: "string \<Rightarrow> int option \<Rightarrow> bytes \<Rightarrow> nat \<Rightarrow> bytes \<Rightarrow> exn + bytes" where
  "hash_loop key max_bytes digest bytes_read body =
     (let chunk = take CHUNK_SIZE body in
      if chunk = [] then Inr digest
      else if too_large max_bytes (bytes_read + length chunk)
        then Inl (oversize key max_bytes)
      else hash_loop key max_bytes (digest @ chunk) (bytes_read + length chunk) (drop CHUNK_SIZE body))"
  by pat_completeness auto

termination
  by (relation "measure (\<lambda>(_, _, _, _, body). length body)") (auto simp: CHUNK_SIZE_def)

declare hash_loop.simps [simp del]

definition hexdigest :: "bytes \<Rightarrow> string" where
  "hexdigest bs = concat (map (\<lambda>b. hex_pad 2 (unat b)) bs)"

definition stream_and_hash :: "'c env \<Rightarrow> string \<Rightarrow> int option \<Rightarrow> ('c, string) act" where
  "stream_and_hash env key max_bytes = (\<lambda>w. case s3_get env (spaces_bucket (settings env)) key (svc w) of
      (Inl code, c) \<Rightarrow> (Inl (ClientError code), w\<lparr>svc := c\<rparr>)
    | (Inr body, c) \<Rightarrow>
        (case hash_loop key max_bytes [] 0 body of
           Inl e \<Rightarrow> (Inl e, w\<lparr>svc := c\<rparr>)
         | Inr fed \<Rightarrow> (Inr (hexdigest (sha256 env fed)), w\<lparr>svc := c\<rparr>)))"

lemma too_large_mono: "too_large m k \<Longrightarrow> k \<le> n \<Longrightarrow> too_large m n"
  by (auto simp: too_large_def split: option.splits)

lemma hash_loop_spec:
  assumes "\<not> too_large m n"
  shows "hash_loop key m digest n body =
    (if too_large m (n + length body) then Inl (oversize key m)
     else Inr (digest @ body))"
  using assms
proof (induction key m digest n body rule: hash_loop.induct)
  case (1 key m digest n body)
  let ?chunk = "take CHUNK_SIZE body"
  show ?case
  proof (cases "?chunk = []")
    case True
    then have "body = []" by (simp add: CHUNK_SIZE_def)
    with 1(2) show ?thesis by (simp add: hash_loop.simps [of key m digest n "[]"])
  next
    case False
    have len: "n + length ?chunk \<le> n + length body" by simp
    show ?thesis
    proof (cases "too_large m (n + length ?chunk)")
      case True
      with False too_large_mono [OF True len] show ?thesis by (simp add: hash_loop.simps [of key m digest n body] Let_def)
    next
      case small: False
      have eq: "n + length ?chunk + length (drop CHUNK_SIZE body) = n + length body" by simp
      have "hash_loop key m (digest @ ?chunk) (n + length ?chunk) (drop CHUNK_SIZE body) =
          (if too_large m (n + length body) then Inl (oversize key m)
           else Inr (digest @ body))"
        using 1(1) [OF refl False small small] by (simp only: eq append_assoc append_take_drop_id)
      with False small show ?thesis by (simp add: hash_loop.simps [of key m digest n body] Let_def)
    qed
  qed
qed

text \<open>
  C19: reading in chunks is hashing the whole object. The loop ends on every object and,
  from a size limit that admits the empty object, gives the digest of all its bytes, or
  refuses it exactly when its length exceeds the limit.
\<close>

theorem stream_and_hash_spec:
  assumes "\<not> too_large max_bytes 0"
  shows "stream_and_hash env key max_bytes w =
    (case s3_get env (spaces_bucket (settings env)) key (svc w) of
       (Inl code, c) \<Rightarrow> (Inl (ClientError code), w\<lparr>svc := c\<rparr>)
     | (Inr body, c) \<Rightarrow>
         (if too_large max_bytes (length body) then Inl (oversize key max_bytes)
          else Inr (hexdigest (sha256 env body)), w\<lparr>svc := c\<rparr>))"
  using assms
  by (auto simp: stream_and_hash_def hash_loop_spec split: prod.split sum.split)

theorem stream_and_hash_spec_witness:
  "fst (stream_and_hash env_demo ''k'' (Some 10485760) world_demo) = Inr ''01''"
  using stream_and_hash_spec [of "Some 10485760" env_demo "''k''" world_demo]
  by (simp add: too_large_def env_demo_def hexdigest_def hex_digit_def hex_chars_def numeral_2_eq_2)

subsection \<open>The routes\<close>

definition MAX_UPLOAD_BYTES :: int where
  "MAX_UPLOAD_BYTES = 10 * 1024 * 1024"

definition ALLOWED_EXTENSIONS :: "string list" where
  "ALLOWED_EXTENSIONS = [''.pdf'', ''.doc'', ''.docx'', ''.xls'', ''.xlsx'', ''.csv'', ''.pptx'']"

definition PRESIGN_TTL_SECONDS :: int where
  "PRESIGN_TTL_SECONDS = 600"

definition file_suffix :: "string \<Rightarrow> string" where
  "file_suffix filename = (if CHR ''.'' \<in> set filename then py_lower (from_last (CHR ''.'') filename) else [])"

definition reject_if_bad_type_or_size :: "string \<Rightarrow> int \<Rightarrow> ('c, unit) act" where
  "reject_if_bad_type_or_size filename sz =
     seq (guard (\<not> sz > MAX_UPLOAD_BYTES)
            (HTTPException 422 (JStr ''File exceeds the 10485760 byte (10 MB) upload limit'')))
         (guard (file_suffix filename \<noteq> [] \<and> file_suffix filename \<in> set ALLOWED_EXTENSIONS)
            (HTTPException 422 (JStr (''Unsupported file type: '' @ py_repr filename))))"

text \<open>\<open>_org_for_request\<close>\<close>

definition org_for_request :: "token_claims \<Rightarrow> ('c, organisation) act" where
  "org_for_request c = bnd (sql_first organisation_table (\<lambda>o1. org_clerk_org_id o1 = tenant_id c))
     (\<lambda>row. case row of None \<Rightarrow> throw AssertionError | Some r \<Rightarrow> ret r)"

record presign_request =
  pq_deal_id :: uuid
  pq_filename :: string
  pq_size :: int
  pq_declared_sha256 :: string

record presign_response =
  ps_upload_id :: uuid
  ps_presigned_url :: string
  ps_storage_key :: string

definition create_presigned_url ::
  "'c env \<Rightarrow> token_claims \<Rightarrow> presign_request \<Rightarrow> ('c, presign_response) act" where
  "create_presigned_url env c body =
     seq (reject_if_bad_type_or_size (pq_filename body) (pq_size body))
     (bnd (find_dedupe_candidate (pq_deal_id body) (pq_declared_sha256 body)) (\<lambda>dedupe_candidate.
     seq (guard (dedupe_candidate = None)
            (HTTPException 409 (JStr ''A matching file has already been uploaded for this deal'')))
     (bnd gen_random_uuid (\<lambda>upload_id.
      bnd (org_for_request c) (\<lambda>org.
        let storage_key = build_object_key (org_name org) (tenant_id c) (pq_deal_id body) upload_id (pq_filename body)
        in ret \<lparr>ps_upload_id = upload_id,
                ps_presigned_url = presign_put env storage_key PRESIGN_TTL_SECONDS,
                ps_storage_key = storage_key\<rparr>)))))"

record complete_request =
  cq_deal_id :: uuid
  cq_filename :: string
  cq_declared_sha256 :: string

definition enqueue :: "string \<Rightarrow> (string \<times> string) list \<Rightarrow> ('c, unit) act" where
  "enqueue f kwargs = modify (\<lambda>w. w\<lparr>queue := queue w @ [\<lparr>job_function = f, job_kwargs = kwargs\<rparr>]\<rparr>)"

definition upload_key :: "token_claims \<Rightarrow> organisation \<Rightarrow> uuid \<Rightarrow> complete_request \<Rightarrow> string" where
  "upload_key c org upload_id body =
     build_object_key (org_name org) (tenant_id c) (cq_deal_id body) upload_id (cq_filename body)"

definition pending_source ::
  "organisation \<Rightarrow> uuid \<Rightarrow> complete_request \<Rightarrow> string \<Rightarrow> instant \<Rightarrow> data_source" where
  "pending_source org upload_id body storage_key t =
     \<lparr>ds_id = upload_id, ds_org_id = org_id org, ds_deal_id = cq_deal_id body,
      ds_storage_key = storage_key, ds_filename = cq_filename body,
      ds_declared_sha256 = cq_declared_sha256 body, ds_fingerprint = None, ds_status = ''pending'',
      ds_status_updated_at = None, ds_created_at = t\<rparr>"

definition ingest_kwargs :: "token_claims \<Rightarrow> uuid \<Rightarrow> complete_request \<Rightarrow> string \<Rightarrow> (string \<times> string) list" where
  "ingest_kwargs c upload_id body storage_key =
     [(''data_source_id'', str_uuid upload_id), (''clerk_org_id'', tenant_id c),
      (''storage_key'', storage_key), (''declared_sha256'', cq_declared_sha256 body)]"

definition upload_entry :: "token_claims \<Rightarrow> user \<Rightarrow> uuid \<Rightarrow> complete_request \<Rightarrow> string \<Rightarrow> audit_entry" where
  "upload_entry c u upload_id body storage_key = (user_entry c u ''document_upload_completed'')
     \<lparr>ent_deal_id := Some (cq_deal_id body),
      ent_payload := Some (JObj [(''data_source_id'', JStr (str_uuid upload_id)),
        (''filename'', JStr (cq_filename body)), (''storage_key'', JStr storage_key)])\<rparr>"

definition complete_upload ::
  "'c env \<Rightarrow> token_claims \<Rightarrow> uuid \<Rightarrow> complete_request \<Rightarrow> ('c, uuid \<times> string) act" where
  "complete_upload env c upload_id body =
     bnd (org_for_request c) (\<lambda>org. let storage_key = upload_key c org upload_id body in
     bnd (head_object env storage_key) (\<lambda>there.
     seq (guard there (HTTPException 404
            (JStr ''Uploaded object not found -- the presigned PUT may not have completed'')))
     (bnd utc_now (\<lambda>t.
     seq (data_source_create (pending_source org upload_id body storage_key t))
     (seq (enqueue ''ingest_data_source'' (ingest_kwargs c upload_id body storage_key))
     (bnd (caller_row c) (\<lambda>u.
     seq (audit_append (upload_entry c u upload_id body storage_key))
       (ret (upload_id, ''pending''))))))))) "

lemma head_object_external [external_rules]: "external (head_object env key)"
  by (auto simp: external_def head_object_def outside_def split: prod.split option.split)

lemma org_for_request_scoped [act_simps]:
  "guc w = Some (tenant_id c) \<Longrightarrow> org_for_request c w =
     (case org_of (tenant_id c) (db w) of None \<Rightarrow> Inl AssertionError | Some r \<Rightarrow> Inr r, w)"
  by (simp add: org_for_request_def bnd_app org_first_scoped split: option.split)

lemma uploads_confined [keep_rules]:
  "keeps (confined S H L) (org_for_request c)"
  "keeps (confined S H L) (enqueue f kwargs)"
  "keeps (confined S H L) (head_object env key)"
  "keeps (confined S H L) (stream_and_hash env key m)"
  "keeps (confined S H L) (reject_if_bad_type_or_size f n)"
proof -
  show "keeps (confined S H L) (org_for_request c)"
    unfolding org_for_request_def by (intro keep_rules orgs.sql_first_keeps)
  show "keeps (confined S H L) (enqueue f kwargs)"
    by (simp add: keeps_def enqueue_def confined_frame)
  show "keeps (confined S H L) (head_object env key)"
    by (intro external_confined external_rules)
  show "keeps (confined S H L) (stream_and_hash env key m)"
    by (auto simp: keeps_def stream_and_hash_def confined_frame split: prod.split sum.split)
  show "keeps (confined S H L) (reject_if_bad_type_or_size f n)"
    unfolding reject_if_bad_type_or_size_def by (intro keep_rules)
qed

lemma upload_routes_confined [keep_rules]:
  "keeps (confined S H L) (create_presigned_url env c body)"
  "keeps (confined S H L) (complete_upload env c i cbody)"
  unfolding create_presigned_url_def complete_upload_def Let_def by (intro keep_rules)+

subsection \<open>What the routes do\<close>

definition sources_of :: "string \<Rightarrow> db \<Rightarrow> data_source list" where
  "sources_of t d = filter (\<lambda>r. org_policy (Some t) d (ds_org_id r)) (t_data_source d)"

lemma find_dedupe_scoped:
  "guc w = Some t \<Longrightarrow> find_dedupe_candidate i h w = (Inr (first_match (dedupe_match i h) (sources_of t (db w))), w)"
  by (simp add: find_dedupe_candidate_def sql_first_def first_row_def visible_def sources_of_def first_match_filter)

text \<open>
  Presigning. Too large a declared size and a suffix outside the whitelist are 422, a
  file one of the organisation's data sources of that deal already declares or was measured
  to be (a mismatch excepted) is 409; otherwise the URL is for the key of the caller's own
  organisation under a fresh upload id, valid ten minutes. Nothing is written.
\<close>

theorem presign_spec:
  assumes g: "guc w = Some (tenant_id c)" and org: "org_of (tenant_id c) (db w) = Some r"
  shows "create_presigned_url env c body w =
    (let suffix = file_suffix (pq_filename body); up = rnd w (rnd_next w);
         key = build_object_key (org_name r) (tenant_id c) (pq_deal_id body) up (pq_filename body) in
     if pq_size body > 10485760 then
       (Inl (HTTPException 422 (JStr ''File exceeds the 10485760 byte (10 MB) upload limit'')), w)
     else if suffix \<notin> set ALLOWED_EXTENSIONS then
       (Inl (HTTPException 422 (JStr (''Unsupported file type: '' @ py_repr (pq_filename body)))), w)
     else if \<exists>d \<in> set (sources_of (tenant_id c) (db w)). ds_deal_id d = pq_deal_id body
         \<and> (ds_declared_sha256 d = pq_declared_sha256 body \<or> ds_fingerprint d = Some (pq_declared_sha256 body))
         \<and> ds_status d \<noteq> ''mismatch'' then
       (Inl (HTTPException 409 (JStr ''A matching file has already been uploaded for this deal'')), w)
     else (Inr \<lparr>ps_upload_id = up, ps_presigned_url = s3_presign env (spaces_bucket (settings env)) key 600,
                ps_storage_key = key\<rparr>, w\<lparr>rnd_next := Suc (rnd_next w)\<rparr>))"
proof -
  have suffix: "file_suffix f \<in> set ALLOWED_EXTENSIONS \<Longrightarrow> file_suffix f \<noteq> []" for f
    by (auto simp: ALLOWED_EXTENSIONS_def)
  have dup: "first_match (dedupe_match i h) (sources_of t d) = None \<longleftrightarrow> \<not> (\<exists>x \<in> set (sources_of t d).
      ds_deal_id x = i \<and> (ds_declared_sha256 x = h \<or> ds_fingerprint x = Some h) \<and> ds_status x \<noteq> ''mismatch'')"
    for i h t d by (auto simp: first_match_None dedupe_match_def)
  show ?thesis
    using g org suffix [of "pq_filename body"]
    by (simp add: create_presigned_url_def reject_if_bad_type_or_size_def bnd_app find_dedupe_scoped dup
        org_for_request_scoped gen_random_uuid_def presign_put_def PRESIGN_TTL_SECONDS_def
        MAX_UPLOAD_BYTES_def Let_def bnd_assoc) blast
qed

lemma commit_writes:
  assumes "m (w\<lparr>uow := [], guc := Some (tenant_id c)\<rparr>) = (Inr x, w1)"
    and "run_writes (uow w1) (w1\<lparr>uow := []\<rparr>) = (y, w2)"
  shows "scoped_run c m w = (case y of Inl e \<Rightarrow> (Inl e, w2\<lparr>db := db w, guc := None, uow := []\<rparr>)
    | Inr u \<Rightarrow> (Inr x, w2\<lparr>guc := None, uow := []\<rparr>))"
  using assms
  by (simp add: scoped_run_def in_transaction_def set_org_scope_def bnd_app flush_def split: sum.split)

definition completed ::
  "'c env \<Rightarrow> token_claims \<Rightarrow> uuid \<Rightarrow> complete_request \<Rightarrow> organisation \<Rightarrow> user \<Rightarrow> 'c \<Rightarrow> 'c world \<Rightarrow> 'c world" where
  "completed env c up body r u s w =
     (let key = upload_key c r up body in
      w\<lparr>uow := [InsertDataSource (pending_source r up body key (clock w)),
               InsertAudit (upload_entry c u up body key)],
        guc := Some (tenant_id c), svc := s,
        queue := queue w @ [\<lparr>job_function = ''ingest_data_source'', job_kwargs = ingest_kwargs c up body key\<rparr>]\<rparr>)"

lemma complete_upload_run:
  assumes "org_of (tenant_id c) (db w) = Some r" and "user_of (tenant_id c) (user_id c) (db w) = Some u"
    and "s3_head env (spaces_bucket (settings env)) (upload_key c r up body) (svc w) = (None, s)"
  shows "complete_upload env c up body (w\<lparr>uow := [], guc := Some (tenant_id c)\<rparr>) =
    (Inr (up, ''pending''), completed env c up body r u s w)"
  using assms
  by (simp add: complete_upload_def act_simps Let_def head_object_def utc_now_def data_source_create_def
      session_add_def enqueue_def audit_append_def completed_def)

lemma complete_upload_commit:
  assumes wf: "wf_db (db w)" and org: "org_of (tenant_id c) (db w) = Some r"
    and u: "user_of (tenant_id c) (user_id c) (db w) = Some u" "usr_status u = ''active''"
    and there: "s3_head env (spaces_bucket (settings env)) (upload_key c r up body) (svc w) = (None, s)"
    and fresh: "up \<notin> ds_id ` set (t_data_source (db w))"
    and deal: "cq_deal_id body \<in> deal_id ` set (t_deals (db w))"
    and row: "org_policy (Some (tenant_id c)) (db w) (org_id r)"
    and ok: "audit_accepted (tenant_id c) (usr_org_id u) (rnd w (rnd_next w)) (db w)"
  shows "let key = upload_key c r up body in
    get_db env c (complete_upload env c up body) w =
    (Inr (up, ''pending''), w\<lparr>guc := None, uow := [], svc := s, rnd_next := Suc (rnd_next w),
       queue := queue w @ [\<lparr>job_function = ''ingest_data_source'', job_kwargs = ingest_kwargs c up body key\<rparr>],
       db := with_audit (audit_row (upload_entry c u up body key) (rnd w (rnd_next w)) (clock w))
         (t_data_source_update (\<lambda>rs. rs @ [pending_source r up body key (clock w)]) (db w))\<rparr>)"
proof -
  let ?w1 = "completed env c up body r u s w"
  let ?key = "upload_key c r up body"
  let ?row = "pending_source r up body ?key (clock w)"
  let ?d = "t_data_source_update (\<lambda>rs. rs @ [?row]) (db w)"
  have fields: "ds_id ?row = up" "ds_org_id ?row = org_id r" "ds_deal_id ?row = cq_deal_id body"
    "ds_status ?row = ''pending''" by (simp_all add: pending_source_def)
  have w1: "uow ?w1 = [InsertDataSource ?row, InsertAudit (upload_entry c u up body ?key)]"
    "db ?w1 = db w" "guc ?w1 = Some (tenant_id c)" "clock ?w1 = clock w" "rnd ?w1 = rnd w" "rnd_next ?w1 = rnd_next w"
    by (simp_all add: completed_def Let_def)
  have "insert_error data_source_table ?row (?w1\<lparr>uow := []\<rparr>) = None"
    using wf_tableD(6) [OF wf] fresh deal row org_policy_id [OF row]
    by (auto simp: insert_error_def visible_def fields wf_table_def ck_data_source_status_def
        data_source_statuses_def w1)
  then have ins: "sql_insert data_source_table ?row (?w1\<lparr>uow := []\<rparr>) = (Inr (), ?w1\<lparr>uow := [], db := ?d\<rparr>)"
    by (simp add: sql_insert_def w1)
  have "wf_db (db (snd (sql_insert data_source_table ?row (?w1\<lparr>uow := []\<rparr>))))"
    by (rule wf_kept [OF sources.insert_confined]) (simp add: w1 wf)
  then have wfd: "wf_db ?d" by (simp add: ins)
  have ent: "ent_org_id (upload_entry c u up body ?key) = usr_org_id u"
    by (simp add: upload_entry_def user_entry_def)
  have acc: "audit_accepted (tenant_id c) (usr_org_id u) (rnd w (rnd_next w)) ?d"
    using ok by (simp add: audit_accepted_def org_policy_def)
  have "run_write (InsertAudit (upload_entry c u up body ?key)) (?w1\<lparr>uow := [], db := ?d\<rparr>) =
    (Inr (), ?w1\<lparr>uow := [], rnd_next := Suc (rnd_next w),
       db := with_audit (audit_row (upload_entry c u up body ?key) (rnd w (rnd_next w)) (clock w)) ?d\<rparr>)"
    using audit_write_accepted [of "?w1\<lparr>uow := [], db := ?d\<rparr>" "tenant_id c" "upload_entry c u up body ?key"]
      wfd acc by (simp add: w1 ent)
  with ins have "run_writes (uow ?w1) (?w1\<lparr>uow := []\<rparr>) = (Inr (), ?w1\<lparr>uow := [], rnd_next := Suc (rnd_next w),
       db := with_audit (audit_row (upload_entry c u up body ?key) (rnd w (rnd_next w)) (clock w)) ?d\<rparr>)"
    by (simp add: w1(1) run_writes.simps(2) run_write.simps(2) bnd_app)
  from commit_writes [where m = "complete_upload env c up body" and w = w and c = c,
      OF complete_upload_run [OF org u(1) there] this]
    scoped_active [OF u, of env "complete_upload env c up body"]
  show ?thesis by (simp add: completed_def Let_def)
qed

text \<open>
  C21: completing an upload. Once the object is there, the commit adds exactly the pending
  data source, owned by the caller's organisation and under the key of that organisation,
  and its audit row, and one ingest job carrying the same id, key, hash and organisation is
  queued. The deal may be anyone's: it only has to exist.
\<close>

theorem complete_upload_effect:
  assumes wf: "wf_db (db w)" and org: "org_of (tenant_id c) (db w) = Some r"
    and u: "user_of (tenant_id c) (user_id c) (db w) = Some u" "usr_status u = ''active''"
    and there: "s3_head env (spaces_bucket (settings env)) (upload_key c r up body) (svc w) = (None, s)"
    and fresh: "up \<notin> ds_id ` set (t_data_source (db w))"
    and deal: "cq_deal_id body \<in> deal_id ` set (t_deals (db w))"
    and row: "org_policy (Some (tenant_id c)) (db w) (org_id r)"
    and ok: "audit_accepted (tenant_id c) (usr_org_id u) (rnd w (rnd_next w)) (db w)"
  shows "let key = upload_key c r up body in
    get_db env c (complete_upload env c up body) w =
    (Inr (up, ''pending''), w\<lparr>guc := None, uow := [], svc := s, rnd_next := Suc (rnd_next w),
       queue := queue w @ [\<lparr>job_function = ''ingest_data_source'', job_kwargs = ingest_kwargs c up body key\<rparr>],
       db := with_audit (audit_row (upload_entry c u up body key) (rnd w (rnd_next w)) (clock w))
         (t_data_source_update (\<lambda>rs. rs @ [pending_source r up body key (clock w)]) (db w))\<rparr>)"
  by (rule complete_upload_commit [OF assms])

lemma insert_error_cong: "db w = db w' \<Longrightarrow> guc w = guc w' \<Longrightarrow> insert_error T r w = insert_error T r w'"
  by (simp add: insert_error_def visible_def)

lemma completion_rejected:
  assumes org: "org_of (tenant_id c) (db w) = Some r"
    and u: "user_of (tenant_id c) (user_id c) (db w) = Some u" "usr_status u = ''active''"
    and there: "s3_head env (spaces_bucket (settings env)) (upload_key c r up body) (svc w) = (None, s)"
    and bad: "insert_error data_source_table (pending_source r up body (upload_key c r up body) (clock w))
      (w\<lparr>guc := Some (tenant_id c)\<rparr>) = Some e"
  shows "get_db env c (complete_upload env c up body) w =
    (Inl (DbError e), w\<lparr>guc := None, uow := [], svc := s,
       queue := queue w @ [\<lparr>job_function = ''ingest_data_source'',
         job_kwargs = ingest_kwargs c up body (upload_key c r up body)\<rparr>]\<rparr>)"
proof -
  let ?w1 = "completed env c up body r u s w"
  let ?row = "pending_source r up body (upload_key c r up body) (clock w)"
  have w1: "uow ?w1 = [InsertDataSource ?row, InsertAudit (upload_entry c u up body (upload_key c r up body))]"
    "db ?w1 = db w" "guc ?w1 = Some (tenant_id c)" by (simp_all add: completed_def Let_def)
  have "insert_error data_source_table ?row (?w1\<lparr>uow := []\<rparr>) = Some e"
    using bad insert_error_cong [of "?w1\<lparr>uow := []\<rparr>" "w\<lparr>guc := Some (tenant_id c)\<rparr>" data_source_table] by (simp add: w1)
  then have "run_writes (uow ?w1) (?w1\<lparr>uow := []\<rparr>) = (Inl (DbError e), ?w1\<lparr>uow := []\<rparr>)"
    by (simp add: w1(1) run_writes.simps(2) run_write.simps(2) bnd_app sql_insert_def)
  from commit_writes [where m = "complete_upload env c up body" and w = w and c = c,
      OF complete_upload_run [OF org u(1) there] this]
    scoped_active [OF u, of env "complete_upload env c up body"]
  show ?thesis by (simp add: completed_def Let_def)
qed

text \<open>
  The job outlives the transaction. When the commit then fails, here because the deal
  does not exist, the request is an error and no table changed, yet the ingest job of the
  data source that was never stored is in the queue.
\<close>

theorem failed_completion_leaves_job:
  assumes wf: "wf_db (db w)" and org: "org_of (tenant_id c) (db w) = Some r"
    and u: "user_of (tenant_id c) (user_id c) (db w) = Some u" "usr_status u = ''active''"
    and there: "s3_head env (spaces_bucket (settings env)) (upload_key c r up body) (svc w) = (None, s)"
    and fresh: "up \<notin> ds_id ` set (t_data_source (db w))"
    and deal: "cq_deal_id body \<notin> deal_id ` set (t_deals (db w))"
    and row: "org_policy (Some (tenant_id c)) (db w) (org_id r)"
  shows "get_db env c (complete_upload env c up body) w =
    (Inl (DbError ForeignKeyViolation), w\<lparr>guc := None, uow := [], svc := s,
       queue := queue w @ [\<lparr>job_function = ''ingest_data_source'',
         job_kwargs = ingest_kwargs c up body (upload_key c r up body)\<rparr>]\<rparr>)"
proof (rule completion_rejected [OF org u there])
  show "insert_error data_source_table (pending_source r up body (upload_key c r up body) (clock w))
      (w\<lparr>guc := Some (tenant_id c)\<rparr>) = Some ForeignKeyViolation"
    using wf_tableD(6) [OF wf] fresh deal row
    by (auto simp: insert_error_def visible_def pending_source_def wf_table_def ck_data_source_status_def
        data_source_statuses_def)
qed

end
