(* ===== verification/IngestJob.thy ===== *)
theory IngestJob
  imports Uploads
begin

section \<open>The ingest job\<close>

text \<open>
  \<open>app/jobs/tasks/ingest_data_source.py\<close>, the job a completed upload enqueues: it measures
  the object, gives the data source its final status and writes the audit row, in one
  transaction scoped to the organisation the job names. \<open>parse_uuid\<close> is Python's
  \<open>uuid.UUID(hex)\<close> on Latin-1 text, \<open>run_ingest\<close> the call the queue's worker makes with the
  job's keyword arguments.
\<close>

subsection \<open>\<open>uuid.UUID(hex)\<close>\<close>

text \<open>\<open>s.replace(sub, '')\<close>\<close>

function drop_sub :: "string \<Rightarrow> string \<Rightarrow> string" where
  "drop_sub sub s =
     (if s = [] \<or> sub = [] then s
      else if take (length sub) s = sub then drop_sub sub (drop (length sub) s)
      else hd s # drop_sub sub (tl s))"
  by pat_completeness auto

termination
  by (relation "measure (\<lambda>(_, s). length s)") auto

declare drop_sub.simps [simp del]

definition strip_chars :: "char set \<Rightarrow> string \<Rightarrow> string" where
  "strip_chars cs s =
     (let front = dropWhile (\<lambda>x. x \<in> cs) s in rev (dropWhile (\<lambda>x. x \<in> cs) (rev front)))"

definition hex_value :: "char \<Rightarrow> nat option" where
  "hex_value ch =
     (let n = (of_char ch :: nat) in
      if 48 \<le> n \<and> n \<le> 57 then Some (n - 48)
      else if 97 \<le> n \<and> n \<le> 102 then Some (n - 87)
      else if 65 \<le> n \<and> n \<le> 70 then Some (n - 55) else None)"

text \<open>
  The digits of \<open>int(s, 16)\<close>: single underscores may stand between them. The flag says
  that an underscore is allowed next, the number is what has been read.
\<close>

fun int16_digits :: "bool \<Rightarrow> nat \<Rightarrow> string \<Rightarrow> nat option" where
  "int16_digits may_sep acc [] = (if may_sep then Some acc else None)"
| "int16_digits may_sep acc (ch # s) =
     (if ch = CHR ''_'' then (if may_sep then int16_digits False acc s else None)
      else case hex_value ch of None \<Rightarrow> None | Some d \<Rightarrow> int16_digits True (16 * acc + d) s)"

definition py_space :: "char set" where
  "py_space = {CHR '' '', CHR 0x09, CHR 0x0A, CHR 0x0B, CHR 0x0C, CHR 0x0D, CHR 0x1C, CHR 0x1D,
     CHR 0x1E, CHR 0x1F, CHR 0x85, CHR 0xA0}"

definition py_int16 :: "string \<Rightarrow> int option" where
  "py_int16 s0 =
     (let s = strip_chars py_space s0;
          neg = (take 1 s = ''-'');
          body = (if neg \<or> take 1 s = ''+'' then drop 1 s else s);
          prefixed = (take 2 body = ''0x'' \<or> take 2 body = ''0X'')
      in map_option (\<lambda>n. if neg then - int n else int n)
           (if prefixed then (if drop 2 body = [] then None else int16_digits True 0 (drop 2 body))
            else int16_digits False 0 body))"

definition parse_uuid :: "string \<Rightarrow> exn + uuid" where
  "parse_uuid s =
     (let h = filter (\<lambda>ch. ch \<noteq> CHR ''-'')
                (strip_chars {CHR ''{'', CHR ''}''} (drop_sub ''uuid:'' (drop_sub ''urn:'' s)))
      in if length h \<noteq> 32 then Inl (ValueError ''badly formed hexadecimal UUID string'')
         else case py_int16 h of
             None \<Rightarrow> Inl (ValueError (''invalid literal for int() with base 16: '' @ py_repr h))
           | Some n \<Rightarrow>
               if 0 \<le> n \<and> n < 2 ^ 128 then Inr (word_of_int n)
               else Inl (ValueError ''int is out of range (need a 128-bit value)''))"

lemma drop_sub_other: "set sub \<inter> set s = {} \<or> \<not> set sub \<subseteq> set s \<Longrightarrow> drop_sub sub s = s"
proof (induction sub s rule: drop_sub.induct)
  case (1 sub s)
  show ?case
  proof (cases "s = [] \<or> sub = []")
    case False
    have away: "take (length sub) s \<noteq> sub"
      using 1(3) False by (metis set_take_subset Int_absorb2 set_empty)
    have "set sub \<inter> set (tl s) = {} \<or> \<not> set sub \<subseteq> set (tl s)"
      using 1(3) False by (cases s) auto
    from 1(2) [OF False away this] away False show ?thesis
      by (simp add: drop_sub.simps [of sub s])
  qed (auto simp: drop_sub.simps)
qed

lemma strip_other: "cs \<inter> set s = {} \<Longrightarrow> strip_chars cs s = s"
proof -
  assume no: "cs \<inter> set s = {}"
  have "dropWhile (\<lambda>x. x \<in> cs) t = t" if "set t \<subseteq> set s" for t
    using no that by (cases t) auto
  then show ?thesis by (simp add: strip_chars_def Let_def)
qed

lemma hex_value_digit: "d < 16 \<Longrightarrow> hex_value (hex_digit d) = Some d \<and> hex_digit d \<noteq> CHR ''_''"
proof -
  assume "d < 16"
  then have "d \<in> set [0..<16]" by simp
  moreover have "\<forall>d \<in> set [0..<16]. hex_value (hex_digit d) = Some d \<and> hex_digit d \<noteq> CHR ''_''"
    by code_simp
  ultimately show ?thesis by blast
qed

lemma int16_append:
  assumes "d < 16" and "int16_digits f acc s = Some n"
  shows "int16_digits f acc (s @ [hex_digit d]) = Some (16 * n + d)"
  using assms(2)
  by (induction f acc s rule: int16_digits.induct)
    (auto simp: hex_value_digit [OF assms(1)] split: if_splits option.splits)

lemma int16_hex: "int16_digits False 0 (hex_pad (Suc n) x) = Some (x mod 16 ^ Suc n)"
proof (induction n arbitrary: x)
  case 0
  show ?case using hex_value_digit [of "x mod 16"] by simp
next
  case (Suc n)
  from Suc.IH [of "x div 16"] have
    "int16_digits False 0 (hex_pad (Suc n) (x div 16) @ [hex_digit (x mod 16)]) = Some (16 * (x div 16 mod 16 ^ Suc n) + x mod 16)"
    by (intro int16_append) simp_all
  moreover have "16 * (x div 16 mod 16 ^ Suc n) + x mod 16 = x mod 16 ^ Suc (Suc n)"
    using mod_mult2_eq [of x 16 "16 ^ Suc n"] by (simp only: power_Suc)
  ultimately show ?case by (simp only: hex_pad.simps)
qed

lemma filter_hyphenate:
  assumes "CHR ''-'' \<notin> set h"
  shows "filter (\<lambda>ch. ch \<noteq> CHR ''-'') (hyphenate h) = h"
proof -
  have keep: "filter (\<lambda>ch. ch \<noteq> CHR ''-'') t = t" if "set t \<subseteq> set h" for t
    using assms that by (auto intro: filter_True)
  have sub: "set (take n (drop m h)) \<subseteq> set h" "set (drop m h) \<subseteq> set h" "set (take n h) \<subseteq> set h" for n m
    by (meson set_take_subset set_drop_subset subset_trans)+
  have split: "take 8 h @ take 4 (drop 8 h) @ take 4 (drop 12 h) @ take 4 (drop 16 h) @ drop 20 h = h"
  proof -
    have "take 4 (drop m h) @ drop (m + 4) h = drop m h" for m
      by (metis append_take_drop_id drop_drop add.commute)
    from this [of 8] this [of 12] this [of 16] show ?thesis by simp
  qed
  show ?thesis by (simp add: hyphenate_def keep sub) (rule split)
qed

lemma parse_hex_text:
  assumes spelt: "set s \<subseteq> insert (CHR ''-'') (set hex_chars)"
    and digits: "filter (\<lambda>ch. ch \<noteq> CHR ''-'') s = hex_pad 32 (unat u)"
  shows "parse_uuid s = Inr u"
proof -
  let ?h = "hex_pad 32 (unat u)"
  have bound: "unat u < 2 ^ 128" using unsigned_less [of u] by simp
  have chars: "set ?h \<subseteq> set hex_chars" by (rule hex_pad_set)
  have "drop_sub ''urn:'' s = s" "drop_sub ''uuid:'' s = s"
    using spelt by (auto intro!: drop_sub_other simp: hex_chars_def)
  moreover have "strip_chars {CHR ''{'', CHR ''}''} s = s"
    using spelt by (intro strip_other) (auto simp: hex_chars_def)
  moreover have "py_int16 ?h = Some (int (unat u))"
  proof -
    have sp: "strip_chars py_space ?h = ?h"
      using chars by (intro strip_other) (auto simp: hex_chars_def py_space_def)
    have no: "x \<notin> set ?h" if "x \<in> {CHR ''-'', CHR ''+'', CHR ''x'', CHR ''X''}" for x
      using that chars by (auto simp: hex_chars_def)
    have p: "take 1 ?h \<noteq> ''-''" "take 1 ?h \<noteq> ''+''" "take 2 ?h \<noteq> ''0x''" "take 2 ?h \<noteq> ''0X''"
      using no in_set_takeD by (metis insertCI list.set_intros)+
    have "unat u mod 16 ^ 32 = unat u" using bound by simp
    with int16_hex [of 31 "unat u"] have "int16_digits False 0 ?h = Some (unat u)" by simp
    with p show ?thesis by (simp add: py_int16_def sp Let_def)
  qed
  moreover have "int (unat u) < 2 ^ 128"
    using bound of_nat_less_iff [of "unat u" "2 ^ 128"] by simp
  ultimately show ?thesis using digits by (simp add: parse_uuid_def Let_def)
qed

lemma str_uuid_text: "set (str_uuid u) \<subseteq> insert (CHR ''-'') (set hex_chars)"
  using hyphenate_set hex_pad_set unfolding str_uuid_def by blast

lemma str_uuid_digits: "filter (\<lambda>ch. ch \<noteq> CHR ''-'') (str_uuid u) = hex_pad 32 (unat u)"
proof -
  have "CHR ''-'' \<notin> set (hex_pad 32 (unat u))"
    using hex_pad_set [of 32 "unat u"] by (auto simp: hex_chars_def)
  then show ?thesis unfolding str_uuid_def by (rule filter_hyphenate)
qed

lemmas parse_str_uuid [act_simps] = parse_hex_text [OF str_uuid_text str_uuid_digits]

text \<open>
  \<open>uuid.UUID(str(u))\<close> is \<open>u\<close>, and so is \<open>uuid.UUID(u.hex)\<close>, for every UUID: the id the
  completion route sends to the job as text is the id the job looks up.
\<close>

theorem parse_uuid_roundtrip:
  "parse_uuid (str_uuid u) = Inr u \<and> parse_uuid (hex_pad 32 (unat u)) = Inr u"
proof (intro conjI parse_str_uuid parse_hex_text)
  show "set (hex_pad 32 (unat u)) \<subseteq> insert (CHR ''-'') (set hex_chars)" using hex_pad_set by blast
  have "CHR ''-'' \<notin> set (hex_pad 32 (unat u))"
    using hex_pad_set [of 32 "unat u"] by (auto simp: hex_chars_def)
  then show "filter (\<lambda>ch. ch \<noteq> CHR ''-'') (hex_pad 32 (unat u)) = hex_pad 32 (unat u)"
    by (auto intro: filter_True)
qed

subsection \<open>The job\<close>

definition MAX_INGEST_BYTES :: int where
  "MAX_INGEST_BYTES = 10 * 1024 * 1024"

definition ingest_entry :: "data_source \<Rightarrow> string \<Rightarrow> string \<Rightarrow> string option \<Rightarrow> audit_entry" where
  "ingest_entry source_row data_source_id new_status fingerprint =
     \<lparr>ent_org_id = ds_org_id source_row, ent_actor_id = Some ''Internal System'',
      ent_actor_email = Some ''Internal System'', ent_event_type = ''document_upload_ingest_completed'',
      ent_deal_id = Some (ds_deal_id source_row), ent_session_id = None,
      ent_payload = Some (JObj [(''data_source_id'', JStr data_source_id), (''status'', JStr new_status),
        (''fingerprint'', jopt (map_option JStr fingerprint))])\<rparr>"

text \<open>The \<open>try/except ObjectTooLargeError/else\<close>: the final status and fingerprint.\<close>

definition measure_object :: "'c env \<Rightarrow> string \<Rightarrow> string \<Rightarrow> ('c, string \<times> string option) act" where
  "measure_object env storage_key declared_sha256 =
     try_catch
       (bnd (stream_and_hash env storage_key (Some MAX_INGEST_BYTES)) (\<lambda>fingerprint.
          ret (if fingerprint = declared_sha256 then ''verified'' else ''mismatch'', Some fingerprint)))
       (\<lambda>e. case e of ObjectTooLargeError _ \<Rightarrow> ret (''quarantined'', None) | _ \<Rightarrow> throw e)"

definition ingest_steps :: "'c env \<Rightarrow> string \<Rightarrow> string \<Rightarrow> string \<Rightarrow> ('c, unit) act" where
  "ingest_steps env data_source_id storage_key declared_sha256 =
     bnd (lift_sum (parse_uuid data_source_id)) (\<lambda>row_id.
     bnd (data_source_by_id row_id) (\<lambda>found.
       case found of
         None \<Rightarrow> throw (ValueError (''data_source '' @ data_source_id @ '' not found''))
       | Some source_row \<Rightarrow>
           if ds_status source_row \<noteq> ''pending'' then ret ()
           else bnd (measure_object env storage_key declared_sha256) (\<lambda>(new_status, fingerprint).
             seq (update_status row_id new_status fingerprint)
               (audit_append (ingest_entry source_row data_source_id new_status fingerprint)))))"

definition ingest_data_source ::
  "'c env \<Rightarrow> string \<Rightarrow> string \<Rightarrow> string \<Rightarrow> string \<Rightarrow> ('c, unit) act" where
  "ingest_data_source env data_source_id clerk_org_id storage_key declared_sha256 =
     in_transaction (seq (set_org_scope clerk_org_id)
       (ingest_steps env data_source_id storage_key declared_sha256))"

text \<open>
  The worker's call with the keyword arguments of a queued job; a keyword missing from them
  is a \<open>TypeError\<close>.
\<close>

definition run_ingest :: "'c env \<Rightarrow> (string \<times> string) list \<Rightarrow> ('c, unit) act" where
  "run_ingest env kwargs =
     (case (map_of kwargs ''data_source_id'', map_of kwargs ''clerk_org_id'',
            map_of kwargs ''storage_key'', map_of kwargs ''declared_sha256'') of
        (Some i, Some org, Some key, Some h) \<Rightarrow> ingest_data_source env i org key h
      | _ \<Rightarrow> throw TypeError)"

lemma measure_object_confined [keep_rules]: "keeps (confined S H L) (measure_object env k h)"
  unfolding measure_object_def by (intro keep_rules) (auto intro!: keep_rules split: exn.split)

lemma ingest_confined: "g \<in> S \<Longrightarrow> keeps (confined S H L) (ingest_data_source env i g k h)"
  unfolding ingest_data_source_def ingest_steps_def
  by (intro transaction_confined keep_rules scope_confined) (auto intro!: keep_rules)

subsection \<open>What one run does\<close>

definition source_in :: "string \<Rightarrow> uuid \<Rightarrow> db \<Rightarrow> data_source option" where
  "source_in t i d = first_match (\<lambda>r. org_policy (Some t) d (ds_org_id r) \<and> ds_id r = i) (t_data_source d)"

definition settle_source ::
  "string \<Rightarrow> uuid \<Rightarrow> string \<Rightarrow> string option \<Rightarrow> instant \<Rightarrow> db \<Rightarrow> db" where
  "settle_source t i st fp now d = t_data_source_update
     (map_where (\<lambda>r. org_policy (Some t) d (ds_org_id r) \<and> ds_id r = i)
        (\<lambda>r. r\<lparr>ds_status := st, ds_fingerprint := fp, ds_status_updated_at := Some now\<rparr>)) d"

text \<open>The outcome of measuring bytes against the declared hash.\<close>

definition verdict :: "'c env \<Rightarrow> string \<Rightarrow> bytes \<Rightarrow> string \<times> string option" where
  "verdict env declared body =
     (if int (length body) > 10485760 then (''quarantined'', None)
      else let h = hexdigest (sha256 env body)
           in (if h = declared then ''verified'' else ''mismatch'', Some h))"

lemma source_by_id_scoped [act_simps]:
  "guc w = Some t \<Longrightarrow> data_source_by_id i w = (Inr (source_in t i (db w)), w)"
  by (simp add: data_source_by_id_def sql_first_def first_row_def visible_def source_in_def)

lemma source_in_SomeD: "source_in t i d = Some r \<Longrightarrow>
    r \<in> set (t_data_source d) \<and> org_policy (Some t) d (ds_org_id r) \<and> ds_id r = i"
  unfolding source_in_def by (drule first_match_Some) simp

lemma measure_object_spec:
  "measure_object env k h w = (case s3_get env (spaces_bucket (settings env)) k (svc w) of
      (Inl code, c) \<Rightarrow> (Inl (ClientError code), w\<lparr>svc := c\<rparr>)
    | (Inr body, c) \<Rightarrow> (Inr (verdict env h body), w\<lparr>svc := c\<rparr>))"
proof -
  have loop: "hash_loop k (Some MAX_INGEST_BYTES) [] 0 body =
      (if int (length body) > 10485760 then Inl (oversize k (Some MAX_INGEST_BYTES)) else Inr body)" for body
    using hash_loop_spec [of "Some MAX_INGEST_BYTES" 0 k "[]" body]
    by (simp add: too_large_def MAX_INGEST_BYTES_def)
  show ?thesis
    by (auto simp: measure_object_def stream_and_hash_def loop oversize_def try_catch_def bnd_app verdict_def Let_def
        split: prod.split sum.split)
qed

lemma verdict_status: "fst (verdict env h body) \<in> {''verified'', ''mismatch'', ''quarantined''}"
  by (simp add: verdict_def Let_def)

lemma settle_update:
  assumes wf: "wf_db (db w)" and g: "guc w = Some t"
    and r: "source_in t i (db w) = Some r" "ds_status r = ''pending''"
    and st: "st \<in> {''verified'', ''mismatch'', ''quarantined''}"
  shows "\<exists>x. update_status i st fp w = (Inr x, w\<lparr>db := settle_source t i st fp (clock w) (db w)\<rparr>)"
proof -
  let ?f = "\<lambda>r :: data_source. r\<lparr>ds_status := st, ds_fingerprint := fp, ds_status_updated_at := Some (clock w)\<rparr>"
  have uni: "distinct (map ds_id (t_data_source (db w)))"
    and rows: "\<And>x. x \<in> set (t_data_source (db w)) \<Longrightarrow> ck_data_source_status x \<and> ds_org_id x \<in> org_ids (db w)
        \<and> ds_deal_id x \<in> deal_id ` set (t_deals (db w))"
    using wf_tableD(6) [OF wf] by (auto simp: wf_table_def)
  have same: "x = r" if "x \<in> set (t_data_source (db w))" "ds_id x = i" for x
    using that source_in_SomeD [OF r(1)] uni by (metis distinct_map inj_onD)
  have ck: "ck_data_source_status (?f x)" for x
    using st by (auto simp: ck_data_source_status_def data_source_statuses_def)
  have "map ds_id (map_where q ?f xs) = map ds_id xs" for q xs by (simp add: map_map_where)
  then have "update_error data_source_table [''status'', ''fingerprint'', ''status_updated_at''] (\<lambda>d. ds_id d = i) ?f w = None"
    using uni rows same r(2) ck
    by (auto simp: update_error_def Let_def list_ex_iff visible_def)
  then show ?thesis
    using g by (simp add: update_status_def utc_now_def bnd_app sql_update_def settle_source_def visible_def)
qed

lemma wf_settled:
  fixes w :: "'c world"
  assumes "wf_db (db w)" and "guc w = Some t" and "source_in t i (db w) = Some r" "ds_status r = ''pending''"
    and "st \<in> {''verified'', ''mismatch'', ''quarantined''}"
  shows "wf_db (settle_source t i st fp (clock w) (db w))"
proof -
  obtain x where u: "update_status i st fp w = (Inr x, w\<lparr>db := settle_source t i st fp (clock w) (db w)\<rparr>)"
    using settle_update [OF assms] by blast
  have "wf_db (db (snd (update_status i st fp w)))"
    by (rule wf_kept [OF product_repo_confined(7) assms(1)])
  then show ?thesis by (simp add: u)
qed

lemma ingest_scoped:
  "ingest_data_source env i t k h = scoped_run \<lparr>tenant_id = t, user_id = [], org_role = None, raw_claims = JNull\<rparr> (ingest_steps env i k h)"
  by (simp add: ingest_data_source_def scoped_run_def)

lemma settled_policy [simp]: "org_policy g (settle_source t i st fp now d) = org_policy g d"
  by (simp add: settle_source_def)

lemma settled_audit [simp]: "t_human_audit_log (settle_source t i st fp now d) = t_human_audit_log d"
  by (simp add: settle_source_def)

lemma ingest_run:
  assumes wf: "wf_db (db w)"
    and r: "source_in t up (db w) = Some r" "ds_status r = ''pending''"
    and fresh: "rnd w (rnd_next w) \<notin> aud_id ` set (t_human_audit_log (db w))"
  shows "ingest_data_source env (str_uuid up) t key h w =
    (case s3_get env (spaces_bucket (settings env)) key (svc w) of
       (Inl code, s) \<Rightarrow> (Inl (ClientError code), w\<lparr>guc := None, uow := [], svc := s\<rparr>)
     | (Inr body, s) \<Rightarrow>
         let st = fst (verdict env h body); fp = snd (verdict env h body) in
         (Inr (), w\<lparr>guc := None, uow := [], svc := s, rnd_next := Suc (rnd_next w),
            db := with_audit (audit_row (ingest_entry r (str_uuid up) st fp) (rnd w (rnd_next w)) (clock w))
              (settle_source t up st fp (clock w) (db w))\<rparr>))"
proof -
  let ?c = "\<lparr>tenant_id = t, user_id = [], org_role = None, raw_claims = JNull\<rparr>"
  let ?w = "w\<lparr>uow := [], guc := Some t\<rparr>"
  note start = ingest_steps_def act_simps r measure_object_spec
  show ?thesis
  proof (cases "s3_get env (spaces_bucket (settings env)) key (svc w)")
    case (Pair x s)
    show ?thesis
    proof (cases x)
      case (Inl code)
      with Pair show ?thesis
        by (simp add: ingest_scoped scoped_run_def in_transaction_def set_org_scope_def start)
    next
      case (Inr body)
      let ?st = "fst (verdict env h body)" and ?fp = "snd (verdict env h body)"
      let ?w1 = "?w\<lparr>svc := s\<rparr>"
      let ?e = "ingest_entry r (str_uuid up) ?st ?fp"
      let ?w2 = "?w1\<lparr>db := settle_source t up ?st ?fp (clock w) (db w), uow := [InsertAudit ?e]\<rparr>"
      have st: "?st \<in> {''verified'', ''mismatch'', ''quarantined''}" by (rule verdict_status)
      obtain y where u: "update_status up ?st ?fp ?w1 = (Inr y, ?w1\<lparr>db := settle_source t up ?st ?fp (clock w) (db w)\<rparr>)"
        using settle_update [of ?w1, OF _ _ _ _ st] wf r by fastforce
      have m: "ingest_steps env (str_uuid up) key h (w\<lparr>uow := [], guc := Some (tenant_id ?c)\<rparr>) = (Inr (), ?w2)"
        using Pair Inr u by (simp add: start audit_append_def session_add_def split_beta)
      have wf2: "wf_db (db ?w2)"
        using wf_settled [of ?w1, OF _ _ _ _ st] wf r by simp
      have acc: "audit_accepted (tenant_id ?c) (ent_org_id ?e) (rnd ?w2 (rnd_next ?w2)) (db ?w2)"
        using fresh source_in_SomeD [OF r(1)] by (simp add: audit_accepted_def ingest_entry_def)
      from commit_audit [where m = "ingest_steps env (str_uuid up) key h" and w = w and c = ?c,
          OF m _ _ wf2 acc] Pair Inr
      show ?thesis by (simp add: ingest_scoped Let_def)
    qed
  qed
qed

text \<open>
  C17: one run of the ingest job on a pending data source of its organisation. If the object
  cannot be read the run fails and no table changes; otherwise the row gets its final status
  (\<open>quarantined\<close> above ten megabytes, \<open>verified\<close> when the measured hash is the declared one,
  \<open>mismatch\<close> when it is not) and one audit row records it, and nothing else changes.
\<close>

theorem ingest_effect:
  assumes wf: "wf_db (db w)"
    and r: "source_in t up (db w) = Some r" "ds_status r = ''pending''"
    and fresh: "rnd w (rnd_next w) \<notin> aud_id ` set (t_human_audit_log (db w))"
  shows "ingest_data_source env (str_uuid up) t key h w =
    (case s3_get env (spaces_bucket (settings env)) key (svc w) of
       (Inl code, s) \<Rightarrow> (Inl (ClientError code), w\<lparr>guc := None, uow := [], svc := s\<rparr>)
     | (Inr body, s) \<Rightarrow>
         let st = fst (verdict env h body); fp = snd (verdict env h body) in
         (Inr (), w\<lparr>guc := None, uow := [], svc := s, rnd_next := Suc (rnd_next w),
            db := with_audit (audit_row (ingest_entry r (str_uuid up) st fp) (rnd w (rnd_next w)) (clock w))
              (settle_source t up st fp (clock w) (db w))\<rparr>))"
  by (rule ingest_run [OF assms])

text \<open>
  A run whose data source is not there (the upload's transaction failed, or has not
  committed yet, or the row belongs to another organisation) raises, reads no object and
  changes no table.
\<close>

theorem orphan_job_fails:
  assumes "source_in t up (db w) = None"
  shows "ingest_data_source env (str_uuid up) t key h w =
    (Inl (ValueError (''data_source '' @ str_uuid up @ '' not found'')), w\<lparr>guc := None, uow := []\<rparr>)"
  using assms
  by (simp add: ingest_scoped scoped_run_def in_transaction_def set_org_scope_def ingest_steps_def act_simps)


lemma ingest_steps_run:
  assumes "guc w = Some t"
  shows "ingest_steps env i k h w =
    (case parse_uuid i of Inl e \<Rightarrow> (Inl e, w) | Inr j \<Rightarrow>
     (case source_in t j (db w) of
        None \<Rightarrow> (Inl (ValueError (''data_source '' @ i @ '' not found'')), w)
      | Some r \<Rightarrow>
          if ds_status r \<noteq> ''pending'' then (Inr (), w)
          else (case s3_get env (spaces_bucket (settings env)) k (svc w) of
              (Inl code, c) \<Rightarrow> (Inl (ClientError code), w\<lparr>svc := c\<rparr>)
            | (Inr body, c) \<Rightarrow> let vd = verdict env h body in
                seq (update_status j (fst vd) (snd vd)) (audit_append (ingest_entry r i (fst vd) (snd vd)))
                  (w\<lparr>svc := c\<rparr>))))"
  using assms
  by (simp add: ingest_steps_def bnd_app [of "lift_sum m" for m] bnd_app [of "data_source_by_id j" for j]
      bnd_app [of "measure_object env k h"] source_by_id_scoped measure_object_spec split_beta Let_def
      split: sum.split option.split)

subsection \<open>The life of a data source\<close>

text \<open>The transitions the job makes.\<close>

inductive settles :: "string \<Rightarrow> string \<Rightarrow> bool" where
  match: "settles ''pending'' ''verified''"
| differ: "settles ''pending'' ''mismatch''"
| too_big: "settles ''pending'' ''quarantined''"

code_pred settles .

inductive_cases settlesE: "settles s s'"

inductive_simps settles_pending: "settles ''pending'' s'"

definition source_moves :: "data_source \<Rightarrow> data_source \<Rightarrow> bool" where
  "source_moves r r' \<longleftrightarrow> ds_identity r' = ds_identity r \<and> (r' = r \<or> settles (ds_status r) (ds_status r'))"

definition moved :: "data_source list \<Rightarrow> 'c world \<Rightarrow> bool" where
  "moved D w \<longleftrightarrow> list_all2 source_moves D (t_data_source (db w)) \<and> (\<forall>u \<in> set (uow w). \<exists>e. u = InsertAudit e)"

lemma list_all2_map_where:
  "(\<And>x. x \<in> set xs \<Longrightarrow> R x (if p x then f x else x)) \<Longrightarrow> list_all2 R xs (map_where p f xs)"
  by (induction xs) auto

lemma settles_final: "settles s s' \<Longrightarrow> \<not> settles s' s''"
  by (auto elim!: settlesE)

lemma source_moves_refl: "source_moves r r"
  by (simp add: source_moves_def)

lemma source_moves_trans: "source_moves r r' \<Longrightarrow> source_moves r' r'' \<Longrightarrow> source_moves r r''"
  using settles_final by (auto simp: source_moves_def)

lemma moved_rest [keep_rules]:
  "keeps (moved D) gen_random_uuid" "keeps (moved D) (set_org_scope t)" "keeps (moved D) (audit_append e)"
  "keeps (moved D) (data_source_by_id i)"
  by (simp_all add: keeps_def moved_def gen_random_uuid_def set_org_scope_def session_add_def
      audit_append_def data_source_by_id_def sql_first_def)

lemma moved_audit [keep_rules]: "keeps (moved D) (sql_insert audit_table a)"
  by (simp add: keeps_def moved_def sql_insert_def split: option.split)

lemma moved_measure: "moved D w \<Longrightarrow> moved D (w\<lparr>svc := c\<rparr>)"
  by (simp add: moved_def)

lemma moved_update [keep_rules]:
  assumes "st \<in> {''verified'', ''mismatch'', ''quarantined''}"
  shows "keeps (moved D) (update_status i st fp)"
proof (rule keepsI)
  fix w :: "'c world" assume I: "moved D w"
  let ?cols = "[''status'', ''fingerprint'', ''status_updated_at'']"
  let ?f = "\<lambda>r :: data_source. r\<lparr>ds_status := st, ds_fingerprint := fp, ds_status_updated_at := Some (clock w)\<rparr>"
  let ?hit = "\<lambda>r. visible data_source_table w r \<and> ds_id r = i"
  let ?rs = "t_data_source (db w)"
  show "moved D (snd (update_status i st fp w))"
  proof (cases "update_error data_source_table ?cols (\<lambda>d. ds_id d = i) ?f w")
    case None
    have "source_moves r (if ?hit r then ?f r else r)" if "r \<in> set ?rs" for r
      using assms sources.update_None(4) [OF None] that
      by (auto simp: source_moves_def settles_pending)
    then have "list_all2 source_moves ?rs (map_where ?hit ?f ?rs)"
      by (intro list_all2_map_where) blast
    moreover have "list_all2 source_moves D ?rs" using I by (simp add: moved_def)
    ultimately have "list_all2 source_moves D (map_where ?hit ?f ?rs)"
      using source_moves_trans list_all2_trans [of source_moves source_moves source_moves D ?rs] by blast
    with I None show ?thesis
      by (simp add: update_status_def utc_now_def bnd_app sql_update_def moved_def)
  qed (use I in \<open>simp add: update_status_def utc_now_def bnd_app sql_update_def\<close>)
qed

lemma moved_writes: "moved D w \<Longrightarrow> \<forall>u \<in> set us. \<exists>e. u = InsertAudit e \<Longrightarrow> moved D (snd (run_writes us w))"
proof (induction us arbitrary: w)
  case (Cons u us)
  from Cons.prems(2) obtain e where u: "u = InsertAudit e" and us: "\<forall>u \<in> set us. \<exists>e. u = InsertAudit e" by auto
  have "keeps (moved D) (run_write u)" unfolding u run_write.simps by (intro keeps_bnd moved_rest moved_audit now_keeps)
  then have "moved D (snd (run_write u w))" using Cons.prems(1) by (rule keepsD)
  from Cons.IH [OF this us] this show ?case
    by (cases "run_write u w") (auto simp: run_writes.simps(2) bnd_app split: sum.split)
qed simp

lemma moved_flush [keep_rules]: "keeps (moved D) flush"
proof (rule keepsI)
  fix w :: "'c world" assume I: "moved D w"
  then have "moved D (w\<lparr>uow := []\<rparr>)" by (simp add: moved_def)
  moreover have "\<forall>u \<in> set (uow w). \<exists>e. u = InsertAudit e" using I by (simp add: moved_def)
  ultimately show "moved D (snd (flush w))" unfolding flush_def by (rule moved_writes)
qed

lemma moved_transaction:
  fixes m :: "('c, 'a) act"
  assumes m: "keeps (moved D) m" and I: "list_all2 source_moves D (t_data_source (db w))"
  shows "moved D (snd (in_transaction m w))"
proof -
  have "keeps (moved D) (bnd m (\<lambda>x. seq flush (ret x)))" by (intro keep_rules m)
  then have "moved D (snd (bnd m (\<lambda>x. seq flush (ret x)) (w\<lparr>guc := None, uow := []\<rparr>)))"
    by (rule keepsD) (use I in \<open>simp add: moved_def\<close>)
  with I show ?thesis by (auto simp: in_transaction_def moved_def split: prod.split sum.split)
qed

text \<open>
  C4: every run of the job, whatever its arguments and however it ends, is a step of the
  life cycle: each data source keeps its identity and either stays exactly as it was or
  goes from \<open>pending\<close> to \<open>verified\<close>, \<open>mismatch\<close> or \<open>quarantined\<close>; none appears or is lost.
\<close>

theorem ingest_refines_lifecycle:
  "list_all2 source_moves (t_data_source (db w))
     (t_data_source (db (snd (ingest_data_source env i t k h w))))"
proof -
  have step: "keeps (moved D) (bnd (measure_object env k h)
      (\<lambda>(st, fp). seq (update_status j st fp) (audit_append (e st fp))))" for D j e
  proof (rule keepsI)
    fix w :: "'a world" assume I: "moved D w"
    obtain x c where s3: "s3_get env (spaces_bucket (settings env)) k (svc w) = (x, c)" by fastforce
    show "moved D (snd (bnd (measure_object env k h)
        (\<lambda>(st, fp). seq (update_status j st fp) (audit_append (e st fp))) w))"
    proof (cases x)
      case (Inr body)
      have "keeps (moved D) (seq (update_status j (fst (verdict env h body)) (snd (verdict env h body)))
          (audit_append (e (fst (verdict env h body)) (snd (verdict env h body)))))"
        using verdict_status by (intro keep_rules)
      from keepsD [OF this moved_measure [OF I]] s3 Inr show ?thesis
        by (simp add: bnd_app [of "measure_object env k h"] measure_object_spec split_beta)
    qed (use I s3 in \<open>simp add: bnd_app measure_object_spec moved_measure\<close>)
  qed
  have "keeps (moved D) (seq (set_org_scope t) (ingest_steps env i k h))" for D
    unfolding ingest_steps_def by (intro keep_rules step)
  from moved_transaction [OF this] show ?thesis
    unfolding ingest_data_source_def by (auto simp: moved_def list.rel_refl source_moves_refl)
qed

text \<open>
  Delivering a job again is harmless. After a run that returned, another run for the
  same data source, even with another object key or hash, returns at once: no object is
  read, no table changes.
\<close>

theorem ingest_idempotent:
  assumes "ingest_data_source env i t k h w = (Inr (), w1)"
  shows "ingest_data_source env i t k' h' w1 = (Inr (), w1)"
proof -
  from assms obtain wa wb where m: "seq (set_org_scope t) (ingest_steps env i k h) (w\<lparr>guc := None, uow := []\<rparr>) = (Inr (), wa)"
    and fl: "flush wa = (Inr (), wb)" and w1: "w1 = wb\<lparr>guc := None, uow := []\<rparr>"
    unfolding ingest_data_source_def by (rule transaction_InrE)
  let ?w = "w\<lparr>uow := [], guc := Some t\<rparr>"
  from m obtain j r where j: "parse_uuid i = Inr j" and r: "source_in t j (db w) = Some r"
    by (auto simp: set_org_scope_def ingest_steps_run split: sum.splits option.splits)
  have settled: "\<exists>r'. source_in t j (db w1) = Some r' \<and> ds_status r' \<noteq> ''pending''"
  proof (cases "ds_status r = ''pending''")
    case False
    with m j r fl w1 show ?thesis
      by (auto simp: set_org_scope_def ingest_steps_run flush_def)
  next
    case True
    obtain x c where s3: "s3_get env (spaces_bucket (settings env)) k (svc w) = (x, c)" by fastforce
    with m j r True obtain body where "x = Inr body" by (auto simp: set_org_scope_def ingest_steps_run split: sum.splits)
    define vd where "vd = verdict env h body"
    have run: "seq (update_status j (fst vd) (snd vd)) (audit_append (ingest_entry r i (fst vd) (snd vd))) (?w\<lparr>svc := c\<rparr>) = (Inr (), wa)"
      using m j r True s3 \<open>x = Inr body\<close> by (simp add: set_org_scope_def ingest_steps_run vd_def Let_def)
    have vd: "fst vd \<in> {''verified'', ''mismatch'', ''quarantined''}"
      unfolding vd_def by (rule verdict_status)
    from run have wa: "db wa = settle_source t j (fst vd) (snd vd) (clock w) (db w)"
      and uow: "uow wa = [InsertAudit (ingest_entry r i (fst vd) (snd vd))]"
      by (auto simp: update_status_def utc_now_def sql_update_def settle_source_def visible_def
          audit_append_def session_add_def elim!: bnd_InrE split: option.splits)
    have d: "t_data_source (db w1) = t_data_source (db wa)" "org_policy g (db w1) = org_policy g (db wa)" for g
      using fl uow w1 by (auto simp: flush_def run_writes_one with_audit_def dest!: audit_write_Inr)
    have "source_in t j (db w1) = map_option (\<lambda>r. r\<lparr>ds_status := fst vd, ds_fingerprint := snd vd,
        ds_status_updated_at := Some (clock w)\<rparr>) (source_in t j (db w))"
      unfolding source_in_def d wa settled_policy unfolding settle_source_def
      by (simp add: first_match_map_where)
    with r vd show ?thesis by auto
  qed
  have "uow w1 = []" "guc w1 = None" by (simp_all add: w1)
  then have "w1\<lparr>guc := None, uow := []\<rparr> = w1" by simp
  with settled j show ?thesis
    by (auto simp: ingest_data_source_def in_transaction_def set_org_scope_def ingest_steps_run
        bnd_app [of "ingest_steps e x y z" for e x y z] bnd_app [of flush] flush_nothing \<open>uow w1 = []\<close>)
qed

end
