(* ===== verification/ClaimContract.thy ===== *)
theory ClaimContract
  imports Models Errors
begin

section \<open>The claim contract\<close>

text \<open>
  \<open>contracts/claims.schema.json\<close>, the JSON Schema both sides of the parse boundary validate
  a claim against, as a predicate on JSON values, keyword by keyword. A keyword about objects
  says nothing of a value that is no object; \<open>integer\<close> admits a float without a fraction;
  \<open>format\<close> is an annotation and checks nothing.
\<close>

subsection \<open>Keywords\<close>

fun is_object :: "json \<Rightarrow> bool" where
  "is_object (JObj kvs) = True" | "is_object _ = False"

fun is_string :: "json \<Rightarrow> bool" where
  "is_string (JStr s) = True" | "is_string _ = False"

fun is_integer :: "json \<Rightarrow> bool" where
  "is_integer (JInt i) = True"
| "is_integer (JFloat r) = (of_int \<lfloor>r\<rfloor> = r)"
| "is_integer _ = False"

fun is_numeric :: "json \<Rightarrow> bool" where
  "is_numeric (JInt i) = True"
| "is_numeric (JFloat r) = True"
| "is_numeric (JNonFinite x) = True"
| "is_numeric _ = False"

definition or_null :: "(json \<Rightarrow> bool) \<Rightarrow> json \<Rightarrow> bool" where
  "or_null p j \<longleftrightarrow> j = JNull \<or> p j"

fun array_of :: "(json \<Rightarrow> bool) \<Rightarrow> json \<Rightarrow> bool" where
  "array_of p (JArr xs) = list_all p xs" | "array_of p _ = False"

definition enum :: "string list \<Rightarrow> json \<Rightarrow> bool" where
  "enum vs j \<longleftrightarrow> j \<in> JStr ` set vs"

definition property :: "string \<Rightarrow> (json \<Rightarrow> bool) \<Rightarrow> json \<Rightarrow> bool" where
  "property k p j = (case j of JObj kvs \<Rightarrow> (case map_of kvs k of None \<Rightarrow> True | Some v \<Rightarrow> p v) | _ \<Rightarrow> True)"

definition required :: "string list \<Rightarrow> json \<Rightarrow> bool" where
  "required ks j = (case j of JObj kvs \<Rightarrow> list_all (\<lambda>k. map_of kvs k \<noteq> None) ks | _ \<Rightarrow> True)"

definition no_others :: "string list \<Rightarrow> json \<Rightarrow> bool" where
  "no_others ks j = (case j of JObj kvs \<Rightarrow> list_all (\<lambda>kv. fst kv \<in> set ks) kvs | _ \<Rightarrow> True)"

definition one_of :: "(json \<Rightarrow> bool) list \<Rightarrow> json \<Rightarrow> bool" where
  "one_of ps j \<longleftrightarrow> length (filter (\<lambda>p. p j) ps) = 1"

lemma propertyD: "property k p (JObj kvs) \<Longrightarrow> map_of kvs k = Some v \<Longrightarrow> p v"
  by (simp add: property_def)

lemma requiredD: "required ks (JObj kvs) \<Longrightarrow> k \<in> set ks \<Longrightarrow> \<exists>v. map_of kvs k = Some v"
  by (auto simp: required_def list_all_iff)

lemma is_objectE: "is_object j \<Longrightarrow> (\<And>kvs. j = JObj kvs \<Longrightarrow> thesis) \<Longrightarrow> thesis"
  by (cases j) auto

lemma is_stringE: "is_string j \<Longrightarrow> (\<And>s. j = JStr s \<Longrightarrow> thesis) \<Longrightarrow> thesis"
  by (cases j) auto

subsection \<open>The parts of a claim\<close>

definition contract_value :: "json \<Rightarrow> bool" where
  "contract_value j \<longleftrightarrow> is_object j
     \<and> no_others [''raw'', ''normalized'', ''unit'', ''scale_multiplier'', ''scale_source'', ''value_type''] j
     \<and> required [''raw'', ''normalized'', ''unit'', ''value_type''] j
     \<and> property ''raw'' is_string j
     \<and> property ''normalized'' (or_null is_numeric) j
     \<and> property ''unit'' (or_null is_string) j
     \<and> property ''scale_multiplier'' (or_null is_numeric) j
     \<and> property ''scale_source'' (enum [''explicit_in_value'', ''column_header'', ''page_header'',
         ''assumed_1x'', ''not_applicable'']) j
     \<and> property ''value_type'' (enum [''currency'', ''percent'', ''count'', ''ratio'', ''date'', ''text'']) j"

text \<open>What the three kinds of location share.\<close>

definition location_common :: "json \<Rightarrow> bool" where
  "location_common j \<longleftrightarrow> is_object j \<and> property ''file'' is_string j
     \<and> property ''document_id'' is_string j \<and> property ''document_name'' is_string j
     \<and> property ''document_version'' (\<lambda>v. is_integer v \<or> is_string v) j
     \<and> property ''ingested_at'' is_string j \<and> property ''document_date'' (or_null is_string) j"

definition location_keys :: "string list" where
  "location_keys = [''kind'', ''file'', ''document_id'', ''document_name'', ''document_version'',
     ''ingested_at'', ''document_date'']"

definition pdf_location :: "json \<Rightarrow> bool" where
  "pdf_location j \<longleftrightarrow> location_common j
     \<and> no_others (location_keys @ [''page'', ''char_start'', ''char_end'', ''bbox'']) j
     \<and> required [''kind'', ''page''] j
     \<and> property ''kind'' (enum [''pdf'']) j \<and> property ''page'' is_integer j
     \<and> property ''char_start'' is_integer j \<and> property ''char_end'' is_integer j
     \<and> property ''bbox'' (array_of (\<lambda>b. array_of is_numeric b \<and> (case b of JArr xs \<Rightarrow> length xs = 4 | _ \<Rightarrow> True))) j"

definition xlsx_location :: "json \<Rightarrow> bool" where
  "xlsx_location j \<longleftrightarrow> location_common j
     \<and> no_others (location_keys @ [''sheet'', ''cell_ref'', ''named_range'']) j
     \<and> required [''kind'', ''sheet'', ''cell_ref''] j
     \<and> property ''kind'' (enum [''xlsx'']) j \<and> property ''sheet'' is_string j
     \<and> property ''cell_ref'' is_string j \<and> property ''named_range'' (or_null is_string) j"

definition docx_location :: "json \<Rightarrow> bool" where
  "docx_location j \<longleftrightarrow> location_common j
     \<and> no_others (location_keys @ [''paragraph'', ''char_start'', ''char_end'', ''table_id'', ''row'', ''col'']) j
     \<and> required [''kind'', ''paragraph''] j
     \<and> property ''kind'' (enum [''docx'']) j \<and> property ''paragraph'' is_integer j
     \<and> property ''char_start'' is_integer j \<and> property ''char_end'' is_integer j
     \<and> property ''table_id'' (or_null is_string) j
     \<and> property ''row'' (or_null is_integer) j \<and> property ''col'' (or_null is_integer) j"

definition contract_location :: "json \<Rightarrow> bool" where
  "contract_location = one_of [pdf_location, xlsx_location, docx_location]"

definition contract_flags :: "string list" where
  "contract_flags = [''ragged_table_rows'', ''chart_data_not_extracted'', ''scale_assumed'',
     ''quote_unresolved'', ''ambiguous_location'', ''ambiguous_region_bounds'', ''ambiguous_unit'',
     ''table_touches_page_edge'', ''zero_text_page'', ''empty_section'', ''formula_mismatch'',
     ''external_reference_unresolved'', ''magnitude_unparseable'', ''cites_boilerplate'',
     ''binding_unsupported'']"

definition claim_shape :: "json \<Rightarrow> bool" where
  "claim_shape j \<longleftrightarrow> is_object j
     \<and> no_others [''id'', ''deal_id'', ''session_id'', ''org_id'', ''data_source_id'', ''entity'',
         ''attribute'', ''period_year'', ''period_kind'', ''value'', ''location'', ''status'',
         ''verification_method'', ''section'', ''chunk_id'', ''table_group_id'', ''fragment_order'',
         ''flags'', ''claim_kind'', ''assertion_class''] j
     \<and> required [''entity'', ''attribute'', ''value'', ''status'', ''location''] j
     \<and> property ''id'' is_string j \<and> property ''deal_id'' is_string j
     \<and> property ''session_id'' is_string j \<and> property ''org_id'' is_string j
     \<and> property ''data_source_id'' (or_null is_string) j
     \<and> property ''entity'' is_string j \<and> property ''attribute'' is_string j
     \<and> property ''period_year'' (or_null is_integer) j
     \<and> property ''period_kind'' (or_null (enum [''A'', ''E'', ''P''])) j
     \<and> property ''value'' contract_value j \<and> property ''location'' contract_location j
     \<and> property ''status'' (enum [''proposed'', ''cited'', ''rejected'', ''missing'', ''conflicted'',
         ''inconclusive'', ''partially_verified'', ''verified'']) j
     \<and> property ''verification_method'' (or_null (enum [''exact_span'', ''formula_reexecution'',
         ''direct_read'', ''reranker'', ''human_review''])) j
     \<and> property ''section'' (or_null is_string) j \<and> property ''chunk_id'' (or_null is_string) j
     \<and> property ''table_group_id'' (or_null is_string) j
     \<and> property ''fragment_order'' (or_null is_integer) j
     \<and> property ''flags'' (array_of (enum contract_flags)) j
     \<and> property ''claim_kind'' (or_null (enum [''quantitative'', ''qualitative''])) j
     \<and> property ''assertion_class'' (or_null (enum [''related_party'', ''operating_model'',
         ''market_definition'', ''competitive_position'', ''commercial_terms'', ''risk_or_dependency'',
         ''plan_or_commitment''])) j"

subsection \<open>The five rules of \<open>allOf\<close>\<close>

definition found_has_span :: "json \<Rightarrow> bool" where
  "found_has_span j \<longleftrightarrow>
     (required [''status'', ''location''] j \<and> property ''status'' (\<lambda>s. s \<noteq> JStr ''missing'') j
        \<and> property ''location'' (property ''kind'' (enum [''pdf'', ''docx''])) j
      \<longrightarrow> property ''location'' (required [''char_start'', ''char_end'']) j)"

definition missing_has_no_span :: "json \<Rightarrow> bool" where
  "missing_has_no_span j \<longleftrightarrow>
     (required [''status''] j \<and> property ''status'' (enum [''missing'']) j
      \<longrightarrow> property ''location'' (property ''char_start'' (\<lambda>_. False)) j
         \<and> property ''location'' (property ''char_end'' (\<lambda>_. False)) j)"

definition checked_has_method :: "json \<Rightarrow> bool" where
  "checked_has_method j \<longleftrightarrow>
     (required [''status''] j \<and> property ''status'' (enum [''cited'', ''conflicted'', ''inconclusive'',
         ''partially_verified'', ''verified'']) j
      \<longrightarrow> required [''verification_method''] j \<and> property ''verification_method'' is_string j)"

definition scale_is_stated :: "json \<Rightarrow> bool" where
  "scale_is_stated j \<longleftrightarrow>
     required [''value''] j \<and> property ''value'' (\<lambda>v. required [''value_type''] v \<and> property ''value_type'' (enum [''text'']) v) j
     \<or> required [''value''] j \<and> property ''value'' (\<lambda>v. required [''normalized''] v \<and> property ''normalized'' (\<lambda>n. n = JNull) v) j
     \<or> property ''value'' (\<lambda>v. required [''scale_multiplier'', ''scale_source''] v
         \<and> property ''scale_multiplier'' is_numeric v) j"

definition qualitative_is_text :: "json \<Rightarrow> bool" where
  "qualitative_is_text j \<longleftrightarrow>
     (required [''claim_kind''] j \<and> property ''claim_kind'' (enum [''qualitative'']) j
      \<longrightarrow> required [''assertion_class''] j \<and> property ''assertion_class'' is_string j
         \<and> property ''value'' (property ''value_type'' (enum [''text''])) j
         \<and> property ''value'' (property ''normalized'' (\<lambda>n. n = JNull)) j)"

definition contract :: "json \<Rightarrow> bool" where
  "contract j \<longleftrightarrow> claim_shape j \<and> found_has_span j \<and> missing_has_no_span j
     \<and> checked_has_method j \<and> scale_is_stated j \<and> qualitative_is_text j"

subsection \<open>What a valid claim contains\<close>

definition entry_of :: "(string \<times> json) list \<Rightarrow> string \<Rightarrow> json" where
  "entry_of kvs k = (case map_of kvs k of None \<Rightarrow> JNull | Some v \<Rightarrow> v)"

lemma json_get_entry: "json_get (JObj kvs) k = Inr (entry_of kvs k)"
  by (simp add: entry_of_def)

lemma property_entry: "property k p (JObj kvs) \<Longrightarrow> entry_of kvs k = JNull \<or> p (entry_of kvs k)"
  by (auto simp: property_def entry_of_def split: option.splits)

lemma property_required:
  "required ks (JObj kvs) \<Longrightarrow> k \<in> set ks \<Longrightarrow> property k p (JObj kvs) \<Longrightarrow>
     map_of kvs k = Some (entry_of kvs k) \<and> p (entry_of kvs k)"
  using requiredD by (fastforce simp: property_def entry_of_def)

lemma or_null_enum: "or_null (enum vs) v \<Longrightarrow> v = JNull \<or> (\<exists>s \<in> set vs. v = JStr s)"
  by (auto simp: or_null_def enum_def)

text \<open>What the contract says of the fields the CHECKs look at.\<close>

lemma contract_claim:
  assumes "contract c"
  obtains kvs st where "c = JObj kvs"
    and "map_of kvs ''entity'' = Some (entry_of kvs ''entity'')" "is_string (entry_of kvs ''entity'')"
    and "map_of kvs ''attribute'' = Some (entry_of kvs ''attribute'')" "is_string (entry_of kvs ''attribute'')"
    and "map_of kvs ''value'' = Some (entry_of kvs ''value'')"
    and "map_of kvs ''status'' = Some (JStr st)" "st \<in> set claim_statuses"
    and "map_of kvs ''location'' = Some (entry_of kvs ''location'')" "contract_location (entry_of kvs ''location'')"
    and "or_null (enum claim_verification_methods) (entry_of kvs ''verification_method'')"
    and "or_null (enum claim_kinds) (entry_of kvs ''claim_kind'')"
    and "or_null (enum claim_assertion_classes) (entry_of kvs ''assertion_class'')"
    and "or_null (enum [''A'', ''E'', ''P'']) (entry_of kvs ''period_kind'')"
    and "or_null is_integer (entry_of kvs ''period_year'')"
    and "or_null is_string (entry_of kvs ''section'')"
    and "or_null (array_of (enum contract_flags)) (entry_of kvs ''flags'')"
proof -
  from assms have shape: "claim_shape c" by (simp add: contract_def)
  then obtain kvs where c: "c = JObj kvs" by (auto simp: claim_shape_def elim: is_objectE)
  note shape = shape [unfolded c claim_shape_def]
  have req: "required [''entity'', ''attribute'', ''value'', ''status'', ''location''] (JObj kvs)" using shape by simp
  have opt: "property k (or_null p) (JObj kvs) \<Longrightarrow> or_null p (entry_of kvs k)" for k p
    using property_entry [of k "or_null p" kvs] by (auto simp: or_null_def)
  have stat: "map_of kvs ''status'' = Some (entry_of kvs ''status'') \<and> enum claim_statuses (entry_of kvs ''status'')"
    using shape by (intro property_required [OF req]) (simp_all add: claim_statuses_def)
  then obtain st where st: "map_of kvs ''status'' = Some (JStr st)" "st \<in> set claim_statuses"
    by (auto simp: enum_def)
  show thesis
  proof (rule that [OF c _ _ _ _ _ st])
    show "map_of kvs ''entity'' = Some (entry_of kvs ''entity'')" "is_string (entry_of kvs ''entity'')"
      using property_required [OF req, of "''entity''" is_string] shape by simp_all
    show "map_of kvs ''attribute'' = Some (entry_of kvs ''attribute'')" "is_string (entry_of kvs ''attribute'')"
      using property_required [OF req, of "''attribute''" is_string] shape by simp_all
    show "map_of kvs ''value'' = Some (entry_of kvs ''value'')"
      using property_required [OF req, of "''value''" contract_value] shape by simp
    show "map_of kvs ''location'' = Some (entry_of kvs ''location'')" "contract_location (entry_of kvs ''location'')"
      using property_required [OF req, of "''location''" contract_location] shape by simp_all
    show "or_null (enum claim_verification_methods) (entry_of kvs ''verification_method'')"
      using shape by (intro opt) (simp add: claim_verification_methods_def)
    show "or_null (enum claim_kinds) (entry_of kvs ''claim_kind'')"
      using shape by (intro opt) (simp add: claim_kinds_def)
    show "or_null (enum claim_assertion_classes) (entry_of kvs ''assertion_class'')"
      using shape by (intro opt) (simp add: claim_assertion_classes_def)
    show "or_null (enum [''A'', ''E'', ''P'']) (entry_of kvs ''period_kind'')"
      "or_null is_integer (entry_of kvs ''period_year'')" "or_null is_string (entry_of kvs ''section'')"
      using shape by (intro opt, simp)+
    show "or_null (array_of (enum contract_flags)) (entry_of kvs ''flags'')"
      using shape property_entry by (auto simp: or_null_def)
  qed
qed

lemma contract_locator:
  assumes "contract_location l"
  obtains loc k where "l = JObj loc" "map_of loc ''kind'' = Some (JStr k)"
    and "k = ''pdf'' \<and> pdf_location l \<or> k = ''xlsx'' \<and> xlsx_location l \<or> k = ''docx'' \<and> docx_location l"
proof -
  have kind: "\<exists>loc. l = JObj loc \<and> map_of loc ''kind'' = Some (JStr k)"
    if "location_common l" "required ks l" "''kind'' \<in> set ks" "property ''kind'' (enum [k]) l" for ks k
  proof -
    from that(1) obtain loc where l: "l = JObj loc" by (auto simp: location_common_def elim: is_objectE)
    from property_required [OF that(2) [unfolded l] that(3) that(4) [unfolded l]] l show ?thesis by (auto simp: enum_def)
  qed
  from assms consider "pdf_location l" | "xlsx_location l" | "docx_location l"
    by (auto simp: contract_location_def one_of_def split: if_splits)
  then show thesis
  proof cases
    case 1
    then show ?thesis using kind [of "[''kind'', ''page'']" "''pdf''"] that by (auto simp: pdf_location_def)
  next
    case 2
    then show ?thesis using kind [of "[''kind'', ''sheet'', ''cell_ref'']" "''xlsx''"] that by (auto simp: xlsx_location_def)
  next
    case 3
    then show ?thesis using kind [of "[''kind'', ''paragraph'']" "''docx''"] that by (auto simp: docx_location_def)
  qed
qed

end
