(* ===== verification/Embedding.thy ===== *)
theory Embedding
  imports JsonText "HOL-Library.Multiset"
begin

section \<open>The embedding provider\<close>

text \<open>
  \<open>app/services/embedding.py\<close>: the Voyage adapter, its batching, its reading of a response
  and the check that refuses a degenerate vector. The HTTP peer is the environment's. Floats
  are rationals; the text of an httpx error is left out of the message that quotes it. Rows
  are ordered by their \<open>index\<close>; an index that is not a finite number raises \<open>TypeError\<close> when
  there is another row to compare it with (Python would order two strings or two lists).
\<close>

definition VOYAGE_URL :: string where
  "VOYAGE_URL = ''https://api.voyageai.com/v1/embeddings''"

definition MAX_BATCH :: nat where
  "MAX_BATCH = 128"

record embedder =
  emb_api_key :: string
  emb_model :: string
  emb_dimension :: int

definition new_embedder :: "string \<Rightarrow> string \<Rightarrow> int \<Rightarrow> exn + embedder" where
  "new_embedder api_key model dimension =
     (if api_key = [] then Inl (EmbeddingError
        ''VOYAGE_API_KEY is not set, so the embedder cannot run. Set it in the environment (never in code) to enable dense retrieval.'')
      else Inr \<lparr>emb_api_key = api_key, emb_model = model, emb_dimension = dimension\<rparr>)"

definition get_embedder :: "'c env \<Rightarrow> exn + embedder" where
  "get_embedder env = new_embedder (voyage_api_key (settings env)) (embedding_model (settings env))
     (embedding_dimension (settings env))"

definition embedder_version :: "embedder \<Rightarrow> string" where
  "embedder_version e = emb_model e @ '':'' @ str_int (emb_dimension e)"

subsection \<open>\<open>_sane\<close>\<close>

text \<open>\<open>math.isfinite\<close>: an integer past the range of a float is an error.\<close>

fun isfinite :: "json \<Rightarrow> exn + bool" where
  "isfinite (JInt i) = (if abs i < 2 ^ 1024 - 2 ^ 970 then Inr True else Inl OverflowError)"
| "isfinite (JFloat r) = Inr True"
| "isfinite (JBool b) = Inr True"
| "isfinite (JNonFinite x) = Inr False"
| "isfinite _ = Inl TypeError"

fun all_finite :: "json list \<Rightarrow> exn + bool" where
  "all_finite [] = Inr True"
| "all_finite (x # xs) = sbind (isfinite x) (\<lambda>b. if b then all_finite xs else Inr False)"

fun number_of :: "json \<Rightarrow> rat" where
  "number_of (JInt i) = of_int i"
| "number_of (JFloat r) = r"
| "number_of (JBool b) = (if b then 1 else 0)"
| "number_of _ = 0"

definition sane :: "json list \<Rightarrow> int \<Rightarrow> exn + rat list" where
  "sane vec dimension =
     (if int (length vec) \<noteq> dimension then
        Inl (EmbeddingError (''voyage returned dim '' @ str_int (int (length vec)) @ '', expected '' @ str_int dimension))
      else sbind (all_finite vec) (\<lambda>finite.
        if \<not> finite then Inl (EmbeddingError ''voyage returned a vector with non-finite values'')
        else if \<not> list_ex (\<lambda>x. number_of x \<noteq> 0) vec then
          Inl (EmbeddingError ''voyage returned a degenerate all-zero vector'')
        else Inr (map number_of vec)))"

subsection \<open>Requests and responses\<close>

definition voyage_request :: "embedder \<Rightarrow> string list \<Rightarrow> string \<Rightarrow> http_request" where
  "voyage_request e batch input_type =
     \<lparr>req_method = POST, req_url = VOYAGE_URL,
      req_headers = [(''Authorization'', ''Bearer '' @ emb_api_key e)], req_params = [],
      req_json = Some (JObj [(''input'', JArr (map JStr batch)), (''model'', JStr (emb_model e)),
        (''input_type'', JStr input_type), (''output_dimension'', JInt (emb_dimension e)),
        (''output_dtype'', JStr ''float'')])\<rparr>"

definition check_response :: "nat \<Rightarrow> http_response \<Rightarrow> ('c, json list) act" where
  "check_response n response =
     seq (guard (resp_status response = 200) (EmbeddingError
            (''voyage returned '' @ str_int (resp_status response) @ '': '' @ take 200 (resp_text response))))
     (bnd (response_json response) (\<lambda>j.
      bnd (lift_sum (json_get j ''data'')) (\<lambda>found. case found of
          JArr rows \<Rightarrow>
            if rows = [] then throw (EmbeddingError ''voyage response carried no embeddings'')
            else if length rows \<noteq> n then throw (EmbeddingError
              (''voyage returned '' @ str_nat (length rows) @ '' vectors for '' @ str_nat n @ '' inputs''))
            else ret rows
        | _ \<Rightarrow> throw (EmbeddingError ''voyage response carried no embeddings''))))"

definition post_batch :: "'c env \<Rightarrow> embedder \<Rightarrow> string list \<Rightarrow> string \<Rightarrow> ('c, json list) act" where
  "post_batch env e batch input_type =
     bnd (catch_httpx (http_call env (voyage_request e batch input_type))
            (\<lambda>_. throw (EmbeddingError ''voyage request failed''))) (check_response (length batch))"

fun is_number :: "json \<Rightarrow> bool" where
  "is_number (JInt i) = True"
| "is_number (JFloat r) = True"
| "is_number (JBool b) = True"
| "is_number _ = False"

text \<open>\<open>sorted(rows, key=lambda row: row["index"])\<close>: the keys are read first, then compared.\<close>

definition by_index :: "json list \<Rightarrow> exn + json list" where
  "by_index rows = sbind (smap (\<lambda>row. json_idx row ''index'') rows) (\<lambda>keys.
     if length rows \<le> 1 then Inr rows
     else if list_all is_number keys then
       Inr (map snd (sort_key (\<lambda>kr. number_of (fst kr)) (zip keys rows)))
     else Inl TypeError)"

definition row_vector :: "embedder \<Rightarrow> json \<Rightarrow> exn + rat list" where
  "row_vector e row = sbind (json_idx row ''embedding'') (\<lambda>v. sbind (json_iter v) (\<lambda>xs. sane xs (emb_dimension e)))"

definition batch_vectors :: "embedder \<Rightarrow> json list \<Rightarrow> exn + rat list list" where
  "batch_vectors e rows = sbind (by_index rows) (smap (row_vector e))"

function embed_loop ::
  "'c env \<Rightarrow> embedder \<Rightarrow> string \<Rightarrow> string list \<Rightarrow> rat list list \<Rightarrow> ('c, rat list list) act" where
  "embed_loop env e input_type inputs vectors =
     (if inputs = [] then ret vectors
      else bnd (post_batch env e (take MAX_BATCH inputs) input_type) (\<lambda>rows.
        bnd (lift_sum (batch_vectors e rows)) (\<lambda>vs.
          embed_loop env e input_type (drop MAX_BATCH inputs) (vectors @ vs))))"
  by pat_completeness auto

termination
  by (relation "measure (\<lambda>(_, _, _, inputs, _). length inputs)") (auto simp: MAX_BATCH_def)

declare embed_loop.simps [simp del]

definition embed_documents :: "'c env \<Rightarrow> embedder \<Rightarrow> string list \<Rightarrow> ('c, rat list list) act" where
  "embed_documents env e texts =
     (if texts = [] then ret [] else embed_loop env e ''document'' texts [])"

definition embed_query :: "'c env \<Rightarrow> embedder \<Rightarrow> string \<Rightarrow> ('c, rat list) act" where
  "embed_query env e t = bnd (embed_loop env e ''query'' [t] []) (\<lambda>vectors. case vectors of
     [] \<Rightarrow> throw IndexError | v # _ \<Rightarrow> ret v)"

subsection \<open>Every vector returned is usable\<close>

definition usable :: "embedder \<Rightarrow> rat list \<Rightarrow> bool" where
  "usable e v \<longleftrightarrow> int (length v) = emb_dimension e \<and> list_ex (\<lambda>x. x \<noteq> 0) v"

lemma sane_usable: "sane xs (emb_dimension e) = Inr v \<Longrightarrow> usable e v"
  by (auto simp: sane_def usable_def sbind_Inr_iff list_ex_iff split: if_splits)

lemma smap_length: "smap f xs = Inr ys \<Longrightarrow> length ys = length xs"
  using smap_Inr list_all2_lengthD by metis

lemma smap_all: "smap f xs = Inr ys \<Longrightarrow> (\<And>x y. f x = Inr y \<Longrightarrow> p y) \<Longrightarrow> list_all p ys"
  by (induction xs arbitrary: ys) (auto simp: sbind_Inr_iff)

lemma by_index_length: "by_index rows = Inr rows' \<Longrightarrow> length rows' = length rows"
  by (auto simp: by_index_def sbind_Inr_iff smap_length split: if_splits)

lemma batch_vectors_usable:
  assumes "batch_vectors e rows = Inr vs"
  shows "length vs = length rows" and "list_all (usable e) vs"
proof -
  from assms obtain rows' where r: "by_index rows = Inr rows'" and v: "smap (row_vector e) rows' = Inr vs"
    by (auto simp: batch_vectors_def sbind_Inr_iff)
  show "length vs = length rows" using smap_length [OF v] by_index_length [OF r] by simp
  show "list_all (usable e) vs" using v
    by (rule smap_all) (auto simp: row_vector_def sbind_Inr_iff intro: sane_usable)
qed

lemma post_batch_length:
  assumes "post_batch env e batch ty w = (Inr rows, w')"
  shows "length rows = length batch"
  using assms unfolding post_batch_def check_response_def
  by (auto elim!: bnd_InrE split: json.splits if_splits)

lemma embed_loop_usable:
  assumes "embed_loop env e ty inputs vectors w = (Inr vs, w')"
  shows "\<exists>new. vs = vectors @ new \<and> length new = length inputs \<and> list_all (usable e) new"
  using assms
proof (induction env e ty inputs vectors arbitrary: w rule: embed_loop.induct)
  case (1 env e ty inputs vectors)
  show ?case
  proof (cases "inputs = []")
    case True
    with 1(2) show ?thesis by (simp add: embed_loop.simps [of env e ty "[]"])
  next
    case False
    with 1(2) obtain rows w1 vs1 where
        rows: "post_batch env e (take MAX_BATCH inputs) ty w = (Inr rows, w1)"
      and vs1: "batch_vectors e rows = Inr vs1"
      and rest: "embed_loop env e ty (drop MAX_BATCH inputs) (vectors @ vs1) w1 = (Inr vs, w')"
      by (auto simp: embed_loop.simps [of env e ty inputs] elim!: bnd_InrE dest!: lift_sum_InrE)
    from 1(1) [OF False rest] obtain new where "vs = (vectors @ vs1) @ new"
      "length new = length (drop MAX_BATCH inputs)" "list_all (usable e) new" by blast
    moreover have "length vs1 = length (take MAX_BATCH inputs)"
      using batch_vectors_usable(1) [OF vs1] post_batch_length [OF rows] by simp
    moreover have "length (take MAX_BATCH inputs) + length (drop MAX_BATCH inputs) = length inputs" by simp
    ultimately show ?thesis using batch_vectors_usable(2) [OF vs1]
      by (intro exI [of _ "vs1 @ new"]) simp
  qed
qed

lemma post_batch_external: "external (post_batch env e b ty)"
  unfolding post_batch_def check_response_def response_json_def
  by (auto intro!: external_rules split: json.split)

lemma embed_loop_external: "external (embed_loop env e ty inputs vectors)"
proof (induction env e ty inputs vectors rule: embed_loop.induct)
  case (1 env e ty inputs vectors)
  then show ?case
    by (subst embed_loop.simps) (auto intro!: external_rules post_batch_external)
qed

text \<open>
  C32: embedding either fails or gives usable vectors. Whatever the provider answers, when
  \<open>embed_documents\<close> returns there is one vector for each text, each of the configured
  dimension and none of them zero (numbers are finite here); no batch sent is larger than
  128, the loop ends, and nothing but the provider's own state has changed.
\<close>

theorem embeddings_usable:
  "case embed_documents env e texts w of
     (Inl _, w') \<Rightarrow> w' = outside w (svc w')
   | (Inr vs, w') \<Rightarrow> length vs = length texts \<and> list_all (usable e) vs \<and> w' = outside w (svc w')"
proof -
  have ext: "external (embed_documents env e texts)"
    unfolding embed_documents_def by (intro external_rules embed_loop_external)
  obtain r w' where run: "embed_documents env e texts w = (r, w')" by fastforce
  from externalE [OF ext run] obtain c where c: "w' = outside w c" by blast
  show ?thesis
  proof (cases r)
    case (Inr vs)
    have "length vs = length texts \<and> list_all (usable e) vs"
      using run Inr embed_loop_usable [of env e "''document''" texts "[]" w vs w']
      by (auto simp: embed_documents_def split: if_splits)
    with run Inr c show ?thesis by simp
  qed (use run c in simp)
qed

end
