(* ===== verification/IngestChunks.thy ===== *)
theory IngestChunks
  imports Embedding Scoped
begin

section \<open>The chunk ingest script\<close>

text \<open>
  \<open>scripts/ingest_chunks.py\<close>: the chunks a parse run emitted become rows of \<open>chunks\<close>, in one
  transaction under the tenant named on the command line, rolled back unless \<open>--commit\<close> is
  given. A chunk is read as the record the seam's JSON describes. \<open>uuid5\<close> is the argument for
  \<open>uuid.uuid5(NAMESPACE_OID, _)\<close>; what the script prints is left out.
\<close>

record seam_chunk =
  sc_content :: string
  sc_scale_context :: "string option"
  sc_spans :: "(int \<times> int) list"
  sc_document_id :: string
  sc_element_type :: "string option"
  sc_page :: "int option"

text \<open>\<open>f"[{scale}] {content}" if scale else content\<close>\<close>

definition fold_content :: "seam_chunk \<Rightarrow> string" where
  "fold_content c = (case sc_scale_context c of
      None \<Rightarrow> sc_content c
    | Some scale \<Rightarrow> if scale = [] then sc_content c else ''['' @ scale @ ''] '' @ sc_content c)"

definition span_of :: "seam_chunk \<Rightarrow> int option \<times> int option" where
  "span_of c = (case sc_spans c of
      [] \<Rightarrow> (None, None)
    | s # ss \<Rightarrow> (Some (foldl min (fst s) (map fst ss)), Some (foldl max (snd s) (map snd ss))))"

definition chunk_row ::
  "(string \<Rightarrow> uuid) \<Rightarrow> uuid \<Rightarrow> instant \<Rightarrow> int \<Rightarrow> seam_chunk \<Rightarrow> rat list option \<Rightarrow> string option \<Rightarrow> chunk" where
  "chunk_row uuid5 i now org c embedding embedding_version =
     \<lparr>chk_id = i, chk_org_id = org, chk_document_id = Some (uuid5 (sc_document_id c)),
      chk_content = fold_content c, chk_embedding = embedding,
      chk_embedding_version = (if embedding = None then None else embedding_version),
      chk_element_type = sc_element_type c, chk_page = sc_page c,
      chk_char_start = fst (span_of c), chk_char_end = snd (span_of c), chk_created_at = now\<rparr>"

definition insert_chunk ::
  "(string \<Rightarrow> uuid) \<Rightarrow> int \<Rightarrow> string option \<Rightarrow> seam_chunk \<times> rat list option \<Rightarrow> ('c, unit) act" where
  "insert_chunk uuid5 org ver ce =
     bnd gen_random_uuid (\<lambda>i. bnd utc_now (\<lambda>now.
       sql_insert chunks_table (chunk_row uuid5 i now org (fst ce) (snd ce) ver)))"

text \<open>\<open>embed BEFORE the transaction\<close>, and only on \<open>--commit\<close>.\<close>

definition embed_chunks ::
  "'c env \<Rightarrow> seam_chunk list \<Rightarrow> bool \<Rightarrow> ('c, rat list option list \<times> string option) act" where
  "embed_chunks env chunks commit =
     (if commit \<and> chunks \<noteq> [] then
        bnd (lift_sum (get_embedder env)) (\<lambda>e.
        bnd (embed_documents env e (map fold_content chunks)) (\<lambda>vs.
          ret (map Some vs, Some (embedder_version e))))
      else ret (replicate (length chunks) None, None))"

definition demo_org :: "string \<Rightarrow> ('c, int) act" where
  "demo_org org_key =
     bnd (sql_first organisation_table (\<lambda>o1. org_clerk_org_id o1 = org_key)) (\<lambda>found. case found of
       Some r \<Rightarrow> ret (org_id r)
     | None \<Rightarrow> bnd next_org_id (\<lambda>i. bnd utc_now (\<lambda>now.
         seq (sql_insert organisation_table \<lparr>org_id = i, org_clerk_org_id = org_key,
                org_name = ''E2E demo ('' @ org_key @ '')'', org_type = Some PE_FIRM, org_created_at = now\<rparr>)
           (ret i))))"

text \<open>\<open>zip(chunks, embeddings, strict=True)\<close> raises when the lengths differ.\<close>

definition store_chunks ::
  "(string \<Rightarrow> uuid) \<Rightarrow> string \<Rightarrow> seam_chunk list \<Rightarrow> rat list option list \<Rightarrow> string option \<Rightarrow> bool \<Rightarrow> ('c, unit) act" where
  "store_chunks uuid5 org_key chunks embeddings ver commit =
     in_transaction (seq (set_org_scope org_key)
       (bnd (demo_org org_key) (\<lambda>org.
        seq (guard (length chunks = length embeddings) (ValueError ''zip() arguments have different lengths''))
        (seq (mmap (insert_chunk uuid5 org ver) (zip chunks embeddings))
        (seq (set_org_scope ''some_other_org'')
           (guard commit DryRunRollback))))))"

definition run_ingest_chunks ::
  "'c env \<Rightarrow> (string \<Rightarrow> uuid) \<Rightarrow> seam_chunk list \<Rightarrow> string \<Rightarrow> bool \<Rightarrow> ('c, unit) act" where
  "run_ingest_chunks env uuid5 chunks org_key commit =
     bnd (embed_chunks env chunks commit) (\<lambda>(embeddings, ver).
       store_chunks uuid5 org_key chunks embeddings ver commit)"

definition ingest_chunks_main ::
  "'c env \<Rightarrow> (string \<Rightarrow> uuid) \<Rightarrow> seam_chunk list \<Rightarrow> string \<Rightarrow> bool \<Rightarrow> ('c, unit) act" where
  "ingest_chunks_main env uuid5 chunks org_key commit =
     try_catch (run_ingest_chunks env uuid5 chunks org_key commit)
       (\<lambda>e. case e of DryRunRollback \<Rightarrow> ret () | _ \<Rightarrow> throw e)"

lemma embed_chunks_external: "external (embed_chunks env chunks commit)"
  unfolding embed_chunks_def embed_documents_def
  by (intro external_rules embed_loop_external external_if)

lemma store_chunks_scoped:
  "store_chunks uuid5 org_key chunks embeddings ver commit =
     scoped_run \<lparr>tenant_id = org_key, user_id = [], org_role = None, raw_claims = JNull\<rparr>
       (bnd (demo_org org_key) (\<lambda>org.
        seq (guard (length chunks = length embeddings) (ValueError ''zip() arguments have different lengths''))
        (seq (mmap (insert_chunk uuid5 org ver) (zip chunks embeddings))
        (seq (set_org_scope ''some_other_org'') (guard commit DryRunRollback)))))"
  by (simp add: store_chunks_def scoped_run_def)

lemma store_chunks_svc: "svc (snd (store_chunks uuid5 org_key chunks embeddings ver commit w)) = svc w"
proof -
  have steps: "keeps (svc_is s) next_org_id" "keeps (svc_is s) (set_org_scope t)" for s t
    by (simp_all add: keeps_def svc_is_def next_org_id_def set_org_scope_def)
  have "keeps (svc_is s) (bnd (demo_org org_key) (\<lambda>org.
        seq (guard (length chunks = length embeddings) (ValueError ''zip() arguments have different lengths''))
        (seq (mmap (insert_chunk uuid5 org ver) (zip chunks embeddings))
        (seq (set_org_scope ''some_other_org'') (guard commit DryRunRollback)))))" for s
    unfolding demo_org_def insert_chunk_def by (intro keep_rules steps)
  from keepsD [OF this, of "svc w" "w\<lparr>uow := [], guc := Some org_key\<rparr>"] show ?thesis
    by (simp add: store_chunks_scoped scoped_run_svc svc_is_def)
qed

text \<open>
  A dry run leaves no trace. Without \<open>--commit\<close> the script changes no table, whatever
  the chunks and however it ends, and calls no external service.
\<close>

theorem dry_run_leaves_no_trace:
  "db (snd (ingest_chunks_main env uuid5 chunks org_key False w)) = db w
   \<and> svc (snd (ingest_chunks_main env uuid5 chunks org_key False w)) = svc w"
proof -
  let ?run = "store_chunks uuid5 org_key chunks (replicate (length chunks) None) None False"
  have eq: "run_ingest_chunks env uuid5 chunks org_key False = ?run"
    by (simp add: run_ingest_chunks_def embed_chunks_def)
  have "db (snd (?run w)) = db w"
  proof (cases "?run w")
    case (Pair r w')
    show ?thesis
    proof (cases r)
      case (Inl e)
      with Pair show ?thesis by (simp add: store_chunks_def) (metis transaction_Inl)
    next
      case (Inr x)
      with Pair show ?thesis
        by (auto simp: store_chunks_def elim!: transaction_InrE bnd_InrE)
    qed
  qed
  then show ?thesis
    using store_chunks_svc [of uuid5 org_key chunks "replicate (length chunks) None" None False w]
    by (auto simp: ingest_chunks_main_def eq try_catch_def split: prod.split sum.split exn.split)
qed

subsection \<open>The foreign key\<close>

lemma insert_chunk_outcome:
  "(\<exists>e s'. insert_chunk uuid5 org ver ce s = (Inl (DbError e), s'))
   \<or> uuid5 (sc_document_id (fst ce)) \<in> ds_id ` set (t_data_source (db s))
     \<and> (\<exists>s'. insert_chunk uuid5 org ver ce s = (Inr (), s') \<and> t_data_source (db s') = t_data_source (db s))"
  by (auto simp: insert_chunk_def gen_random_uuid_def utc_now_def bnd_app sql_insert_def insert_error_def
      chunk_row_def refers_def)

lemma inserts_fail:
  "(c, emb) \<in> set ces \<Longrightarrow> uuid5 (sc_document_id c) \<notin> ds_id ` set (t_data_source (db s)) \<Longrightarrow>
     \<exists>e s'. mmap (insert_chunk uuid5 org ver) ces s = (Inl (DbError e), s')"
proof (induction ces arbitrary: s)
  case (Cons ce ces)
  consider e s' where "insert_chunk uuid5 org ver ce s = (Inl (DbError e), s')"
    | s' where "uuid5 (sc_document_id (fst ce)) \<in> ds_id ` set (t_data_source (db s))"
        "insert_chunk uuid5 org ver ce s = (Inr (), s')" "t_data_source (db s') = t_data_source (db s)"
    using insert_chunk_outcome by blast
  then show ?case
  proof cases
    case (2 s')
    with Cons.prems have "(c, emb) \<in> set ces" by auto
    with Cons.IH [of s'] Cons.prems(2) 2 obtain e s'' where "mmap (insert_chunk uuid5 org ver) ces s' = (Inl (DbError e), s'')" by auto
    with 2 show ?thesis by simp
  qed simp
qed simp

lemma demo_org_outcome:
  "(\<exists>e s'. demo_org org_key s = (Inl (DbError e), s'))
   \<or> (\<exists>org s'. demo_org org_key s = (Inr org, s') \<and> t_data_source (db s') = t_data_source (db s))"
  by (auto simp: demo_org_def sql_first_def next_org_id_def utc_now_def bnd_app sql_insert_def
      split: option.split)

text \<open>
  C38: the script cannot ingest. Each row's \<open>document_id\<close> is a UUID derived from the document's
  hash, while \<open>chunks.document_id\<close> references \<open>data_source\<close>: unless the derived UUID happens to
  be the id of a stored data source, the transaction fails, committed or dry, and stores
  nothing. On \<open>--commit\<close> the embeddings have been paid for by then.
\<close>

theorem chunk_ingest_needs_data_source:
  assumes c: "(c, emb) \<in> set (zip chunks embeddings)"
    and no: "uuid5 (sc_document_id c) \<notin> ds_id ` set (t_data_source (db w))"
  shows "\<exists>e w'. store_chunks uuid5 org_key chunks embeddings ver commit w = (Inl e, w')
    \<and> e \<noteq> DryRunRollback \<and> db w' = db w"
proof -
  let ?w = "w\<lparr>guc := Some org_key, uow := []\<rparr>"
  let ?m = "seq (set_org_scope org_key) (bnd (demo_org org_key) (\<lambda>org.
        seq (guard (length chunks = length embeddings) (ValueError ''zip() arguments have different lengths''))
        (seq (mmap (insert_chunk uuid5 org ver) (zip chunks embeddings))
        (seq (set_org_scope ''some_other_org'') (guard commit DryRunRollback)))))"
  have "\<exists>e w1. ?m (w\<lparr>guc := None, uow := []\<rparr>) = (Inl e, w1) \<and> e \<noteq> DryRunRollback"
  proof -
    let ?v = "w\<lparr>uow := [], guc := Some org_key\<rparr>"
    consider e s where "demo_org org_key ?v = (Inl (DbError e), s)"
      | org s where "demo_org org_key ?v = (Inr org, s)" "t_data_source (db s) = t_data_source (db w)"
      using demo_org_outcome [of org_key ?v] by fastforce
    then show ?thesis
    proof cases
      case (2 org s)
      with no inserts_fail [OF c, of uuid5 s org ver] obtain e s' where
        "mmap (insert_chunk uuid5 org ver) (zip chunks embeddings) s = (Inl (DbError e), s')" by auto
      with 2 show ?thesis by (simp add: set_org_scope_def)
    qed (simp add: set_org_scope_def)
  qed
  then obtain e w1 where "?m (w\<lparr>guc := None, uow := []\<rparr>) = (Inl e, w1)" "e \<noteq> DryRunRollback" by blast
  then show ?thesis by (simp add: store_chunks_def in_transaction_def)
qed

end
