(* ===== verification/IngestClaims.thy ===== *)
theory IngestClaims
  imports ClaimContract IngestChunks IngestJob "HOL-Library.List_Lexorder" "HOL-Library.Char_ord"
begin

section \<open>The claim ingest script\<close>

text \<open>
  \<open>scripts/ingest_claims.py\<close>: the claims a parse run emitted are validated against the
  contract, flattened and inserted in one transaction under the tenant of the command line,
  rolled back unless \<open>--commit\<close> is given. The jsonschema library is the argument \<open>errors_of\<close>:
  the errors \<open>iter_errors\<close> yields for a claim, each with its text and its message; what the
  properties need of it is \<open>validates errors_of\<close>, that it finds no error exactly in the claims
  the schema admits. What the script prints is left out.
\<close>

type_synonym validator = "json \<Rightarrow> (string \<times> string) list"

definition validates :: "validator \<Rightarrow> bool" where
  "validates errors_of \<longleftrightarrow> (\<forall>c. errors_of c = [] \<longleftrightarrow> contract c)"

text \<open>\<open>sorted(validator.iter_errors(claim), key=str)\<close>, claim by claim.\<close>

fun validate_from :: "validator \<Rightarrow> nat \<Rightarrow> json list \<Rightarrow> exn + unit" where
  "validate_from errors_of i [] = Inr ()"
| "validate_from errors_of i (claim # claims) =
     (case sort_key fst (errors_of claim) of
        [] \<Rightarrow> validate_from errors_of (i + 1) claims
      | e # _ \<Rightarrow> Inl (SystemExit (''claim '' @ str_nat i @ '' violates the contract: '' @ snd e)))"

subsection \<open>From a claim to a row\<close>

definition LOCATION_COLUMNS :: "string list" where
  "LOCATION_COLUMNS = [''page'', ''char_start'', ''char_end'', ''bbox'', ''sheet'', ''cell_ref'', ''paragraph'']"

text \<open>
  The ORM object: the attributes the script sets, untyped until the flush binds them.
  \<open>oc_location\<close> are the flat columns \<open>setattr\<close> fills.
\<close>

record orm_claim =
  oc_entity :: json
  oc_attribute :: json
  oc_value :: json
  oc_period_year :: json
  oc_period_kind :: json
  oc_status :: json
  oc_verification_method :: json
  oc_section :: json
  oc_flags :: json
  oc_claim_kind :: json
  oc_assertion_class :: json
  oc_kind :: json
  oc_location :: "(string \<times> json) list"

definition flat_location :: "(string \<times> json) list \<Rightarrow> (string \<times> json) list" where
  "flat_location loc = List.map_filter (\<lambda>k. map_option (Pair k) (map_of loc k)) LOCATION_COLUMNS"

definition row_from_claim :: "json \<Rightarrow> exn + orm_claim" where
  "row_from_claim claim =
     sbind (json_idx claim ''location'') (\<lambda>location.
     sbind (json_idx claim ''entity'') (\<lambda>entity.
     sbind (json_idx claim ''attribute'') (\<lambda>attribute.
     sbind (json_idx claim ''value'') (\<lambda>value.
     sbind (json_get claim ''period_year'') (\<lambda>period_year.
     sbind (json_get claim ''period_kind'') (\<lambda>period_kind.
     sbind (json_idx claim ''status'') (\<lambda>st.
     sbind (json_get claim ''verification_method'') (\<lambda>method.
     sbind (json_get claim ''section'') (\<lambda>sect.
     sbind (json_get claim ''flags'') (\<lambda>flags.
     sbind (json_get claim ''claim_kind'') (\<lambda>claim_kind.
     sbind (json_get claim ''assertion_class'') (\<lambda>assertion_class.
     sbind (json_idx location ''kind'') (\<lambda>kind.
       Inr \<lparr>oc_entity = entity, oc_attribute = attribute, oc_value = value, oc_period_year = period_year,
         oc_period_kind = period_kind, oc_status = st, oc_verification_method = method,
         oc_section = sect, oc_flags = py_or flags JNull, oc_claim_kind = claim_kind,
         oc_assertion_class = assertion_class, oc_kind = kind,
         oc_location = (case location of JObj loc \<Rightarrow> flat_location loc | _ \<Rightarrow> [])\<rparr>)))))))))))))"

text \<open>
  Binding the values to the columns' types. A text may not contain the character 0, an
  integer has 32 bits, a \<open>varchar(n)\<close> holds at most \<open>n\<close> characters, and JSONB holds no
  non-finite number. What the driver makes of a value that is neither \<open>None\<close> nor an \<open>int\<close>
  for an integer column is the argument \<open>int_of\<close>.
\<close>

definition bind_text :: "json \<Rightarrow> exn + string option" where
  "bind_text v = (case v of
      JNull \<Rightarrow> Inr None
    | JStr s \<Rightarrow> if CHR 0x00 \<in> set s then Inl (DbError DataError) else Inr (Some s)
    | _ \<Rightarrow> Inl (DbError DataError))"

definition bind_varchar :: "nat \<Rightarrow> json \<Rightarrow> exn + string option" where
  "bind_varchar n v = sbind (bind_text v) (\<lambda>s. case s of
      None \<Rightarrow> Inr None
    | Some t \<Rightarrow> if length t \<le> n then Inr (Some t) else Inl (DbError DataError))"

definition int4 :: "int \<Rightarrow> bool" where
  "int4 i \<longleftrightarrow> - (2 ^ 31) \<le> i \<and> i < 2 ^ 31"

definition bind_int :: "(json \<Rightarrow> exn + int) \<Rightarrow> json \<Rightarrow> exn + int option" where
  "bind_int int_of v = (case v of
      JNull \<Rightarrow> Inr None
    | JInt i \<Rightarrow> if int4 i then Inr (Some i) else Inl (DbError DataError)
    | _ \<Rightarrow> sbind (int_of v) (\<lambda>i. if int4 i then Inr (Some i) else Inl (DbError DataError)))"

fun storable :: "json \<Rightarrow> bool" where
  "storable (JNonFinite x) = False"
| "storable (JStr s) = (CHR 0x00 \<notin> set s)"
| "storable (JArr xs) = list_all storable xs"
| "storable (JObj kvs) = list_all (\<lambda>kv. CHR 0x00 \<notin> set (fst kv) \<and> storable (snd kv)) kvs"
| "storable _ = True"

definition bind_jsonb :: "json \<Rightarrow> exn + json" where
  "bind_jsonb v = (if storable v then Inr v else Inl (DbError DataError))"

definition bind_not_null :: "exn + 'a option \<Rightarrow> exn + 'a" where
  "bind_not_null m = sbind m (\<lambda>x. case x of None \<Rightarrow> Inl (DbError NotNullViolation) | Some y \<Rightarrow> Inr y)"

text \<open>\<open>ARRAY(Text)\<close>; an element \<open>None\<close> is refused here, the contract has none.\<close>

definition bind_text_array :: "json \<Rightarrow> exn + string list option" where
  "bind_text_array v = (case v of
      JNull \<Rightarrow> Inr None
    | JArr xs \<Rightarrow> sbind (smap (\<lambda>x. bind_not_null (bind_text x)) xs) (\<lambda>ss. Inr (Some ss))
    | _ \<Rightarrow> Inl (DbError DataError))"

definition location_value :: "orm_claim \<Rightarrow> string \<Rightarrow> json" where
  "location_value oc k = (case map_of (oc_location oc) k of None \<Rightarrow> JNull | Some v \<Rightarrow> v)"

definition bind_bbox :: "orm_claim \<Rightarrow> exn + json option" where
  "bind_bbox oc = (case map_of (oc_location oc) ''bbox'' of
      None \<Rightarrow> Inr None | Some v \<Rightarrow> sbind (bind_jsonb v) (\<lambda>b. Inr (Some b)))"

definition bind_claim ::
  "(json \<Rightarrow> exn + int) \<Rightarrow> uuid \<Rightarrow> int \<Rightarrow> uuid \<Rightarrow> instant \<Rightarrow> orm_claim \<Rightarrow> exn + claim" where
  "bind_claim int_of i org session_id now oc =
     sbind (bind_not_null (bind_text (oc_entity oc))) (\<lambda>entity.
     sbind (bind_not_null (bind_text (oc_attribute oc))) (\<lambda>attribute.
     sbind (bind_int int_of (oc_period_year oc)) (\<lambda>period_year.
     sbind (bind_varchar 1 (oc_period_kind oc)) (\<lambda>period_kind.
     sbind (bind_jsonb (oc_value oc)) (\<lambda>value.
     sbind (bind_not_null (bind_varchar 8 (oc_kind oc))) (\<lambda>kind.
     sbind (bind_int int_of (location_value oc ''page'')) (\<lambda>page.
     sbind (bind_int int_of (location_value oc ''char_start'')) (\<lambda>char_start.
     sbind (bind_int int_of (location_value oc ''char_end'')) (\<lambda>char_end.
     sbind (bind_bbox oc) (\<lambda>bbox.
     sbind (bind_text (location_value oc ''sheet'')) (\<lambda>sheet.
     sbind (bind_varchar 16 (location_value oc ''cell_ref'')) (\<lambda>cell_ref.
     sbind (bind_int int_of (location_value oc ''paragraph'')) (\<lambda>paragraph.
     sbind (bind_not_null (bind_varchar 24 (oc_status oc))) (\<lambda>st.
     sbind (bind_varchar 24 (oc_verification_method oc)) (\<lambda>method.
     sbind (bind_text (oc_section oc)) (\<lambda>sect.
     sbind (bind_varchar 12 (oc_claim_kind oc)) (\<lambda>claim_kind.
     sbind (bind_varchar 24 (oc_assertion_class oc)) (\<lambda>assertion_class.
     sbind (bind_text_array (oc_flags oc)) (\<lambda>flags.
       Inr \<lparr>clm_id = i, clm_org_id = org, clm_deal_id = None, clm_session_id = Some session_id,
         clm_data_source_id = None, clm_chunk_id = None, clm_entity = entity, clm_attribute = attribute,
         clm_period_year = period_year, clm_period_kind = period_kind, clm_value = value, clm_kind = kind,
         clm_page = page, clm_char_start = char_start, clm_char_end = char_end, clm_bbox = bbox,
         clm_sheet = sheet, clm_cell_ref = cell_ref, clm_paragraph = paragraph, clm_status = st,
         clm_verification_method = method, clm_section = sect, clm_claim_kind = claim_kind,
         clm_assertion_class = assertion_class, clm_table_group_id = None, clm_fragment_order = None,
         clm_flags = flags, clm_created_at = now\<rparr>)))))))))))))))))))"

subsection \<open>The run\<close>

definition insert_claim :: "(json \<Rightarrow> exn + int) \<Rightarrow> int \<Rightarrow> uuid \<Rightarrow> orm_claim \<Rightarrow> ('c, unit) act" where
  "insert_claim int_of org session_id oc =
     bnd gen_random_uuid (\<lambda>i. bnd utc_now (\<lambda>now.
     bnd (lift_sum (bind_claim int_of i org session_id now oc)) (sql_insert claims_table)))"

text \<open>\<open>add_all\<close> builds every row before the flush inserts the first.\<close>

definition store_claims ::
  "(json \<Rightarrow> exn + int) \<Rightarrow> string \<Rightarrow> json list \<Rightarrow> uuid \<Rightarrow> bool \<Rightarrow> ('c, unit) act" where
  "store_claims int_of org_key claims session_id commit =
     in_transaction (seq (set_org_scope org_key)
       (bnd (demo_org org_key) (\<lambda>org.
        bnd (lift_sum (smap row_from_claim claims)) (\<lambda>rows.
        seq (mmap (insert_claim int_of org session_id) rows)
        (seq (set_org_scope ''some_other_org'') (guard commit DryRunRollback))))))"

definition run_ingest_claims ::
  "validator \<Rightarrow> (json \<Rightarrow> exn + int) \<Rightarrow> json \<Rightarrow> string \<Rightarrow> bool \<Rightarrow> uuid \<Rightarrow> ('c, unit) act" where
  "run_ingest_claims errors_of int_of payload org_key commit session_id =
     bnd (lift_sum (sbind (json_idx payload ''claims'') json_iter)) (\<lambda>claims.
     seq (lift_sum (validate_from errors_of 0 claims))
       (store_claims int_of org_key claims session_id commit))"

text \<open>\<open>uuid.UUID(args.session_id) if args.session_id else uuid.uuid4()\<close>\<close>

definition run_session_id :: "string option \<Rightarrow> ('c, uuid) act" where
  "run_session_id arg = (case arg of
      None \<Rightarrow> gen_random_uuid
    | Some s \<Rightarrow> if s = [] then gen_random_uuid else lift_sum (parse_uuid s))"

definition ingest_claims_main ::
  "validator \<Rightarrow> (json \<Rightarrow> exn + int) \<Rightarrow> json \<Rightarrow> string \<Rightarrow> bool \<Rightarrow> string option \<Rightarrow> ('c, unit) act" where
  "ingest_claims_main errors_of int_of payload org_key commit session_arg =
     bnd (run_session_id session_arg) (\<lambda>session_id.
       try_catch (run_ingest_claims errors_of int_of payload org_key commit session_id)
         (\<lambda>e. case e of DryRunRollback \<Rightarrow> ret () | _ \<Rightarrow> throw e))"

subsection \<open>The contract and the CHECKs\<close>

lemma bind_text_iff:
  "bind_text v = Inr None \<longleftrightarrow> v = JNull"
  "bind_text v = Inr (Some s) \<longleftrightarrow> v = JStr s \<and> CHR 0x00 \<notin> set s"
  by (auto simp: bind_text_def split: json.split)

lemma bind_varchar_iff:
  "bind_varchar n v = Inr None \<longleftrightarrow> v = JNull"
  "bind_varchar n v = Inr (Some s) \<longleftrightarrow> v = JStr s \<and> CHR 0x00 \<notin> set s \<and> length s \<le> n"
  by (auto simp: bind_varchar_def sbind_Inr_iff bind_text_iff split: option.splits)

lemma bind_not_null_iff: "bind_not_null m = Inr x \<longleftrightarrow> m = Inr (Some x)"
  by (auto simp: bind_not_null_def sbind_Inr_iff split: option.splits)

lemma bind_int_None: "bind_int int_of v = Inr None \<longleftrightarrow> v = JNull"
  by (auto simp: bind_int_def sbind_Inr_iff split: json.split if_splits)

lemma bound_None:
  "bind_text v = Inr x \<Longrightarrow> x = None \<longleftrightarrow> v = JNull"
  "bind_varchar m v = Inr x \<Longrightarrow> x = None \<longleftrightarrow> v = JNull"
  "bind_int int_of v = Inr n \<Longrightarrow> n = None \<longleftrightarrow> v = JNull"
  using bind_text_iff(1) [of v] bind_varchar_iff(1) [of m v] bind_int_None [of int_of v] by auto

lemma bind_varchar_enum:
  "or_null (enum vs) v \<Longrightarrow> bind_varchar n v = Inr x \<Longrightarrow> null_or_in x vs"
  by (cases x) (auto simp: null_or_in_def or_null_def enum_def bind_varchar_iff)

lemma bind_claimD:
  assumes "bind_claim int_of i org sid now oc = Inr r"
  shows "bind_varchar 8 (oc_kind oc) = Inr (Some (clm_kind r))"
    "bind_varchar 24 (oc_status oc) = Inr (Some (clm_status r))"
    "bind_varchar 24 (oc_verification_method oc) = Inr (clm_verification_method r)"
    "bind_varchar 12 (oc_claim_kind oc) = Inr (clm_claim_kind r)"
    "bind_varchar 24 (oc_assertion_class oc) = Inr (clm_assertion_class r)"
    "bind_varchar 1 (oc_period_kind oc) = Inr (clm_period_kind r)"
    "bind_int int_of (location_value oc ''page'') = Inr (clm_page r)"
    "bind_int int_of (location_value oc ''char_start'') = Inr (clm_char_start r)"
    "bind_int int_of (location_value oc ''char_end'') = Inr (clm_char_end r)"
    "bind_int int_of (location_value oc ''paragraph'') = Inr (clm_paragraph r)"
    "bind_text (location_value oc ''sheet'') = Inr (clm_sheet r)"
    "bind_varchar 16 (location_value oc ''cell_ref'') = Inr (clm_cell_ref r)"
    "bind_text (oc_entity oc) = Inr (Some (clm_entity r))" "bind_text (oc_attribute oc) = Inr (Some (clm_attribute r))"
    "bind_jsonb (oc_value oc) = Inr (clm_value r)" "bind_int int_of (oc_period_year oc) = Inr (clm_period_year r)"
    "bind_text (oc_section oc) = Inr (clm_section r)" "bind_text_array (oc_flags oc) = Inr (clm_flags r)"
    "bind_bbox oc = Inr (clm_bbox r)"
    "clm_id r = i" "clm_org_id r = org" "clm_session_id r = Some sid" "clm_deal_id r = None" "clm_data_source_id r = None"
    "clm_chunk_id r = None" "clm_table_group_id r = None" "clm_fragment_order r = None"
  using assms by (auto simp: bind_claim_def sbind_Inr_iff bind_not_null_iff)

lemma flat_location_lookup:
  "map_of (flat_location loc) k = (if k \<in> set LOCATION_COLUMNS then map_of loc k else None)"
proof -
  have "map_of (List.map_filter (\<lambda>k. map_option (Pair k) (map_of loc k)) ks) k
      = (if k \<in> set ks then map_of loc k else None)" for ks
    by (induction ks) (auto simp: List.map_filter_simps split: option.split)
  then show ?thesis by (simp add: flat_location_def)
qed

lemma row_from_contract:
  assumes "contract c"
  obtains kvs loc oc where "c = JObj kvs" "map_of kvs ''location'' = Some (JObj loc)" "contract_location (JObj loc)"
    "row_from_claim c = Inr oc"
    "oc_entity oc = entry_of kvs ''entity''" "oc_attribute oc = entry_of kvs ''attribute''" "oc_value oc = entry_of kvs ''value''"
    "oc_period_year oc = entry_of kvs ''period_year''" "oc_section oc = entry_of kvs ''section''"
    "oc_flags oc = py_or (entry_of kvs ''flags'') JNull" "map_of (oc_location oc) ''bbox'' = map_of loc ''bbox''"
    "oc_status oc = entry_of kvs ''status''" "oc_verification_method oc = entry_of kvs ''verification_method''"
    "oc_claim_kind oc = entry_of kvs ''claim_kind''" "oc_assertion_class oc = entry_of kvs ''assertion_class''"
    "oc_period_kind oc = entry_of kvs ''period_kind''" "oc_kind oc = entry_of loc ''kind''"
    "\<And>k. k \<in> set LOCATION_COLUMNS \<Longrightarrow> location_value oc k = entry_of loc k"
proof -
  obtain kvs st where c: "c = JObj kvs" and req:
    "map_of kvs ''entity'' = Some (entry_of kvs ''entity'')" "map_of kvs ''attribute'' = Some (entry_of kvs ''attribute'')"
    "map_of kvs ''value'' = Some (entry_of kvs ''value'')" "map_of kvs ''status'' = Some (JStr st)"
    and l: "map_of kvs ''location'' = Some (entry_of kvs ''location'')" "contract_location (entry_of kvs ''location'')"
    using contract_claim [OF assms] by metis
  obtain loc k where loc: "entry_of kvs ''location'' = JObj loc" "map_of loc ''kind'' = Some (JStr k)"
    using contract_locator [OF l(2)] by metis
  have st: "entry_of kvs ''status'' = JStr st" "entry_of loc ''kind'' = JStr k" using req(4) loc(2) by (simp_all add: entry_of_def)
  let ?oc = "\<lparr>oc_entity = entry_of kvs ''entity'', oc_attribute = entry_of kvs ''attribute'',
     oc_value = entry_of kvs ''value'', oc_period_year = entry_of kvs ''period_year'',
     oc_period_kind = entry_of kvs ''period_kind'', oc_status = JStr st,
     oc_verification_method = entry_of kvs ''verification_method'', oc_section = entry_of kvs ''section'',
     oc_flags = py_or (entry_of kvs ''flags'') JNull, oc_claim_kind = entry_of kvs ''claim_kind'',
     oc_assertion_class = entry_of kvs ''assertion_class'', oc_kind = JStr k,
     oc_location = flat_location loc\<rparr>"
  have row: "row_from_claim c = Inr ?oc"
    using req l loc unfolding c by (simp add: row_from_claim_def json_get_entry del: json_get.simps)
  have cols: "location_value ?oc k = entry_of loc k" if "k \<in> set LOCATION_COLUMNS" for k
    using that by (simp add: location_value_def flat_location_lookup entry_of_def)
  show thesis
    by (rule that [OF c l(1) [unfolded loc(1)] l(2) [unfolded loc(1)] row]) (simp_all add: st cols flat_location_lookup LOCATION_COLUMNS_def)
qed


lemma entry_of_Some: "entry_of kvs k = v \<Longrightarrow> v \<noteq> JNull \<Longrightarrow> map_of kvs k = Some v"
  by (auto simp: entry_of_def split: option.splits)

lemma integer_required:
  "required ks (JObj loc) \<Longrightarrow> property k is_integer (JObj loc) \<Longrightarrow> k \<in> set ks \<Longrightarrow> entry_of loc k \<noteq> JNull"
  using property_required [of ks loc k is_integer] by fastforce

lemma string_required:
  "required ks (JObj loc) \<Longrightarrow> property k is_string (JObj loc) \<Longrightarrow> k \<in> set ks \<Longrightarrow> entry_of loc k \<noteq> JNull"
  using property_required [of ks loc k is_string] by fastforce

text \<open>A bound row of a claim that keeps the contract, seen through both.\<close>

lemma contract_row:
  assumes con: "contract c" and row: "row_from_claim c = Inr oc"
    and bound: "bind_claim int_of i org sid now oc = Inr r"
  obtains kvs loc where "c = JObj kvs" and "map_of kvs ''location'' = Some (JObj loc)"
    and "map_of kvs ''status'' = Some (JStr (clm_status r))" and "clm_status r \<in> set claim_statuses"
    and "map_of loc ''kind'' = Some (JStr (clm_kind r))"
    and "clm_kind r = ''pdf'' \<and> pdf_location (JObj loc) \<or> clm_kind r = ''xlsx'' \<and> xlsx_location (JObj loc)
      \<or> clm_kind r = ''docx'' \<and> docx_location (JObj loc)"
    and "null_or_in (clm_verification_method r) claim_verification_methods"
      "null_or_in (clm_claim_kind r) claim_kinds" "null_or_in (clm_assertion_class r) claim_assertion_classes"
      "null_or_in (clm_period_kind r) [''A'', ''E'', ''P'']"
    and "clm_verification_method r = None \<longleftrightarrow> entry_of kvs ''verification_method'' = JNull"
      "clm_assertion_class r = None \<longleftrightarrow> entry_of kvs ''assertion_class'' = JNull"
      "\<And>s. clm_claim_kind r = Some s \<Longrightarrow> map_of kvs ''claim_kind'' = Some (JStr s)"
    and "clm_page r = None \<longleftrightarrow> entry_of loc ''page'' = JNull"
      "clm_paragraph r = None \<longleftrightarrow> entry_of loc ''paragraph'' = JNull"
      "clm_sheet r = None \<longleftrightarrow> entry_of loc ''sheet'' = JNull"
      "clm_cell_ref r = None \<longleftrightarrow> entry_of loc ''cell_ref'' = JNull"
      "clm_char_start r = None \<longleftrightarrow> entry_of loc ''char_start'' = JNull"
      "clm_char_end r = None \<longleftrightarrow> entry_of loc ''char_end'' = JNull"
proof -
  obtain kvs loc oc' where c: "c = JObj kvs" "map_of kvs ''location'' = Some (JObj loc)" and l: "contract_location (JObj loc)"
    and row': "row_from_claim c = Inr oc'" and oc': "oc_status oc' = entry_of kvs ''status''"
      "oc_verification_method oc' = entry_of kvs ''verification_method''" "oc_claim_kind oc' = entry_of kvs ''claim_kind''"
      "oc_assertion_class oc' = entry_of kvs ''assertion_class''" "oc_period_kind oc' = entry_of kvs ''period_kind''"
      "oc_kind oc' = entry_of loc ''kind''"
    and cols': "\<And>k. k \<in> set LOCATION_COLUMNS \<Longrightarrow> location_value oc' k = entry_of loc k"
    by (rule row_from_contract [OF con]) (rule that)
  have [simp]: "oc' = oc" using row row' by simp
  note col = cols' [simplified LOCATION_COLUMNS_def, simplified]
  note b = bind_claimD [OF bound, unfolded oc' [simplified]]
  obtain kvs' st where c': "c = JObj kvs'" and st': "map_of kvs' ''status'' = Some (JStr st)" "st \<in> set claim_statuses"
    and opt': "or_null (enum claim_verification_methods) (entry_of kvs' ''verification_method'')"
      "or_null (enum claim_kinds) (entry_of kvs' ''claim_kind'')"
      "or_null (enum claim_assertion_classes) (entry_of kvs' ''assertion_class'')"
      "or_null (enum [''A'', ''E'', ''P'']) (entry_of kvs' ''period_kind'')"
    by (rule contract_claim [OF con]) (rule that)
  have [simp]: "kvs' = kvs" using c c' by simp
  note st = st' [simplified] and opt = opt' [simplified]
  obtain loc' k where l': "JObj loc = JObj loc'" and k': "map_of loc' ''kind'' = Some (JStr k)"
    and kinds: "k = ''pdf'' \<and> pdf_location (JObj loc) \<or> k = ''xlsx'' \<and> xlsx_location (JObj loc) \<or> k = ''docx'' \<and> docx_location (JObj loc)"
    by (rule contract_locator [OF l]) (rule that)
  have k: "map_of loc ''kind'' = Some (JStr k)" using l' k' by simp
  have [simp]: "clm_status r = st" "clm_kind r = k" using b(1,2) st(1) k by (simp_all add: entry_of_def bind_varchar_iff)
  show thesis
    using c st k kinds b(7-12) bind_varchar_enum [OF opt(1) b(3)] bind_varchar_enum [OF opt(2) b(4)]
      bind_varchar_enum [OF opt(3) b(5)] bind_varchar_enum [OF opt(4) b(6)] bound_None(2) [OF b(3)] bound_None(2) [OF b(5)] b(4)
    by (intro that [of kvs loc])
      (simp_all add: col bound_None entry_of_Some bind_varchar_iff)
qed

lemma locator_stored:
  assumes "contract c" "row_from_claim c = Inr oc" "bind_claim int_of i org sid now oc = Inr r"
  shows "ck_claims_locator_matches_kind r"
proof (rule contract_row [OF assms])
  fix loc
  assume loc: "clm_kind r = ''pdf'' \<and> pdf_location (JObj loc) \<or> clm_kind r = ''xlsx'' \<and> xlsx_location (JObj loc)
      \<or> clm_kind r = ''docx'' \<and> docx_location (JObj loc)"
    and cols: "clm_page r = None \<longleftrightarrow> entry_of loc ''page'' = JNull"
      "clm_paragraph r = None \<longleftrightarrow> entry_of loc ''paragraph'' = JNull"
      "clm_sheet r = None \<longleftrightarrow> entry_of loc ''sheet'' = JNull"
      "clm_cell_ref r = None \<longleftrightarrow> entry_of loc ''cell_ref'' = JNull"
  have "pdf_location (JObj loc) \<Longrightarrow> entry_of loc ''page'' \<noteq> JNull"
    using integer_required [of "[''kind'', ''page'']" loc "''page''"] by (simp add: pdf_location_def)
  moreover have "docx_location (JObj loc) \<Longrightarrow> entry_of loc ''paragraph'' \<noteq> JNull"
    using integer_required [of "[''kind'', ''paragraph'']" loc "''paragraph''"] by (simp add: docx_location_def)
  moreover have "xlsx_location (JObj loc) \<Longrightarrow> entry_of loc ''sheet'' \<noteq> JNull \<and> entry_of loc ''cell_ref'' \<noteq> JNull"
    using string_required [of "[''kind'', ''sheet'', ''cell_ref'']" loc] by (simp add: xlsx_location_def)
  ultimately show ?thesis using loc cols by (auto simp: ck_claims_locator_matches_kind_def)
qed

lemma span_stored:
  assumes con: "contract c" and rows: "row_from_claim c = Inr oc" "bind_claim int_of i org sid now oc = Inr r"
  shows "ck_claims_found_requires_span r" "ck_claims_missing_has_no_span r"
proof -
  obtain kvs loc where c: "c = JObj kvs" "map_of kvs ''location'' = Some (JObj loc)"
      "map_of kvs ''status'' = Some (JStr (clm_status r))" "map_of loc ''kind'' = Some (JStr (clm_kind r))"
    and loc: "clm_kind r = ''pdf'' \<and> pdf_location (JObj loc) \<or> clm_kind r = ''xlsx'' \<and> xlsx_location (JObj loc)
      \<or> clm_kind r = ''docx'' \<and> docx_location (JObj loc)"
    and cols: "clm_char_start r = None \<longleftrightarrow> entry_of loc ''char_start'' = JNull"
      "clm_char_end r = None \<longleftrightarrow> entry_of loc ''char_end'' = JNull"
    by (rule contract_row [OF assms]) (rule that)
  note rules = con [unfolded contract_def]
  show "ck_claims_found_requires_span r"
  proof (cases "clm_status r = ''missing'' \<or> clm_kind r = ''xlsx''")
    case False
    then have "required [''char_start'', ''char_end''] (JObj loc)"
      using rules loc c(2-4) by (auto simp: c(1) found_has_span_def required_def property_def enum_def)
    moreover have "property ''char_start'' is_integer (JObj loc)" "property ''char_end'' is_integer (JObj loc)"
      using loc False by (auto simp: pdf_location_def docx_location_def)
    ultimately show ?thesis
      using cols integer_required [of "[''char_start'', ''char_end'']" loc] by (simp add: ck_claims_found_requires_span_def)
  qed (auto simp: ck_claims_found_requires_span_def)
  show "ck_claims_missing_has_no_span r"
  proof (cases "clm_status r = ''missing''")
    case True
    then have "property ''char_start'' (\<lambda>_. False) (JObj loc)" "property ''char_end'' (\<lambda>_. False) (JObj loc)"
      using rules c(2,3) by (auto simp: c(1) missing_has_no_span_def required_def property_def enum_def)
    then show ?thesis using cols property_entry by (auto simp: ck_claims_missing_has_no_span_def)
  qed (simp add: ck_claims_missing_has_no_span_def)
qed

lemma basis_stored:
  assumes con: "contract c" and rows: "row_from_claim c = Inr oc" "bind_claim int_of i org sid now oc = Inr r"
  shows "ck_claims_checked_requires_method r" "ck_claims_qualitative_has_class r"
proof -
  obtain kvs where c: "c = JObj kvs" "map_of kvs ''status'' = Some (JStr (clm_status r))"
    and cols: "clm_verification_method r = None \<longleftrightarrow> entry_of kvs ''verification_method'' = JNull"
      "clm_assertion_class r = None \<longleftrightarrow> entry_of kvs ''assertion_class'' = JNull"
      "\<And>s. clm_claim_kind r = Some s \<Longrightarrow> map_of kvs ''claim_kind'' = Some (JStr s)"
    by (rule contract_row [OF assms]) (rule that)
  note rules = con [unfolded contract_def]
  show "ck_claims_checked_requires_method r"
  proof (cases "clm_status r \<in> set claim_checked_statuses")
    case True
    then have "required [''verification_method''] (JObj kvs)" "property ''verification_method'' is_string (JObj kvs)"
      using rules c(2) by (auto simp: c(1) checked_has_method_def required_def property_def enum_def claim_checked_statuses_def)
    then show ?thesis using cols(1) string_required [of _ kvs "''verification_method''"]
      by (auto simp: ck_claims_checked_requires_method_def)
  qed (simp add: ck_claims_checked_requires_method_def)
  show "ck_claims_qualitative_has_class r"
  proof (cases "clm_claim_kind r = Some ''qualitative''")
    case True
    then have "required [''assertion_class''] (JObj kvs)" "property ''assertion_class'' is_string (JObj kvs)"
      using rules cols(3) by (auto simp: c(1) qualitative_is_text_def required_def property_def enum_def)
    then show ?thesis using cols(2) string_required [of _ kvs "''assertion_class''"]
      by (auto simp: ck_claims_qualitative_has_class_def)
  qed (simp add: ck_claims_qualitative_has_class_def)
qed

lemma row_passes_checks:
  assumes "contract c" and "row_from_claim c = Inr oc" and "bind_claim int_of i org sid now oc = Inr r"
  shows "claim_checks r"
proof (rule contract_row [OF assms])
  assume "clm_status r \<in> set claim_statuses"
    and "null_or_in (clm_verification_method r) claim_verification_methods"
      "null_or_in (clm_claim_kind r) claim_kinds" "null_or_in (clm_assertion_class r) claim_assertion_classes"
      "null_or_in (clm_period_kind r) [''A'', ''E'', ''P'']"
  then have "ck_claims_status r" "ck_claims_verification_method r" "ck_claims_claim_kind r"
    "ck_claims_assertion_class r" "ck_claims_period_kind r"
    by (simp_all add: ck_claims_status_def ck_claims_verification_method_def ck_claims_claim_kind_def
        ck_claims_assertion_class_def ck_claims_period_kind_def)
  moreover have "ck_claims_kind r"
    using locator_stored [OF assms] by (auto simp: ck_claims_kind_def ck_claims_locator_matches_kind_def claim_location_kinds_def)
  ultimately show ?thesis
    using locator_stored [OF assms] span_stored [OF assms] basis_stored [OF assms] by (simp add: claim_checks_def)
qed

text \<open>
  C33: the contract implies the table's CHECKs. The row the script makes of a claim that keeps the
  contract, whenever its values bind to the columns at all, passes all eleven CHECK constraints of
  \<open>claims\<close>: a shape the store cannot hold is caught by the validation, never by the insert.
\<close>

theorem contract_implies_checks:
  assumes "contract c" and "row_from_claim c = Inr oc" and "bind_claim int_of i org sid now oc = Inr r"
  shows "claim_checks r"
  by (rule row_passes_checks [OF assms])

subsection \<open>Claims that can be stored\<close>

definition int_column :: "json \<Rightarrow> bool" where
  "int_column v \<longleftrightarrow> (case v of JNull \<Rightarrow> True | JInt i \<Rightarrow> int4 i | _ \<Rightarrow> False)"

text \<open>
  What the contract leaves open and the columns do not: a claim's integers are integers of 32
  bits (the contract also admits \<open>12.0\<close>), its cell reference has at most 16 characters, no
  string in it holds the character 0 and no number is infinite.
\<close>

definition fits_location :: "json \<Rightarrow> bool" where
  "fits_location l \<longleftrightarrow> property ''page'' int_column l \<and> property ''char_start'' int_column l
     \<and> property ''char_end'' int_column l \<and> property ''paragraph'' int_column l
     \<and> property ''cell_ref'' (\<lambda>v. case v of JStr s \<Rightarrow> length s \<le> 16 | _ \<Rightarrow> True) l"

definition fits_columns :: "json \<Rightarrow> bool" where
  "fits_columns c \<longleftrightarrow> storable c \<and> property ''period_year'' int_column c \<and> property ''location'' fits_location c"

text \<open>
  The row holds the claim: every column the script fills, and nothing in the ones it does not.
  An absent field and a \<open>null\<close> are stored alike, and so are no flags and an empty list of them.
\<close>

definition stored_locator :: "json \<Rightarrow> claim \<Rightarrow> bool" where
  "stored_locator l r \<longleftrightarrow> json_idx l ''kind'' = Inr (JStr (clm_kind r))
     \<and> json_get l ''page'' = Inr (opt_int (clm_page r))
     \<and> json_get l ''char_start'' = Inr (opt_int (clm_char_start r))
     \<and> json_get l ''char_end'' = Inr (opt_int (clm_char_end r))
     \<and> json_get l ''paragraph'' = Inr (opt_int (clm_paragraph r))
     \<and> json_get l ''sheet'' = Inr (opt_str (clm_sheet r))
     \<and> json_get l ''cell_ref'' = Inr (opt_str (clm_cell_ref r))
     \<and> (case l of JObj loc \<Rightarrow> clm_bbox r = map_of loc ''bbox'' | _ \<Rightarrow> False)"

definition stored_as :: "int \<Rightarrow> uuid \<Rightarrow> json \<Rightarrow> claim \<Rightarrow> bool" where
  "stored_as org sid c r \<longleftrightarrow> clm_org_id r = org \<and> clm_session_id r = Some sid
     \<and> clm_deal_id r = None \<and> clm_data_source_id r = None \<and> clm_chunk_id r = None
     \<and> clm_table_group_id r = None \<and> clm_fragment_order r = None
     \<and> json_idx c ''entity'' = Inr (JStr (clm_entity r))
     \<and> json_idx c ''attribute'' = Inr (JStr (clm_attribute r))
     \<and> json_idx c ''value'' = Inr (clm_value r)
     \<and> json_idx c ''status'' = Inr (JStr (clm_status r))
     \<and> json_get c ''period_year'' = Inr (opt_int (clm_period_year r))
     \<and> json_get c ''period_kind'' = Inr (opt_str (clm_period_kind r))
     \<and> json_get c ''verification_method'' = Inr (opt_str (clm_verification_method r))
     \<and> json_get c ''section'' = Inr (opt_str (clm_section r))
     \<and> json_get c ''claim_kind'' = Inr (opt_str (clm_claim_kind r))
     \<and> json_get c ''assertion_class'' = Inr (opt_str (clm_assertion_class r))
     \<and> (case json_get c ''flags'' of Inl _ \<Rightarrow> False
        | Inr v \<Rightarrow> py_or v JNull = (case clm_flags r of None \<Rightarrow> JNull | Some fs \<Rightarrow> JArr (map JStr fs)))
     \<and> (case json_idx c ''location'' of Inl _ \<Rightarrow> False | Inr l \<Rightarrow> stored_locator l r)"

text \<open>A bound value is the value of the claim.\<close>

lemma bound_value:
  "bind_text v = Inr x \<Longrightarrow> v = opt_str x" "bind_varchar n v = Inr x \<Longrightarrow> v = opt_str x"
  "int_column v \<Longrightarrow> bind_int int_of v = Inr i \<Longrightarrow> v = opt_int i"
  "bind_jsonb v = Inr j \<Longrightarrow> j = v"
proof -
  show "bind_text v = Inr x \<Longrightarrow> v = opt_str x" by (cases x) (simp_all add: bind_text_iff opt_str_def)
  show "bind_varchar n v = Inr x \<Longrightarrow> v = opt_str x" by (cases x) (simp_all add: bind_varchar_iff opt_str_def)
  show "int_column v \<Longrightarrow> bind_int int_of v = Inr i \<Longrightarrow> v = opt_int i"
    by (cases v) (auto simp: int_column_def bind_int_def opt_int_def split: if_splits)
  show "bind_jsonb v = Inr j \<Longrightarrow> j = v" by (simp add: bind_jsonb_def split: if_splits)
qed

lemma bound_flags:
  assumes "bind_text_array v = Inr fl"
  shows "v = (case fl of None \<Rightarrow> JNull | Some fs \<Rightarrow> JArr (map JStr fs))"
proof -
  have "smap (\<lambda>x. bind_not_null (bind_text x)) xs = Inr fs \<Longrightarrow> xs = map JStr fs" for xs fs
    by (induction xs arbitrary: fs) (auto simp: sbind_Inr_iff bind_not_null_iff bind_text_iff)
  then show ?thesis using assms by (auto simp: bind_text_array_def sbind_Inr_iff split: json.splits)
qed

lemma storable_entry: "storable (JObj kvs) \<Longrightarrow> storable (entry_of kvs k)"
  by (auto simp: entry_of_def list_all_iff split: option.split dest!: map_of_SomeD)

lemma bind_text_total: "or_null is_string v \<Longrightarrow> storable v \<Longrightarrow> \<exists>x. bind_text v = Inr x"
  by (auto simp: or_null_def bind_text_def elim!: is_stringE)

lemma bind_string_total: "is_string v \<Longrightarrow> storable v \<Longrightarrow> \<exists>s. v = JStr s \<and> bind_text v = Inr (Some s)"
  by (auto simp: bind_text_def elim!: is_stringE)

lemma bind_enum_total:
  "or_null (enum vs) v \<Longrightarrow> list_all (\<lambda>s. length s \<le> n) vs \<Longrightarrow> storable v \<Longrightarrow> \<exists>x. bind_varchar n v = Inr x"
  by (auto simp: or_null_def enum_def bind_varchar_def bind_text_def list_all_iff)

lemma bind_int_total: "int_column v \<Longrightarrow> \<exists>x. bind_int int_of v = Inr x \<and> v = opt_int x"
  by (cases v) (auto simp: int_column_def bind_int_def opt_int_def)

lemma int_column_entry: "property k int_column (JObj kvs) \<Longrightarrow> int_column (entry_of kvs k)"
  using property_entry [of k int_column kvs] by (auto simp: int_column_def)

lemma bind_flags_total:
  "or_null (array_of (enum vs)) v \<Longrightarrow> storable v \<Longrightarrow> \<exists>x. bind_text_array (py_or v JNull) = Inr x"
proof -
  have elems: "list_all (enum vs) xs \<Longrightarrow> list_all storable xs \<Longrightarrow> \<exists>ss. smap (\<lambda>x. bind_not_null (bind_text x)) xs = Inr ss" for xs
    by (induction xs) (auto simp: enum_def bind_text_def bind_not_null_def)
  assume "or_null (array_of (enum vs)) v" "storable v"
  then show ?thesis
    by (cases v) (auto simp: or_null_def py_or_def bind_text_array_def dest!: elems)
qed


lemma no_others_entry: "no_others ks (JObj loc) \<Longrightarrow> k \<notin> set ks \<Longrightarrow> entry_of loc k = JNull"
  by (force simp: no_others_def entry_of_def list_all_iff split: option.split dest: map_of_SomeD)

lemma bind_enum_string:
  "v = JStr s \<Longrightarrow> s \<in> set vs \<Longrightarrow> list_all (\<lambda>s. length s \<le> n) vs \<Longrightarrow> storable v \<Longrightarrow> bind_varchar n v = Inr (Some s)"
  by (simp add: bind_varchar_iff list_all_iff)

text \<open>The three locators, bound: only the kind's own columns are set.\<close>

lemma locator_binds:
  assumes kinds: "k = ''pdf'' \<and> pdf_location (JObj loc) \<or> k = ''xlsx'' \<and> xlsx_location (JObj loc) \<or> k = ''docx'' \<and> docx_location (JObj loc)"
    and st: "storable (JObj loc)" and fits: "fits_location (JObj loc)"
  shows "\<exists>x. bind_text (entry_of loc ''sheet'') = Inr x" and "\<exists>x. bind_varchar 16 (entry_of loc ''cell_ref'') = Inr x"
proof -
  have cell: "or_null is_string (entry_of loc ''sheet'')" "or_null is_string (entry_of loc ''cell_ref'')"
    using kinds no_others_entry [of _ loc "''sheet''"] no_others_entry [of _ loc "''cell_ref''"]
      property_entry [of "''sheet''" is_string loc] property_entry [of "''cell_ref''" is_string loc]
    by (auto simp: or_null_def pdf_location_def xlsx_location_def docx_location_def location_keys_def)
  show "\<exists>x. bind_text (entry_of loc ''sheet'') = Inr x"
    by (rule bind_text_total [OF cell(1) storable_entry [OF st]])
  show "\<exists>x. bind_varchar 16 (entry_of loc ''cell_ref'') = Inr x"
  proof (cases "entry_of loc ''cell_ref'' = JNull")
    case False
    with cell(2) obtain s where s: "entry_of loc ''cell_ref'' = JStr s" by (auto simp: or_null_def elim: is_stringE)
    with fits property_entry [of "''cell_ref''" "\<lambda>v. case v of JStr s \<Rightarrow> length s \<le> 16 | _ \<Rightarrow> True" loc]
    have "length s \<le> 16" by (auto simp: fits_location_def)
    with s storable_entry [OF st, of "''cell_ref''"] have "bind_varchar 16 (entry_of loc ''cell_ref'') = Inr (Some s)"
      by (simp add: bind_varchar_iff)
    then show ?thesis by blast
  qed (auto simp: bind_varchar_def bind_text_def)
qed

lemma location_binds:
  assumes l: "contract_location (JObj loc)" and st: "storable (JObj loc)" and fits: "fits_location (JObj loc)"
  obtains k sh cr pg cs ce pa where "entry_of loc ''kind'' = JStr k" "map_of loc ''kind'' = Some (JStr k)"
    and "bind_varchar 8 (JStr k) = Inr (Some k)"
    and "bind_text (entry_of loc ''sheet'') = Inr sh" "bind_varchar 16 (entry_of loc ''cell_ref'') = Inr cr"
    and "entry_of loc ''page'' = opt_int pg" "bind_int int_of (opt_int pg) = Inr pg"
    and "entry_of loc ''char_start'' = opt_int cs" "bind_int int_of (opt_int cs) = Inr cs"
    and "entry_of loc ''char_end'' = opt_int ce" "bind_int int_of (opt_int ce) = Inr ce"
    and "bind_int int_of (entry_of loc ''paragraph'') = Inr pa"
proof -
  obtain loc' k where l': "JObj loc = JObj loc'" and k': "map_of loc' ''kind'' = Some (JStr k)"
    and kinds: "k = ''pdf'' \<and> pdf_location (JObj loc) \<or> k = ''xlsx'' \<and> xlsx_location (JObj loc) \<or> k = ''docx'' \<and> docx_location (JObj loc)"
    by (rule contract_locator [OF l]) (rule that)
  have k: "entry_of loc ''kind'' = JStr k" "map_of loc ''kind'' = Some (JStr k)" using l' k' by (simp_all add: entry_of_def)
  have kd: "bind_varchar 8 (JStr k) = Inr (Some k)"
    using bind_enum_string [OF k(1) _ _ storable_entry [OF st], of claim_location_kinds 8] kinds k(1) by (auto simp: claim_location_kinds_def)
  obtain sh cr where sh: "bind_text (entry_of loc ''sheet'') = Inr sh" and cr: "bind_varchar 16 (entry_of loc ''cell_ref'') = Inr cr"
    using locator_binds [OF kinds st fits] by blast
  obtain pg cs ce pa where "bind_int int_of (entry_of loc ''page'') = Inr pg" "entry_of loc ''page'' = opt_int pg"
      "bind_int int_of (entry_of loc ''char_start'') = Inr cs" "entry_of loc ''char_start'' = opt_int cs"
      "bind_int int_of (entry_of loc ''char_end'') = Inr ce" "entry_of loc ''char_end'' = opt_int ce"
      "bind_int int_of (entry_of loc ''paragraph'') = Inr pa"
    using bind_int_total [OF int_column_entry, of _ loc int_of] fits unfolding fits_location_def by meson
  with k kd sh cr show thesis by (intro that [of k sh cr pg cs ce pa]) simp_all
qed

lemma options_bind:
  assumes st: "\<And>k. storable (entry_of kvs k)"
    and opt: "or_null (enum claim_verification_methods) (entry_of kvs ''verification_method'')"
      "or_null (enum claim_kinds) (entry_of kvs ''claim_kind'')"
      "or_null (enum claim_assertion_classes) (entry_of kvs ''assertion_class'')"
      "or_null (enum [''A'', ''E'', ''P'']) (entry_of kvs ''period_kind'')"
      "or_null is_string (entry_of kvs ''section'')" "or_null (array_of (enum contract_flags)) (entry_of kvs ''flags'')"
  obtains pk vm ck ac se fl where "bind_varchar 1 (entry_of kvs ''period_kind'') = Inr pk"
    and "bind_varchar 24 (entry_of kvs ''verification_method'') = Inr vm" "bind_varchar 12 (entry_of kvs ''claim_kind'') = Inr ck"
    and "bind_varchar 24 (entry_of kvs ''assertion_class'') = Inr ac" "bind_text (entry_of kvs ''section'') = Inr se"
    and "bind_text_array (py_or (entry_of kvs ''flags'') JNull) = Inr fl"
proof -
  have lens: "list_all (\<lambda>s. length s \<le> 24) claim_verification_methods" "list_all (\<lambda>s. length s \<le> 12) claim_kinds"
    "list_all (\<lambda>s. length s \<le> 24) claim_assertion_classes"
    by (simp_all add: claim_verification_methods_def claim_kinds_def claim_assertion_classes_def)
  obtain pk where "bind_varchar 1 (entry_of kvs ''period_kind'') = Inr pk" using bind_enum_total [OF opt(4) _ st, of 1] by auto
  moreover obtain vm where "bind_varchar 24 (entry_of kvs ''verification_method'') = Inr vm" using bind_enum_total [OF opt(1) lens(1) st] by blast
  moreover obtain ck where "bind_varchar 12 (entry_of kvs ''claim_kind'') = Inr ck" using bind_enum_total [OF opt(2) lens(2) st] by blast
  moreover obtain ac where "bind_varchar 24 (entry_of kvs ''assertion_class'') = Inr ac" using bind_enum_total [OF opt(3) lens(3) st] by blast
  moreover obtain se where "bind_text (entry_of kvs ''section'') = Inr se" using bind_text_total [OF opt(5) st] by blast
  moreover obtain fl where "bind_text_array (py_or (entry_of kvs ''flags'') JNull) = Inr fl" using bind_flags_total [OF opt(6) st] by blast
  ultimately show thesis by (rule that)
qed

lemma contract_binds:
  assumes con: "contract c" and fits: "fits_columns c"
  shows "\<exists>oc. row_from_claim c = Inr oc \<and> (\<forall>i org sid now. \<exists>r. bind_claim int_of i org sid now oc = Inr r)"
proof -
  obtain kvs loc oc where c: "c = JObj kvs" "map_of kvs ''location'' = Some (JObj loc)" and l: "contract_location (JObj loc)"
    and row: "row_from_claim c = Inr oc" and oc: "oc_entity oc = entry_of kvs ''entity''" "oc_attribute oc = entry_of kvs ''attribute''"
      "oc_value oc = entry_of kvs ''value''" "oc_period_year oc = entry_of kvs ''period_year''" "oc_section oc = entry_of kvs ''section''"
      "oc_flags oc = py_or (entry_of kvs ''flags'') JNull" "map_of (oc_location oc) ''bbox'' = map_of loc ''bbox''"
      "oc_status oc = entry_of kvs ''status''" "oc_verification_method oc = entry_of kvs ''verification_method''"
      "oc_claim_kind oc = entry_of kvs ''claim_kind''" "oc_assertion_class oc = entry_of kvs ''assertion_class''"
      "oc_period_kind oc = entry_of kvs ''period_kind''" "oc_kind oc = entry_of loc ''kind''"
    and cols: "\<And>k. k \<in> set LOCATION_COLUMNS \<Longrightarrow> location_value oc k = entry_of loc k"
    by (rule row_from_contract [OF con]) (rule that)
  obtain kvs' st where c': "c = JObj kvs'" and req': "is_string (entry_of kvs' ''entity'')" "is_string (entry_of kvs' ''attribute'')"
      "map_of kvs' ''entity'' = Some (entry_of kvs' ''entity'')" "map_of kvs' ''attribute'' = Some (entry_of kvs' ''attribute'')"
      "map_of kvs' ''value'' = Some (entry_of kvs' ''value'')" "map_of kvs' ''status'' = Some (JStr st)" "st \<in> set claim_statuses"
    and opt': "or_null (enum claim_verification_methods) (entry_of kvs' ''verification_method'')"
      "or_null (enum claim_kinds) (entry_of kvs' ''claim_kind'')"
      "or_null (enum claim_assertion_classes) (entry_of kvs' ''assertion_class'')"
      "or_null (enum [''A'', ''E'', ''P'']) (entry_of kvs' ''period_kind'')"
      "or_null is_string (entry_of kvs' ''section'')" "or_null (array_of (enum contract_flags)) (entry_of kvs' ''flags'')"
    by (rule contract_claim [OF con]) (rule that)
  have [simp]: "kvs' = kvs" using c c' by simp
  note req = req' [simplified] and opt = opt' [simplified]
  have st: "storable (entry_of kvs k)" for k using fits storable_entry by (simp add: fits_columns_def c(1))
  have loc: "storable (JObj loc)" "fits_location (JObj loc)"
    using st [of "''location''"] fits c(2) by (simp_all add: fits_columns_def c(1) entry_of_def property_def)
  have status: "entry_of kvs ''status'' = JStr st" using req(6) by (simp add: entry_of_def)
  obtain e where e: "entry_of kvs ''entity'' = JStr e" "bind_text (entry_of kvs ''entity'') = Inr (Some e)"
    using bind_string_total [OF req(1) st] by blast
  obtain a where a: "entry_of kvs ''attribute'' = JStr a" "bind_text (entry_of kvs ''attribute'') = Inr (Some a)"
    using bind_string_total [OF req(2) st] by blast
  obtain pk vm ck ac se fl where binds: "bind_varchar 1 (entry_of kvs ''period_kind'') = Inr pk"
    "bind_varchar 24 (entry_of kvs ''verification_method'') = Inr vm" "bind_varchar 12 (entry_of kvs ''claim_kind'') = Inr ck"
    "bind_varchar 24 (entry_of kvs ''assertion_class'') = Inr ac" "bind_text (entry_of kvs ''section'') = Inr se"
    "bind_text_array (py_or (entry_of kvs ''flags'') JNull) = Inr fl"
    by (rule options_bind [OF st opt])
  have lens: "list_all (\<lambda>s. length s \<le> 24) claim_statuses" by (simp add: claim_statuses_def)
  have sta: "bind_varchar 24 (JStr st) = Inr (Some st)"
    by (rule bind_enum_string [OF status req(7) lens st, unfolded status])
  obtain bb where bb: "bind_bbox oc = Inr bb"
    using storable_entry [OF loc(1), of "''bbox''"] by (auto simp: bind_bbox_def oc(7) bind_jsonb_def entry_of_def split: option.splits)
  have "\<exists>r. bind_claim int_of i org sid now oc = Inr r" for int_of i org sid now
  proof -
    obtain py where py: "bind_int int_of (entry_of kvs ''period_year'') = Inr py"
      using bind_int_total [OF int_column_entry] fits by (force simp: fits_columns_def c(1))
    obtain k sh cr pg cs ce pa where k: "entry_of loc ''kind'' = JStr k" "map_of loc ''kind'' = Some (JStr k)" "bind_varchar 8 (JStr k) = Inr (Some k)"
        and sheet: "bind_text (entry_of loc ''sheet'') = Inr sh" "bind_varchar 16 (entry_of loc ''cell_ref'') = Inr cr"
        and ints: "entry_of loc ''page'' = opt_int pg" "bind_int int_of (opt_int pg) = Inr pg"
          "entry_of loc ''char_start'' = opt_int cs" "bind_int int_of (opt_int cs) = Inr cs"
          "entry_of loc ''char_end'' = opt_int ce" "bind_int int_of (opt_int ce) = Inr ce"
          "bind_int int_of (entry_of loc ''paragraph'') = Inr pa"
      by (rule location_binds [OF l loc])
    show ?thesis
      using st [of "''value''"] req c(2) k(2)
      by (simp add: bind_claim_def oc cols LOCATION_COLUMNS_def e(1) e(2) [unfolded e(1)] a(1) a(2) [unfolded a(1)] py binds
          bind_jsonb_def k(1,3) ints bb sheet status sta bind_not_null_def c(1)
          json_get_entry del: json_get.simps One_nat_def)
  qed
  with row show ?thesis by blast
qed

lemma row_from_claimD:
  assumes "row_from_claim c = Inr oc"
  shows "json_idx c ''entity'' = Inr (oc_entity oc)" "json_idx c ''attribute'' = Inr (oc_attribute oc)"
    "json_idx c ''value'' = Inr (oc_value oc)" "json_idx c ''status'' = Inr (oc_status oc)"
    "sbind (json_idx c ''location'') (\<lambda>l. json_idx l ''kind'') = Inr (oc_kind oc)"
  using assms by (auto simp: row_from_claim_def sbind_Inr_iff)

lemma row_holds_claim:
  assumes con: "contract c" and fits: "fits_columns c" and row: "row_from_claim c = Inr oc"
    and bound: "bind_claim int_of i org sid now oc = Inr r"
  shows "stored_as org sid c r"
proof -
  obtain kvs loc oc' where c: "c = JObj kvs" "map_of kvs ''location'' = Some (JObj loc)"
    and row': "row_from_claim c = Inr oc'" and oc': "oc_entity oc' = entry_of kvs ''entity''"
      "oc_attribute oc' = entry_of kvs ''attribute''"
      "oc_value oc' = entry_of kvs ''value''" "oc_period_year oc' = entry_of kvs ''period_year''" "oc_section oc' = entry_of kvs ''section''"
      "oc_flags oc' = py_or (entry_of kvs ''flags'') JNull" "map_of (oc_location oc') ''bbox'' = map_of loc ''bbox''"
      "oc_status oc' = entry_of kvs ''status''" "oc_verification_method oc' = entry_of kvs ''verification_method''"
      "oc_claim_kind oc' = entry_of kvs ''claim_kind''" "oc_assertion_class oc' = entry_of kvs ''assertion_class''"
      "oc_period_kind oc' = entry_of kvs ''period_kind''" "oc_kind oc' = entry_of loc ''kind''"
    and cols': "\<And>k. k \<in> set LOCATION_COLUMNS \<Longrightarrow> location_value oc' k = entry_of loc k"
    by (rule row_from_contract [OF con]) (rule that)
  have [simp]: "oc' = oc" using row row' by simp
  note oc = oc' [simplified]
  have col: "location_value oc ''page'' = entry_of loc ''page''" "location_value oc ''char_start'' = entry_of loc ''char_start''"
    "location_value oc ''char_end'' = entry_of loc ''char_end''" "location_value oc ''paragraph'' = entry_of loc ''paragraph''"
    "location_value oc ''sheet'' = entry_of loc ''sheet''" "location_value oc ''cell_ref'' = entry_of loc ''cell_ref''"
    using cols' by (simp_all add: LOCATION_COLUMNS_def)
  note b = bind_claimD [OF bound, unfolded oc col]
  have "fits_location (JObj loc)" using fits c(2) by (simp add: fits_columns_def c(1) property_def)
  then have fit: "int_column (entry_of kvs ''period_year'')" "int_column (entry_of loc ''page'')" "int_column (entry_of loc ''char_start'')"
    "int_column (entry_of loc ''char_end'')" "int_column (entry_of loc ''paragraph'')"
    using fits unfolding fits_columns_def fits_location_def c(1) by (simp_all add: int_column_entry)
  have bbox: "clm_bbox r = map_of loc ''bbox''"
    using b(19) oc(7) by (auto simp: bind_bbox_def sbind_Inr_iff dest: bound_value(4) split: option.splits)
  have kind: "entry_of loc ''kind'' = JStr (clm_kind r)" "entry_of kvs ''status'' = JStr (clm_status r)"
    "entry_of kvs ''entity'' = JStr (clm_entity r)" "entry_of kvs ''attribute'' = JStr (clm_attribute r)"
    using b(1,2,13,14) by (simp_all add: bind_varchar_iff bind_text_iff)
  have at: "json_idx c ''entity'' = Inr (JStr (clm_entity r))" "json_idx c ''attribute'' = Inr (JStr (clm_attribute r))"
    "json_idx c ''value'' = Inr (clm_value r)" "json_idx c ''status'' = Inr (JStr (clm_status r))"
    "json_idx (JObj loc) ''kind'' = Inr (JStr (clm_kind r))" "json_idx c ''location'' = Inr (JObj loc)"
    using row_from_claimD [OF row] kind bound_value(4) [OF b(15)] c(2) by (simp_all add: oc c(1))
  have locator: "stored_locator (JObj loc) r"
    unfolding stored_locator_def json_get_entry
    using kind(1) at(5) bbox bound_value(3) [OF fit(2) b(7)] bound_value(3) [OF fit(3) b(8)] bound_value(3) [OF fit(4) b(9)]
      bound_value(3) [OF fit(5) b(10)] bound_value(1) [OF b(11)] bound_value(2) [OF b(12)] by simp
  show ?thesis
    unfolding stored_as_def at sum.case
    unfolding c(1) json_get_entry sum.case
    using locator b(20-) bound_value(3) [OF fit(1) b(16)] bound_value(2) [OF b(6)]
      bound_value(2) [OF b(3)] bound_value(1) [OF b(17)] bound_value(2) [OF b(4)] bound_value(2) [OF b(5)] bound_flags [OF b(18)] by simp
qed

subsection \<open>What a run stores\<close>

lemma org_of_policy: "org_of t d = Some r \<Longrightarrow> org_policy (Some t) d (org_id r)"
  unfolding org_of_def by (drule first_match_Some) (auto simp: org_policy_def clerk_policy_def)

lemma demo_org_known:
  "guc w = Some t \<Longrightarrow> org_of t (db w) = Some r \<Longrightarrow> demo_org t w = (Inr (org_id r), w)"
  using org_pk_scoped [of w t]
  by (auto simp: demo_org_def org_pk_def sql_first_def bnd_app)

lemma insert_claim_run:
  assumes c: "contract c" "fits_columns c" "row_from_claim c = Inr oc"
    and s: "guc s = Some t" "org_policy (Some t) (db s) org"
    and new: "rnd s (rnd_next s) \<notin> clm_id ` set (t_claims (db s))" "distinct (map clm_id (t_claims (db s)))"
  shows "\<exists>r. insert_claim int_of org sid oc s
      = (Inr (), s\<lparr>db := t_claims_update (\<lambda>rs. rs @ [r]) (db s), rnd_next := Suc (rnd_next s)\<rparr>)
    \<and> stored_as org sid c r \<and> clm_id r = rnd s (rnd_next s)"
proof -
  from contract_binds [OF c(1,2)] c(3) obtain r where bound: "bind_claim int_of (rnd s (rnd_next s)) org sid (clock s) oc = Inr r"
    by fastforce
  note r = bound bind_claimD(20,24,23) [OF bound] row_holds_claim [OF c bound]
  have "claim_checks r" by (rule row_passes_checks [OF c(1,3) r(1)])
  moreover have "clm_org_id r = org" using r(5) by (simp add: stored_as_def)
  moreover have "org \<in> org_ids (db s)" using s(2) by (rule org_policy_id)
  ultimately have "insert_error claims_table r (s\<lparr>rnd_next := Suc (rnd_next s)\<rparr>) = None"
    using s new r(2-4) by (simp add: insert_error_def visible_def refers_def)
  then have "insert_claim int_of org sid oc s
      = (Inr (), s\<lparr>db := t_claims_update (\<lambda>rs. rs @ [r]) (db s), rnd_next := Suc (rnd_next s)\<rparr>)"
    by (simp add: insert_claim_def gen_random_uuid_def utc_now_def r(1) sql_insert_def bnd_app)
  with r show ?thesis by blast
qed

lemma claims_inserted:
  assumes "list_all contract cs" "list_all fits_columns cs" "smap row_from_claim cs = Inr ocs"
    and "guc s = Some t" "org_policy (Some t) (db s) org"
    and "distinct (map clm_id (t_claims (db s)) @ map (rnd s) [rnd_next s..<rnd_next s + length cs])"
  shows "\<exists>s' xs rows. mmap (insert_claim int_of org sid) ocs s = (Inr xs, s') \<and> guc s' = Some t \<and> uow s' = uow s
    \<and> db s' = t_claims_update (\<lambda>rs. rs @ rows) (db s) \<and> list_all2 (stored_as org sid) cs rows"
  using assms
proof (induction cs arbitrary: ocs s)
  case Nil
  then show ?case by (intro exI [of _ s] exI [of _ "[]"]) simp
next
  case (Cons c cs)
  from Cons.prems(3) obtain oc ocs' where ocs: "ocs = oc # ocs'" "row_from_claim c = Inr oc" "smap row_from_claim cs = Inr ocs'"
    by (auto simp: sbind_Inr_iff)
  have upt: "[rnd_next s..<rnd_next s + length (c # cs)] = rnd_next s # [Suc (rnd_next s)..<Suc (rnd_next s) + length cs]"
    by (simp add: upt_rec)
  note ids = Cons.prems(6) [unfolded upt]
  obtain r where r: "insert_claim int_of org sid oc s
      = (Inr (), s\<lparr>db := t_claims_update (\<lambda>rs. rs @ [r]) (db s), rnd_next := Suc (rnd_next s)\<rparr>)"
    "stored_as org sid c r" "clm_id r = rnd s (rnd_next s)"
    using insert_claim_run [OF _ _ ocs(2) Cons.prems(4,5), of int_of sid] Cons.prems(1,2) ids by auto
  let ?s = "s\<lparr>db := t_claims_update (\<lambda>rs. rs @ [r]) (db s), rnd_next := Suc (rnd_next s)\<rparr>"
  have "\<exists>s' xs rows. mmap (insert_claim int_of org sid) ocs' ?s = (Inr xs, s') \<and> guc s' = Some t \<and> uow s' = uow ?s
    \<and> db s' = t_claims_update (\<lambda>rs. rs @ rows) (db ?s) \<and> list_all2 (stored_as org sid) cs rows"
    using Cons.prems ids r(3) by (intro Cons.IH ocs) auto
  then obtain s' xs rows where rest: "mmap (insert_claim int_of org sid) ocs' ?s = (Inr xs, s')" "guc s' = Some t" "uow s' = uow s"
    "db s' = t_claims_update (\<lambda>rs. rs @ rows) (db ?s)" "list_all2 (stored_as org sid) cs rows" by auto
  show ?case
    using rest r(2) by (intro exI [of _ s'] exI [of _ "() # xs"] exI [of _ "r # rows"]) (simp add: ocs r(1) comp_def)
qed

lemma rows_of_contract:
  "list_all contract cs \<Longrightarrow> list_all fits_columns cs \<Longrightarrow> \<exists>ocs. smap row_from_claim cs = Inr ocs"
proof (induction cs)
  case (Cons c cs)
  then show ?case using contract_binds [of c] by fastforce
qed simp

lemma validate_ok: "list_all (\<lambda>c. errors_of c = []) cs \<Longrightarrow> validate_from errors_of i cs = Inr ()"
  by (induction cs arbitrary: i) simp_all

lemma validate_fails: "list_ex (\<lambda>c. errors_of c \<noteq> []) cs \<Longrightarrow> \<exists>m. validate_from errors_of i cs = Inl (SystemExit m)"
proof (induction cs arbitrary: i)
  case (Cons c cs)
  show ?case
  proof (cases "sort_key fst (errors_of c)")
    case Nil
    then have "errors_of c = []" by (metis set_empty set_sort)
    with Cons Nil show ?thesis by simp
  qed auto
qed simp

text \<open>
  C34: what a committed run stores. When jsonschema decides the contract, every claim of the
  payload keeps it and fits the columns, and the tenant exists, the run returns and has appended
  one row per claim, in order, each holding its claim, owned by the tenant and tagged with the
  run's session id; no other table and no other row changes.
\<close>

theorem claims_stored:
  assumes lib: "validates errors_of" and payload: "json_idx payload ''claims'' = Inr (JArr claims)"
    and claims: "list_all contract claims" "list_all fits_columns claims"
    and org: "org_of org_key (db w) = Some r"
    and ids: "distinct (map clm_id (t_claims (db w)) @ map (rnd w) [rnd_next w..<rnd_next w + length claims])"
  shows "\<exists>w' rows. run_ingest_claims errors_of int_of payload org_key True sid w = (Inr (), w')
    \<and> db w' = t_claims_update (\<lambda>rs. rs @ rows) (db w) \<and> list_all2 (stored_as (org_id r) sid) claims rows"
proof -
  let ?s = "w\<lparr>uow := [], guc := Some org_key\<rparr>"
  obtain ocs where ocs: "smap row_from_claim claims = Inr ocs" using rows_of_contract [OF claims] by blast
  have "org_policy (Some org_key) (db ?s) (org_id r)" using org_of_policy [OF org] by simp
  from claims_inserted [OF claims ocs _ this, of int_of sid] ids obtain s' xs rows where
    run: "mmap (insert_claim int_of (org_id r) sid) ocs ?s = (Inr xs, s')" "uow s' = []"
      "db s' = t_claims_update (\<lambda>rs. rs @ rows) (db w)" "list_all2 (stored_as (org_id r) sid) claims rows" by auto
  have "validate_from errors_of 0 claims = Inr ()"
    using lib claims(1) by (intro validate_ok) (auto simp: validates_def list_all_iff)
  then have "run_ingest_claims errors_of int_of payload org_key True sid w
      = (Inr (), s'\<lparr>guc := None\<rparr>)"
    using run(1,2) org by (simp add: run_ingest_claims_def payload store_claims_def in_transaction_def set_org_scope_def bnd_assoc
        demo_org_known ocs flush_def run_writes.simps bnd_app)
  with run show ?thesis by auto
qed

lemma dry_run_stores_nothing: "db (snd (store_claims int_of org_key claims sid False w)) = db w"
proof (cases "store_claims int_of org_key claims sid False w")
  case (Pair x w')
  show ?thesis
  proof (cases x)
    case (Inl e)
    with Pair show ?thesis by (simp add: store_claims_def) (metis transaction_Inl)
  next
    case (Inr u)
    with Pair show ?thesis by (auto simp: store_claims_def elim!: transaction_InrE bnd_InrE)
  qed
qed

lemma lift_then_db: "(\<And>x. db (snd (k x w)) = db w) \<Longrightarrow> db (snd (bnd (lift_sum m) k w)) = db w"
  by (cases m) simp_all

lemma session_then_db: "(\<And>i v. db (snd (k i v)) = db v) \<Longrightarrow> db (snd (bnd (run_session_id arg) k w)) = db w"
  by (auto simp: run_session_id_def gen_random_uuid_def bnd_app lift_sum_def split: option.split sum.split)

lemma dry_run_ingest: "db (snd (run_ingest_claims errors_of int_of payload org_key False sid w)) = db w"
  unfolding run_ingest_claims_def by (intro lift_then_db dry_run_stores_nothing)

lemma failed_ingest:
  "run_ingest_claims errors_of int_of payload org_key commit sid w = (Inl e, w') \<Longrightarrow> db w' = db w"
  by (auto simp: run_ingest_claims_def lift_sum_def store_claims_def bnd_app split: sum.splits dest: transaction_Inl)

lemma failed_main:
  assumes "ingest_claims_main errors_of int_of payload org_key commit arg w = (Inl e, w')"
  shows "db w' = db w"
proof (rule bnd_InlE [OF assms [unfolded ingest_claims_main_def]])
  assume "run_session_id arg w = (Inl e, w')"
  then show ?thesis by (auto simp: run_session_id_def gen_random_uuid_def lift_sum_def split: option.splits if_splits sum.splits)
next
  fix i v
  assume i: "run_session_id arg w = (Inr i, v)"
    and run: "try_catch (run_ingest_claims errors_of int_of payload org_key commit i)
        (\<lambda>e. case e of DryRunRollback \<Rightarrow> ret () | _ \<Rightarrow> throw e) v = (Inl e, w')"
  from i have "db v = db w" by (auto simp: run_session_id_def gen_random_uuid_def lift_sum_def split: option.splits if_splits sum.splits)
  moreover from run have "\<exists>e'. run_ingest_claims errors_of int_of payload org_key commit i v = (Inl e', w')"
    by (auto simp: try_catch_def split: prod.splits sum.splits exn.splits)
  then have "db w' = db v" using failed_ingest by blast
  ultimately show ?thesis by simp
qed

text \<open>
  C35: nothing reaches the store unasked or by halves. Without \<open>--commit\<close> the script changes no
  table, whatever the payload and however it ends. A run that fails, with \<open>--commit\<close> too and at
  whatever statement, changes no table either. And a payload in which jsonschema finds an error
  in any claim ends the script before the first statement.
\<close>

theorem claims_guarded:
  "db (snd (ingest_claims_main errors_of int_of payload org_key False arg w)) = db w
   \<and> (case ingest_claims_main errors_of int_of payload org_key commit arg w of
        (Inl e, w') \<Rightarrow> db w' = db w | (Inr _, _) \<Rightarrow> True)
   \<and> (json_idx payload ''claims'' = Inr (JArr claims) \<and> list_ex (\<lambda>c. errors_of c \<noteq> []) claims
      \<longrightarrow> (\<exists>m. run_ingest_claims errors_of int_of payload org_key commit sid w = (Inl (SystemExit m), w)))"
proof (intro conjI impI)
  have run: "db (snd (try_catch (run_ingest_claims errors_of int_of payload org_key False i)
        (\<lambda>e. case e of DryRunRollback \<Rightarrow> ret () | _ \<Rightarrow> throw e) v)) = db v" for i v
    using dry_run_ingest [of errors_of int_of payload org_key i v]
    by (auto simp: try_catch_def split: prod.split sum.split exn.split)
  show "db (snd (ingest_claims_main errors_of int_of payload org_key False arg w)) = db w"
    unfolding ingest_claims_main_def by (rule session_then_db) (rule run)
next
  show "case ingest_claims_main errors_of int_of payload org_key commit arg w of
      (Inl e, w') \<Rightarrow> db w' = db w | (Inr _, _) \<Rightarrow> True"
    by (cases "ingest_claims_main errors_of int_of payload org_key commit arg w")
      (auto simp: failed_main split: sum.split)
next
  assume bad: "json_idx payload ''claims'' = Inr (JArr claims) \<and> list_ex (\<lambda>c. errors_of c \<noteq> []) claims"
  then obtain m where "validate_from errors_of 0 claims = Inl (SystemExit m)" using validate_fails by blast
  with bad show "\<exists>m. run_ingest_claims errors_of int_of payload org_key commit sid w = (Inl (SystemExit m), w)"
    by (simp add: run_ingest_claims_def)
qed

end
