(* ===== verification/Binary64.thy ===== *)
theory Binary64
  imports Complex_Main "HOL-Library.Log_Nat"
begin

section \<open>Floating-point numbers\<close>

text \<open>
  Python's \<open>float\<close> is an IEEE 754 binary64 number. Here it is the rational it stands for, and an
  operation is the exact one followed by \<open>b64\<close>, the rounding to the nearest number of that format,
  ties to the even significand, with gradual underflow. Infinities and NaN are left out: what is
  computed with these numbers says how it stays below the largest of them. Zero has no sign,
  which no comparison and no sum of the program tells apart.
\<close>

definition round_even :: "rat \<Rightarrow> int" where
  "round_even x = (let f = \<lfloor>x\<rfloor>; d = x - of_int f in if d < 1 / 2 \<or> d = 1 / 2 \<and> even f then f else f + 1)"

text \<open>The exponent of the leading binary digit of a positive number.\<close>

definition leading_exponent :: "rat \<Rightarrow> int" where
  "leading_exponent x = (if 1 \<le> x then bitlen \<lfloor>x\<rfloor> - 1 else - bitlen (\<lceil>1 / x\<rceil> - 1))"

text \<open>The exponent of the last place, with 53 digits or at the bottom of the subnormal range.\<close>

definition last_exponent :: "rat \<Rightarrow> int" where
  "last_exponent x = max (leading_exponent \<bar>x\<bar> - 52) (- 1074)"

definition b64 :: "rat \<Rightarrow> rat" where
  "b64 x = (if x = 0 then 0 else of_int (round_even (x / 2 powi last_exponent x)) * 2 powi last_exponent x)"

definition fl_add :: "rat \<Rightarrow> rat \<Rightarrow> rat" where
  "fl_add x y = b64 (x + y)"

definition fl_div :: "rat \<Rightarrow> rat \<Rightarrow> rat" where
  "fl_div x y = b64 (x / y)"

text \<open>Beyond the largest double, about \<open>1.8 * 10 ^ 308\<close>: the program would hold an infinity.\<close>

definition out_of_range :: "rat \<Rightarrow> bool" where
  "out_of_range x \<longleftrightarrow> x \<noteq> 0 \<and> 1024 \<le> leading_exponent \<bar>x\<bar>"

subsection \<open>Rounding to an integer\<close>

lemma round_even_near: "\<bar>of_int (round_even x) - x\<bar> \<le> 1 / 2"
proof -
  have "of_int \<lfloor>x\<rfloor> \<le> x" "x < of_int \<lfloor>x\<rfloor> + 1" by linarith+
  then show ?thesis by (auto simp: round_even_def Let_def abs_le_iff)
qed

lemma round_even_of_int [simp]: "round_even (of_int n) = n"
  by (simp add: round_even_def)

lemma round_even_closest: "\<bar>of_int (round_even x) - x\<bar> \<le> \<bar>of_int n - x\<bar>"
proof (cases "n = round_even x")
  case False
  then have "1 \<le> \<bar>n - round_even x\<bar>" by linarith
  then have "1 \<le> \<bar>of_int n - of_int (round_even x) :: rat\<bar>"
    by (metis of_int_1_le_iff of_int_abs of_int_diff)
  with round_even_near [of x] show ?thesis by linarith
qed simp

lemma round_even_ties: "x = of_int n + 1 / 2 \<Longrightarrow> even (round_even x)"
proof -
  assume x: "x = of_int n + 1 / 2"
  then have "\<lfloor>x\<rfloor> = n" by linarith
  with x show ?thesis by (simp add: round_even_def Let_def)
qed

subsection \<open>The leading digit\<close>

lemma bitlen_encloses:
  assumes "1 \<le> n"
  shows "1 \<le> bitlen n" and "(2 :: rat) ^ nat (bitlen n - 1) \<le> of_int n" and "of_int n + 1 \<le> (2 :: rat) ^ nat (bitlen n)"
proof -
  have b: "2 ^ nat (bitlen n - 1) \<le> n" "n < 2 ^ nat (bitlen n)" using bitlen_bounds [of n] assms by simp_all
  show "1 \<le> bitlen n" using bitlen_nonneg [of n] bitlen_eq_zero_iff [of n] assms by linarith
  have "of_int (2 ^ nat (bitlen n - 1)) \<le> (of_int n :: rat)" using b(1) by (simp only: of_int_le_iff)
  then show "(2 :: rat) ^ nat (bitlen n - 1) \<le> of_int n" by (simp only: of_int_power of_int_numeral)
  have "of_int (n + 1) \<le> (of_int (2 ^ nat (bitlen n)) :: rat)" using b(2) by (simp only: of_int_le_iff zless_imp_add1_zle)
  then show "of_int n + 1 \<le> (2 :: rat) ^ nat (bitlen n)" by (simp only: of_int_add of_int_1 of_int_power of_int_numeral)
qed

lemma leading_exponent_bounds:
  assumes "0 < x"
  shows "2 powi leading_exponent x \<le> x" and "x < 2 powi (leading_exponent x + 1)"
proof -
  have both: "2 powi leading_exponent x \<le> x \<and> x < 2 powi (leading_exponent x + 1)"
  proof (cases "1 \<le> x")
    case True
    define n where "n = \<lfloor>x\<rfloor>"
    have n: "1 \<le> n" "of_int n \<le> x" "x < of_int n + 1" using True by (simp_all add: n_def le_floor_iff) linarith
    note b = bitlen_encloses [OF n(1)]
    have "2 ^ nat (bitlen n - 1) \<le> x" "x < 2 ^ nat (bitlen n)" using b(2,3) n(2,3) by linarith+
    moreover have "leading_exponent x = bitlen n - 1" using True by (simp add: leading_exponent_def n_def)
    ultimately show ?thesis using b(1) by (simp add: power_int_def)
  next
    case False
    define n where "n = \<lceil>1 / x\<rceil> - 1"
    have "1 < 1 / x" using assms False by simp
    then have n: "1 \<le> n" "of_int n < 1 / x" "1 / x \<le> of_int n + 1" unfolding n_def by linarith+
    note b = bitlen_encloses [OF n(1)]
    have e: "leading_exponent x = - bitlen n" using False by (simp add: leading_exponent_def n_def)
    have "2 ^ nat (bitlen n - 1) < 1 / x" "1 / x \<le> 2 ^ nat (bitlen n)" using b(2,3) n(2,3) by linarith+
    then have "1 / 2 ^ nat (bitlen n) \<le> x" "x < 1 / 2 ^ nat (bitlen n - 1)" using assms by (simp_all add: field_simps)
    moreover have "(2 :: rat) powi - bitlen n = 1 / 2 ^ nat (bitlen n)" using b(1) by (simp add: power_int_def inverse_eq_divide power_one_over)
    moreover have "(2 :: rat) powi (- bitlen n + 1) = 1 / 2 ^ nat (bitlen n - 1)"
      using b(1) by (cases "bitlen n = 1") (simp_all add: power_int_def inverse_eq_divide power_one_over)
    ultimately show ?thesis unfolding e by simp
  qed
  then show "2 powi leading_exponent x \<le> x" and "x < 2 powi (leading_exponent x + 1)" by simp_all
qed

subsection \<open>Rounding to a double\<close>

text \<open>The numbers of the format, its upper end aside.\<close>

definition representable :: "rat \<Rightarrow> bool" where
  "representable x \<longleftrightarrow> (\<exists>m e. x = of_int m * 2 powi e \<and> \<bar>m\<bar> \<le> 2 ^ 53 \<and> - 1074 \<le> e)"

lemma two_powi_pos [simp]: "0 < (2 :: rat) powi e" and two_powi_nonzero [simp]: "(2 :: rat) powi e \<noteq> 0"
  by simp_all

lemma powi_int_multiple:
  assumes "e \<le> e'"
  shows "\<exists>k. (2 :: rat) powi e' = of_int k * 2 powi e"
proof -
  have "(2 :: rat) powi e' = 2 powi (e' - e) * 2 powi e" by (simp flip: power_int_add)
  also have "2 powi (e' - e) = (of_int (2 ^ nat (e' - e)) :: rat)" using assms by (simp add: power_int_def)
  finally show ?thesis by blast
qed

lemma b64_0 [simp]: "b64 0 = 0"
  by (simp add: b64_def)

lemma b64_half_place: "\<bar>b64 x - x\<bar> \<le> 2 powi last_exponent x / 2"
proof (cases "x = 0")
  case False
  let ?u = "(2 :: rat) powi last_exponent x"
  have "b64 x - x = (of_int (round_even (x / ?u)) - x / ?u) * ?u" using False by (simp add: b64_def field_simps)
  then have "\<bar>b64 x - x\<bar> = \<bar>of_int (round_even (x / ?u)) - x / ?u\<bar> * ?u" by (simp add: abs_mult)
  also have "\<dots> \<le> 1 / 2 * ?u" by (intro mult_right_mono round_even_near) simp
  finally show ?thesis by simp
qed simp

lemma last_place: "2 powi last_exponent x \<le> 2 * (\<bar>x\<bar> / 2 ^ 53) + 1 / 2 ^ 1074"
  if "x \<noteq> 0"
proof -
  have lead: "2 powi leading_exponent \<bar>x\<bar> \<le> \<bar>x\<bar>" using leading_exponent_bounds(1) [of "\<bar>x\<bar>"] that by simp
  have "(2 :: rat) powi (leading_exponent \<bar>x\<bar> - 52) = 2 * (2 powi leading_exponent \<bar>x\<bar> / 2 ^ 53)"
    by (simp add: power_int_diff power_int_numeral)
  also have "\<dots> \<le> 2 * (\<bar>x\<bar> / 2 ^ 53)" using lead by (simp add: divide_right_mono)
  finally have a: "(2 :: rat) powi (leading_exponent \<bar>x\<bar> - 52) \<le> 2 * (\<bar>x\<bar> / 2 ^ 53)" .
  have b: "(2 :: rat) powi - 1074 = 1 / 2 ^ 1074" by (simp only: power_int_minus power_int_numeral inverse_eq_divide)
  show ?thesis
  proof (cases "leading_exponent \<bar>x\<bar> - 52 \<le> - 1074")
    case True
    then have "last_exponent x = - 1074" by (simp add: last_exponent_def)
    then show ?thesis using b by (simp only:) simp
  next
    case False
    then have "last_exponent x = leading_exponent \<bar>x\<bar> - 52" by (simp add: last_exponent_def)
    with a have "2 powi last_exponent x \<le> 2 * (\<bar>x\<bar> / 2 ^ 53)" by simp
    moreover have "0 \<le> (1 :: rat) / 2 ^ 1074" by simp
    ultimately show ?thesis by linarith
  qed
qed

text \<open>The error of one rounding: half a unit in the last of 53 digits, or of the subnormal range.\<close>

lemma b64_error: "\<bar>b64 x - x\<bar> \<le> \<bar>x\<bar> / 2 ^ 53 + 1 / 2 ^ 1075"
proof (cases "x = 0")
  case False
  have "2 powi last_exponent x / 2 \<le> (2 * (\<bar>x\<bar> / 2 ^ 53) + 1 / 2 ^ 1074) / 2"
    by (intro divide_right_mono last_place False) simp
  also have "\<dots> = \<bar>x\<bar> / 2 ^ 53 + 1 / 2 ^ 1075"
    by (simp only: add_divide_distrib) (simp add: power_add [of 2 1074 1, simplified])
  finally show ?thesis using b64_half_place [of x] by linarith
qed simp

lemma representable_b64: "representable (b64 x)"
proof (cases "x = 0")
  case True
  then show ?thesis by (auto simp: representable_def intro!: exI [of _ 0])
next
  case False
  let ?e = "last_exponent x"
  have "\<bar>x\<bar> < 2 powi (leading_exponent \<bar>x\<bar> + 1)" using leading_exponent_bounds(2) [of "\<bar>x\<bar>"] False by simp
  also have "\<dots> \<le> 2 powi (?e + 53)" by (intro power_int_increasing) (simp_all add: last_exponent_def)
  also have "\<dots> = 2 ^ 53 * 2 powi ?e" by (simp add: power_int_add power_int_numeral)
  finally have "\<bar>x / 2 powi ?e\<bar> < 2 ^ 53" by (simp add: abs_divide field_simps)
  then have "\<bar>of_int (round_even (x / 2 powi ?e)) :: rat\<bar> < 2 ^ 53 + 1"
    using round_even_near [of "x / 2 powi ?e"] by linarith
  then have "of_int \<bar>round_even (x / 2 powi ?e)\<bar> < (of_int (2 ^ 53 + 1) :: rat)"
    by (simp only: of_int_abs of_int_add of_int_1 of_int_power of_int_numeral)
  then have "\<bar>round_even (x / 2 powi ?e)\<bar> < 2 ^ 53 + 1" by (simp only: of_int_less_iff)
  then have "\<bar>round_even (x / 2 powi ?e)\<bar> \<le> 2 ^ 53" by linarith
  moreover have "- 1074 \<le> ?e" by (simp add: last_exponent_def)
  moreover have "b64 x = of_int (round_even (x / 2 powi ?e)) * 2 powi ?e" using False by (simp add: b64_def)
  ultimately show ?thesis unfolding representable_def by blast
qed

lemma b64_multiple: "\<bar>b64 x - x\<bar> \<le> \<bar>of_int k * 2 powi last_exponent x - x\<bar>"
proof (cases "x = 0")
  case False
  let ?u = "(2 :: rat) powi last_exponent x"
  have "\<bar>of_int (round_even (x / ?u)) - x / ?u\<bar> * ?u \<le> \<bar>of_int k - x / ?u\<bar> * ?u"
    by (intro mult_right_mono round_even_closest) simp
  moreover have "\<bar>of_int n - x / ?u\<bar> * ?u = \<bar>of_int n * ?u - x\<bar>" for n
  proof -
    have "of_int n * ?u - x = (of_int n - x / ?u) * ?u" by (simp add: field_simps)
    then show ?thesis by (simp add: abs_mult)
  qed
  ultimately show ?thesis using False by (simp add: b64_def)
qed simp

text \<open>Rounding takes the nearest number of the format.\<close>

lemma b64_nearest:
  assumes "representable y"
  shows "\<bar>b64 x - x\<bar> \<le> \<bar>y - x\<bar>"
proof (cases "x = 0")
  case False
  obtain m e where y: "y = of_int m * 2 powi e" "\<bar>m\<bar> \<le> 2 ^ 53" "- 1074 \<le> e" using assms by (auto simp: representable_def)
  show ?thesis
  proof (cases "last_exponent x \<le> e")
    case True
    then obtain k where "(2 :: rat) powi e = of_int k * 2 powi last_exponent x" using powi_int_multiple by blast
    with y(1) have "y = of_int (m * k) * 2 powi last_exponent x" by simp
    then show ?thesis using b64_multiple by blast
  next
    case below: False
    let ?l = "leading_exponent \<bar>x\<bar>"
    have last: "last_exponent x = ?l - 52" using below y(3) by (simp add: last_exponent_def max_def split: if_splits)
    have "\<bar>y\<bar> \<le> 2 ^ 53 * 2 powi e"
    proof -
      have "of_int \<bar>m\<bar> \<le> (of_int (2 ^ 53) :: rat)" using y(2) by (simp only: of_int_le_iff)
      then have "\<bar>of_int m\<bar> \<le> (2 ^ 53 :: rat)" by (simp only: of_int_abs of_int_power of_int_numeral)
      then show ?thesis by (simp add: y(1) abs_mult)
    qed
    also have "\<dots> \<le> 2 ^ 53 * 2 powi (?l - 53)" using below last by (intro mult_left_mono power_int_increasing) simp_all
    also have "\<dots> = 2 powi ?l" by (simp add: power_int_diff power_int_numeral)
    finally have yl: "\<bar>y\<bar> \<le> 2 powi ?l" .
    have xl: "2 powi ?l \<le> \<bar>x\<bar>" using leading_exponent_bounds(1) [of "\<bar>x\<bar>"] False by simp
    have edge: "2 powi ?l = of_int (2 ^ 52) * (2 :: rat) powi last_exponent x"
      by (simp add: last power_int_diff power_int_numeral)
    show ?thesis
    proof (cases "0 \<le> x")
      case True
      with b64_multiple [of x "2 ^ 52"] yl xl show ?thesis unfolding edge [symmetric] by linarith
    next
      case neg: False
      with b64_multiple [of x "- (2 ^ 52)"] yl xl show ?thesis
        unfolding of_int_minus mult_minus_left edge [symmetric] by linarith
    qed
  qed
qed simp

lemma b64_representable: "representable x \<Longrightarrow> b64 x = x"
  using b64_nearest [of x x] by simp

lemma representable_int: "\<bar>n\<bar> \<le> 2 ^ 53 \<Longrightarrow> representable (of_int n)"
  unfolding representable_def by (intro exI [of _ n] exI [of _ 0]) simp

lemma out_of_range_ge: "out_of_range x \<Longrightarrow> 2 ^ 1024 \<le> \<bar>x\<bar>"
proof -
  assume x: "out_of_range x"
  have "(2 :: rat) ^ 1024 = 2 powi 1024" by (simp only: power_int_numeral)
  also have "\<dots> \<le> 2 powi leading_exponent \<bar>x\<bar>" using x by (intro power_int_increasing) (simp_all add: out_of_range_def)
  also have "\<dots> \<le> \<bar>x\<bar>" using x leading_exponent_bounds(1) [of "\<bar>x\<bar>"] by (simp add: out_of_range_def)
  finally show ?thesis .
qed

subsection \<open>Adding up a list\<close>

text \<open>The terms are rounded, then added one after the other.\<close>

definition float_sum :: "rat \<Rightarrow> rat list \<Rightarrow> rat" where
  "float_sum = foldl (\<lambda>s t. fl_add s (b64 t))"

lemma float_sum_simps [simp]:
  "float_sum s [] = s" "float_sum s (t # ts) = float_sum (fl_add s (b64 t)) ts"
  "float_sum s (ts @ us) = float_sum (float_sum s ts) us"
  by (simp_all add: float_sum_def)

lemma one_addition:
  fixes s t S T d u \<eta> :: rat
  assumes "\<bar>s - S\<bar> \<le> d" and "\<bar>S\<bar> \<le> T" and "u = 1 / 2 ^ 53" and "\<eta> = 1 / 2 ^ 1075"
  shows "\<bar>fl_add s (b64 t) - (S + t)\<bar> \<le> (1 + u) * d + u * (T + \<bar>t\<bar>) + (1 + u) * u * \<bar>t\<bar> + 3 * \<eta>"
proof -
  define y where "y = b64 t"
  have u: "0 \<le> u" "u \<le> 1" and e: "0 \<le> \<eta>" by (simp_all add: assms(3,4))
  have y: "\<bar>y - t\<bar> \<le> u * \<bar>t\<bar> + \<eta>" using b64_error [of t] by (simp add: y_def assms(3,4))
  have "\<bar>fl_add s y - (s + y)\<bar> \<le> u * \<bar>s + y\<bar> + \<eta>" using b64_error [of "s + y"] by (simp add: fl_add_def assms(3,4))
  moreover have "\<bar>s + y\<bar> \<le> d + T + \<bar>t\<bar> + (u * \<bar>t\<bar> + \<eta>)" using assms(1,2) y by linarith
  then have "u * \<bar>s + y\<bar> \<le> u * (d + T + \<bar>t\<bar> + (u * \<bar>t\<bar> + \<eta>))" using u(1) by (rule mult_left_mono)
  moreover have "u * \<eta> \<le> 1 * \<eta>" by (intro mult_right_mono u e)
  ultimately show ?thesis using assms(1) y by (simp add: y_def [symmetric] distrib_left distrib_right) linarith
qed

text \<open>The error of a sum of \<open>n\<close> terms.\<close>

lemma float_sum_error:
  fixes u \<eta> :: rat
  assumes u: "u = 1 / 2 ^ 53" and e: "\<eta> = 1 / 2 ^ 1075"
  shows "\<bar>float_sum 0 ts - sum_list ts\<bar> \<le>
    ((1 + u) ^ Suc (length ts) - 1) * sum_list (map abs ts) + 3 * of_nat (length ts) * (1 + u) ^ length ts * \<eta>"
proof (induction ts rule: rev_induct)
  case (snoc t ts)
  define n where "n = length ts"
  define a where "a = (1 + u) ^ Suc n - 1"
  define b where "b = 3 * of_nat n * (1 + u) ^ n * \<eta>"
  define T where "T = sum_list (map abs ts)"
  have u0: "0 \<le> u" and e0: "0 \<le> \<eta>" by (simp_all add: u e)
  have "(1 + u) * 1 \<le> (1 + u) * (1 + u) ^ n" using u0 by (intro mult_left_mono one_le_power) simp_all
  then have au: "u \<le> a" by (simp add: a_def)
  have "\<bar>float_sum 0 ts - sum_list ts\<bar> \<le> a * T + b" using snoc.IH by (simp add: a_def b_def n_def T_def)
  moreover have "\<bar>sum_list ts\<bar> \<le> T" unfolding T_def by (rule sum_list_abs)
  ultimately have "\<bar>float_sum 0 (ts @ [t]) - sum_list (ts @ [t])\<bar> \<le>
    (1 + u) * (a * T + b) + u * (T + \<bar>t\<bar>) + (1 + u) * u * \<bar>t\<bar> + 3 * \<eta>"
    using one_addition [OF _ _ u e] by simp
  also have "\<dots> \<le> ((1 + u) * a + u) * (T + \<bar>t\<bar>) + ((1 + u) * b + 3 * \<eta>)"
  proof -
    have "(1 + u) * u * \<bar>t\<bar> \<le> (1 + u) * a * \<bar>t\<bar>" using au u0 by (intro mult_right_mono mult_left_mono) simp_all
    then show ?thesis by (simp add: algebra_simps)
  qed
  also have "(1 + u) * a + u = (1 + u) ^ Suc (Suc n) - 1" by (simp add: a_def algebra_simps)
  also have "(1 + u) * b + 3 * \<eta> \<le> 3 * of_nat (Suc n) * (1 + u) ^ Suc n * \<eta>"
  proof -
    have "1 \<le> (1 + u) ^ Suc n" using u0 by (intro one_le_power) simp
    then have "1 * \<eta> \<le> (1 + u) ^ Suc n * \<eta>" using e0 by (rule mult_right_mono)
    then show ?thesis by (simp add: b_def algebra_simps)
  qed
  finally show ?case by (simp add: n_def T_def)
qed simp

lemma compound:
  fixes u :: rat
  assumes "0 \<le> u" and "of_nat m * u \<le> 1 / 2"
  shows "(1 + u) ^ m - 1 \<le> 2 * (of_nat m * u)" and "(1 + u) ^ m \<le> 2"
proof -
  define P where "P = (1 + u) ^ m"
  have "(1 + u) ^ m * (1 - of_nat m * u) \<le> 1"
  proof (induction m)
    case (Suc m)
    have "(1 + u) ^ Suc m * (1 - of_nat (Suc m) * u) = (1 + u) ^ m * (1 - of_nat m * u) - (1 + u) ^ m * (of_nat (Suc m) * u * u)"
      by (simp add: algebra_simps)
    moreover have "0 \<le> (1 + u) ^ m * (of_nat (Suc m) * u * u)" using assms(1) by (intro mult_nonneg_nonneg zero_le_power) simp_all
    ultimately show ?case using Suc by linarith
  qed simp
  then have one: "P - P * (of_nat m * u) \<le> 1" by (simp add: P_def algebra_simps)
  have pos: "0 \<le> P" using assms(1) by (simp add: P_def)
  have "P * (of_nat m * u) \<le> P * (1 / 2)" by (intro mult_left_mono assms(2) pos)
  with one have two: "P \<le> 2" by simp
  then show "(1 + u) ^ m \<le> 2" by (simp add: P_def)
  have "P * (of_nat m * u) \<le> 2 * (of_nat m * u)" using two assms(1) by (intro mult_right_mono) simp_all
  with one show "(1 + u) ^ m - 1 \<le> 2 * (of_nat m * u)" by (simp add: P_def)
qed

lemma float_sum_close:
  assumes "length ts \<le> 2 ^ 50"
  shows "\<bar>float_sum 0 ts - sum_list ts\<bar> \<le>
    of_nat (Suc (length ts)) / 2 ^ 52 * sum_list (map abs ts) + of_nat (length ts) / 2 ^ 1072"
proof -
  define u :: rat where "u = 1 / 2 ^ 53"
  define \<eta> :: rat where "\<eta> = 1 / 2 ^ 1075"
  define n where "n = length ts"
  define T where "T = sum_list (map abs ts)"
  have "of_nat n \<le> (of_nat (2 ^ 50) :: rat)" using assms unfolding n_def by (simp only: of_nat_le_iff)
  then have "of_nat n \<le> (2 ^ 50 :: rat)" by (simp only: of_nat_power of_nat_numeral)
  then have half: "of_nat n * u \<le> 1 / 2" "of_nat (Suc n) * u \<le> 1 / 2" by (simp_all add: u_def)
  have u0: "0 \<le> u" and e0: "0 \<le> \<eta>" by (simp_all add: u_def \<eta>_def)
  have T0: "0 \<le> T" unfolding T_def by (rule sum_list_nonneg) auto
  have first: "((1 + u) ^ Suc n - 1) * T \<le> of_nat (Suc n) / 2 ^ 52 * T"
  proof -
    have "((1 + u) ^ Suc n - 1) * T \<le> 2 * (of_nat (Suc n) * u) * T" by (intro mult_right_mono compound u0 half T0)
    also have "2 * (of_nat (Suc n) * u) = of_nat (Suc n) / 2 ^ 52" by (simp add: u_def)
    finally show ?thesis .
  qed
  have second: "3 * of_nat n * (1 + u) ^ n * \<eta> \<le> of_nat n / 2 ^ 1072"
  proof -
    have "3 * of_nat n * (1 + u) ^ n * \<eta> \<le> 3 * of_nat n * 2 * \<eta>"
      by (intro mult_right_mono mult_left_mono compound u0 half e0) simp
    also have "\<dots> \<le> of_nat n * 8 * \<eta>" using e0 by (intro mult_right_mono) simp_all
    also have "\<dots> = of_nat n / 2 ^ 1072"
    proof -
      have "(2 :: rat) ^ (3 + 1072) = 2 ^ 3 * 2 ^ 1072" by (rule power_add)
      then have "(2 :: rat) ^ 1075 = 8 * 2 ^ 1072" by (simp only: power3_eq_cube) simp
      then show ?thesis unfolding \<eta>_def by (simp only:) simp
    qed
    finally show ?thesis .
  qed
  from order_trans [OF float_sum_error [OF u_def \<eta>_def, of ts, folded n_def T_def] add_mono [OF first second]]
  show ?thesis unfolding n_def T_def .
qed

end
