(* ===== verification/Retrieval.thy ===== *)
theory Retrieval
  imports Repos JsonText Binary64 "HOL-Library.AList" "HOL-Library.Multiset" "HOL-Library.Product_Lexorder"
begin

section \<open>Hybrid retrieval\<close>

text \<open>
  \<open>app/services/retrieval.py\<close> and \<open>app/services/memory_scope.py\<close>: the dense and the sparse
  leg over the \<open>chunks\<close> a session may see, their reciprocal rank fusion, and the guard that
  checks which organisation the session is scoped to. What Postgres computes for a leg (the
  rows the plan of the dense query visits, the full-text match and its rank) is the argument
  \<open>pg\<close>. Scores are binary64 numbers with the rounding of every operation written out; rows that
  tie in the sparse leg keep the table's order. \<open>top_k\<close> and \<open>leg_k\<close> are not negative.
\<close>

subsection \<open>Reciprocal rank fusion\<close>

definition RRF_K :: int where
  "RRF_K = 60"

text \<open>\<open>d.get(key, 0.0)\<close>\<close>

definition get_score :: "('k \<times> rat) list \<Rightarrow> 'k \<Rightarrow> rat" where
  "get_score d key = (case map_of d key of None \<Rightarrow> 0 | Some v \<Rightarrow> v)"

text \<open>\<open>float / int\<close>: Python first makes the integer a float.\<close>

definition float_of_int :: "int \<Rightarrow> exn + rat" where
  "float_of_int n = (let x = b64 (of_int n) in if out_of_range x then Inl OverflowError else Inr x)"

definition py_float_div :: "rat \<Rightarrow> int \<Rightarrow> exn + rat" where
  "py_float_div x n = sbind (float_of_int n) (\<lambda>y. if y = 0 then Inl ZeroDivisionError else Inr (fl_div x y))"

text \<open>The inner loop: \<open>enumerate(ranked, start=rank)\<close>.\<close>

fun add_leg :: "rat \<Rightarrow> int \<Rightarrow> int \<Rightarrow> uuid list \<Rightarrow> (uuid \<times> rat) list \<Rightarrow> exn + (uuid \<times> rat) list" where
  "add_leg weight k rank [] scores = Inr scores"
| "add_leg weight k rank (chunk_id # ranked) scores =
     sbind (py_float_div weight (k + rank)) (\<lambda>x. add_leg weight k (rank + 1) ranked
       (AList.update chunk_id (fl_add (get_score scores chunk_id) x) scores))"

fun add_legs ::
  "(string \<times> uuid list) list \<Rightarrow> (string \<times> rat) list \<Rightarrow> int \<Rightarrow> (uuid \<times> rat) list \<Rightarrow> exn + (uuid \<times> rat) list" where
  "add_legs [] weights k scores = Inr scores"
| "add_legs ((leg, ranked) # legs) weights k scores =
     (let weight = get_score weights leg in
      if weight = 0 then add_legs legs weights k scores
      else sbind (add_leg weight k 1 ranked scores) (add_legs legs weights k))"

definition best_first :: "uuid \<times> rat \<Rightarrow> rat \<times> uuid" where
  "best_first item = (- snd item, fst item)"

definition reciprocal_rank_fusion ::
  "(string \<times> uuid list) list \<Rightarrow> (string \<times> rat) list \<Rightarrow> int \<Rightarrow> exn + (uuid \<times> rat) list" where
  "reciprocal_rank_fusion legs weights k =
     sbind (add_legs legs weights k []) (\<lambda>scores. Inr (sort_key best_first scores))"

text \<open>
  The score of the docstring, one chunk at a time and exactly: \<open>rrf_terms\<close> are the numbers
  \<open>weight[leg] / (k + rank_in_leg)\<close> of the chunk, leg by leg, and the score is their sum. The
  program's score is the same sum with every quotient and every partial sum rounded.
\<close>

fun leg_terms :: "rat \<Rightarrow> int \<Rightarrow> int \<Rightarrow> uuid list \<Rightarrow> uuid \<Rightarrow> rat list" where
  "leg_terms weight k rank [] c = []"
| "leg_terms weight k rank (x # xs) c =
     (if x = c then [weight / of_int (k + rank)] else []) @ leg_terms weight k (rank + 1) xs c"

definition rrf_terms :: "(string \<times> uuid list) list \<Rightarrow> (string \<times> rat) list \<Rightarrow> int \<Rightarrow> uuid \<Rightarrow> rat list" where
  "rrf_terms legs weights k c =
     concat (map (\<lambda>(leg, ranked). if get_score weights leg = 0 then [] else leg_terms (get_score weights leg) k 1 ranked c) legs)"

definition rrf_score :: "(string \<times> uuid list) list \<Rightarrow> (string \<times> rat) list \<Rightarrow> int \<Rightarrow> uuid \<Rightarrow> rat" where
  "rrf_score legs weights k c = sum_list (rrf_terms legs weights k c)"

definition fused_ids :: "(string \<times> uuid list) list \<Rightarrow> (string \<times> rat) list \<Rightarrow> uuid set" where
  "fused_ids legs weights = (\<Union>(leg, ranked) \<in> set legs. if get_score weights leg = 0 then {} else set ranked)"

definition rrf_ranking ::
  "(string \<times> uuid list) list \<Rightarrow> (string \<times> rat) list \<Rightarrow> int \<Rightarrow> (uuid \<times> rat) list" where
  "rrf_ranking legs weights k = sort_key best_first
     (map (\<lambda>c. (c, float_sum 0 (rrf_terms legs weights k c))) (sorted_list_of_set (fused_ids legs weights)))"

text \<open>Every \<open>k + rank\<close> is positive and exact as a float.\<close>

definition legs_fit :: "int \<Rightarrow> (string \<times> uuid list) list \<Rightarrow> bool" where
  "legs_fit k legs \<longleftrightarrow> 0 \<le> k \<and> (\<forall>(leg, ranked) \<in> set legs. k + int (length ranked) \<le> 2 ^ 53)"

lemma float_of_small_int:
  assumes "\<bar>n\<bar> \<le> 2 ^ 53"
  shows "float_of_int n = Inr (of_int n)"
proof -
  have "b64 (of_int n) = of_int n" using assms by (intro b64_representable representable_int)
  moreover have "\<not> out_of_range (of_int n)"
  proof
    assume "out_of_range (of_int n)"
    then have "2 ^ 1024 \<le> \<bar>of_int n :: rat\<bar>" by (rule out_of_range_ge)
    then have "(of_int (2 ^ 1024) :: rat) \<le> of_int \<bar>n\<bar>" by (simp only: of_int_abs of_int_power of_int_numeral)
    then have "2 ^ 1024 \<le> \<bar>n\<bar>" by (simp only: of_int_le_iff)
    with assms show False by simp
  qed
  ultimately show ?thesis by (simp add: float_of_int_def)
qed

lemma small_division: "0 < n \<Longrightarrow> n \<le> 2 ^ 53 \<Longrightarrow> py_float_div x n = Inr (b64 (x / of_int n))"
  by (simp add: py_float_div_def float_of_small_int fl_div_def)

lemma get_score_update: "get_score (AList.update c v d) c' = (if c' = c then v else get_score d c')"
  by (simp add: get_score_def update_conv')

lemma add_leg_spec:
  assumes "0 \<le> k" and "1 \<le> rank" and "k + rank + int (length xs) \<le> 2 ^ 53 + 1" and "distinct (map fst sc)"
  shows "\<exists>sc'. add_leg wt k rank xs sc = Inr sc' \<and> distinct (map fst sc')
    \<and> fst ` set sc' = fst ` set sc \<union> set xs \<and> (\<forall>c. get_score sc' c = float_sum (get_score sc c) (leg_terms wt k rank xs c))"
  using assms(2-4)
proof (induction xs arbitrary: rank sc)
  case (Cons x xs)
  let ?t = "b64 (wt / of_int (k + rank))"
  let ?sc = "AList.update x (fl_add (get_score sc x) ?t) sc"
  have "distinct (map fst ?sc)" using Cons.prems(3) by (rule distinct_update)
  moreover have "1 \<le> rank + 1" "k + (rank + 1) + int (length xs) \<le> 2 ^ 53 + 1" using Cons.prems(1,2) by simp_all
  ultimately obtain sc' where sc': "add_leg wt k (rank + 1) xs ?sc = Inr sc'" "distinct (map fst sc')"
    "fst ` set sc' = fst ` set ?sc \<union> set xs"
    "\<forall>c. get_score sc' c = float_sum (get_score ?sc c) (leg_terms wt k (rank + 1) xs c)"
    using Cons.IH [of "rank + 1" ?sc] by blast
  have "py_float_div wt (k + rank) = Inr ?t" using assms(1) Cons.prems(1,2) by (intro small_division) simp_all
  with sc' show ?case by (auto simp: dom_update get_score_update)
qed simp

lemma add_legs_spec:
  assumes "legs_fit k legs" and "distinct (map fst sc)"
  shows "\<exists>sc'. add_legs legs weights k sc = Inr sc' \<and> distinct (map fst sc')
    \<and> fst ` set sc' = fst ` set sc \<union> fused_ids legs weights
    \<and> (\<forall>c. get_score sc' c = float_sum (get_score sc c) (rrf_terms legs weights k c))"
  using assms
proof (induction legs arbitrary: sc)
  case Nil
  then show ?case by (simp add: fused_ids_def rrf_terms_def)
next
  case (Cons l legs)
  obtain leg ranked where l: "l = (leg, ranked)" by fastforce
  have fit: "legs_fit k legs" "0 \<le> k" "k + 1 + int (length ranked) \<le> 2 ^ 53 + 1" using Cons.prems(1) by (auto simp: legs_fit_def l)
  show ?case
  proof (cases "get_score weights leg = 0")
    case True
    with Cons.IH [OF fit(1) Cons.prems(2)] show ?thesis by (simp add: l fused_ids_def rrf_terms_def)
  next
    case False
    obtain sc1 where sc1: "add_leg (get_score weights leg) k 1 ranked sc = Inr sc1" "distinct (map fst sc1)"
      "fst ` set sc1 = fst ` set sc \<union> set ranked"
      "\<forall>c. get_score sc1 c = float_sum (get_score sc c) (leg_terms (get_score weights leg) k 1 ranked c)"
      using add_leg_spec [OF fit(2) _ fit(3) Cons.prems(2)] by fastforce
    from Cons.IH [OF fit(1) sc1(2)] sc1 False show ?thesis
      by (auto simp: l fused_ids_def rrf_terms_def)
  qed
qed

lemma scores_listed:
  assumes "distinct (map fst sc)"
  shows "mset sc = mset (map (\<lambda>c. (c, get_score sc c)) (sorted_list_of_set (fst ` set sc)))"
proof -
  have "sc = map (\<lambda>c. (c, get_score sc c)) (map fst sc)"
    using assms by (auto simp: get_score_def intro!: map_idI [symmetric] split: option.split)
  then have "mset sc = image_mset (\<lambda>c. (c, get_score sc c)) (mset (map fst sc))" by (metis mset_map)
  also have "mset (map fst sc) = mset (sorted_list_of_set (fst ` set sc))"
    using assms by (intro iffD1 [OF set_eq_iff_mset_eq_distinct]) simp_all
  finally show ?thesis by simp
qed

lemma fusion_is_ranking:
  assumes "legs_fit k legs"
  shows "reciprocal_rank_fusion legs weights k = Inr (rrf_ranking legs weights k)"
proof -
  obtain sc where sc: "add_legs legs weights k [] = Inr sc" "distinct (map fst sc)"
    "fst ` set sc = fused_ids legs weights" "\<forall>c. get_score sc c = float_sum 0 (rrf_terms legs weights k c)"
    using add_legs_spec [OF assms, of "[]" weights] by (auto simp: get_score_def [of "[]"])
  have "mset sc = mset (map (\<lambda>c. (c, float_sum 0 (rrf_terms legs weights k c))) (sorted_list_of_set (fused_ids legs weights)))"
    using scores_listed [OF sc(2)] sc(3,4) by simp
  moreover have "inj_on best_first (set sc)" by (auto simp: inj_on_def best_first_def)
  ultimately have "sort_key best_first sc = rrf_ranking legs weights k"
    unfolding rrf_ranking_def by (rule sort_key_eq_sort_key)
  with sc(1) show ?thesis by (simp add: reciprocal_rank_fusion_def)
qed

lemma finite_fused_ids [simp]: "finite (fused_ids legs weights)"
  by (auto simp: fused_ids_def)

lemma rrf_ranking_set: "set (rrf_ranking legs weights k) = {(c, float_sum 0 (rrf_terms legs weights k c)) | c. c \<in> fused_ids legs weights}"
  by (auto simp: rrf_ranking_def)

lemma rrf_ranking_ids: "fst ` set (rrf_ranking legs weights k) = fused_ids legs weights"
  by (simp add: rrf_ranking_def image_image)

lemma fused_ids_within: "(\<And>leg ranked. (leg, ranked) \<in> set legs \<Longrightarrow> set ranked \<subseteq> X) \<Longrightarrow> fused_ids legs weights \<subseteq> X"
  by (force simp: fused_ids_def split: if_splits)

lemma rrf_ranking_distinct: "distinct (map fst (rrf_ranking legs weights k))"
proof -
  have "mset (map fst (rrf_ranking legs weights k)) = mset (sorted_list_of_set (fused_ids legs weights))"
    by (simp add: rrf_ranking_def image_mset.compositionality comp_def)
  then show ?thesis by (metis distinct_sorted_list_of_set mset_eq_imp_distinct_iff)
qed

subsection \<open>How close the scores are\<close>

definition weights_fit :: "(string \<times> rat) list \<Rightarrow> bool" where
  "weights_fit weights \<longleftrightarrow> (\<forall>(leg, weight) \<in> set weights. \<bar>weight\<bar> \<le> 2 ^ 900)"

lemma get_score_fits: "weights_fit weights \<Longrightarrow> \<bar>get_score weights leg\<bar> \<le> 2 ^ 900"
  by (auto simp: weights_fit_def get_score_def dest!: map_of_SomeD split: option.split)

lemma leg_terms_length: "length (leg_terms wt k rank xs c) \<le> length xs"
  by (induction xs arbitrary: rank) (auto intro: le_SucI)

lemma rrf_terms_length: "length (rrf_terms legs weights k c) \<le> sum_list (map (length \<circ> snd) legs)"
proof (induction legs)
  case (Cons l legs)
  obtain leg ranked where l: "l = (leg, ranked)" by fastforce
  from Cons leg_terms_length [of "get_score weights leg" k 1 ranked c] show ?case
    by (auto simp: l rrf_terms_def)
qed (simp add: rrf_terms_def)

lemma leg_terms_bound:
  assumes "0 \<le> k" and "1 \<le> rank" and "t \<in> set (leg_terms wt k rank xs c)"
  shows "\<bar>t\<bar> \<le> \<bar>wt\<bar>"
  using assms(2,3)
proof (induction xs arbitrary: rank)
  case (Cons x xs)
  have "\<bar>wt / of_int (k + rank)\<bar> \<le> \<bar>wt\<bar>"
  proof -
    have "(1 :: rat) \<le> of_int (k + rank)" using assms(1) Cons.prems(1) by simp
    then have "\<bar>wt\<bar> * 1 \<le> \<bar>wt\<bar> * of_int (k + rank)" by (intro mult_left_mono) simp_all
    with \<open>1 \<le> of_int (k + rank)\<close> show ?thesis by (simp add: abs_divide divide_le_eq)
  qed
  moreover have "\<bar>t\<bar> \<le> \<bar>wt\<bar>" if "t \<in> set (leg_terms wt k (rank + 1) xs c)"
    using Cons.IH [of "rank + 1"] Cons.prems(1) that by simp
  ultimately show ?case using Cons.prems(2) by (auto split: if_splits)
qed simp

lemma rrf_terms_bound:
  assumes "0 \<le> k" and "weights_fit weights" and "t \<in> set (rrf_terms legs weights k c)"
  shows "\<bar>t\<bar> \<le> 2 ^ 900"
  using assms(3) get_score_fits [OF assms(2)]
  by (fastforce simp: rrf_terms_def split: if_splits intro: order_trans dest!: leg_terms_bound [OF assms(1) order_refl])

lemma scores_close:
  fixes legs weights k c
  defines "ts \<equiv> rrf_terms legs weights k c"
  assumes "0 \<le> k" and w: "weights_fit weights" and l: "sum_list (map (length \<circ> snd) legs) \<le> 2 ^ 50"
  shows "\<bar>float_sum 0 ts - rrf_score legs weights k c\<bar>
      \<le> of_nat (Suc (length ts)) / 2 ^ 52 * sum_list (map abs ts) + of_nat (length ts) / 2 ^ 1072"
    and "\<not> out_of_range (float_sum 0 ts)"
proof -
  have n: "length ts \<le> 2 ^ 50" using rrf_terms_length [of legs weights k c] l by (simp add: ts_def)
  note close = float_sum_close [OF n]
  then show "\<bar>float_sum 0 ts - rrf_score legs weights k c\<bar>
      \<le> of_nat (Suc (length ts)) / 2 ^ 52 * sum_list (map abs ts) + of_nat (length ts) / 2 ^ 1072"
    by (simp only: rrf_score_def ts_def)
  define T where "T = sum_list (map abs ts)"
  define m :: rat where "m = of_nat (length ts)"
  have "m \<le> of_nat (2 ^ 50)" using n unfolding m_def by (simp only: of_nat_le_iff)
  then have m: "m \<le> 2 ^ 50" by (simp only: of_nat_power of_nat_numeral)
  have "T \<le> m * 2 ^ 900"
  proof -
    have "T \<le> sum_list (map (\<lambda>_. 2 ^ 900) ts)"
      unfolding T_def by (intro sum_list_mono) (simp only: ts_def rrf_terms_bound [OF assms(2) w])
    then show ?thesis by (simp only: sum_list_triv m_def)
  qed
  also have "\<dots> \<le> 2 ^ 50 * 2 ^ 900" by (intro mult_right_mono m) simp
  finally have T: "T \<le> 2 ^ 950" by simp
  have "of_nat (Suc (length ts)) / 2 ^ 52 * T \<le> 1 * T"
    unfolding T_def using m by (intro mult_right_mono sum_list_nonneg) (auto simp: m_def)
  moreover have "m / 2 ^ 1072 \<le> 1" using m by simp
  moreover have "\<bar>sum_list ts\<bar> \<le> T" unfolding T_def by (rule sum_list_abs)
  ultimately have "\<bar>float_sum 0 ts\<bar> \<le> 2 * T + 1" using close unfolding T_def m_def by linarith
  with T have "\<bar>float_sum 0 ts\<bar> < 2 ^ 1024" by simp
  with out_of_range_ge show "\<not> out_of_range (float_sum 0 ts)" by fastforce
qed

text \<open>
  Equal scores of the docstring need not tie: chunk 1 at ranks 12 and 28 and chunk 2 at ranks
  6 and 39 have the score \<open>5 / 198\<close> both, but the program's second number is the larger one, so
  the tie is not broken by id.
\<close>

definition tie_demo :: "(string \<times> uuid list) list" where
  "tie_demo = [(''dense'', map (\<lambda>i. of_nat (if i = 12 then 1 else if i = 6 then 2 else 100 + i)) [1..<13]),
     (''sparse'', map (\<lambda>i. of_nat (if i = 28 then 1 else if i = 39 then 2 else 200 + i)) [1..<40])]"

lemma rounding_breaks_ties:
  "rrf_score tie_demo [(''dense'', 1), (''sparse'', 1)] 60 1 = rrf_score tie_demo [(''dense'', 1), (''sparse'', 1)] 60 2"
  "float_sum 0 (rrf_terms tie_demo [(''dense'', 1), (''sparse'', 1)] 60 1)
     < float_sum 0 (rrf_terms tie_demo [(''dense'', 1), (''sparse'', 1)] 60 2)"
  by code_simp+

text \<open>
  C18: fusing is ranking by the documented score, up to rounding. From any legs and weights (of
  a size no real input comes near), with a non-negative \<open>k\<close>, the fusion never divides by zero
  and returns exactly the chunks some leg of non-zero weight lists, each once, best score
  first and equal scores by chunk id. The score is the sum of \<open>weight / (k + rank)\<close> over the
  chunk's occurrences, computed in binary64 in the order of the legs: with \<open>n\<close> occurrences it is
  off by at most \<open>(n + 1) * 2 ^ -52\<close> of the sum of the absolute terms plus \<open>n * 2 ^ -1072\<close>, and it
  is never infinite.
\<close>

theorem fusion_spec:
  assumes "legs_fit k legs" and "weights_fit weights" and "sum_list (map (length \<circ> snd) legs) \<le> 2 ^ 50"
  shows "\<exists>res. reciprocal_rank_fusion legs weights k = Inr res
    \<and> set res = {(c, float_sum 0 (rrf_terms legs weights k c)) | c. c \<in> fused_ids legs weights}
    \<and> distinct (map fst res) \<and> sorted (map best_first res)
    \<and> (\<forall>(c, score) \<in> set res. \<not> out_of_range score \<and> (let ts = rrf_terms legs weights k c in
         \<bar>score - rrf_score legs weights k c\<bar>
           \<le> of_nat (Suc (length ts)) / 2 ^ 52 * sum_list (map abs ts) + of_nat (length ts) / 2 ^ 1072))"
proof -
  have k: "0 \<le> k" using assms(1) by (simp add: legs_fit_def)
  have "sorted (map best_first (rrf_ranking legs weights k))" by (simp add: rrf_ranking_def)
  with fusion_is_ranking [OF assms(1)] rrf_ranking_distinct show ?thesis
    by (intro exI [of _ "rrf_ranking legs weights k"])
      (auto simp only: rrf_ranking_set Let_def scores_close [OF k assms(2,3)])
qed

subsection \<open>The search\<close>

record rrf_weights =
  w_dense :: rat
  w_sparse :: rat

record chunk_hit =
  hit_chunk_id :: uuid
  hit_content :: string
  hit_document_id :: "uuid option"
  hit_page :: "int option"
  hit_char_start :: "int option"
  hit_char_end :: "int option"
  hit_element_type :: "string option"
  hit_score :: rat

text \<open>
  Postgres. \<open>dense_scan\<close> stands for the plan of \<open>ORDER BY embedding <=> literal::vector\<close>: of all the
  stored rows, the ids it visits, in its order. A sequential scan visits every row, nearest first;
  the HNSW index visits some, over all tenants, and the row-level security, the other conditions
  and the \<open>LIMIT\<close> apply to what it visits. The literal may be refused (pgvector compares
  vectors of one dimension only), when the plan compares it with a row. The other two are
  \<open>content_tsv @@ websearch_to_tsquery\<close> and \<open>ts_rank_cd\<close>; \<open>content_tsv\<close> is generated from \<open>content\<close>.
\<close>

record search_engine =
  dense_scan :: "string \<Rightarrow> chunk list \<Rightarrow> exn + uuid list"
  ts_match :: "string \<Rightarrow> string \<Rightarrow> bool"
  ts_rank :: "string \<Rightarrow> string \<Rightarrow> rat"

definition vector_literal :: "(rat \<Rightarrow> string) \<Rightarrow> rat list \<Rightarrow> exn + string" where
  "vector_literal fl embedding =
     (if embedding = [] then Inl (ValueError ''query_embedding is empty; the dense leg has nothing to search on'')
      else Inr (''['' @ py_join '','' (map fl embedding) @ '']''))"

definition in_document :: "uuid option \<Rightarrow> chunk \<Rightarrow> bool" where
  "in_document document_id c \<longleftrightarrow> (case document_id of None \<Rightarrow> True | Some i \<Rightarrow> chk_document_id c = Some i)"

text \<open>The plan's rows that the session may see and the conditions admit, up to the limit.\<close>

definition admitted :: "nat \<Rightarrow> chunk list \<Rightarrow> uuid list \<Rightarrow> uuid list" where
  "admitted n rows visited = take n (filter (\<lambda>i. i \<in> set (map chk_id rows)) (remdups visited))"

definition dense_leg :: "search_engine \<Rightarrow> string \<Rightarrow> uuid option \<Rightarrow> nat \<Rightarrow> ('c, uuid list) act" where
  "dense_leg pg qvec document_id n =
     bnd (sql_select chunks_table (\<lambda>c. chk_embedding c \<noteq> None \<and> in_document document_id c)) (\<lambda>rows.
     bnd (gets (\<lambda>w. t_chunks (db w))) (\<lambda>stored.
     bnd (lift_sum (dense_scan pg qvec stored)) (\<lambda>visited.
       ret (admitted n rows visited))))"

definition sparse_leg :: "search_engine \<Rightarrow> string \<Rightarrow> uuid option \<Rightarrow> nat \<Rightarrow> ('c, uuid list) act" where
  "sparse_leg pg q document_id n =
     bnd (sql_select chunks_table (\<lambda>c. ts_match pg (chk_content c) q \<and> in_document document_id c)) (\<lambda>rows.
       ret (map chk_id (take n (sort_key (\<lambda>c. - ts_rank pg (chk_content c) q) rows))))"

definition chunk_hit_of :: "(uuid \<times> rat) list \<Rightarrow> chunk \<Rightarrow> exn + chunk_hit" where
  "chunk_hit_of fused c = (case map_of fused (chk_id c) of
      None \<Rightarrow> Inl (KeyError (str_uuid (chk_id c)))
    | Some score \<Rightarrow> Inr \<lparr>hit_chunk_id = chk_id c, hit_content = chk_content c,
        hit_document_id = chk_document_id c, hit_page = chk_page c, hit_char_start = chk_char_start c,
        hit_char_end = chk_char_end c, hit_element_type = chk_element_type c, hit_score = score\<rparr>)"

text \<open>\<open>{chunk_id: i for i, (chunk_id, _) in enumerate(fused)}\<close>\<close>

definition rank_of :: "(uuid \<times> rat) list \<Rightarrow> uuid \<Rightarrow> nat option" where
  "rank_of fused = map_of (zip (map fst fused) [0..<length fused])"

definition hybrid_search ::
  "search_engine \<Rightarrow> (rat \<Rightarrow> string) \<Rightarrow> string \<Rightarrow> rat list \<Rightarrow> nat \<Rightarrow> rrf_weights \<Rightarrow> uuid option \<Rightarrow> int \<Rightarrow> nat option
     \<Rightarrow> ('c, chunk_hit list) act" where
  "hybrid_search pg fl query_text query_embedding top_k weights document_id k leg_k =
     (let fetch_k = (case leg_k of Some n \<Rightarrow> n | None \<Rightarrow> max (top_k * 4) 20) in
      bnd (lift_sum (vector_literal fl query_embedding)) (\<lambda>qvec.
      bnd (dense_leg pg qvec document_id fetch_k) (\<lambda>dense_ids.
      bnd (sparse_leg pg query_text document_id fetch_k) (\<lambda>sparse_ids.
      bnd (lift_sum (reciprocal_rank_fusion [(''dense'', dense_ids), (''sparse'', sparse_ids)]
             [(''dense'', w_dense weights), (''sparse'', w_sparse weights)] k)) (\<lambda>ranking.
      let fused = take top_k ranking in
      if fused = [] then ret []
      else bnd (sql_select chunks_table (\<lambda>c. chk_id c \<in> set (map fst fused))) (\<lambda>rows.
        bnd (lift_sum (smap (chunk_hit_of fused) rows)) (\<lambda>hits.
          ret (sort_key (\<lambda>h. the (rank_of fused (hit_chunk_id h))) hits))))))))"

text \<open>\<open>memory_scope.py\<close>\<close>

definition assert_session_scoped_to :: "string \<Rightarrow> ('c, unit) act" where
  "assert_session_scoped_to org =
     bnd (gets guc) (\<lambda>setting. case setting of
       None \<Rightarrow> throw (MemoryScopeError ''retrieval attempted on an org-unscoped session (app.org_id is unset)'')
     | Some scoped_to \<Rightarrow>
         if scoped_to = [] then
           throw (MemoryScopeError ''retrieval attempted on an org-unscoped session (app.org_id is unset)'')
         else guard (scoped_to = org)
           (MemoryScopeError (''retrieval session is scoped to org '' @ py_repr scoped_to
             @ '', but the caller is serving org '' @ py_repr org)))"

definition org_scoped_search ::
  "search_engine \<Rightarrow> (rat \<Rightarrow> string) \<Rightarrow> string \<Rightarrow> string \<Rightarrow> rat list \<Rightarrow> nat \<Rightarrow> rrf_weights \<Rightarrow> uuid option \<Rightarrow> int
     \<Rightarrow> nat option \<Rightarrow> ('c, chunk_hit list) act" where
  "org_scoped_search pg fl org query_text query_embedding top_k weights document_id k leg_k =
     seq (assert_session_scoped_to org)
       (hybrid_search pg fl query_text query_embedding top_k weights document_id k leg_k)"

subsection \<open>What a search returns\<close>

definition leg_ids :: "nat \<Rightarrow> (chunk \<Rightarrow> rat) \<Rightarrow> chunk list \<Rightarrow> uuid list" where
  "leg_ids n key cs = map chk_id (take n (sort_key key cs))"

definition search_legs ::
  "search_engine \<Rightarrow> uuid list \<Rightarrow> string \<Rightarrow> nat \<Rightarrow> chunk list \<Rightarrow> (string \<times> uuid list) list" where
  "search_legs pg visited q n cs =
     [(''dense'', admitted n (filter (\<lambda>c. chk_embedding c \<noteq> None) cs) visited),
      (''sparse'', leg_ids n (\<lambda>c. - ts_rank pg (chk_content c) q) (filter (\<lambda>c. ts_match pg (chk_content c) q) cs))]"

definition leg_weights :: "rrf_weights \<Rightarrow> (string \<times> rat) list" where
  "leg_weights weights = [(''dense'', w_dense weights), (''sparse'', w_sparse weights)]"

definition expected_fusion ::
  "search_engine \<Rightarrow> uuid list \<Rightarrow> string \<Rightarrow> nat \<Rightarrow> rrf_weights \<Rightarrow> int \<Rightarrow> chunk list \<Rightarrow> (uuid \<times> rat) list" where
  "expected_fusion pg visited q n weights k cs = rrf_ranking (search_legs pg visited q n cs) (leg_weights weights) k"

text \<open>When the plan visits every row, nearest first, the dense leg lists the nearest admitted rows.\<close>

lemma exact_scan:
  assumes "distinct (map chk_id stored)"
  shows "admitted n (filter p stored) (map chk_id (sort_key distance stored)) = leg_ids n distance (filter p stored)"
proof -
  have d: "distinct (map chk_id (sort_key distance stored))"
    using assms by (metis mset_map mset_sort mset_eq_imp_distinct_iff)
  have "(chk_id c \<in> set (map chk_id (filter p stored))) = p c" if "c \<in> set stored" for c
    using assms that by (auto simp: distinct_map dest: inj_onD)
  then have "filter (\<lambda>c. chk_id c \<in> set (map chk_id (filter p stored))) (sort_key distance stored) = filter p (sort_key distance stored)"
    by (intro filter_cong) simp_all
  then show ?thesis
    using d by (simp add: admitted_def leg_ids_def distinct_remdups_id filter_map comp_def filter_sort take_map del: set_map)
qed

lemma search_legs_small: "leg_ranked \<in> set (search_legs pg visited q n cs) \<Longrightarrow> length (snd leg_ranked) \<le> n"
  by (auto simp: search_legs_def admitted_def leg_ids_def)

lemma search_legs_fit: "0 \<le> k \<Longrightarrow> k + int n \<le> 2 ^ 49 \<Longrightarrow> legs_fit k (search_legs pg visited q n cs)"
  by (force simp: legs_fit_def dest: search_legs_small)

lemma search_legs_length: "int n \<le> 2 ^ 49 \<Longrightarrow> sum_list (map (length \<circ> snd) (search_legs pg visited q n cs)) \<le> 2 ^ 50"
  by (simp add: search_legs_def admitted_def leg_ids_def)

lemma map_sort_key: "map g (sort_key (k \<circ> g) xs) = sort_key k (map g xs)"
proof (induction xs)
  case (Cons x xs)
  have "map g (insort_key (k \<circ> g) x ys) = insort_key k (g x) (map g ys)" for ys
    by (induction ys) auto
  then show ?case by (simp only: list.map sort_key_simps Cons)
qed simp

lemma leg_ids_within: "set (leg_ids n key (filter p cs)) \<subseteq> chk_id ` set cs"
  by (auto simp: leg_ids_def dest: in_set_takeD)

lemma admitted_within: "set (admitted n (filter p cs) visited) \<subseteq> chk_id ` set cs"
  by (auto simp: admitted_def dest!: in_set_takeD)

lemma rank_of_nth:
  assumes "distinct (map fst fused)" and "i < length fused"
  shows "rank_of fused (fst (fused ! i)) = Some i"
  using assms map_of_zip_nth [of "map fst fused" "[0..<length fused]" i] by (simp add: rank_of_def)

lemma hits_in_order:
  assumes d: "distinct (map fst fused)" "distinct (map chk_id rows)"
    and same: "chk_id ` set rows = fst ` set fused"
  shows "\<exists>hits. smap (chunk_hit_of fused) rows = Inr hits
    \<and> map (\<lambda>h. (hit_chunk_id h, hit_score h)) (sort_key (\<lambda>h. the (rank_of fused (hit_chunk_id h))) hits) = fused
    \<and> (\<forall>h \<in> set hits. \<exists>c \<in> set rows. chunk_hit_of fused c = Inr h)"
proof -
  define hit :: "chunk \<Rightarrow> chunk_hit" where "hit c = \<lparr>hit_chunk_id = chk_id c, hit_content = chk_content c,
        hit_document_id = chk_document_id c, hit_page = chk_page c, hit_char_start = chk_char_start c,
        hit_char_end = chk_char_end c, hit_element_type = chk_element_type c,
        hit_score = the (map_of fused (chk_id c))\<rparr>" for c
  have found: "chunk_hit_of fused c = Inr (hit c)" if "c \<in> set rows" for c
  proof -
    have "chk_id c \<in> fst ` set fused" using same that by blast
    then obtain s where "map_of fused (chk_id c) = Some s" by (metis map_of_eq_None_iff option.exhaust)
    then show ?thesis by (simp add: chunk_hit_of_def hit_def)
  qed
  have hits: "smap (chunk_hit_of fused) rows = Inr (map hit rows)"
    using found by (induction rows) simp_all
  let ?pairs = "map (\<lambda>h. (hit_chunk_id h, hit_score h))"
  let ?key = "\<lambda>p. the (rank_of fused (fst p))"
  let ?at = "\<lambda>i. (i, the (map_of fused i))"
  have pairs: "?pairs (map hit rows) = map ?at (map chk_id rows)"
    by (simp add: hit_def)
  have eq: "map ?at (map fst fused) = fused"
    using d(1) by (auto intro!: map_idI)
  have m: "mset (map chk_id rows) = mset (map fst fused)"
    using d same by (intro iffD1 [OF set_eq_iff_mset_eq_distinct]) simp_all
  have "mset (?pairs (map hit rows)) = mset (map ?at (map fst fused))"
    by (simp only: pairs mset_map m [unfolded mset_map])
  then have ms: "mset (?pairs (map hit rows)) = mset fused" by (simp only: eq)
  have keys: "map ?key fused = [0..<length fused]"
    by (rule nth_equalityI) (simp_all add: rank_of_nth [OF d(1)])
  then have "inj_on ?key (set fused)" by (metis distinct_map distinct_upt)
  then have "inj_on ?key (set (?pairs (map hit rows)))" by (simp only: mset_eq_setD [OF ms])
  then have "sort_key ?key (?pairs (map hit rows)) = fused"
    using keys by (intro sort_key_inj_key_eq [OF ms]) simp_all
  moreover have "?pairs (sort_key (\<lambda>h. the (rank_of fused (hit_chunk_id h))) hs) = sort_key ?key (?pairs hs)" for hs :: "chunk_hit list"
    using map_sort_key [of "\<lambda>h :: chunk_hit. (hit_chunk_id h, hit_score h)" ?key hs] by (simp add: comp_def)
  ultimately have "?pairs (sort_key (\<lambda>h. the (rank_of fused (hit_chunk_id h))) (map hit rows)) = fused"
    by (simp only:)
  with hits found show ?thesis by auto
qed

lemma winners_rows:
  assumes d: "distinct (map chk_id (t_chunks (db w)))"
    and ids: "fst ` set fused \<subseteq> chk_id ` set (select_rows chunks_table (in_document document_id) w)"
  defines "rows \<equiv> select_rows chunks_table (\<lambda>c. chk_id c \<in> set (map fst fused)) w"
  shows "chk_id ` set rows = fst ` set fused" and "distinct (map chk_id rows)"
    and "set rows \<subseteq> set (select_rows chunks_table (in_document document_id) w)"
proof -
  let ?cs = "select_rows chunks_table (in_document document_id) w"
  show "chk_id ` set rows = fst ` set fused"
  proof
    show "chk_id ` set rows \<subseteq> fst ` set fused" by (rule image_subsetI) (simp add: rows_def select_rows_def)
    show "fst ` set fused \<subseteq> chk_id ` set rows"
    proof
      fix x assume x: "x \<in> fst ` set fused"
      with ids obtain c where "c \<in> set ?cs" "x = chk_id c" by blast
      with x show "x \<in> chk_id ` set rows" by (intro image_eqI [of _ _ c]) (simp_all add: rows_def select_rows_def)
    qed
  qed
  show "distinct (map chk_id rows)" using d by (simp add: rows_def select_rows_def distinct_map_filter)
  show "set rows \<subseteq> set ?cs"
  proof
    fix c assume "c \<in> set rows"
    then have all: "c \<in> set (t_chunks (db w))" "chk_id c \<in> fst ` set fused" by (simp_all add: rows_def select_rows_def)
    from all(2) ids obtain c' where c': "c' \<in> set ?cs" "chk_id c = chk_id c'" by blast
    then have "c' \<in> set (t_chunks (db w))" by (simp add: select_rows_def)
    with d all(1) c'(2) have "c = c'" by (metis distinct_map inj_onD)
    with c'(1) show "c \<in> set ?cs" by simp
  qed
qed

lemma hybrid_search_run:
  assumes wf: "wf_db (db w)" and k: "0 \<le> k"
    and n: "k + int (case leg_k of Some n \<Rightarrow> n | None \<Rightarrow> max (top_k * 4) 20) \<le> 2 ^ 49" and q: "query_embedding \<noteq> []"
    and scan: "dense_scan pg (''['' @ py_join '','' (map fl query_embedding) @ '']'') (t_chunks (db w)) = Inr visited"
  shows "\<exists>hits. hybrid_search pg fl query_text query_embedding top_k weights document_id k leg_k w = (Inr hits, w)
    \<and> map (\<lambda>h. (hit_chunk_id h, hit_score h)) hits = take top_k (expected_fusion pg visited query_text
        (case leg_k of Some n \<Rightarrow> n | None \<Rightarrow> max (top_k * 4) 20) weights k
        (select_rows chunks_table (in_document document_id) w))
    \<and> (\<forall>h \<in> set hits. \<exists>c \<in> set (select_rows chunks_table (in_document document_id) w).
         hit_chunk_id h = chk_id c \<and> hit_content h = chk_content c)"
proof -
  let ?n = "case leg_k of Some n \<Rightarrow> n | None \<Rightarrow> max (top_k * 4) 20"
  let ?cs = "select_rows chunks_table (in_document document_id) w"
  let ?all = "t_chunks (db w)"
  let ?ranking = "expected_fusion pg visited query_text ?n weights k ?cs"
  let ?fused = "take top_k ?ranking"
  let ?rows = "select_rows chunks_table (\<lambda>c. chk_id c \<in> set (map fst ?fused)) w"
  have legs: "select_rows chunks_table (\<lambda>c. p c \<and> in_document document_id c) w = filter p ?cs" for p
    by (auto simp: select_rows_def intro: filter_cong)
  have d: "distinct (map chk_id ?all)" using wf_tableD(8) [OF wf] by (simp add: wf_table_def)
  have "distinct (map fst ?ranking)" by (simp add: expected_fusion_def rrf_ranking_distinct)
  then have d1: "distinct (map fst ?fused)" by (metis distinct_take take_map)
  have "fst ` set ?ranking \<subseteq> chk_id ` set ?cs"
    unfolding expected_fusion_def rrf_ranking_ids search_legs_def
    by (intro fused_ids_within) (auto simp del: not_None_eq dest!: subsetD [OF leg_ids_within] subsetD [OF admitted_within])
  then have ids: "fst ` set ?fused \<subseteq> chk_id ` set ?cs" using image_mono [OF set_take_subset [of top_k ?ranking], of fst] by (rule subset_trans [rotated])
  note winners = winners_rows [OF d ids]
  obtain hits where hits: "smap (chunk_hit_of ?fused) ?rows = Inr hits"
    and order: "map (\<lambda>h. (hit_chunk_id h, hit_score h)) (sort_key (\<lambda>h. the (rank_of ?fused (hit_chunk_id h))) hits) = ?fused"
    and from_rows: "\<forall>h \<in> set hits. \<exists>c \<in> set ?rows. chunk_hit_of ?fused c = Inr h"
    using hits_in_order [OF d1 winners(2,1)] by blast
  define v where "v = ''['' @ py_join '','' (map fl query_embedding) @ '']''"
  have lit: "vector_literal fl query_embedding = Inr v" using q by (simp add: vector_literal_def v_def)
  have scan': "dense_scan pg v ?all = Inr visited" using scan by (simp only: v_def)
  have fusion: "reciprocal_rank_fusion [(''dense'', admitted ?n (filter (\<lambda>c. chk_embedding c \<noteq> None) ?cs) visited),
      (''sparse'', leg_ids ?n (\<lambda>c. - ts_rank pg (chk_content c) query_text) (filter (\<lambda>c. ts_match pg (chk_content c) query_text) ?cs))]
      [(''dense'', w_dense weights), (''sparse'', w_sparse weights)] k = Inr ?ranking"
    using fusion_is_ranking [OF search_legs_fit [OF k n], of pg visited query_text ?cs "leg_weights weights"]
    by (simp only: expected_fusion_def search_legs_def leg_weights_def)
  have start: "hybrid_search pg fl query_text query_embedding top_k weights document_id k leg_k w =
    (if ?fused = [] then ret []
     else bnd (sql_select chunks_table (\<lambda>c. chk_id c \<in> set (map fst ?fused))) (\<lambda>rows.
        bnd (lift_sum (smap (chunk_hit_of ?fused) rows)) (\<lambda>hits.
          ret (sort_key (\<lambda>h. the (rank_of ?fused (hit_chunk_id h))) hits)))) w"
    by (simp add: hybrid_search_def lit dense_leg_def sparse_leg_def sql_select_def
        bnd_assoc legs scan' fusion [unfolded leg_ids_def] Let_def del: not_None_eq)
  show ?thesis
  proof (cases "?fused = []")
    case True
    with start show ?thesis by (intro exI [of _ "[]"]) simp
  next
    case False
    let ?hits = "sort_key (\<lambda>h. the (rank_of ?fused (hit_chunk_id h))) hits"
    have "\<forall>h \<in> set ?hits. \<exists>c \<in> set ?cs. hit_chunk_id h = chk_id c \<and> hit_content h = chk_content c"
    proof
      fix h assume "h \<in> set ?hits"
      then obtain c where c: "c \<in> set ?rows" and h: "chunk_hit_of ?fused c = Inr h" using from_rows by auto
      from h have "hit_chunk_id h = chk_id c \<and> hit_content h = chk_content c"
        by (auto simp: chunk_hit_of_def split: option.splits)
      with subsetD [OF winners(3) c] show "\<exists>c \<in> set ?cs. hit_chunk_id h = chk_id c \<and> hit_content h = chk_content c" by blast
    qed
    with False start hits order show ?thesis
      by (intro exI [of _ ?hits]) (simp add: sql_select_def)
  qed
qed

text \<open>
  C31: what a search returns. It changes nothing. When Postgres refuses the query vector the
  search fails with that error. Otherwise the hits are exactly the first \<open>top_k\<close> of the fusion of
  the two legs, in that order and with those scores, none of them infinite: the dense leg is
  what the plan visited, as far as the session may see it (and of the given document, if one is
  given), up to \<open>leg_k\<close> rows, the sparse leg the best-ranked matches among the same chunks. Each
  hit carries the text of its chunk. Hydrating the winners loses none and reorders none.
\<close>

theorem hybrid_search_spec:
  assumes wf: "wf_db (db w)" and k: "0 \<le> k"
    and n: "k + int (case leg_k of Some n \<Rightarrow> n | None \<Rightarrow> max (top_k * 4) 20) \<le> 2 ^ 49" and q: "query_embedding \<noteq> []"
    and wt: "\<bar>w_dense weights\<bar> \<le> 2 ^ 900" "\<bar>w_sparse weights\<bar> \<le> 2 ^ 900"
  shows "case dense_scan pg (''['' @ py_join '','' (map fl query_embedding) @ '']'') (t_chunks (db w)) of
      Inl e \<Rightarrow> hybrid_search pg fl query_text query_embedding top_k weights document_id k leg_k w = (Inl e, w)
    | Inr visited \<Rightarrow> \<exists>hits. hybrid_search pg fl query_text query_embedding top_k weights document_id k leg_k w = (Inr hits, w)
        \<and> map (\<lambda>h. (hit_chunk_id h, hit_score h)) hits = take top_k (expected_fusion pg visited query_text
            (case leg_k of Some n \<Rightarrow> n | None \<Rightarrow> max (top_k * 4) 20) weights k
            (select_rows chunks_table (in_document document_id) w))
        \<and> (\<forall>h \<in> set hits. \<not> out_of_range (hit_score h)
            \<and> (\<exists>c \<in> set (select_rows chunks_table (in_document document_id) w).
                hit_chunk_id h = chk_id c \<and> hit_content h = chk_content c))"
proof (cases "dense_scan pg (''['' @ py_join '','' (map fl query_embedding) @ '']'') (t_chunks (db w))")
  case (Inl e)
  define v where "v = ''['' @ py_join '','' (map fl query_embedding) @ '']''"
  have "vector_literal fl query_embedding = Inr v" using q by (simp add: vector_literal_def v_def)
  with Inl show ?thesis unfolding v_def [symmetric]
    by (simp add: hybrid_search_def dense_leg_def sql_select_def bnd_assoc Let_def del: not_None_eq)
next
  case (Inr visited)
  let ?n = "case leg_k of Some n \<Rightarrow> n | None \<Rightarrow> max (top_k * 4) 20"
  let ?cs = "select_rows chunks_table (in_document document_id) w"
  from hybrid_search_run [OF wf k n q Inr, of query_text weights document_id] obtain hits
    where hits: "hybrid_search pg fl query_text query_embedding top_k weights document_id k leg_k w = (Inr hits, w)"
      "map (\<lambda>h. (hit_chunk_id h, hit_score h)) hits = take top_k (expected_fusion pg visited query_text ?n weights k ?cs)"
      "\<forall>h \<in> set hits. \<exists>c \<in> set ?cs. hit_chunk_id h = chk_id c \<and> hit_content h = chk_content c" by blast
  have "\<not> out_of_range (hit_score h)" if "h \<in> set hits" for h
  proof -
    have "(hit_chunk_id h, hit_score h) \<in> set (map (\<lambda>h. (hit_chunk_id h, hit_score h)) hits)" using that by simp
    then have "(hit_chunk_id h, hit_score h) \<in> set (expected_fusion pg visited query_text ?n weights k ?cs)"
      unfolding hits(2) by (rule in_set_takeD)
    moreover have "weights_fit (leg_weights weights)" using wt by (simp add: weights_fit_def leg_weights_def)
    moreover have "int ?n \<le> 2 ^ 49" using k n by linarith
    ultimately show ?thesis using scores_close(2) [OF k _ search_legs_length]
      by (auto simp only: expected_fusion_def rrf_ranking_set prod.inject mem_Collect_eq)
  qed
  with hits Inr show ?thesis by simp
qed

lemma hits_visible:
  assumes "hybrid_search pg fl query_text query_embedding top_k weights document_id k leg_k w = (Inr hits, w')"
  shows "w' = w \<and> (\<forall>h \<in> set hits. \<exists>c \<in> set (select_rows chunks_table (\<lambda>_. True) w).
    hit_chunk_id h = chk_id c \<and> hit_content h = chk_content c)"
proof -
  have from_rows: "\<exists>c \<in> set rows. hit_chunk_id h = chk_id c \<and> hit_content h = chk_content c"
    if "smap (chunk_hit_of f) rows = Inr hs" "h \<in> set hs" for f rows hs h
  proof -
    have "list_all2 (\<lambda>c h. chunk_hit_of f c = Inr h) rows hs" using that(1) by (rule smap_Inr)
    with that(2) obtain c where "c \<in> set rows" "chunk_hit_of f c = Inr h"
      by (auto simp: list_all2_conv_all_nth in_set_conv_nth) blast
    then show ?thesis by (auto simp: chunk_hit_of_def split: option.splits)
  qed
  have sum: "lift_sum m s = (m, s)" for m :: "exn + 'x" and s :: "'y" by (cases m) simp_all
  show ?thesis
    using assms
    by (auto simp: hybrid_search_def Let_def dense_leg_def sparse_leg_def sql_select_def sum bnd_app
        split: sum.splits if_splits dest!: from_rows) (auto simp: select_rows_def)
qed

text \<open>
  C8: the guard fails closed. A search for an organisation runs only in a session scoped to
  exactly that organisation, and is then the hybrid search; in any other session, an unscoped
  one included, it raises \<open>MemoryScopeError\<close> before a row is read. So every hit ever returned
  is a chunk of the organisation that was asked for.
\<close>

theorem memory_scope_fails_closed:
  shows "(if guc w = Some org \<and> org \<noteq> []
     then org_scoped_search pg fl org q v top_k wt doc k leg_k w = hybrid_search pg fl q v top_k wt doc k leg_k w
     else \<exists>m. org_scoped_search pg fl org q v top_k wt doc k leg_k w = (Inl (MemoryScopeError m), w))
    \<and> (case org_scoped_search pg fl org q v top_k wt doc k leg_k w of
        (Inl e, _) \<Rightarrow> True
      | (Inr hits, w') \<Rightarrow> w' = w \<and> list_all (\<lambda>h. list_ex (\<lambda>c. hit_chunk_id h = chk_id c \<and> hit_content h = chk_content c
            \<and> org_policy (Some org) (db w) (chk_org_id c)) (t_chunks (db w))) hits)"
proof (cases "guc w = Some org \<and> org \<noteq> []")
  case True
  then have eq: "org_scoped_search pg fl org q v top_k wt doc k leg_k w = hybrid_search pg fl q v top_k wt doc k leg_k w"
    by (simp add: org_scoped_search_def assert_session_scoped_to_def bnd_assoc)
  show ?thesis
  proof (cases "hybrid_search pg fl q v top_k wt doc k leg_k w")
    case (Pair r w')
    show ?thesis
    proof (cases r)
      case (Inr hits)
      from hits_visible [OF Pair [unfolded Inr]] True Pair Inr eq show ?thesis
        by (fastforce simp: list_all_iff list_ex_iff select_rows_def visible_def)
    qed (use True Pair eq in simp)
  qed
next
  case False
  then have "\<exists>m. org_scoped_search pg fl org q v top_k wt doc k leg_k w = (Inl (MemoryScopeError m), w)"
    by (cases "guc w") (auto simp: org_scoped_search_def assert_session_scoped_to_def bnd_app)
  with False show ?thesis by auto
qed

end
