(* ===== verification/SandboxRetrieval.thy ===== *)
theory SandboxRetrieval
  imports Retrieval IngestChunks
begin

section \<open>The retrieval sandbox\<close>

text \<open>
  \<open>sandbox/retrieve.py\<close>: the small application that ingests one PDF for a fixed tenant and
  answers questions over its chunks. Writing the upload to a temporary file and running
  \<open>emit_chunks\<close> of the parse service on it is the argument \<open>emit\<close>: given the file's name and
  bytes, an exception of the operating system, or the exit code, the standard error and the
  chunks of the standard output. \<open>index\<close>, which serves a static page, is left out.
\<close>

definition ORG_KEY :: string where
  "ORG_KEY = ''sandbox_retrieval''"

definition EMBED_DIM :: nat where
  "EMBED_DIM = 1024"

definition has_voyage :: "'c env \<Rightarrow> bool" where
  "has_voyage env \<longleftrightarrow> voyage_api_key (settings env) \<noteq> []"

definition mode :: "'c env \<Rightarrow> json" where
  "mode env = JObj [(''dense'', JBool (has_voyage env))]"

definition sandbox_org :: "('c, int) act" where
  "sandbox_org =
     bnd (sql_first organisation_table (\<lambda>o1. org_clerk_org_id o1 = ORG_KEY)) (\<lambda>found. case found of
       Some r \<Rightarrow> ret (org_id r)
     | None \<Rightarrow> bnd next_org_id (\<lambda>i. bnd utc_now (\<lambda>now.
         seq (sql_insert organisation_table \<lparr>org_id = i, org_clerk_org_id = ORG_KEY,
                org_name = ''retrieval sandbox'', org_type = Some PE_FIRM, org_created_at = now\<rparr>)
           (ret i))))"

subsection \<open>Uploading\<close>

text \<open>\<open>Path(filename).name\<close>: the last part that is neither empty nor a dot.\<close>

definition path_name :: "string \<Rightarrow> string" where
  "path_name p = (case rev (filter (\<lambda>part. part \<noteq> [] \<and> part \<noteq> ''.'') (py_split p (CHR ''/''))) of
      [] \<Rightarrow> [] | part # _ \<Rightarrow> part)"

type_synonym parser = "string \<Rightarrow> bytes \<Rightarrow> exn + (int \<times> string \<times> (exn + seam_chunk list))"

text \<open>\<open>s[-500:]\<close>\<close>

definition emitted :: "parser \<Rightarrow> string \<Rightarrow> bytes \<Rightarrow> exn + seam_chunk list" where
  "emitted emit filename body =
     sbind (emit (str_or (Some (path_name filename)) ''upload.pdf'') body) (\<lambda>(returncode, stderr, chunks).
       if returncode \<noteq> 0 then
         Inl (HTTPException 500 (JStr (''emit_chunks failed: '' @ drop (length stderr - 500) stderr)))
       else chunks)"

definition replace_chunks ::
  "(string \<Rightarrow> uuid) \<Rightarrow> seam_chunk list \<Rightarrow> rat list option list \<Rightarrow> string option \<Rightarrow> ('c, unit) act" where
  "replace_chunks uuid5 chunks embeddings ver =
     in_transaction (seq (set_org_scope ORG_KEY)
       (bnd sandbox_org (\<lambda>org.
        bnd (sql_delete chunks_table (\<lambda>c. chk_org_id c = org)) (\<lambda>_.
        seq (guard (length chunks = length embeddings) (ValueError ''zip() arguments have different lengths''))
        (bnd (mmap (insert_chunk uuid5 org ver) (zip chunks embeddings)) (\<lambda>_. ret ()))))))"

definition sandbox_ingest ::
  "'c env \<Rightarrow> (string \<Rightarrow> uuid) \<Rightarrow> parser \<Rightarrow> bytes \<Rightarrow> string \<Rightarrow> ('c, json) act" where
  "sandbox_ingest env uuid5 emit body filename =
     seq (guard (body \<noteq> []) (HTTPException 400 (JStr ''empty upload'')))
     (bnd (lift_sum (emitted emit filename body)) (\<lambda>chunks.
      bnd (embed_chunks env chunks (has_voyage env)) (\<lambda>(embeddings, ver).
      seq (replace_chunks uuid5 chunks embeddings ver)
        (ret (JObj [(''filename'', JStr filename), (''chunks'', JInt (int (length chunks))),
           (''embedded'', JBool (has_voyage env))])))))"

subsection \<open>Asking\<close>

text \<open>\<open>round(x, 4)\<close>: the float next to the nearest decimal, ties to even.\<close>

definition round4 :: "rat \<Rightarrow> rat" where
  "round4 x = b64 (of_int (round_even (x * 10000)) / 10000)"

definition sandbox_hit :: "chunk_hit \<Rightarrow> json" where
  "sandbox_hit h = JObj [(''score'', JFloat (round4 (hit_score h))), (''page'', opt_int (hit_page h)),
     (''element_type'', opt_str (hit_element_type h)), (''content'', JStr (hit_content h))]"

fun py_strip_value :: "json \<Rightarrow> exn + string" where
  "py_strip_value (JStr s) = Inr (py_strip s)"
| "py_strip_value _ = Inl AttributeError"

definition sandbox_query ::
  "'c env \<Rightarrow> search_engine \<Rightarrow> (rat \<Rightarrow> string) \<Rightarrow> (string \<times> json) list \<Rightarrow> ('c, json) act" where
  "sandbox_query env pg fl body =
     bnd (lift_sum (sbind (json_get (JObj body) ''question'') (\<lambda>q. py_strip_value (py_or q (JStr ''''))))) (\<lambda>question.
     seq (guard (question \<noteq> []) (HTTPException 400 (JStr ''empty question'')))
     (bnd (if has_voyage env then bnd (lift_sum (get_embedder env)) (\<lambda>e. embed_query env e question)
           else ret (replicate EMBED_DIM 0)) (\<lambda>query_embedding.
      bnd (in_transaction (seq (set_org_scope ORG_KEY)
             (hybrid_search pg fl question query_embedding 10 \<lparr>w_dense = 1, w_sparse = 1\<rparr> None RRF_K None))) (\<lambda>hits.
        ret (JObj [(''dense'', JBool (has_voyage env)), (''hits'', JArr (map sandbox_hit hits))])))))"

subsection \<open>An upload replaces the previous one, or leaves it\<close>

lemma insert_chunk_InrE:
  assumes "insert_chunk uuid5 org ver ce s = (Inr (), s')"
  obtains r where "db s' = t_chunks_update (\<lambda>rs. rs @ [r]) (db s)" and "uow s' = uow s"
    and "chk_org_id r = org" "chk_content r = fold_content (fst ce)" "chk_page r = sc_page (fst ce)"
  using assms
  by (auto simp: insert_chunk_def gen_random_uuid_def utc_now_def bnd_app sql_insert_def chunk_row_def split: option.splits)

lemma chunks_inserted:
  assumes "mmap (insert_chunk uuid5 org ver) ces s = (Inr xs, s')"
  shows "\<exists>rows. db s' = t_chunks_update (\<lambda>rs. rs @ rows) (db s) \<and> uow s' = uow s
    \<and> map (\<lambda>r. (chk_org_id r, chk_content r, chk_page r)) rows = map (\<lambda>ce. (org, fold_content (fst ce), sc_page (fst ce))) ces"
  using assms
proof (induction ces arbitrary: s xs)
  case Nil
  then show ?case by (intro exI [of _ "[]"]) simp
next
  case (Cons ce ces)
  from Cons.prems obtain s1 ys where s1: "insert_chunk uuid5 org ver ce s = (Inr (), s1)"
    and rest: "mmap (insert_chunk uuid5 org ver) ces s1 = (Inr ys, s')"
    by (auto elim!: bnd_InrE)
  from s1 obtain r where r: "db s1 = t_chunks_update (\<lambda>rs. rs @ [r]) (db s)" "uow s1 = uow s"
    "chk_org_id r = org" "chk_content r = fold_content (fst ce)" "chk_page r = sc_page (fst ce)" by (rule insert_chunk_InrE)
  from Cons.IH [OF rest] obtain rows where "db s' = t_chunks_update (\<lambda>rs. rs @ rows) (db s1)" "uow s' = uow s1"
    "map (\<lambda>r. (chk_org_id r, chk_content r, chk_page r)) rows = map (\<lambda>ce. (org, fold_content (fst ce), sc_page (fst ce))) ces" by blast
  with r show ?case by (intro exI [of _ "r # rows"]) (simp add: comp_def)
qed

lemma sandbox_org_InrE:
  assumes run: "sandbox_org s = (Inr org, s')" and s: "guc s = Some ORG_KEY" and wf: "wf_db (db s)"
  shows "t_chunks (db s') = t_chunks (db s) \<and> guc s' = Some ORG_KEY \<and> uow s' = uow s
    \<and> (\<forall>i. org_policy (Some ORG_KEY) (db s') i \<longleftrightarrow> i = org)"
proof (cases "first_row organisation_table (\<lambda>o1. org_clerk_org_id o1 = ORG_KEY) s")
  case None
  with s have no: "\<forall>x \<in> set (t_organisation (db s)). \<not> clerk_policy (Some ORG_KEY) (org_clerk_org_id x)"
    by (auto simp: first_row_def first_match_None visible_def clerk_policy_def)
  have own: "clerk_policy (Some ORG_KEY) ORG_KEY" by (simp add: clerk_policy_def)
  have nil: "filter (\<lambda>o1. clerk_policy (Some ORG_KEY) (org_clerk_org_id o1)) (t_organisation (db s)) = []"
    using no by (simp add: filter_empty_conv)
  have pol: "org_policy (Some ORG_KEY) (t_organisation_update (\<lambda>rs. rs @ [r]) (db s)) i \<longleftrightarrow> i = org_id r"
    if "org_clerk_org_id r = ORG_KEY" for i and r :: organisation
    by (simp add: org_policy_def nil own that del: set_filter)
  define r where "r = \<lparr>org_id = seq_organisation s, org_clerk_org_id = ORG_KEY,
    org_name = ''retrieval sandbox'', org_type = Some PE_FIRM, org_created_at = clock s\<rparr>"
  have "sandbox_org s = (case sql_insert organisation_table r (s\<lparr>seq_organisation := seq_organisation s + 1\<rparr>) of
      (Inl e, s1) \<Rightarrow> (Inl e, s1) | (Inr _, s1) \<Rightarrow> (Inr (seq_organisation s), s1))"
    by (simp add: sandbox_org_def sql_first_def bnd_app None next_org_id_def utc_now_def r_def split: prod.splits sum.splits)
  with run obtain s1 where "sql_insert organisation_table r (s\<lparr>seq_organisation := seq_organisation s + 1\<rparr>) = (Inr (), s1)"
    and "org = seq_organisation s" "s' = s1"
    by (auto split: prod.splits sum.splits)
  then have made_row: "org = org_id r \<and> s' = s\<lparr>seq_organisation := seq_organisation s + 1, db := t_organisation_update (\<lambda>rs. rs @ [r]) (db s)\<rparr>"
    by (simp add: sql_insert_def r_def split: option.splits if_splits)
  have made: "org = org_id r" "s' = s\<lparr>seq_organisation := seq_organisation s + 1, db := t_organisation_update (\<lambda>rs. rs @ [r]) (db s)\<rparr>"
    using made_row by simp_all
  have key: "org_clerk_org_id r = ORG_KEY" by (simp add: r_def)
  have d: "db s' = t_organisation_update (\<lambda>rs. rs @ [r]) (db s)" unfolding made(2) by simp
  have "guc s' = Some ORG_KEY" "uow s' = uow s" unfolding made(2) by (simp_all add: s)
  moreover have "t_chunks (db s') = t_chunks (db s)" unfolding d by simp
  moreover have "\<forall>i. org_policy (Some ORG_KEY) (db s') i \<longleftrightarrow> i = org" unfolding d made(1) using pol [OF key] by blast
  ultimately show ?thesis by blast
next
  case (Some r)
  have d: "distinct (map org_clerk_org_id (t_organisation (db s)))" using wf_tableD(3) [OF wf] by (simp add: wf_table_def)
  from orgs.first_visible [OF Some] have r: "r \<in> set (t_organisation (db s))" "org_clerk_org_id r = ORG_KEY" by simp_all
  have one: "x = r" if "x \<in> set (t_organisation (db s))" "org_clerk_org_id x = ORG_KEY" for x
    using d r that by (metis distinct_map inj_onD)
  from run Some have same: "s' = s" "org = org_id r" by (auto simp: sandbox_org_def sql_first_def bnd_app)
  have "clerk_policy (Some ORG_KEY) (org_clerk_org_id x) \<longleftrightarrow> x = r" if "x \<in> set (t_organisation (db s))" for x
    using one [OF that] r(2) by (auto simp: clerk_policy_def)
  then have "{x \<in> set (t_organisation (db s)). clerk_policy (Some ORG_KEY) (org_clerk_org_id x)} = {r}" using r(1) by auto
  then have "org_policy (Some ORG_KEY) (db s) i \<longleftrightarrow> i = org_id r" for i
    unfolding org_policy_def set_map set_filter by auto
  then show ?thesis unfolding same using s by blast
qed

lemma replace_chunks_outcome:
  assumes wf: "wf_db (db w)" and run: "replace_chunks uuid5 chunks embeddings ver w = (Inr (), w')"
  shows "\<exists>org rows. t_chunks (db w') = filter (\<lambda>r. chk_org_id r \<noteq> org) (t_chunks (db w)) @ rows
    \<and> (\<forall>i. org_policy (Some ORG_KEY) (db w') i \<longleftrightarrow> i = org)
    \<and> map (\<lambda>r. (chk_org_id r, chk_content r, chk_page r)) rows = map (\<lambda>c. (org, fold_content c, sc_page c)) chunks"
proof -
  let ?s = "w\<lparr>uow := [], guc := Some ORG_KEY\<rparr>"
  from run obtain wa wb where body: "seq (set_org_scope ORG_KEY) (bnd sandbox_org (\<lambda>org.
        bnd (sql_delete chunks_table (\<lambda>c. chk_org_id c = org)) (\<lambda>_.
        seq (guard (length chunks = length embeddings) (ValueError ''zip() arguments have different lengths''))
        (bnd (mmap (insert_chunk uuid5 org ver) (zip chunks embeddings)) (\<lambda>_. ret ())))))
        (w\<lparr>guc := None, uow := []\<rparr>) = (Inr (), wa)"
    and fl: "flush wa = (Inr (), wb)" and w': "w' = wb\<lparr>guc := None, uow := []\<rparr>"
    unfolding replace_chunks_def by (rule transaction_InrE)
  from body obtain org s1 s2 del xs where org: "sandbox_org ?s = (Inr org, s1)"
    and del: "sql_delete chunks_table (\<lambda>c. chk_org_id c = org) s1 = (Inr del, s2)" and len: "length chunks = length embeddings"
    and ins: "mmap (insert_chunk uuid5 org ver) (zip chunks embeddings) s2 = (Inr xs, wa)"
    by (auto simp: set_org_scope_def elim!: bnd_InrE split: if_splits)
  have o1: "t_chunks (db s1) = t_chunks (db w)" "guc s1 = Some ORG_KEY" "uow s1 = []"
      "\<And>i. org_policy (Some ORG_KEY) (db s1) i \<longleftrightarrow> i = org"
    using sandbox_org_InrE [OF org] wf by simp_all
  have s2: "db s2 = t_chunks_update (filter (\<lambda>r. chk_org_id r \<noteq> org)) (db s1)" "uow s2 = []"
    using del o1 by (auto simp: sql_delete_def visible_def)
  from chunks_inserted [OF ins] obtain rows where rows: "db wa = t_chunks_update (\<lambda>rs. rs @ rows) (db s2)" "uow wa = []"
    "map (\<lambda>r. (chk_org_id r, chk_content r, chk_page r)) rows = map (\<lambda>ce. (org, fold_content (fst ce), sc_page (fst ce))) (zip chunks embeddings)"
    using s2(2) by auto
  have "map (\<lambda>ce. (org, fold_content (fst ce), sc_page (fst ce))) (zip chunks embeddings)
      = map (\<lambda>c. (org, fold_content c, sc_page c)) (map fst (zip chunks embeddings))" by (simp only: map_map comp_def)
  then have content: "map (\<lambda>r. (chk_org_id r, chk_content r, chk_page r)) rows = map (\<lambda>c. (org, fold_content c, sc_page c)) chunks"
    using rows(3) len by simp
  have "db w' = db wa" using fl rows(2) w' by (auto simp: flush_def run_writes.simps)
  then show ?thesis
    using rows(1) s2 o1 content by (intro exI [of _ org] exI [of _ rows]) (simp add: comp_def)
qed

text \<open>
  C36: an upload replaces the previous one or leaves it. When the sandbox's ingest fails, in the
  parser, the embedder or the database, no table has changed; when it returns, the chunks of the
  sandbox's organisation are exactly the emitted ones, in order, with their folded content, and
  every other organisation's chunks are what they were.
\<close>

theorem sandbox_upload_replaces:
  assumes wf: "wf_db (db w)"
  shows "case sandbox_ingest env uuid5 emit body filename w of
     (Inl e, w') \<Rightarrow> db w' = db w
   | (Inr resp, w') \<Rightarrow> \<exists>chunks org rows. emitted emit filename body = Inr chunks
       \<and> t_chunks (db w') = filter (\<lambda>r. chk_org_id r \<noteq> org) (t_chunks (db w)) @ rows
       \<and> (\<forall>i. org_policy (Some ORG_KEY) (db w') i \<longleftrightarrow> i = org)
       \<and> map (\<lambda>r. (chk_org_id r, chk_content r, chk_page r)) rows = map (\<lambda>c. (org, fold_content c, sc_page c)) chunks"
proof (cases "body = [] \<or> isl (emitted emit filename body)")
  case True
  then show ?thesis by (cases "emitted emit filename body") (auto simp: sandbox_ingest_def bnd_app)
next
  case False
  then obtain chunks where chunks: "emitted emit filename body = Inr chunks" by (cases "emitted emit filename body") auto
  obtain x w1 where emb: "embed_chunks env chunks (has_voyage env) w = (x, w1)" by fastforce
  obtain c where "w1 = outside w c" using externalE [OF embed_chunks_external emb] by blast
  then have same: "db w1 = db w" by simp
  show ?thesis
  proof (cases x)
    case (Inr p)
    obtain embeddings ver where p: "p = (embeddings, ver)" by fastforce
    obtain y w2 where rep: "replace_chunks uuid5 chunks embeddings ver w1 = (y, w2)" by fastforce
    have run: "sandbox_ingest env uuid5 emit body filename w = (map_sum id (\<lambda>_. JObj [(''filename'', JStr filename),
        (''chunks'', JInt (int (length chunks))), (''embedded'', JBool (has_voyage env))]) y, w2)"
      using False by (cases y) (simp_all add: sandbox_ingest_def bnd_app chunks emb Inr p rep)
    show ?thesis
    proof (cases y)
      case (Inl e)
      have "db w2 = db w1" by (rule transaction_Inl [OF rep [unfolded replace_chunks_def Inl]])
      then have "db w2 = db w" by (rule trans) (rule same)
      then show ?thesis unfolding run Inl map_sum.simps prod.case sum.case .
    next
      case (Inr u)
      with rep have rep': "replace_chunks uuid5 chunks embeddings ver w1 = (Inr (), w2)" by simp
      have "wf_db (db w1)" using wf same by simp
      from replace_chunks_outcome [OF this rep'] obtain org rows where
          "t_chunks (db w2) = filter (\<lambda>r. chk_org_id r \<noteq> org) (t_chunks (db w1)) @ rows"
          "\<forall>i. org_policy (Some ORG_KEY) (db w2) i \<longleftrightarrow> i = org"
          "map (\<lambda>r. (chk_org_id r, chk_content r, chk_page r)) rows = map (\<lambda>c. (org, fold_content c, sc_page c)) chunks"
        by (elim exE conjE)
      note found = chunks this(1) [unfolded same] this(2,3)
      show ?thesis unfolding run Inr map_sum.simps prod.case sum.case
        by (intro exI conjI) (rule found)+
    qed
  qed (use False chunks emb same in \<open>simp add: sandbox_ingest_def bnd_app\<close>)
qed

subsection \<open>An answer\<close>

lemma lift_sum_state: "lift_sum m w = (r, w') \<longleftrightarrow> m = r \<and> w' = w"
  by (cases m) auto

lemma question_embedded_external:
  "external (if has_voyage env then bnd (lift_sum (get_embedder env)) (\<lambda>e. embed_query env e question)
     else ret (replicate EMBED_DIM 0))"
  unfolding embed_query_def by (intro external_rules embed_loop_external external_if) (auto intro!: external_rules split: list.splits)

lemma scoped_search_reads:
  assumes run: "in_transaction (seq (set_org_scope k) (hybrid_search pg fl q v top_k wt doc rk leg_k)) w = (Inr hits, w')"
  shows "db w' = db w \<and> (\<forall>h \<in> set hits. \<exists>c \<in> set (t_chunks (db w)). org_policy (Some k) (db w) (chk_org_id c)
    \<and> hit_chunk_id h = chk_id c \<and> hit_content h = chk_content c)"
proof -
  from run obtain w1 w2 where w1: "hybrid_search pg fl q v top_k wt doc rk leg_k (w\<lparr>uow := [], guc := Some k\<rparr>) = (Inr hits, w1)"
    and fl: "flush w1 = (Inr (), w2)" and w': "w' = w2\<lparr>guc := None, uow := []\<rparr>"
    by (elim transaction_InrE) (simp add: set_org_scope_def bnd_app split: if_splits)
  note seen = hits_visible [OF w1]
  then have "db w' = db w" using fl w' by (auto simp: flush_def run_writes.simps)
  then show ?thesis using seen by (fastforce simp: select_rows_def visible_def chunks_table_def)
qed

lemma sandbox_answers:
  assumes run: "sandbox_query env pg fl body w = (Inr resp, w')"
  shows "db w' = db w \<and> (\<exists>hits. resp = JObj [(''dense'', JBool (has_voyage env)), (''hits'', JArr (map sandbox_hit hits))]
    \<and> (\<forall>h \<in> set hits. \<exists>c \<in> set (t_chunks (db w)). org_policy (Some ORG_KEY) (db w) (chk_org_id c)
      \<and> hit_chunk_id h = chk_id c \<and> hit_content h = chk_content c))"
proof -
  from run obtain q v w1 hits where emb: "(if has_voyage env then bnd (lift_sum (get_embedder env)) (\<lambda>e. embed_query env e q)
      else ret (replicate EMBED_DIM 0)) w = (Inr v, w1)"
    and search: "in_transaction (seq (set_org_scope ORG_KEY) (hybrid_search pg fl q v 10 \<lparr>w_dense = 1, w_sparse = 1\<rparr> None RRF_K None)) w1
      = (Inr hits, w')"
    and resp: "resp = JObj [(''dense'', JBool (has_voyage env)), (''hits'', JArr (map sandbox_hit hits))]"
    unfolding sandbox_query_def by (elim bnd_InrE) (auto simp: lift_sum_state split: if_splits)
  obtain c where "w1 = outside w c" using externalE [OF question_embedded_external emb] by blast
  then have "db w1 = db w" by simp
  with scoped_search_reads [OF search] resp show ?thesis by auto
qed

end
