(* ===== verification/Operators.thy ===== *)
theory Operators
  imports IngestClaims SandboxRetrieval
begin

section \<open>Scripts an operator runs\<close>

text \<open>
  The three entry points outside the web application that write to its database: the chunk and
  claim scripts and the retrieval sandbox. They act for the organisation named on the command
  line (the sandbox: for its fixed one) and, the sandbox apart, end their transaction under
  another scope, to show that row-level security hides what they wrote. This theory shows that
  they keep the tenant invariant of \<open>Tenancy\<close>.
\<close>

record tools =
  tl_uuid5 :: "string \<Rightarrow> uuid"
  tl_schema :: validator
  tl_int :: "json \<Rightarrow> exn + int"
  tl_parser :: parser
  tl_engine :: search_engine
  tl_float_text :: "rat \<Rightarrow> string"

datatype script =
    IngestChunksScript "seam_chunk list" string bool
  | IngestClaimsScript json string bool "string option"
  | SandboxIngest bytes string
  | SandboxQuery "(string \<times> json) list"

fun operate :: "'c env \<Rightarrow> tools \<Rightarrow> script \<Rightarrow> ('c, unit) act" where
  "operate env ts (IngestChunksScript chunks org_key commit) =
     ingest_chunks_main env (tl_uuid5 ts) chunks org_key commit"
| "operate env ts (IngestClaimsScript payload org_key commit session_arg) =
     ingest_claims_main (tl_schema ts) (tl_int ts) payload org_key commit session_arg"
| "operate env ts (SandboxIngest body filename) =
     bnd (sandbox_ingest env (tl_uuid5 ts) (tl_parser ts) body filename) (\<lambda>_. ret ())"
| "operate env ts (SandboxQuery body) =
     bnd (sandbox_query env (tl_engine ts) (tl_float_text ts) body) (\<lambda>_. ret ())"

fun script_org :: "script \<Rightarrow> string" where
  "script_org (IngestChunksScript chunks org_key commit) = org_key"
| "script_org (IngestClaimsScript payload org_key commit session_arg) = org_key"
| "script_org _ = ORG_KEY"

subsection \<open>A transaction that ends under another scope\<close>

definition nothing_added :: "'c world \<Rightarrow> bool" where
  "nothing_added w \<longleftrightarrow> uow w = []"

lemma nothing_added_rules:
  "keeps nothing_added (sql_insert T r)" "keeps nothing_added (sql_first T p)"
  "keeps nothing_added next_org_id" "keeps nothing_added (set_org_scope t)" "keeps nothing_added gen_random_uuid"
  by (auto simp: keeps_def nothing_added_def sql_insert_def sql_first_def next_org_id_def set_org_scope_def
      gen_random_uuid_def split: option.split)

lemma rescoped_end_confined:
  assumes m: "keeps (confined S H L) m" "keeps nothing_added m"
  shows "keeps (confined S H L) (in_transaction (bnd m (\<lambda>_. seq (set_org_scope t) (guard b e))))"
proof (rule keepsI)
  fix w :: "'a world" assume I: "confined S H L w"
  let ?w = "w\<lparr>guc := None, uow := []\<rparr>"
  have "confined S H L ?w" using I by (simp add: confined_def scoped_def)
  then have c: "confined S H L (snd (m ?w))" by (rule keepsD [OF m(1)])
  have "nothing_added ?w" by (simp add: nothing_added_def)
  then have n: "uow (snd (m ?w)) = []" using keepsD [OF m(2)] by (simp add: nothing_added_def)
  show "confined S H L (snd (in_transaction (bnd m (\<lambda>_. seq (set_org_scope t) (guard b e))) w))"
  proof (cases "m ?w")
    case (Pair x w1)
    with I c n show ?thesis
      by (cases x; cases b)
        (auto simp: in_transaction_def bnd_app set_org_scope_def flush_def run_writes.simps confined_def scoped_def)
  qed
qed

subsection \<open>The scripts keep the tenant invariant\<close>

lemma next_org_confined [keep_rules]: "keeps (confined S H L) next_org_id"
  by (simp add: keeps_def next_org_id_def confined_frame)

lemma demo_org_keeps [keep_rules]: "keeps (confined S H L) (demo_org k)" "keeps nothing_added (demo_org k)"
  unfolding demo_org_def by (intro keep_rules nothing_added_rules, intro keep_rules nothing_added_rules)

lemma inserts_keep [keep_rules]:
  "keeps (confined S H L) (insert_chunk uuid5 org ver ce)" "keeps nothing_added (insert_chunk uuid5 org ver ce)"
  "keeps (confined S H L) (insert_claim int_of org sid oc)" "keeps nothing_added (insert_claim int_of org sid oc)"
  unfolding insert_chunk_def insert_claim_def by (intro keep_rules nothing_added_rules; fail)+

lemma store_chunks_confined:
  assumes "k \<in> S"
  shows "keeps (confined S H L) (store_chunks uuid5 k chunks es ver commit)"
proof -
  have eq: "store_chunks uuid5 k chunks es ver commit = in_transaction (bnd (seq (set_org_scope k) (bnd (demo_org k) (\<lambda>org.
      seq (guard (length chunks = length es) (ValueError ''zip() arguments have different lengths''))
        (mmap (insert_chunk uuid5 org ver) (zip chunks es)))))
      (\<lambda>_. seq (set_org_scope ''some_other_org'') (guard commit DryRunRollback)))"
    by (simp add: store_chunks_def bnd_assoc)
  show ?thesis
    unfolding eq by (intro rescoped_end_confined keep_rules nothing_added_rules scope_confined assms)
qed

lemma store_claims_confined:
  assumes "k \<in> S"
  shows "keeps (confined S H L) (store_claims int_of k claims sid commit)"
proof -
  have eq: "store_claims int_of k claims sid commit = in_transaction (bnd (seq (set_org_scope k) (bnd (demo_org k) (\<lambda>org.
      bnd (lift_sum (smap row_from_claim claims)) (mmap (insert_claim int_of org sid)))))
      (\<lambda>_. seq (set_org_scope ''some_other_org'') (guard commit DryRunRollback)))"
    by (simp add: store_claims_def bnd_assoc)
  show ?thesis
    unfolding eq by (intro rescoped_end_confined keep_rules nothing_added_rules scope_confined assms)
qed

lemma keeps_catch_rollback:
  "keeps I m \<Longrightarrow> keeps I (try_catch m (\<lambda>e. case e of DryRunRollback \<Rightarrow> ret () | _ \<Rightarrow> throw e))"
  by (rule keeps_try) (auto simp: keep_rules split: exn.split)

lemma run_session_id_keeps [keep_rules]: "keeps (confined S H L) (run_session_id arg)"
  unfolding run_session_id_def by (intro keep_rules)

lemma embedding_confined [keep_rules]:
  "keeps (confined S H L) (embed_chunks env cs b)" "keeps (confined S H L) (embed_query env e q)"
proof -
  show "keeps (confined S H L) (embed_chunks env cs b)" by (rule external_confined [OF embed_chunks_external])
  show "keeps (confined S H L) (embed_query env e q)"
    unfolding embed_query_def by (intro keep_rules external_confined [OF embed_loop_external]) (auto intro: keep_rules split: list.split)
qed

lemma sandbox_keeps:
  assumes "ORG_KEY \<in> S"
  shows "keeps (confined S H L) (sandbox_ingest env uuid5 emit body filename)"
    and "keeps (confined S H L) (sandbox_query env pg fl query)"
proof -
  have org: "keeps (confined S H L) sandbox_org" unfolding sandbox_org_def by (intro keep_rules)
  have replace: "keeps (confined S H L) (replace_chunks uuid5 chunks es ver)" for chunks es ver
    unfolding replace_chunks_def
    by (intro transaction_confined keep_rules scope_confined assms org chunks.delete_confined)
  show "keeps (confined S H L) (sandbox_ingest env uuid5 emit body filename)"
    unfolding sandbox_ingest_def by (intro keep_rules replace)
  have search: "keeps (confined S H L) (hybrid_search pg fl q v n wt doc k leg)" for q v n wt doc k leg
    unfolding hybrid_search_def dense_leg_def sparse_leg_def Let_def by (intro keep_rules chunks.sql_select_keeps)
  show "keeps (confined S H L) (sandbox_query env pg fl query)"
    unfolding sandbox_query_def
    by (intro keep_rules search transaction_confined scope_confined assms)
qed

lemma operate_confined:
  assumes "script_org script \<in> S"
  shows "keeps (confined S H L) (operate env ts script)"
proof (cases script)
  case (IngestChunksScript chunks k commit)
  with assms show ?thesis
    by (simp only: operate.simps ingest_chunks_main_def run_ingest_chunks_def)
      (intro keeps_catch_rollback keep_rules store_chunks_confined, simp)
next
  case (IngestClaimsScript payload k commit arg)
  with assms show ?thesis
    by (simp only: operate.simps ingest_claims_main_def run_ingest_claims_def)
      (intro keeps_bnd run_session_id_keeps keeps_catch_rollback keeps_lift_sum store_claims_confined, simp)
next
  case (SandboxIngest body filename)
  with assms show ?thesis by (simp only: operate.simps) (intro keeps_bnd keeps_ret sandbox_keeps(1), simp)
next
  case (SandboxQuery body)
  with assms show ?thesis by (simp only: operate.simps) (intro keeps_bnd keeps_ret sandbox_keeps(2), simp)
qed

end
