(* ===== verification/System.thy ===== *)
theory System
  imports IngestJob Operators
begin

section \<open>The system: requests, jobs and time\<close>

text \<open>
  The routes composed into one transition system. An event is an HTTP request with its
  \<open>Authorization\<close> header, the delivery of a queued job (any number of times, in any order),
  a script an operator runs, or something happening elsewhere: time passes, an external service
  changes. A request runs to its end before the next event; \<open>Races\<close> has requests that overlap.

  \<open>reach\<close> is the set of organisations an event may speak for: the token's own, for a
  platform route also the organisation in the path, and only for a token of the platform
  organisation.
\<close>

subsection \<open>Requests\<close>

datatype request =
    GetMe
  | SyncProfile profile_sync_request
  | PostLogout
  | GetPipeline
  | GetDashboardStats
  | GetDeal uuid
  | GetDealStatus uuid
  | GetHistoryList
  | GetHistory uuid
  | DeleteHistory uuid
  | DeleteAllHistory
  | GetRecentActivity nat
  | GetInvestmentProfile
  | PostPresignedUrl presign_request
  | PostUploadComplete uuid complete_request
  | GetAdminContext
  | GetMembers
  | DeleteMember int
  | PatchMember int member_role
  | GetInvitations
  | PostInvitation string member_role
  | DeleteInvitation string
  | GetOrganizations
  | PostOrganization string "OrgType option" "string option"
  | DeleteOrganization string
  | GetOrgMembers string
  | PatchOrgMember string string member_role
  | DeleteOrgMember string string
  | PostOrgInvitation string string member_role

definition void :: "('c, 'a) act \<Rightarrow> ('c, unit) act" where
  "void m = bnd m (\<lambda>_. ret ())"

text \<open>Which dependencies each route has: \<open>get_db\<close>, or \<open>get_admin_db\<close> and a guard.\<close>

fun handle :: "'c env \<Rightarrow> token_claims \<Rightarrow> request \<Rightarrow> ('c, unit) act" where
  "handle env c GetMe = get_db env c (void (me c))"
| "handle env c (SyncProfile p) = get_db env c (void (sync_profile c p))"
| "handle env c PostLogout = get_db env c (void (logout c))"
| "handle env c GetPipeline = get_db env c (void (list_pipeline env))"
| "handle env c GetDashboardStats = get_db env c (void dashboard_stats)"
| "handle env c (GetDeal i) = get_db env c (void (get_deal env c i))"
| "handle env c (GetDealStatus i) = get_db env c (void (get_deal_status i))"
| "handle env c GetHistoryList = get_db env c (void (list_history env))"
| "handle env c (GetHistory i) = get_db env c (void (get_history i))"
| "handle env c (DeleteHistory i) = get_db env c (void (delete_history c i))"
| "handle env c DeleteAllHistory = get_db env c (void (clear_all_history c))"
| "handle env c (GetRecentActivity n) = get_db env c (void (recent_activity n))"
| "handle env c GetInvestmentProfile = get_db env c (void get_investment_profile)"
| "handle env c (PostPresignedUrl b) = get_db env c (void (create_presigned_url env c b))"
| "handle env c (PostUploadComplete i b) = get_db env c (void (complete_upload env c i b))"
| "handle env c GetAdminContext = get_admin_db env c (void (get_context env c))"
| "handle env c GetMembers = org_admin_route env c (void list_members)"
| "handle env c (DeleteMember i) = org_admin_route env c (void (remove_member env c i))"
| "handle env c (PatchMember i ro) = org_admin_route env c (void (update_member_role env c i ro))"
| "handle env c GetInvitations = org_admin_route env c (void (list_invitations env c))"
| "handle env c (PostInvitation e ro) = org_admin_route env c (void (create_invitation env c e ro))"
| "handle env c (DeleteInvitation i) = org_admin_route env c (void (revoke_invitation env c i))"
| "handle env c GetOrganizations = platform_route env c (void (list_orgs env))"
| "handle env c (PostOrganization nm ty manager) = platform_route env c (void (create_org env c nm ty manager))"
| "handle env c (DeleteOrganization t) = platform_route env c (void (delete_org env c t))"
| "handle env c (GetOrgMembers t) = platform_route env c (void (list_org_members env t))"
| "handle env c (PatchOrgMember t u ro) = platform_route env c (void (update_org_member_role env c t u ro))"
| "handle env c (DeleteOrgMember t u) = platform_route env c (void (remove_org_member env c t u))"
| "handle env c (PostOrgInvitation t e ro) = platform_route env c (void (invite_into_org env c t e ro))"

definition serve :: "'c env \<Rightarrow> string \<Rightarrow> request \<Rightarrow> ('c, unit) act" where
  "serve env authorization rq = bnd (get_claims env authorization) (\<lambda>c. handle env c rq)"

fun path_org :: "request \<Rightarrow> string option" where
  "path_org (GetOrgMembers t) = Some t"
| "path_org (PatchOrgMember t u ro) = Some t"
| "path_org (DeleteOrgMember t u) = Some t"
| "path_org _ = None"

definition reach :: "'c env \<Rightarrow> token_claims \<Rightarrow> request \<Rightarrow> string set" where
  "reach env c rq = insert (tenant_id c) (case path_org rq of None \<Rightarrow> {}
     | Some t \<Rightarrow> if tenant_id c = simpero_platform_org_id (settings env) then {t} else {})"

lemma void_keeps [keep_rules]: "keeps I m \<Longrightarrow> keeps I (void m)"
  unfolding void_def by (intro keep_rules)

lemma platform_refused:
  assumes "tenant_id c \<noteq> simpero_platform_org_id (settings env)"
  shows "seq (require_platform_admin env c) h = seq (require_platform_admin env c) (throw AssertionError)"
  using assms
  by (intro ext) (auto simp: require_platform_admin_def bnd_app Let_def split: sum.split prod.split option.split)

lemma platform_target_confined:
  assumes "insert (tenant_id c) (if tenant_id c = simpero_platform_org_id (settings env) then {t} else {}) \<subseteq> S"
    and "t \<in> S \<Longrightarrow> keeps (confined S H L) h"
  shows "keeps (confined S H L) (platform_route env c h)"
proof (cases "tenant_id c = simpero_platform_org_id (settings env)")
  case True
  with assms show ?thesis by (intro platform_route_confined) auto
next
  case False
  then have "platform_route env c h = platform_route env c (throw AssertionError)"
    by (simp only: platform_route_def platform_refused [OF False, of h])
  with assms(1) show ?thesis by (simp add: platform_route_confined keeps_throw)
qed

lemma handle_confined:
  assumes "reach env c rq \<subseteq> S"
  shows "keeps (confined S H L) (handle env c rq)"
proof -
  have t: "tenant_id c \<in> S" using assms by (auto simp: reach_def)
  note rules = get_db_confined [OF _ t] get_admin_db_confined [OF _ t] org_admin_route_confined [OF _ t]
    platform_route_confined [OF _ t]
  let ?path = "\<lambda>u. insert (tenant_id c) (if tenant_id c = simpero_platform_org_id (settings env) then {u} else {})"
  show ?thesis
  proof (cases rq)
    case (GetOrgMembers u)
    with assms have sub: "?path u \<subseteq> S" by (simp add: reach_def)
    show ?thesis unfolding GetOrgMembers handle.simps
      by (rule platform_target_confined [OF sub]) (rule void_keeps, rule platform_members_confined [OF _ t])
  next
    case (PatchOrgMember u v ro)
    with assms have sub: "?path u \<subseteq> S" by (simp add: reach_def)
    show ?thesis unfolding PatchOrgMember handle.simps
      by (rule platform_target_confined [OF sub]) (rule void_keeps, rule platform_members_confined [OF _ t])
  next
    case (DeleteOrgMember u v)
    with assms have sub: "?path u \<subseteq> S" by (simp add: reach_def)
    show ?thesis unfolding DeleteOrgMember handle.simps
      by (rule platform_target_confined [OF sub]) (rule void_keeps, rule platform_members_confined [OF _ t])
  qed (simp_all only: handle.simps, (intro rules keep_rules)+)
qed

lemma serve_confined:
  assumes "\<And>c w'. get_claims env a w = (Inr c, w') \<Longrightarrow> reach env c rq \<subseteq> S" and "confined S H L w"
  shows "confined S H L (snd (serve env a rq w))"
proof -
  have I: "confined S H L (snd (get_claims env a w))" using assms(2) by (rule keepsD [OF get_claims_confined])
  show ?thesis
  proof (cases "get_claims env a w")
    case (Pair r w1)
    with I have I1: "confined S H L w1" by simp
    show ?thesis
    proof (cases r)
      case (Inr c)
      have "keeps (confined S H L) (handle env c rq)" using assms(1) Pair Inr by (intro handle_confined) simp
      from keepsD [OF this I1] Pair Inr show ?thesis by (simp add: serve_def)
    qed (use Pair I1 in \<open>simp add: serve_def\<close>)
  qed
qed

subsection \<open>Events and runs\<close>

datatype 'c event =
    Request string request
  | Deliver job
  | Operate tools script
  | Elsewhere instant 'c

inductive step :: "'c env \<Rightarrow> 'c world \<Rightarrow> 'c event \<Rightarrow> 'c world \<Rightarrow> bool" for env where
  request: "step env w (Request a rq) (snd (serve env a rq w))"
| deliver: "j \<in> set (queue w) \<Longrightarrow> job_function j = ''ingest_data_source'' \<Longrightarrow>
    step env w (Deliver j) (snd (run_ingest env (job_kwargs j) w))"
| operated: "step env w (Operate ts script) (snd (operate env ts script w))"
| elsewhere: "clock w \<le> t \<Longrightarrow> step env w (Elsewhere t s) (w\<lparr>clock := t, svc := s\<rparr>)"

inductive_cases requestE: "step env w (Request a rq) w'"
inductive_cases deliverE: "step env w (Deliver j) w'"
inductive_cases operatedE: "step env w (Operate ts script) w'"
inductive_cases elsewhereE: "step env w (Elsewhere t s) w'"

definition event_reach :: "'c env \<Rightarrow> 'c world \<Rightarrow> 'c event \<Rightarrow> string set" where
  "event_reach env w e = (case e of
      Request a rq \<Rightarrow> (case fst (get_claims env a w) of Inl _ \<Rightarrow> {} | Inr c \<Rightarrow> reach env c rq)
    | Deliver j \<Rightarrow> (case map_of (job_kwargs j) ''clerk_org_id'' of None \<Rightarrow> {} | Some t \<Rightarrow> {t})
    | Operate ts script \<Rightarrow> {script_org script}
    | Elsewhere t s \<Rightarrow> {})"

text \<open>\<open>run env S w w'\<close>: some events, each speaking for organisations of \<open>S\<close> only, lead from \<open>w\<close> to \<open>w'\<close>.\<close>

inductive run :: "'c env \<Rightarrow> string set \<Rightarrow> 'c world \<Rightarrow> 'c world \<Rightarrow> bool" for env S w where
  start: "run env S w w"
| more: "run env S w w1 \<Longrightarrow> step env w1 e w2 \<Longrightarrow> event_reach env w1 e \<subseteq> S \<Longrightarrow> run env S w w2"

lemma run_ingest_confined:
  assumes "\<And>t. map_of kw ''clerk_org_id'' = Some t \<Longrightarrow> t \<in> S"
  shows "keeps (confined S H L) (run_ingest env kw)"
  using assms unfolding run_ingest_def
  by (auto intro!: keep_rules ingest_confined split: option.split)

lemma step_confined:
  assumes "step env w e w'" and "event_reach env w e \<subseteq> S" and "confined S H L w"
  shows "confined S H L w'"
proof (cases e)
  case (Request a rq)
  with assms show ?thesis
    by (auto elim!: requestE intro!: serve_confined simp: event_reach_def)
next
  case (Deliver j)
  with assms(1) have w': "w' = snd (run_ingest env (job_kwargs j) w)" by (auto elim: deliverE)
  have "keeps (confined S H L) (run_ingest env (job_kwargs j))"
    using assms(2) Deliver by (intro run_ingest_confined) (simp add: event_reach_def)
  from keepsD [OF this assms(3)] w' show ?thesis by simp
next
  case (Operate ts script)
  then have "script_org script \<in> S" using assms(2) by (simp add: event_reach_def)
  then have "confined S H L (snd (operate env ts script w))" using assms(3) by (intro keepsD [OF operate_confined])
  with Operate assms(1) show ?thesis by (auto elim: operatedE)
next
  case (Elsewhere t s)
  with assms show ?thesis by (auto elim!: elsewhereE simp: confined_def scoped_def)
qed

lemma run_confined: "run env S w w' \<Longrightarrow> confined S H L w \<Longrightarrow> confined S H L w'"
  by (induction rule: run.induct) (auto intro: step_confined)

lemma run_from_idle:
  assumes "run env S w w'" and "wf_db (db w)" and "guc w = None"
  shows "confined S (hidden S (db w)) (trail_of_db (db w)) w'"
  by (rule run_confined [OF assms(1)]) (simp add: confined_def scoped_def assms(2,3) grown_refl)

subsection \<open>What holds of every run\<close>

text \<open>The rows of an organisation: what its policy shows of each table.\<close>

definition shown :: "'r table \<Rightarrow> string \<Rightarrow> db \<Rightarrow> 'r list" where
  "shown T t d = filter (tb_policy T (Some t) d) (tb_rows T d)"

definition tenant_view :: "string \<Rightarrow> db \<Rightarrow> db" where
  "tenant_view t d =
     \<lparr>t_organisation = shown organisation_table t d, t_users = shown users_table t d,
      t_clerk_admin_users = shown admins_table t d, t_deals = shown deals_table t d,
      t_sessions = shown sessions_table t d, t_data_source = shown data_source_table t d,
      t_human_audit_log = shown audit_table t d, t_chunks = shown chunks_table t d,
      t_claims = shown claims_table t d, t_investment_profiles = shown profiles_table t d,
      t_funds = shown funds_table t d, t_ai_audit_log = shown ai_audit_table t d,
      t_corroboration_events = shown corroboration_table t d\<rparr>"

text \<open>
  A table whose rows belong to one organisation each: no row is shown to two of them. Then
  what an organisation outside \<open>S\<close> is shown is part of what \<open>S\<close> is not.
\<close>

lemma shown_hid:
  assumes "\<And>r g. r \<in> set (tb_rows T d) \<Longrightarrow> tb_policy T (Some t) d r \<Longrightarrow> tb_policy T (Some g) d r \<Longrightarrow> g = t"
    and "t \<notin> S"
  shows "shown T t d = filter (tb_policy T (Some t) d) (hid T S d)"
  unfolding shown_def hid_def filter_filter using assms by (intro filter_cong) auto

lemma org_policy_one:
  assumes "wf_db d" and "org_policy (Some t) d i" and "org_policy (Some g) d i"
  shows "g = t"
proof -
  from assms(2,3) obtain a b where "a \<in> set (t_organisation d)" "org_id a = i" "org_clerk_org_id a = t"
    and "b \<in> set (t_organisation d)" "org_id b = i" "org_clerk_org_id b = g"
    by (auto simp: org_policy_def clerk_policy_def)
  moreover have "distinct (map org_id (t_organisation d))"
    using wf_tableD(3) [OF assms(1)] by (simp add: wf_table_def)
  ultimately show ?thesis by (metis distinct_map inj_onD)
qed

lemma tenant_view_hidden:
  assumes wf: "wf_db d" "wf_db d'" and t: "t \<notin> S" and same: "hidden S d' = hidden S d"
  shows "tenant_view t d' = tenant_view t d"
proof -
  note one = org_policy_one [OF wf(1)] org_policy_one [OF wf(2)]
  have eq: "shown T t d' = shown T t d"
    if "hid T S d' = hid T S d" "tb_policy T (Some t) d' = tb_policy T (Some t) d"
      "\<And>r g. tb_policy T (Some t) d r \<Longrightarrow> tb_policy T (Some g) d r \<Longrightarrow> g = t"
      "\<And>r g. tb_policy T (Some t) d' r \<Longrightarrow> tb_policy T (Some g) d' r \<Longrightarrow> g = t" for T :: "'r table"
  proof -
    have "shown T t d' = filter (tb_policy T (Some t) d') (hid T S d')"
      by (rule shown_hid [OF _ t]) (rule that(4))
    moreover have "shown T t d = filter (tb_policy T (Some t) d) (hid T S d)"
      by (rule shown_hid [OF _ t]) (rule that(3))
    ultimately show ?thesis by (simp only: that(1,2))
  qed
  have orgs: "shown organisation_table t d' = shown organisation_table t d"
    using same by (intro eq) (simp_all add: hidden_def clerk_policy_def)
  then have pol: "org_policy (Some t) d' = org_policy (Some t) d"
    unfolding org_policy_def by (simp add: shown_def fun_eq_iff)
  note h = same [unfolded hidden_def, simplified]
  have eq_org: "shown T t d' = shown T t d" if "hid T S d' = hid T S d"
      "tb_policy T = (\<lambda>g d r. org_policy g d (k r))" for T :: "'r table" and k
    using one by (intro eq that(1); simp add: that(2) pol)
  have "shown users_table t d' = shown users_table t d" "shown admins_table t d' = shown admins_table t d"
    by (rule eq; (simp add: h clerk_policy_def)?)+
  moreover have "shown deals_table t d' = shown deals_table t d"
    "shown sessions_table t d' = shown sessions_table t d"
    "shown data_source_table t d' = shown data_source_table t d"
    "shown audit_table t d' = shown audit_table t d"
    "shown chunks_table t d' = shown chunks_table t d"
    "shown claims_table t d' = shown claims_table t d"
    "shown profiles_table t d' = shown profiles_table t d"
    "shown funds_table t d' = shown funds_table t d"
    "shown ai_audit_table t d' = shown ai_audit_table t d"
    "shown corroboration_table t d' = shown corroboration_table t d"
    by (rule eq_org, simp add: h, rule table_policy)+
  ultimately show ?thesis by (simp add: tenant_view_def orgs)
qed

text \<open>
  C1: tenant isolation. Whatever requests are made with tokens of the organisations in \<open>S\<close>,
  whatever jobs of theirs run, in whatever order and however they end, the rows of an
  organisation outside \<open>S\<close> are, in all thirteen tables, exactly what they were. A token reaches
  another organisation than its own only through a platform route, and only if it is a token
  of the platform organisation.
\<close>

theorem tenant_isolation:
  assumes "run env S w w'" and "wf_db (db w)" and "guc w = None" and "t \<notin> S"
  shows "tenant_view t (db w') = tenant_view t (db w)"
  using confinedD(2,3) [OF run_from_idle [OF assms(1-3)]] assms(2,4)
  by (intro tenant_view_hidden [where S = S])


text \<open>
  C15: the record only grows. Over every run the audit trail is extended at its end and
  nothing else; every data source is still there with the identity it was stored with (id,
  owner, deal, object key, file name, declared hash), and one whose status was final is
  unchanged.
\<close>

theorem record_only_grows:
  assumes "run env S w w'" and "wf_db (db w)" and "guc w = None"
  shows "(\<exists>new. t_human_audit_log (db w') = t_human_audit_log (db w) @ new)
    \<and> (\<forall>r \<in> set (t_data_source (db w)). \<exists>r' \<in> set (t_data_source (db w')).
         ds_identity r' = ds_identity r \<and> (ds_status r \<noteq> ''pending'' \<longrightarrow> r' = r))"
proof -
  let ?n = "length (t_data_source (db w))"
  have g: "grown_from (trail_of_db (db w)) (db w')" by (rule confinedD(4) [OF run_from_idle [OF assms]])
  then have a: "take (length (t_human_audit_log (db w))) (t_human_audit_log (db w')) = t_human_audit_log (db w)"
    and s: "list_all2 source_kept (t_data_source (db w)) (take ?n (t_data_source (db w')))"
    by (simp_all add: grown_from_def trail_of_db_def)
  have "t_human_audit_log (db w') = t_human_audit_log (db w) @ drop (length (t_human_audit_log (db w))) (t_human_audit_log (db w'))"
    using a by (metis append_take_drop_id)
  moreover have "\<exists>r' \<in> set (t_data_source (db w')). ds_identity r' = ds_identity r \<and> (ds_status r \<noteq> ''pending'' \<longrightarrow> r' = r)"
    if r: "r \<in> set (t_data_source (db w))" for r
  proof -
    from r obtain i where i: "i < ?n" "t_data_source (db w) ! i = r" by (auto simp: in_set_conv_nth)
    from s i have "source_kept r (take ?n (t_data_source (db w')) ! i)" by (auto simp: list_all2_conv_all_nth)
    moreover from s i(1) have "take ?n (t_data_source (db w')) ! i \<in> set (t_data_source (db w'))"
      by (metis in_set_takeD list_all2_lengthD nth_mem)
    ultimately show ?thesis by (auto simp: source_kept_def)
  qed
  ultimately show ?thesis by blast
qed

text \<open>What a session sees and may insert when \<open>app.org_id\<close> is unset.\<close>

definition blind :: "'r table \<Rightarrow> 'c world \<Rightarrow> bool" where
  "blind T w \<longleftrightarrow> (\<forall>p. select_rows T p w = [] \<and> first_row T p w = None)
     \<and> (\<forall>r. insert_error T r w = Some RowSecurity)"

context rls_table
begin

lemma blind_unset: "guc w = None \<Longrightarrow> blind T w"
  using policy_unset
  by (simp add: blind_def select_unset first_unset insert_error_def visible_def)

end

text \<open>
  C27: no scope, no data. A session in which \<open>app.org_id\<close> was never set reads no row of any
  of the thirteen tables and can insert none: forgetting the scope fails closed.
\<close>

theorem unscoped_session_is_blind:
  assumes "guc w = None"
  shows "blind organisation_table w \<and> blind users_table w \<and> blind admins_table w \<and> blind deals_table w
    \<and> blind sessions_table w \<and> blind data_source_table w \<and> blind audit_table w \<and> blind chunks_table w
    \<and> blind claims_table w \<and> blind profiles_table w \<and> blind funds_table w \<and> blind ai_audit_table w
    \<and> blind corroboration_table w"
  by (simp add: assms orgs.blind_unset users.blind_unset admins.blind_unset deals.blind_unset sess.blind_unset
    sources.blind_unset audits.blind_unset chunks.blind_unset clms.blind_unset profiles.blind_unset funds.blind_unset
    ai_audits.blind_unset corroborations.blind_unset)

subsection \<open>From upload to verdict\<close>

lemma ingest_job:
  "run_ingest env (ingest_kwargs c up body key) =
     ingest_data_source env (str_uuid up) (tenant_id c) key (cq_declared_sha256 body)"
  by (simp add: run_ingest_def ingest_kwargs_def)

lemma product_wf:
  assumes "wf_db (db w)" and "\<And>S H L. keeps (confined S H L) handler"
  shows "wf_db (db (snd (get_db env c handler w)))"
proof -
  have "confined UNIV (hidden UNIV (db w)) (trail_of_db (db w)) w"
    using assms(1) by (simp add: confined_def scoped_def grown_refl split: option.split)
  moreover have "keeps (confined UNIV (hidden UNIV (db w)) (trail_of_db (db w))) (get_db env c handler)"
    by (intro get_db_confined assms(2)) simp
  ultimately show ?thesis by (metis keepsD confinedD(3))
qed

lemma source_in_settled:
  "source_in t up (with_audit a (settle_source t up st fp now d)) =
     map_option (\<lambda>x. x\<lparr>ds_status := st, ds_fingerprint := fp, ds_status_updated_at := Some now\<rparr>) (source_in t up d)"
  unfolding source_in_def with_audit_def settle_source_def by (simp add: first_match_map_where)

text \<open>
  C9: an upload is settled. After a completed upload, the job it queued, run while the object
  store still answers, returns and leaves the new data source in a final status: it is
  \<open>verified\<close> exactly when the object is at most ten megabytes and its measured hash is the
  declared one.
\<close>

theorem upload_is_settled:
  assumes wf: "wf_db (db w)" and org: "org_of (tenant_id c) (db w) = Some r"
    and u: "user_of (tenant_id c) (user_id c) (db w) = Some u" "usr_status u = ''active''"
    and there: "s3_head env (spaces_bucket (settings env)) (upload_key c r up body) (svc w) = (None, s)"
    and fresh: "up \<notin> ds_id ` set (t_data_source (db w))"
    and deal: "cq_deal_id body \<in> deal_id ` set (t_deals (db w))"
    and row: "org_policy (Some (tenant_id c)) (db w) (org_id r)"
    and ok: "audit_accepted (tenant_id c) (usr_org_id u) (rnd w (rnd_next w)) (db w)"
    and obj: "s3_get env (spaces_bucket (settings env)) (upload_key c r up body) s = (Inr object, s')"
    and uuids: "rnd w (Suc (rnd_next w)) \<notin> insert (rnd w (rnd_next w)) (aud_id ` set (t_human_audit_log (db w)))"
  shows "let w1 = snd (get_db env c (complete_upload env c up body) w);
             res = run_ingest env (job_kwargs (last (queue w1))) w1
    in fst res = Inr () \<and> (\<exists>d. source_in (tenant_id c) up (db (snd res)) = Some d
      \<and> ds_status d \<in> {''verified'', ''mismatch'', ''quarantined''}
      \<and> (ds_status d = ''verified'' \<longleftrightarrow> int (length object) \<le> 10485760
           \<and> hexdigest (sha256 env object) = cq_declared_sha256 body)
      \<and> (ds_status d = ''verified'' \<longrightarrow> ds_fingerprint d = Some (ds_declared_sha256 d)))"
proof -
  let ?key = "upload_key c r up body"
  let ?row = "pending_source r up body ?key (clock w)"
  let ?w1 = "snd (get_db env c (complete_upload env c up body) w)"
  let ?v = "verdict env (cq_declared_sha256 body) object"
  note run1 = complete_upload_commit [OF wf org u there fresh deal row ok, unfolded Let_def]
  have w1: "svc ?w1 = s" "clock ?w1 = clock w" "rnd ?w1 = rnd w" "rnd_next ?w1 = Suc (rnd_next w)"
    "job_kwargs (last (queue ?w1)) = ingest_kwargs c up body ?key"
    "t_data_source (db ?w1) = t_data_source (db w) @ [?row]"
    "org_policy g (db ?w1) = org_policy g (db w)"
    "aud_id ` set (t_human_audit_log (db ?w1)) = insert (rnd w (rnd_next w)) (aud_id ` set (t_human_audit_log (db w)))" for g
    by (simp_all add: run1 with_audit_def audit_row_def)
  have wf1: "wf_db (db ?w1)" using wf upload_routes_confined(2) by (rule product_wf)
  have fields: "ds_id ?row = up" "ds_org_id ?row = org_id r" "ds_status ?row = ''pending''"
    "ds_declared_sha256 ?row = cq_declared_sha256 body" by (simp_all add: pending_source_def)
  have src: "source_in (tenant_id c) up (db ?w1) = Some ?row"
  proof -
    have "first_match (\<lambda>x. org_policy (Some (tenant_id c)) (db w) (ds_org_id x) \<and> ds_id x = up) (t_data_source (db w)) = None"
      using fresh by (auto simp: first_match_None)
    then show ?thesis using row by (simp add: source_in_def w1 first_match_append fields)
  qed
  have "rnd ?w1 (rnd_next ?w1) \<notin> aud_id ` set (t_human_audit_log (db ?w1))" using uuids by (simp add: w1)
  note run2 = ingest_run [OF wf1 src fields(3) this, of env ?key "cq_declared_sha256 body"]
  show ?thesis
    by (simp add: Let_def w1(5) ingest_job run2 w1(1) obj source_in_settled src)
      (auto simp: verdict_def Let_def fields)
qed

text \<open>
  C29: a repeated completion switches the object under a pending upload. Completing an upload
  id again with another file name and hash is refused (the id is taken) and changes no
  table, but the job it enqueued first is there, and the job believes its own arguments, not
  the row: it measures the other object against the other hash, and the row ends
  \<open>verified\<close> with a fingerprint that is not the hash it declares.
\<close>

theorem repeated_completion_switches_object:
  assumes wf: "wf_db (db w)" and org: "org_of (tenant_id c) (db w) = Some r"
    and u: "user_of (tenant_id c) (user_id c) (db w) = Some u" "usr_status u = ''active''"
    and there: "s3_head env (spaces_bucket (settings env)) (upload_key c r up body) (svc w) = (None, s)"
    and first: "source_in (tenant_id c) up (db w) = Some d" "ds_status d = ''pending''"
    and row: "org_policy (Some (tenant_id c)) (db w) (org_id r)"
    and obj: "s3_get env (spaces_bucket (settings env)) (upload_key c r up body) s = (Inr object, s')"
      "length object \<le> 10485760" "hexdigest (sha256 env object) = cq_declared_sha256 body"
    and uuid: "rnd w (rnd_next w) \<notin> aud_id ` set (t_human_audit_log (db w))"
  shows "let again = get_db env c (complete_upload env c up body) w;
             res = run_ingest env (job_kwargs (last (queue (snd again)))) (snd again)
    in fst again = Inl (DbError UniqueViolation) \<and> db (snd again) = db w \<and> fst res = Inr ()
      \<and> (\<exists>d'. source_in (tenant_id c) up (db (snd res)) = Some d' \<and> ds_identity d' = ds_identity d
           \<and> ds_status d' = ''verified'' \<and> ds_fingerprint d' = Some (cq_declared_sha256 body))"
proof -
  let ?key = "upload_key c r up body"
  let ?w1 = "snd (get_db env c (complete_upload env c up body) w)"
  have "insert_error data_source_table (pending_source r up body ?key (clock w))
      (w\<lparr>guc := Some (tenant_id c)\<rparr>) = Some UniqueViolation"
    using source_in_SomeD [OF first(1)] row
    by (auto simp: insert_error_def visible_def pending_source_def ck_data_source_status_def
        data_source_statuses_def)
  note run1 = completion_rejected [OF org u there this]
  have w1: "db ?w1 = db w" "svc ?w1 = s" "rnd ?w1 = rnd w" "rnd_next ?w1 = rnd_next w"
    "job_kwargs (last (queue ?w1)) = ingest_kwargs c up body ?key" by (simp_all add: run1)
  have v: "verdict env (cq_declared_sha256 body) object = (''verified'', Some (cq_declared_sha256 body))"
    using obj(2,3) by (simp add: verdict_def)
  have "wf_db (db ?w1)" "source_in (tenant_id c) up (db ?w1) = Some d"
    "rnd ?w1 (rnd_next ?w1) \<notin> aud_id ` set (t_human_audit_log (db ?w1))"
    using wf first uuid by (simp_all add: w1)
  note run2 = ingest_run [OF this(1,2) first(2) this(3), of env ?key "cq_declared_sha256 body"]
  show ?thesis
    by (simp add: Let_def w1(5) ingest_job run2 w1(1,2) obj(1) v source_in_settled first(1))
      (simp add: run1)
qed

end
