(* ===== verification/Races.thy ===== *)
theory Races
  imports System
begin

section \<open>Removals that overlap\<close>

text \<open>
  \<open>app/api/admin/members.py\<close>, two or more requests at a time. Postgres runs their transactions
  under READ COMMITTED and no statement of the handler locks a row, so what a request has read
  may have changed when it writes; between its last guard and its first write stands the call to
  Clerk. A request is therefore cut there. Its first half only reads (the guard of the route,
  the look-ups, the last-administrator check); the second is the call, the writes and the
  commit. A schedule is an order of halves, and every such order is one the server can run:
  an open transaction that has only read holds nothing a second one could see or wait for.
  (Provisioning has committed before, in a transaction of its own.)
\<close>

subsection \<open>The two halves of a removal\<close>

definition removal_checks :: "token_claims \<Rightarrow> int \<Rightarrow> ('c, user \<times> bool) act" where
  "removal_checks c i =
     seq (require_org_admin c)
     (bnd (user_by_id i) (\<lambda>found. case found of
       None \<Rightarrow> throw (HTTPException 404 (JStr ''Member not found''))
     | Some target \<Rightarrow>
         seq (guard (usr_clerk_user_id target \<noteq> user_id c)
                (HTTPException 403 (JStr ''Cannot remove yourself'')))
         (bnd (admin_by_clerk_id (usr_clerk_user_id target)) (\<lambda>admin_row.
         seq (whenA (is_active_row admin_row) (last_admin_guard ''Cannot remove the last active admin''))
         (ret (target, is_active_row admin_row))))))"

definition removal_finish :: "'c env \<Rightarrow> token_claims \<Rightarrow> user \<times> bool \<Rightarrow> ('c, bool) act" where
  "removal_finish env c = (\<lambda>(target, target_is_active_admin).
     seq (via_clerk (remove_organization_membership env (tenant_id c) (usr_clerk_user_id target)))
       (removal_writes c target target_is_active_admin))"

lemma seq_assoc: "seq m (bnd n f) = bnd (seq m n) f"
  by (simp add: bnd_assoc)

lemma removal_halves:
  "seq (require_org_admin c) (remove_member env c i) = bnd (removal_checks c i) (removal_finish env c)"
proof -
  have "remove_member env c i = bnd (bnd (user_by_id i) (\<lambda>found. case found of
       None \<Rightarrow> throw (HTTPException 404 (JStr ''Member not found''))
     | Some target \<Rightarrow>
         seq (guard (usr_clerk_user_id target \<noteq> user_id c)
                (HTTPException 403 (JStr ''Cannot remove yourself'')))
         (bnd (admin_by_clerk_id (usr_clerk_user_id target)) (\<lambda>admin_row.
         seq (whenA (is_active_row admin_row) (last_admin_guard ''Cannot remove the last active admin''))
         (ret (target, is_active_row admin_row)))))) (removal_finish env c)"
    unfolding remove_member_def bnd_assoc
    by (intro arg_cong [where f = "bnd (user_by_id i)"] ext)
      (simp add: bnd_assoc removal_finish_def split: option.split)
  then show ?thesis by (simp add: removal_checks_def bnd_assoc)
qed

text \<open>What the first half decides, as a function of the committed state.\<close>

definition removal_verdict :: "token_claims \<Rightarrow> int \<Rightarrow> db \<Rightarrow> exn + (user \<times> bool)" where
  "removal_verdict c i d =
     (if \<not> active_admin (tenant_id c) (user_id c) d then Inl (AuthorizationError ''Org admin privileges required'')
      else case user_in (tenant_id c) i d of
        None \<Rightarrow> Inl (HTTPException 404 (JStr ''Member not found''))
      | Some target \<Rightarrow>
          (case removal_refusal c i d of
             Some e \<Rightarrow> Inl e
           | None \<Rightarrow> Inr (target, is_active_admin_in (tenant_id c) (usr_clerk_user_id target) d)))"

lemma removal_checks_scoped:
  assumes "guc w = Some (tenant_id c)"
  shows "removal_checks c i w = (removal_verdict c i (db w), w)"
proof (cases "active_admin (tenant_id c) (user_id c) (db w)")
  case True
  with assms show ?thesis
    by (simp add: removal_checks_def removal_verdict_def bnd_app [of "require_org_admin c"] require_org_admin_scoped
        bnd_app [of "user_by_id i"] user_by_id_scoped bnd_app [of "admin_by_clerk_id u" for u] admin_by_clerk_id_scoped
        bnd_app [of "last_admin_guard d" for d] last_admin_guard_scoped removal_refusal_def is_active_admin_in_def
        split: option.split)
next
  case False
  with assms show ?thesis
    by (simp add: removal_checks_def removal_verdict_def bnd_app [of "require_org_admin c"] require_org_admin_scoped)
qed

subsection \<open>Requests in progress\<close>

datatype removal =
    Entered token_claims int
  | Passed token_claims "user \<times> bool"
  | Answered "exn + bool"

fun advance :: "'c env \<Rightarrow> removal \<Rightarrow> 'c world \<Rightarrow> removal \<times> 'c world" where
  "advance env (Entered c i) w =
     (case scoped_run c (removal_checks c i) w of
        (Inl e, w') \<Rightarrow> (Answered (Inl e), w') | (Inr p, w') \<Rightarrow> (Passed c p, w'))"
| "advance env (Passed c p) w = map_prod Answered id (scoped_run c (removal_finish env c p) w)"
| "advance env (Answered r) w = (Answered r, w)"

text \<open>A schedule names the request that moves next.\<close>

fun follow :: "'c env \<Rightarrow> nat list \<Rightarrow> 'c world \<times> removal list \<Rightarrow> 'c world \<times> removal list" where
  "follow env [] st = st"
| "follow env (k # ks) (w, rs) =
     (if k < length rs
      then (let (r, w') = advance env (rs ! k) w in follow env ks (w', rs[k := r]))
      else follow env ks (w, rs))"

inductive overlap :: "'c env \<Rightarrow> 'c world \<times> removal list \<Rightarrow> 'c world \<times> removal list \<Rightarrow> bool" for env st where
  begun: "overlap env st st"
| moved: "overlap env st (w, rs) \<Longrightarrow> k < length rs \<Longrightarrow> advance env (rs ! k) w = (r, w') \<Longrightarrow>
    overlap env st (w', rs[k := r])"

lemma follow_overlap: "overlap env st st' \<Longrightarrow> overlap env st (follow env ks st')"
proof (induction env ks st' rule: follow.induct)
  case (2 env k ks w rs)
  then show ?case using moved [OF 2(3)] by (cases "advance env (rs ! k) w") simp
qed simp

lemma entered_step:
  "advance env (Entered c i) w =
     (case removal_verdict c i (db w) of Inl e \<Rightarrow> Answered (Inl e) | Inr p \<Rightarrow> Passed c p, w\<lparr>guc := None, uow := []\<rparr>)"
  by (auto simp: scoped_run_def in_transaction_def set_org_scope_def removal_checks_scoped bnd_app flush_def
      run_writes.simps split: sum.split)

declare advance.simps(1) [simp del]

subsection \<open>What the second half commits\<close>

lemma status_write_admins:
  assumes "run_write (UpdateUserStatus i st t) w = (Inr x, w')"
  shows "t_clerk_admin_users (db w') = t_clerk_admin_users (db w) \<and> t_human_audit_log (db w') = t_human_audit_log (db w)"
  using assms by (auto simp: run_write.simps bnd_app sql_update_def require_rows_def split: option.splits if_splits)

lemma finish_InrE:
  assumes wf: "wf_db (db w)" and run: "scoped_run c (removal_finish env c (target, act)) w = (Inr b, w')"
  obtains a where "t_human_audit_log (db w') = t_human_audit_log (db w) @ [a]" and "b = True"
    and "t_clerk_admin_users (db w') = t_clerk_admin_users
      (if act then admins_where (tenant_id c) (usr_clerk_user_id target) (deactivate_row (clock w)) (db w) else db w)"
proof -
  let ?w = "w\<lparr>uow := [], guc := Some (tenant_id c)\<rparr>"
  let ?d = "if act then admins_where (tenant_id c) (usr_clerk_user_id target) (deactivate_row (clock w)) (db w) else db w"
  obtain w1 w2 where body: "removal_finish env c (target, act) ?w = (Inr b, w1)"
    and fl: "run_writes (uow w1) (w1\<lparr>uow := []\<rparr>) = (Inr (), w2)" and w': "w' = w2\<lparr>guc := None, uow := []\<rparr>"
    using run by (rule scoped_run_InrE)
  from body obtain u s0 where call: "via_clerk (remove_organization_membership env (tenant_id c) (usr_clerk_user_id target)) ?w = (Inr u, s0)"
    and rest: "removal_writes c target act s0 = (Inr b, w1)" unfolding removal_finish_def prod.case by (rule bnd_InrE)
  obtain s where s0: "s0 = outside ?w s" using externalE [OF external_via_clerk [OF clerk_external(7)] call] .
  define ws where "ws = s0\<lparr>uow := [UpdateUserStatus (usr_id target) ''inactive'' (Some (clock w))], db := ?d\<rparr>"
  have rest': "removal_writes c target act s0 = seq (admin_audit c ''admin_member_removed'' (Inr (removed_payload target act))) (ret True) ws"
    using wf by (cases act) (simp_all add: removal_writes_def bnd_app [of utc_now] utc_now_def bnd_app [of "session_add x" for x]
      session_add_def bnd_app [of "admin_deactivate v" for v] admin_deactivate_scoped s0 ws_def outside_def)
  have g: "guc ws = Some (tenant_id c)" "db ws = ?d" by (simp_all add: ws_def s0)
  from rest rest' have "admin_in (tenant_id c) (user_id c) ?d \<noteq> None"
    by (cases "admin_in (tenant_id c) (user_id c) ?d") (auto simp: bnd_app admin_audit_nobody g)
  then obtain r where r: "admin_in (tenant_id c) (user_id c) (db ws) = Some r" unfolding g by blast
  from rest rest' have b: "b = True" and w1: "w1 = ws\<lparr>uow := uow ws @ [InsertAudit (admin_entry c r ''admin_member_removed'' (removed_payload target act))]\<rparr>"
    by (simp_all add: bnd_app admin_audit_scoped [OF g(1) r])
  from fl obtain w3 where one: "run_write (UpdateUserStatus (usr_id target) ''inactive'' (Some (clock w))) (w1\<lparr>uow := []\<rparr>) = (Inr (), w3)"
    and two: "run_write (InsertAudit (admin_entry c r ''admin_member_removed'' (removed_payload target act))) w3 = (Inr (), w2)"
    by (auto simp: w1 ws_def run_writes.simps elim!: bnd_InrE)
  have "db (w1\<lparr>uow := []\<rparr>) = ?d" by (simp add: w1 ws_def)
  with status_write_admins [OF one] audit_write_Inr [OF two] w' b show thesis
    by (intro that [of "audit_row (admin_entry c r ''admin_member_removed'' (removed_payload target act)) (rnd w3 (rnd_next w3)) (clock w3)"])
      (simp_all add: with_audit_def split: if_splits)
qed

subsection \<open>Every interleaving\<close>

fun acts_for :: "removal \<Rightarrow> string set" where
  "acts_for (Entered c i) = {tenant_id c}"
| "acts_for (Passed c p) = {tenant_id c}"
| "acts_for (Answered r) = {}"

fun succeeded :: "removal \<Rightarrow> bool" where
  "succeeded (Answered (Inr b)) = True"
| "succeeded _ = False"

lemma finish_confined [keep_rules]:
  "keeps (confined S H L) (removal_finish env c p)"
  unfolding removal_finish_def removal_writes_def by (cases p) (simp only: prod.case, intro keep_rules)

lemma advance_confined:
  assumes "advance env r w = (r', w')" and "acts_for r \<subseteq> S" and "confined S H L w"
  shows "confined S H L w' \<and> acts_for r' \<subseteq> S"
proof -
  have "confined S H L (snd (advance env r w))"
  proof (cases r)
    case (Entered c i)
    with assms(3) show ?thesis by (simp add: entered_step confined_def scoped_def)
  next
    case (Passed c p)
    with assms(2,3) keepsD [OF scoped_run_confined [OF finish_confined]] show ?thesis by simp
  qed (use assms(3) in simp)
  moreover have "acts_for r' \<subseteq> acts_for r"
    using assms(1) by (cases r) (auto simp: entered_step map_prod_def split: sum.splits prod.splits)
  ultimately show ?thesis using assms(1,2) by auto
qed

lemma advance_audits:
  assumes "advance env r w = (r', w')" and "wf_db (db w)"
  obtains new where "t_human_audit_log (db w') = t_human_audit_log (db w) @ new"
    and "length new = (if succeeded r' \<and> \<not> succeeded r then 1 else 0)" and "succeeded r \<longrightarrow> succeeded r'"
proof (cases r)
  case (Entered c i)
  with assms(1) have "db w' = db w" "\<not> succeeded r'" "\<not> succeeded r" by (auto simp: entered_step split: sum.splits)
  then show thesis using that [of "[]"] by simp
next
  case (Passed c p)
  obtain target act where p: "p = (target, act)" by fastforce
  obtain x where x: "scoped_run c (removal_finish env c (target, act)) w = (x, w')" "r' = Answered x"
    using assms(1) Passed p by (cases "scoped_run c (removal_finish env c p) w") auto
  show thesis
  proof (cases x)
    case (Inl e)
    with scoped_run_Inl [OF x(1) [unfolded Inl]] x(2) Passed show thesis using that [of "[]"] by simp
  next
    case (Inr b)
    from finish_InrE [OF assms(2) x(1) [unfolded Inr]] obtain a
      where "t_human_audit_log (db w') = t_human_audit_log (db w) @ [a]" .
    with Inr x(2) Passed show thesis using that [of "[a]"] by simp
  qed
next
  case (Answered x)
  with assms(1) show thesis using that [of "[]"] by simp
qed

lemma filter_update_count:
  assumes "k < length xs" and "P (xs ! k) \<Longrightarrow> P y"
  shows "length (filter P (xs[k := y])) = length (filter P xs) + (if P y \<and> \<not> P (xs ! k) then 1 else 0)"
  using assms by (induction xs arbitrary: k) (auto split: nat.split simp: nth_Cons')

lemma overlap_invariant:
  assumes "overlap env (w0, rs0) st" and "confined S H L w0" and "\<forall>r \<in> set rs0. acts_for r \<subseteq> S \<and> \<not> succeeded r"
  shows "case st of (w, rs) \<Rightarrow> confined S H L w \<and> (\<forall>r \<in> set rs. acts_for r \<subseteq> S)
    \<and> (\<exists>new. t_human_audit_log (db w) = t_human_audit_log (db w0) @ new \<and> length new = length (filter succeeded rs))"
  using assms(1)
proof (induction rule: overlap.induct)
  case begun
  have "filter succeeded rs0 = []" using assms(3) by (simp add: filter_empty_conv)
  with assms(2,3) show ?case by simp
next
  case (moved w rs k r w')
  then obtain new where I: "confined S H L w" "\<forall>r \<in> set rs. acts_for r \<subseteq> S"
    "t_human_audit_log (db w) = t_human_audit_log (db w0) @ new" "length new = length (filter succeeded rs)" by auto
  have "acts_for (rs ! k) \<subseteq> S" using I(2) moved.hyps(2) by simp
  from advance_confined [OF moved.hyps(3) this I(1)] have c: "confined S H L w'" "acts_for r \<subseteq> S" by simp_all
  have "\<forall>x \<in> set (rs[k := r]). acts_for x \<subseteq> S" using I(2) c(2) set_update_subset_insert [of rs k r] by blast
  moreover from advance_audits [OF moved.hyps(3) confinedD(3) [OF I(1)]] obtain more
    where "t_human_audit_log (db w') = t_human_audit_log (db w) @ more"
      "length more = (if succeeded r \<and> \<not> succeeded (rs ! k) then 1 else 0)" "succeeded (rs ! k) \<longrightarrow> succeeded r" .
  ultimately show ?case
    using c(1) I(3,4) filter_update_count [OF moved.hyps(2), of succeeded r] by simp
qed

text \<open>
  C14: whatever the interleaving of any number of removals, the schema's constraints hold, each
  removal that has been answered with success has added exactly one row to the end of the audit
  trail and nothing else has, and organisations none of the callers belongs to see no change.
\<close>

theorem removals_interleaved:
  assumes "overlap env (w, map (\<lambda>(c, i). Entered c i) qs) (w', rs)" and "wf_db (db w)" and "guc w = None"
  shows "wf_db (db w')
    \<and> (\<exists>new. t_human_audit_log (db w') = t_human_audit_log (db w) @ new \<and> length new = length (filter succeeded rs))
    \<and> (\<forall>t. t \<notin> tenant_id ` fst ` set qs \<longrightarrow> tenant_view t (db w') = tenant_view t (db w))"
proof -
  let ?S = "tenant_id ` fst ` set qs"
  have "confined ?S (hidden ?S (db w)) (trail_of_db (db w)) w"
    by (simp add: confined_def scoped_def assms(2,3) grown_refl)
  moreover have "\<forall>r \<in> set (map (\<lambda>(c, i). Entered c i) qs). acts_for r \<subseteq> ?S \<and> \<not> succeeded r" by force
  ultimately have "case (w', rs) of (v, rs) \<Rightarrow> confined ?S (hidden ?S (db w)) (trail_of_db (db w)) v \<and> (\<forall>r \<in> set rs. acts_for r \<subseteq> ?S)
    \<and> (\<exists>new. t_human_audit_log (db v) = t_human_audit_log (db w) @ new \<and> length new = length (filter succeeded rs))"
    by (rule overlap_invariant [OF assms(1)])
  then have I: "confined ?S (hidden ?S (db w)) (trail_of_db (db w)) w'"
    "\<exists>new. t_human_audit_log (db w') = t_human_audit_log (db w) @ new \<and> length new = length (filter succeeded rs)"
    by simp_all
  then show ?thesis
    using tenant_view_hidden [OF assms(2) confinedD(3) [OF I(1)] _ confinedD(2) [OF I(1)]] confinedD(3) [OF I(1)] by blast
qed

subsection \<open>Two administrators who remove each other\<close>

lemma same_admins:
  assumes "t_clerk_admin_users d = t_clerk_admin_users d'"
  shows "active_admins t d = active_admins t d'" and "active_admin t v d = active_admin t v d'"
  using assms by (simp_all add: active_admins_def active_admin_def admin_in_def)

lemma active_admins_drop:
  assumes wf: "wf_db d" and act: "active_admin t v d"
  shows "active_admins t (admins_where t v (deactivate_row now) d) = active_admins t d - 1"
proof -
  let ?q = "\<lambda>r. adm_clerk_org_id r = t \<and> adm_status r = ''active''"
  let ?p = "\<lambda>r. adm_clerk_org_id r = t \<and> adm_clerk_user_id r = v"
  from act obtain r where r: "admin_in t v d = Some r" "adm_status r = ''active''"
    by (auto simp: active_admin_def split: option.splits)
  have dist: "distinct (map adm_clerk_user_id (t_clerk_admin_users d))" using wf_tableD(2) [OF wf] by (simp add: wf_table_def)
  have "Suc (length (filter ?q (map_where ?p (deactivate_row now) (t_clerk_admin_users d)))) =
      length (filter ?q (t_clerk_admin_users d))"
    using admin_in_SomeD [OF r(1)] r(2) by (intro length_filter_drop_one [OF dist, of r]) auto
  then show ?thesis by (simp add: active_admins_def admins_where_def)
qed

lemma finish_deactivates:
  assumes wf: "wf_db (db w)" and act: "active_admin (tenant_id c) (usr_clerk_user_id target) (db w)"
    and run: "scoped_run c (removal_finish env c (target, True)) w = (Inr b, w')"
  shows "wf_db (db w') \<and> active_admins (tenant_id c) (db w') = active_admins (tenant_id c) (db w) - 1
    \<and> \<not> active_admin (tenant_id c) (usr_clerk_user_id target) (db w')
    \<and> (\<forall>v. v \<noteq> usr_clerk_user_id target \<longrightarrow> active_admin (tenant_id c) v (db w') = active_admin (tenant_id c) v (db w))"
proof -
  let ?t = "tenant_id c" and ?v = "usr_clerk_user_id target"
  let ?S = "insert ?t (set_option (guc w))"
  have I: "confined ?S (hidden ?S (db w)) (trail_of_db (db w)) w"
    using wf by (simp add: confined_def scoped_def grown_refl split: option.split)
  have "confined ?S (hidden ?S (db w)) (trail_of_db (db w)) (snd (scoped_run c (removal_finish env c (target, True)) w))"
    using I by (intro keepsD [OF scoped_run_confined [OF finish_confined]]) simp_all
  with run have "wf_db (db w')" by (auto dest: confinedD(3))
  moreover from finish_InrE [OF wf run] have
    "t_clerk_admin_users (db w') = t_clerk_admin_users (admins_where ?t ?v (deactivate_row (clock w)) (db w))" by auto
  note same = same_admins [OF this]
  ultimately show ?thesis
    unfolding same active_admins_drop [OF wf act]
    using act by (auto simp: active_admin_def admin_in_where admin_in_where_other deactivate_row_def split: option.splits)
qed

lemma removal_verdict_remove:
  assumes "active_admin t u d" "user_in t i d = Some target" "usr_clerk_user_id target \<noteq> u"
    and "active_admin t (usr_clerk_user_id target) d" "2 \<le> active_admins t d" "tenant_id c = t" "user_id c = u"
  shows "removal_verdict c i d = Inr (target, True)"
proof -
  have "is_active_admin_in t (usr_clerk_user_id target) d"
    using assms(4) by (auto simp: is_active_admin_in_def is_active_row_def active_admin_def split: option.splits)
  with assms show ?thesis by (simp add: removal_verdict_def removal_refusal_def)
qed

text \<open>Clerk deletes the membership, whatever it has been asked before.\<close>

definition clerk_deletes :: "'c env \<Rightarrow> string \<Rightarrow> string \<Rightarrow> bool" where
  "clerk_deletes env t v \<longleftrightarrow> (\<forall>s. case http_send env (clerk_request env DELETE (membership_path t v) [] None) s of
     (None, _) \<Rightarrow> False | (Some r, _) \<Rightarrow> 200 \<le> resp_status r \<and> resp_status r < 300)"

lemma clerk_deletes_run:
  assumes "clerk_deletes env t v"
  obtains s where "via_clerk (remove_organization_membership env t v) w = (Inr (), w\<lparr>svc := s\<rparr>)"
proof -
  obtain r s where send: "http_send env (clerk_request env DELETE (membership_path t v) [] None) (svc w) = (r, s)" by fastforce
  have "case http_send env (clerk_request env DELETE (membership_path t v) [] None) (svc w) of
     (None, _) \<Rightarrow> False | (Some r, _) \<Rightarrow> 200 \<le> resp_status r \<and> resp_status r < 300"
    using assms unfolding clerk_deletes_def by (rule spec)
  with send obtain a where "r = Some a" "200 \<le> resp_status a" "resp_status a < 300" by (auto split: option.splits)
  with send have "remove_organization_membership env t v w = (Inr (), w\<lparr>svc := s\<rparr>)"
    by (simp add: remove_organization_membership_def http_call_def bnd_app raise_for_status_def)
  then show thesis by (intro that [of s]) (simp add: via_clerk_def catch_httpx_def)
qed

lemma user_in_where_other:
  "i \<noteq> j \<Longrightarrow> keeps_user_keys f \<Longrightarrow> user_in t j (users_where t i f d) = user_in t j d"
  by (auto simp: user_in_def users_where_def keeps_user_keys_def intro: first_match_map_where_other)

lemma finish_succeeds:
  assumes wf: "wf_db (db w)" and clerk: "clerk_deletes env (tenant_id c) (usr_clerk_user_id target)"
    and target: "user_in (tenant_id c) (usr_id target) (db w) = Some target" and ne: "usr_clerk_user_id target \<noteq> user_id c"
    and r: "admin_in (tenant_id c) (user_id c) (db w) = Some r"
    and ok: "audit_accepted (tenant_id c) (adm_org_id r) (rnd w (rnd_next w)) (db w)"
  obtains s where "scoped_run c (removal_finish env c (target, True)) w = (Inr True, w\<lparr>svc := s, guc := None, uow := [],
      rnd_next := Suc (rnd_next w), db := with_audit (audit_row (admin_entry c r ''admin_member_removed'' (removed_payload target True))
        (rnd w (rnd_next w)) (clock w))
      (users_where (tenant_id c) (usr_id target) (\<lambda>u. u\<lparr>usr_status := ''inactive'', usr_deactivated_at := Some (clock w)\<rparr>)
        (admins_where (tenant_id c) (usr_clerk_user_id target) (deactivate_row (clock w)) (db w)))\<rparr>)"
proof -
  let ?t = "tenant_id c" and ?v = "usr_clerk_user_id target"
  let ?w = "w\<lparr>uow := [], guc := Some ?t\<rparr>"
  let ?d = "admins_where ?t ?v (deactivate_row (clock w)) (db w)"
  let ?off = "\<lambda>u :: user. u\<lparr>usr_status := ''inactive'', usr_deactivated_at := Some (clock w)\<rparr>"
  let ?e = "admin_entry c r ''admin_member_removed'' (removed_payload target True)"
  let ?one = "UpdateUserStatus (usr_id target) ''inactive'' (Some (clock w))"
  obtain s where call: "via_clerk (remove_organization_membership env ?t ?v) ?w = (Inr (), ?w\<lparr>svc := s\<rparr>)"
    using clerk_deletes_run [OF clerk] .
  define v where "v = ?w\<lparr>svc := s, db := ?d\<rparr>"
  have act: "admin_in ?t (user_id c) ?d = Some r" using r ne by (simp add: admin_in_where_other)
  have body: "removal_finish env c (target, True) ?w = (Inr True, v\<lparr>uow := [?one, InsertAudit ?e]\<rparr>)"
    using wf by (simp add: removal_finish_def bnd_app [of "via_clerk m" for m] call removal_writes_def bnd_app utc_now_def
        session_add_def admin_deactivate_scoped admin_audit_scoped act v_def)
  have wfv: "wf_db (db v)" using wf_admins_update [of ?w ?t] wf by (simp add: v_def)
  have one: "run_write ?one v = (Inr (), v\<lparr>db := users_where ?t (usr_id target) ?off ?d\<rparr>)"
    using user_status_write_scoped [of v ?t "usr_id target" target] wfv target by (simp add: v_def)
  have "wf_db (db (snd (run_write ?one v)))" by (rule wf_kept [OF run_write_confined wfv])
  then have wf2: "wf_db (users_where ?t (usr_id target) ?off ?d)" by (simp add: one)
  have two: "run_write (InsertAudit ?e) (v\<lparr>db := users_where ?t (usr_id target) ?off ?d\<rparr>) = (Inr (), v\<lparr>rnd_next := Suc (rnd_next w),
      db := with_audit (audit_row ?e (rnd w (rnd_next w)) (clock w)) (users_where ?t (usr_id target) ?off ?d)\<rparr>)"
    using wf2 ok by (subst audit_write_accepted [where t = ?t])
      (auto simp: v_def audit_accepted_def admin_entry_def org_policy_def users_where_def admins_where_def)
  have "run_writes [?one, InsertAudit ?e] v = (Inr (), v\<lparr>rnd_next := Suc (rnd_next w),
      db := with_audit (audit_row ?e (rnd w (rnd_next w)) (clock w)) (users_where ?t (usr_id target) ?off ?d)\<rparr>)"
    using run_writes_step [OF one] by (simp add: run_writes_one two)
  moreover have "v\<lparr>uow := []\<rparr> = v" by (simp add: v_def)
  ultimately show thesis
    using body by (intro that [of s]) (simp add: scoped_run_def in_transaction_def set_org_scope_def bnd_app flush_def, simp add: v_def)
qed


end
