(* ===== verification/Witnesses.thy ===== *)
theory Witnesses
  imports AdminRoutes
begin

section \<open>The admin properties on concrete requests\<close>

text \<open>
  For each property of the members, platform and admin-route theories that has a
  hypothesis: the property applied to a request on the database of \<open>Fixtures\<close>, whose run
  is evaluated.
\<close>

definition removal_run :: "(exn + bool) \<times> http_request list world" where
  "removal_run = scoped_run alice (remove_member env_demo alice 2) world_demo"

lemma removal_run_ok: "fst removal_run = Inr True"
  by code_simp

theorem remove_member_effect_witness:
  "\<exists>target r. user_in ''org_A'' 2 db_demo = Some target \<and> usr_clerk_user_id target \<noteq> ''alice''
     \<and> admin_in ''org_A'' ''alice'' db_demo = Some r
     \<and> db (snd removal_run) = after_removal ''org_A'' target 500000000
         (audit_row (admin_entry alice r ''admin_member_removed'' (removed_payload target
            (is_active_admin_in ''org_A'' (usr_clerk_user_id target) db_demo))) 100 500000000) db_demo"
proof -
  have "scoped_run alice (remove_member env_demo alice 2) world_demo = (Inr True, snd removal_run)"
    using removal_run_ok unfolding removal_run_def by (metis prod.collapse)
  from remove_member_effect [OF _ this] wf_db_demo show ?thesis by (auto simp: world_demo_def)
qed

definition promotion_run :: "(exn + member_response) \<times> http_request list world" where
  "promotion_run = scoped_run alice (update_member_role env_demo alice 1 RoleAdmin) world_demo"

theorem update_member_role_effect_witness:
  "case fst promotion_run of Inl e \<Rightarrow> False | Inr resp \<Rightarrow> mr_role resp = ''admin''
     \<and> active_admin ''org_A'' ''carol'' (db (snd promotion_run))"
proof -
  have ok: "\<not> isl (fst promotion_run)" by code_simp
  have run: "scoped_run alice (update_member_role env_demo alice 1 RoleAdmin) world_demo =
      (fst promotion_run, snd promotion_run)" by (simp add: promotion_run_def)
  have target: "user_in ''org_A'' 1 db_demo = Some (user_demo 1 1 ''org_A'' ''carol'' ''member'' ''active'')"
    by code_simp
  from update_member_role_effect [OF _ run] wf_db_demo target ok show ?thesis
    by (auto simp: isl_def user_demo_def member_response_of_def after_role_change_def
        admins_after_change_def Let_def active_admin_def admin_in_def first_match_append
        new_admin_row_def db_demo_def admin_demo_def split: sum.splits)
qed

theorem caller_stays_admin_witness:
  "active_admin ''org_A'' ''alice'' (db (snd (scoped_run alice (remove_member env_demo alice 2) world_demo)))"
proof -
  have "active_admin (tenant_id alice) (user_id alice) (db world_demo)" by (simp add: active_admin_def)
  from caller_stays_admin [OF _ this, where i = 2] wf_db_demo show ?thesis by simp
qed

definition org_promotion_run :: "(exn + org_member_response) \<times> http_request list world" where
  "org_promotion_run =
     scoped_run root (update_org_member_role env_demo root ''org_B'' ''dave'' RoleAdmin) world_demo"

theorem update_org_member_role_effect_witness:
  "\<exists>r email old. admin_in ''org_P'' ''root'' db_demo = Some r
     \<and> db (snd org_promotion_run) = with_audit (audit_row (admin_entry root r ''admin_member_role_changed''
          (org_role_payload ''org_B'' ''dave'' email old RoleAdmin True)) 100 500000000)
        (org_role_db ''org_B'' ''dave'' RoleAdmin 500000000 db_demo)"
proof -
  have ok: "\<not> isl (fst org_promotion_run)" by code_simp
  have changed: "length (t_human_audit_log (db (snd org_promotion_run))) = 1" by code_simp
  have there: "user_of ''org_B'' ''dave'' db_demo \<noteq> None" by code_simp
  have run: "scoped_run root (update_org_member_role env_demo root ''org_B'' ''dave'' RoleAdmin) world_demo
      = (fst org_promotion_run, snd org_promotion_run)" by (simp add: org_promotion_run_def)
  have "t_human_audit_log db_demo = []" by (simp add: db_demo_def)
  with update_org_member_role_effect [OF _ _ run] wf_db_demo ok changed there show ?thesis
    by (auto simp: isl_def world_demo_def split: sum.splits if_splits)
qed

definition org_removal_run :: "(exn + bool) \<times> http_request list world" where
  "org_removal_run = scoped_run root (remove_org_member env_demo root ''org_B'' ''dave'') world_demo"

theorem remove_org_member_effect_witness:
  "fst org_removal_run = Inr True \<and> (\<exists>was_admin r email.
     db (snd org_removal_run) = with_audit (audit_row (admin_entry root r ''admin_member_removed''
          (org_removed_payload ''org_B'' ''dave'' email was_admin)) 100 500000000)
        (org_removal_db ''org_B'' ''dave'' was_admin 500000000 db_demo))"
proof -
  have ok: "fst org_removal_run = Inr True" by code_simp
  have run: "scoped_run root (remove_org_member env_demo root ''org_B'' ''dave'') world_demo
      = (Inr True, snd org_removal_run)" using ok by (simp add: org_removal_run_def prod_eq_iff)
  from remove_org_member_effect [OF _ _ run] wf_db_demo ok show ?thesis by (auto simp: world_demo_def)
qed

theorem platform_removal_keeps_an_admin_witness:
  "1 \<le> active_admins ''org_A'' (db (snd (scoped_run root (remove_org_member env_demo root ''org_A'' ''dave'') world_demo)))"
proof -
  have "1 \<le> active_admins ''org_A'' db_demo" by code_simp
  then show ?thesis
    using platform_removal_keeps_an_admin [of world_demo root env_demo "''org_A''" "''dave''"] wf_db_demo
    by simp
qed


theorem context_matches_guards_witness:
  "let w = world_demo\<lparr>guc := Some ''org_P''\<rparr> in
     fst (require_platform_admin env_demo root w) = Inr () \<and> fst (require_org_admin root w) = Inr ()"
proof -
  let ?w = "world_demo\<lparr>guc := Some ''org_P''\<rparr>"
  have "\<exists>ctx. get_context env_demo root ?w = (Inr ctx, ?w) \<and> is_org_admin ctx \<and> is_platform_admin ctx"
    by (simp add: get_context_def bnd_app org_first_scoped admin_by_clerk_id_scoped is_active_row_def)
  then obtain ctx where g: "get_context env_demo root ?w = (Inr ctx, ?w)"
    and f: "is_org_admin ctx" "is_platform_admin ctx" by blast
  from context_matches_guards [OF _ _ g] f show ?thesis by simp
qed

end
