(* ===== verification/UploadRace.thy ===== *)
theory UploadRace
  imports System
begin

section \<open>A job that overtakes its upload\<close>

text \<open>
  \<open>complete_upload\<close> puts its job on the queue before its transaction commits, so a worker can run
  the job in between. The request is cut at that point. Its transaction has only read until then
  (the sessions have \<open>autoflush=False\<close>, and an active caller needs no provisioning), so the worker's
  own session sees the database as it was committed before, and the request goes on afterwards with
  its own \<open>app.org_id\<close> and unit of work.
\<close>

definition upload_enqueued :: "'c env \<Rightarrow> token_claims \<Rightarrow> uuid \<Rightarrow> complete_request \<Rightarrow> ('c, string) act" where
  "upload_enqueued env c upload_id body =
     bnd (org_for_request c) (\<lambda>org. let storage_key = upload_key c org upload_id body in
     bnd (head_object env storage_key) (\<lambda>there.
     seq (guard there (HTTPException 404
            (JStr ''Uploaded object not found -- the presigned PUT may not have completed'')))
     (bnd utc_now (\<lambda>t.
     seq (data_source_create (pending_source org upload_id body storage_key t))
     (seq (enqueue ''ingest_data_source'' (ingest_kwargs c upload_id body storage_key))
       (ret storage_key))))))"

definition upload_closed :: "token_claims \<Rightarrow> uuid \<Rightarrow> complete_request \<Rightarrow> string \<Rightarrow> ('c, uuid \<times> string) act" where
  "upload_closed c upload_id body storage_key =
     bnd (caller_row c) (\<lambda>u.
     seq (audit_append (upload_entry c u upload_id body storage_key))
       (ret (upload_id, ''pending'')))"

lemma upload_halves: "complete_upload env c up body = bnd (upload_enqueued env c up body) (upload_closed c up body)"
  by (simp add: complete_upload_def upload_enqueued_def upload_closed_def bnd_assoc Let_def)

text \<open>Another session's work while a transaction that has written nothing is open, and its outcome.\<close>

definition meanwhile :: "('c, 'a) act \<Rightarrow> ('c, exn + 'a) act" where
  "meanwhile other = (\<lambda>w. let (r, w') = other (w\<lparr>guc := None, uow := []\<rparr>) in (Inr r, w'\<lparr>guc := guc w, uow := uow w\<rparr>))"

definition overtaken_upload ::
  "'c env \<Rightarrow> token_claims \<Rightarrow> uuid \<Rightarrow> complete_request \<Rightarrow> ('c, (exn + unit) \<times> uuid \<times> string) act" where
  "overtaken_upload env c upload_id body =
     get_db env c
       (bnd (upload_enqueued env c upload_id body) (\<lambda>storage_key.
        bnd (meanwhile (\<lambda>w. run_ingest env (job_kwargs (last (queue w))) w)) (\<lambda>job_outcome.
        bnd (upload_closed c upload_id body storage_key) (\<lambda>answer. ret (job_outcome, answer)))))"

lemma overtaken_run:
  assumes org: "org_of (tenant_id c) (db w) = Some r" and u: "user_of (tenant_id c) (user_id c) (db w) = Some u"
    and there: "s3_head env (spaces_bucket (settings env)) (upload_key c r up body) (svc w) = (None, s)"
    and fresh: "up \<notin> ds_id ` set (t_data_source (db w))"
  shows "(bnd (upload_enqueued env c up body) (\<lambda>storage_key.
        bnd (meanwhile (\<lambda>w. run_ingest env (job_kwargs (last (queue w))) w)) (\<lambda>job_outcome.
        bnd (upload_closed c up body storage_key) (\<lambda>answer. ret (job_outcome, answer)))))
      (w\<lparr>uow := [], guc := Some (tenant_id c)\<rparr>) =
    (Inr (Inl (ValueError (''data_source '' @ str_uuid up @ '' not found'')), up, ''pending''), completed env c up body r u s w)"
proof -
  have none: "source_in (tenant_id c) up (db w) = None"
    using fresh by (auto simp: source_in_def first_match_None)
  show ?thesis
    using assms
    by (simp add: upload_enqueued_def upload_closed_def meanwhile_def act_simps Let_def head_object_def utc_now_def
        data_source_create_def session_add_def enqueue_def audit_append_def completed_def ingest_job orphan_job_fails none)
qed

text \<open>
  C30: the job is lost when the worker is faster than the commit. Run between the enqueue and the
  commit, it raises because the row is not there yet; the request then answers like any other and
  leaves the very same state, with the new data source \<open>pending\<close>. Only a second delivery of the
  job could settle it, and \<open>enqueue\<close> asks the queue for none.
\<close>

theorem overtaking_job_is_lost:
  assumes wf: "wf_db (db w)" and org: "org_of (tenant_id c) (db w) = Some r"
    and u: "user_of (tenant_id c) (user_id c) (db w) = Some u" "usr_status u = ''active''"
    and there: "s3_head env (spaces_bucket (settings env)) (upload_key c r up body) (svc w) = (None, s)"
    and fresh: "up \<notin> ds_id ` set (t_data_source (db w))"
    and deal: "cq_deal_id body \<in> deal_id ` set (t_deals (db w))"
    and row: "org_policy (Some (tenant_id c)) (db w) (org_id r)"
    and ok: "audit_accepted (tenant_id c) (usr_org_id u) (rnd w (rnd_next w)) (db w)"
  shows "\<exists>w' d. overtaken_upload env c up body w =
        (Inr (Inl (ValueError (''data_source '' @ str_uuid up @ '' not found'')), up, ''pending''), w')
      \<and> get_db env c (complete_upload env c up body) w = (Inr (up, ''pending''), w')
      \<and> source_in (tenant_id c) up (db w') = Some d \<and> ds_status d = ''pending''"
proof -
  let ?m = "bnd (upload_enqueued env c up body) (\<lambda>storage_key.
        bnd (meanwhile (\<lambda>w. run_ingest env (job_kwargs (last (queue w))) w)) (\<lambda>job_outcome.
        bnd (upload_closed c up body storage_key) (\<lambda>answer. ret (job_outcome, answer))))"
  let ?outcome = "Inl (ValueError (''data_source '' @ str_uuid up @ '' not found'')) :: exn + unit"
  obtain w' where run: "get_db env c (complete_upload env c up body) w = (Inr (up, ''pending''), w')"
    and d: "db w' = with_audit (audit_row (upload_entry c u up body (upload_key c r up body)) (rnd w (rnd_next w)) (clock w))
         (t_data_source_update (\<lambda>rs. rs @ [pending_source r up body (upload_key c r up body) (clock w)]) (db w))"
    using complete_upload_commit [OF assms] by (simp add: Let_def)
  have "overtaken_upload env c up body w = (Inr (?outcome, up, ''pending''), w')"
  proof -
    obtain y w2 where y: "run_writes (uow (completed env c up body r u s w)) ((completed env c up body r u s w)\<lparr>uow := []\<rparr>) = (y, w2)"
      by fastforce
    note same = scoped_active [OF u, of env] commit_writes [where m = "complete_upload env c up body" and w = w and c = c, OF complete_upload_run [OF org u(1) there] y]
      commit_writes [where m = ?m and w = w and c = c, OF overtaken_run [OF org u(1) there fresh] y]
    from run show ?thesis
      unfolding overtaken_upload_def by (simp add: same split: sum.splits)
  qed
  moreover have "source_in (tenant_id c) up (db w') = Some (pending_source r up body (upload_key c r up body) (clock w))"
  proof -
    have "first_match (\<lambda>x. org_policy (Some (tenant_id c)) (db w) (ds_org_id x) \<and> ds_id x = up) (t_data_source (db w)) = None"
      using fresh by (auto simp: first_match_None)
    then show ?thesis using row by (simp add: source_in_def d with_audit_def first_match_append pending_source_def)
  qed
  ultimately show ?thesis using run by (auto simp: pending_source_def)
qed

end
