(* ===== verification/ProductWitnesses.thy ===== *)
theory ProductWitnesses
  imports Races Witnesses UploadRace
begin

section \<open>The product properties on concrete requests\<close>

text \<open>
  For each property of the sign-in, deal, history, upload, ingest and system theories that has a
  hypothesis: the property applied to a request on the database of \<open>Fixtures\<close>.
\<close>

lemma members_demo:
  "user_of ''org_A'' ''carol'' db_demo = Some (user_demo 1 1 ''org_A'' ''carol'' ''member'' ''active'')"
  "user_of ''org_A'' ''dave'' db_demo = None" "user_of ''org_A'' ''erin'' db_demo = None"
  by (code_simp, code_simp, code_simp)

lemma accepted_demo: "audit_accepted ''org_A'' 1 (rnd world_demo (rnd_next world_demo)) db_demo"
  by code_simp

lemma user_demo_simps:
  "usr_org_id (user_demo i org c u role st) = org" "usr_status (user_demo i org c u role st) = st"
  by (simp_all add: user_demo_def)

lemma demo_trail: "t_human_audit_log db_demo = []"
  by (simp add: db_demo_def)

lemmas product_demo = wf_db_demo members_demo accepted_demo user_demo_simps demo_trail

subsection \<open>Signing in\<close>

theorem sign_in_witness:
  "\<exists>w'. get_db env_demo carol (me carol) world_demo =
     (Inr (user_response_of (user_demo 1 1 ''org_A'' ''carol'' ''member'' ''active'')), w')
     \<and> map aud_event_type (t_human_audit_log (db w')) = [''auth_login'']"
  using sign_in [of world_demo carol _ env_demo]
  by (simp add: product_demo as_active_def provisioned_def user_entry_def audit_row_def)

theorem second_organisation_sign_in_fails_witness:
  "let c = claims_demo ''org_A'' ''dave'' ''member'' in
     fst (get_db env_demo c (me c) world_demo) = Inl AssertionError"
  using second_organisation_sign_in_fails [of "claims_demo ''org_A'' ''dave'' ''member''" world_demo _ env_demo]
  by (simp add: product_demo) (simp add: db_demo_def user_demo_def)

theorem first_sign_in_witness:
  "let c = claims_demo ''org_A'' ''erin'' ''admin''; w' = snd (get_db env_demo c (me c) world_demo) in
     map usr_clerk_user_id (t_users (db w')) = [''carol'', ''bob'', ''dave'', ''erin'']"
proof -
  let ?c = "claims_demo ''org_A'' ''erin'' ''admin''"
  have "''erin'' \<notin> usr_clerk_user_id ` set (t_users db_demo)" "seq_users world_demo \<notin> usr_id ` set (t_users db_demo)"
    "map usr_clerk_user_id (t_users db_demo) = [''carol'', ''bob'', ''dave'']" "org_id (orgs_demo ! 0) = 1"
    by (simp_all add: db_demo_def user_demo_def world_demo_def orgs_demo_def)
  with first_sign_in [of world_demo ?c "orgs_demo ! 0" env_demo] show ?thesis
    by (simp add: product_demo Let_def new_user_def new_user_row_def)
qed

theorem sync_profile_spec_witness:
  "fst (sync_profile carol \<lparr>ps_name = None, ps_email = Some ''c@example.com''\<rparr> (world_demo\<lparr>guc := Some ''org_A''\<rparr>)) = Inr True"
proof -
  have "\<not> email_taken ''org_A'' ''carol'' ''c@example.com'' db_demo" by code_simp
  with sync_profile_spec [of "world_demo\<lparr>guc := Some ''org_A''\<rparr>" carol] show ?thesis
    by (simp add: product_demo)
qed

subsection \<open>Deals and history\<close>

theorem pipeline_listing_witness:
  "\<exists>rows. fst (list_pipeline env_demo (world_demo\<lparr>guc := Some ''org_A''\<rparr>)) = Inr rows \<and> length rows = 1"
proof -
  let ?w = "world_demo\<lparr>guc := Some ''org_A''\<rparr>"
  have "case fst (list_pipeline env_demo ?w) of Inr rows \<Rightarrow> length rows = 1 | _ \<Rightarrow> False"
    unfolding pipeline_listing [of ?w "''org_A''" env_demo, simplified] by code_simp
  then show ?thesis by (auto split: sum.splits)
qed

theorem dashboard_counts_witness:
  "\<exists>resp. fst (dashboard_stats (world_demo\<lparr>guc := Some ''org_B''\<rparr>)) = Inr resp \<and> dsr_total_deals resp = (1, 1)"
proof -
  let ?ds = "deals_of ''org_B'' db_demo" and ?k = "month_index 500000000"
  have "length ?ds = 1" by code_simp
  moreover have "length (created_in (\<lambda>m. ?k \<le> m) ?ds) = 1" by code_simp
  moreover have "length (created_in (\<lambda>m. m = ?k - 1) ?ds) = 0" by code_simp
  ultimately show ?thesis
    using dashboard_counts [of "world_demo\<lparr>guc := Some ''org_B''\<rparr>" "''org_B''"] by (simp add: Let_def)
qed

theorem get_deal_effect_witness:
  "fst (get_db env_demo carol (get_deal env_demo carol 20) world_demo) = Inl (HTTPException 404 (JStr ''Deal not found''))
   \<and> \<not> isl (fst (get_db env_demo carol (get_deal env_demo carol 10) world_demo))"
proof -
  have d: "deal_in ''org_A'' 20 db_demo = None" "deal_in ''org_A'' 10 db_demo = Some (deal_demo 10 1 0)"
    by (code_simp, code_simp)
  show ?thesis
    using get_deal_effect [where w = world_demo and c = carol and env = env_demo and i = 20] get_deal_effect [where w = world_demo and c = carol and env = env_demo and i = 10]
    by (simp add: product_demo d)
qed

theorem delete_history_effect_witness:
  "fst (get_db env_demo carol (delete_history carol 11) world_demo) = Inr True
   \<and> fst (get_db env_demo carol (delete_history carol 21) world_demo) = Inr False"
proof -
  have f: "(\<exists>s \<in> set (sessions_of ''org_A'' db_demo). ses_id s = 11)"
    "\<not> (\<exists>s \<in> set (sessions_of ''org_A'' db_demo). ses_id s = 21)" by (code_simp, code_simp)
  show ?thesis
    using delete_history_effect [where w = world_demo and c = carol and env = env_demo and i = 11] delete_history_effect [where w = world_demo and c = carol and env = env_demo and i = 21]
    by (simp add: product_demo f Let_def)
qed

theorem clear_history_effect_witness:
  "fst (get_db env_demo carol (clear_all_history carol) world_demo) = Inr 1"
proof -
  have "length (sessions_of ''org_A'' db_demo) = 1" by code_simp
  then show ?thesis using clear_history_effect [where w = world_demo and c = carol and env = env_demo]
    by (simp add: product_demo Let_def)
qed

theorem recent_activity_spec_witness:
  "\<exists>resp. fst (recent_activity 50 (world_demo\<lparr>guc := Some ''org_A''\<rparr>)) = Inr resp \<and> ra_total resp = 0"
proof -
  have "trail_of ''org_A'' db_demo = []" by code_simp
  with recent_activity_spec [of "world_demo\<lparr>guc := Some ''org_A''\<rparr>" "''org_A''" 50] show ?thesis by auto
qed

subsection \<open>Uploads and the ingest job\<close>

definition presign_demo :: "string \<Rightarrow> string \<Rightarrow> presign_request" where
  "presign_demo f h = \<lparr>pq_deal_id = 10, pq_filename = f, pq_size = 1000, pq_declared_sha256 = h\<rparr>"

theorem presign_spec_witness:
  "let w = world_demo\<lparr>guc := Some ''org_A''\<rparr> in
     fst (create_presigned_url env_demo carol (presign_demo ''a.exe'' ''bb'') w) =
       Inl (HTTPException 422 (JStr (''Unsupported file type: '' @ py_repr ''a.exe'')))
     \<and> fst (create_presigned_url env_demo carol (presign_demo ''a.pdf'' ''aa'') w) =
       Inl (HTTPException 409 (JStr ''A matching file has already been uploaded for this deal''))
     \<and> \<not> isl (fst (create_presigned_url env_demo carol (presign_demo ''a.pdf'' ''bb'') w))"
proof -
  let ?w = "world_demo\<lparr>guc := Some ''org_A''\<rparr>"
  have s: "sources_of ''org_A'' db_demo = [source_demo 12 1 10 ''aa'' ''pending'']" by code_simp
  have x: "file_suffix ''a.exe'' \<notin> set ALLOWED_EXTENSIONS" "file_suffix ''a.pdf'' \<in> set ALLOWED_EXTENSIONS"
    by (code_simp, code_simp)
  show ?thesis
    using presign_spec [where w = ?w and c = carol and r = "orgs_demo ! 0" and env = env_demo]
    by (simp add: Let_def s x presign_demo_def source_demo_def)
qed

definition upload_demo :: "uuid \<Rightarrow> complete_request" where
  "upload_demo deal = \<lparr>cq_deal_id = deal, cq_filename = ''f.pdf'', cq_declared_sha256 = ''01''\<rparr>"

lemma upload_demo_facts:
  "org_policy (Some ''org_A'') db_demo 1" "13 \<notin> ds_id ` set (t_data_source db_demo)"
  "org_id (orgs_demo ! 0) = 1" "s3_head env_demo b k c = (None, c)"
  "20 \<in> deal_id ` set (t_deals db_demo)" "99 \<notin> deal_id ` set (t_deals db_demo)"
  by (simp_all add: db_demo_def org_policy_def clerk_policy_def orgs_demo_def source_demo_def deal_demo_def env_demo_def)

theorem complete_upload_effect_witness:
  "fst (get_db env_demo carol (complete_upload env_demo carol 13 (upload_demo 20)) world_demo) = Inr (13, ''pending'')"
  using complete_upload_effect [where w = world_demo and c = carol and r = "orgs_demo ! 0" and env = env_demo and body = "upload_demo 20" and up = 13]
  by (simp add: product_demo upload_demo_facts upload_demo_def Let_def)

theorem failed_completion_leaves_job_witness:
  "\<exists>w'. get_db env_demo carol (complete_upload env_demo carol 13 (upload_demo 99)) world_demo =
     (Inl (DbError ForeignKeyViolation), w') \<and> length (queue w') = 1 \<and> db w' = db_demo"
  using failed_completion_leaves_job [where w = world_demo and c = carol and r = "orgs_demo ! 0" and env = env_demo and body = "upload_demo 99" and up = 13]
  by (simp add: product_demo upload_demo_facts upload_demo_def world_demo_def)

lemma demo_object: "s3_get env_demo b k c = (Inr [1, 2, 3], c)" "verdict env_demo ''01'' [1, 2, 3] = (''verified'', Some ''01'')"
  by (simp add: env_demo_def, code_simp)

lemma demo_source: "source_in ''org_A'' 12 db_demo = Some (source_demo 12 1 10 ''aa'' ''pending'')"
  "ds_status (source_demo i org deal h st) = st" "t_human_audit_log db_demo = []"
  by (code_simp, simp_all add: source_demo_def db_demo_def)

theorem ingest_effect_witness:
  "\<exists>w'. ingest_data_source env_demo (str_uuid 12) ''org_A'' ''k'' ''01'' world_demo = (Inr (), w')
     \<and> map ds_status (t_data_source (db w')) = [''verified'', ''verified'']
     \<and> map aud_event_type (t_human_audit_log (db w')) = [''document_upload_ingest_completed'']"
proof -
  have settled: "map ds_status (t_data_source (settle_source ''org_A'' 12 ''verified'' fp now db_demo)) = [''verified'', ''verified'']" for fp now
    by (simp add: settle_source_def db_demo_def source_demo_def org_policy_def clerk_policy_def orgs_demo_def)
  have ev: "aud_event_type (audit_row (ingest_entry r i st fp) u t) = ''document_upload_ingest_completed''" for r i st fp u t
    by (simp add: audit_row_def ingest_entry_def)
  show ?thesis
    using ingest_effect [of world_demo "''org_A''" 12 _ env_demo "''k''" "''01''"] wf_db_demo
    by (simp add: demo_source demo_object settled ev Let_def) (simp add: with_audit_def settled)
qed

theorem orphan_job_fails_witness:
  "fst (ingest_data_source env_demo (str_uuid 22) ''org_A'' ''k'' ''01'' world_demo) =
     Inl (ValueError (''data_source '' @ str_uuid 22 @ '' not found''))"
proof -
  have "source_in ''org_A'' 22 db_demo = None" by code_simp
  then show ?thesis using orphan_job_fails [of "''org_A''" 22 world_demo env_demo "''k''" "''01''"] by simp
qed

definition ingest_run_demo :: "http_request list world" where
  "ingest_run_demo = snd (ingest_data_source env_demo (str_uuid 12) ''org_A'' ''k'' ''01'' world_demo)"

theorem ingest_idempotent_witness:
  "ingest_data_source env_demo (str_uuid 12) ''org_A'' ''other'' ''ff'' ingest_run_demo = (Inr (), ingest_run_demo)"
proof -
  have "fst (ingest_data_source env_demo (str_uuid 12) ''org_A'' ''k'' ''01'' world_demo) = Inr ()"
    using ingest_run [of world_demo "''org_A''" 12 _ env_demo "''k''" "''01''"] wf_db_demo
    by (simp add: demo_source demo_object Let_def)
  then have "ingest_data_source env_demo (str_uuid 12) ''org_A'' ''k'' ''01'' world_demo = (Inr (), ingest_run_demo)"
    by (simp add: ingest_run_demo_def prod_eq_iff)
  then show ?thesis by (rule ingest_idempotent)
qed

subsection \<open>The system\<close>

definition run_demo :: "http_request list world" where
  "run_demo = snd (serve env_demo ''Bearer carol'' GetMe world_demo)"

lemma run_demo: "run env_demo {''org_A''} world_demo run_demo"
proof -
  have "event_reach env_demo world_demo (Request ''Bearer carol'' GetMe) = {''org_A''}"
  proof -
    have "map_sum (\<lambda>e. ()) tenant_id (fst (get_claims env_demo ''Bearer carol'' world_demo)) = Inr ''org_A''"
      by code_simp
    then show ?thesis by (cases "fst (get_claims env_demo ''Bearer carol'' world_demo)") (simp_all add: event_reach_def reach_def)
  qed
  then show ?thesis unfolding run_demo_def
    by (intro run.more [OF run.start step.request]) simp
qed

theorem tenant_isolation_witness:
  "tenant_view ''org_B'' (db run_demo) = tenant_view ''org_B'' db_demo \<and> tenant_view ''org_A'' (db run_demo) \<noteq> tenant_view ''org_A'' db_demo"
proof
  show "tenant_view ''org_B'' (db run_demo) = tenant_view ''org_B'' db_demo"
    using tenant_isolation [OF run_demo, of "''org_B''"] wf_db_demo by simp
  have "length (t_human_audit_log (tenant_view ''org_A'' (db run_demo))) = 1" by code_simp
  moreover have "length (t_human_audit_log (tenant_view ''org_A'' db_demo)) = 0" by code_simp
  ultimately show "tenant_view ''org_A'' (db run_demo) \<noteq> tenant_view ''org_A'' db_demo" by auto
qed


theorem record_only_grows_witness:
  "\<exists>r \<in> set (t_data_source (db run_demo)). ds_identity r = ds_identity (source_demo 12 1 10 ''aa'' ''pending'')"
proof -
  have "source_demo 12 1 10 ''aa'' ''pending'' \<in> set (t_data_source db_demo)" by (simp add: db_demo_def)
  with record_only_grows [OF run_demo] wf_db_demo show ?thesis by auto
qed

theorem unscoped_session_is_blind_witness: "select_rows users_table (\<lambda>_. True) world_demo = []"
  using unscoped_session_is_blind [of world_demo] by (simp add: blind_def)

lemma demo_uuids: "rnd world_demo n = of_nat (100 + n)" "rnd_next world_demo = 0"
  by (simp_all add: world_demo_def)

theorem upload_is_settled_witness:
  "let w1 = snd (get_db env_demo carol (complete_upload env_demo carol 13 (upload_demo 10)) world_demo) in
     fst (run_ingest env_demo (job_kwargs (last (queue w1))) w1) = Inr ()"
proof -
  have "10 \<in> deal_id ` set (t_deals db_demo)" by (simp add: db_demo_def deal_demo_def)
  moreover have "audit_accepted ''org_A'' 1 100 db_demo" by code_simp
  ultimately show ?thesis
    using upload_is_settled [where w = world_demo and c = carol and r = "orgs_demo ! 0" and env = env_demo
        and body = "upload_demo 10" and up = 13 and s = "[]" and object = "[1, 2, 3]" and s' = "[]"]
    by (simp add: product_demo upload_demo_facts demo_object demo_uuids Let_def)
      (simp add: upload_demo_def)
qed

theorem overtaking_job_is_lost_witness:
  "\<exists>w' d. overtaken_upload env_demo carol 13 (upload_demo 10) world_demo =
        (Inr (Inl (ValueError (''data_source '' @ str_uuid 13 @ '' not found'')), 13, ''pending''), w')
      \<and> source_in ''org_A'' 13 (db w') = Some d \<and> ds_status d = ''pending''"
proof -
  have "10 \<in> deal_id ` set (t_deals db_demo)" by (simp add: db_demo_def deal_demo_def)
  moreover have "audit_accepted ''org_A'' 1 100 db_demo" by code_simp
  ultimately show ?thesis
    using overtaking_job_is_lost [where w = world_demo and c = carol and r = "orgs_demo ! 0" and env = env_demo
        and body = "upload_demo 10" and up = 13 and s = "[]"]
    by (simp add: product_demo upload_demo_facts demo_uuids upload_demo_def) blast
qed

theorem repeated_completion_switches_object_witness:
  "fst (get_db env_demo carol (complete_upload env_demo carol 12 (upload_demo 10)) world_demo) = Inl (DbError UniqueViolation)
   \<and> ds_declared_sha256 (source_demo 12 1 10 ''aa'' ''pending'') \<noteq> cq_declared_sha256 (upload_demo 10)"
proof -
  have h: "hexdigest (sha256 env_demo [1, 2, 3]) = ''01''" by code_simp
  have "cq_declared_sha256 (upload_demo 10) = ''01''" by (simp add: upload_demo_def)
  then show ?thesis
    using repeated_completion_switches_object [where w = world_demo and c = carol and r = "orgs_demo ! 0" and env = env_demo
        and body = "upload_demo 10" and up = 12 and s = "[]" and object = "[1, 2, 3]" and s' = "[]"]
    by (simp add: product_demo upload_demo_facts demo_object demo_source demo_uuids h Let_def)
      (simp add: source_demo_def)
qed

subsection \<open>Overlapping removals\<close>

text \<open>Alice and Bob, the administrators of \<open>org_A\<close>, both with a member row.\<close>

definition bob :: token_claims where
  "bob = claims_demo ''org_A'' ''bob'' ''admin''"

definition duel_demo :: "http_request list world" where
  "duel_demo = world_demo\<lparr>db := db_demo\<lparr>t_users := t_users db_demo @ [user_demo 4 1 ''org_A'' ''alice'' ''admin'' ''active'']\<rparr>\<rparr>"

definition duel :: "nat list \<Rightarrow> http_request list world \<times> removal list" where
  "duel ks = follow env_demo ks (duel_demo, [Entered alice 2, Entered bob 4])"

lemma duel_won: "snd (duel [0, 1, 0, 1]) = [Answered (Inr True), Answered (Inr True)]"
  by code_simp


theorem removals_interleaved_witness:
  "\<exists>new. t_human_audit_log (db (fst (duel [0, 1, 0, 1]))) = t_human_audit_log (db duel_demo) @ new \<and> length new = 2
    \<and> tenant_view ''org_B'' (db (fst (duel [0, 1, 0, 1]))) = tenant_view ''org_B'' (db duel_demo)"
proof -
  have wf: "wf_db (db duel_demo)" by code_simp
  have idle: "guc duel_demo = None" by (simp add: duel_demo_def world_demo_def)
  have "overlap env_demo (duel_demo, map (\<lambda>(c, i). Entered c i) [(alice, 2), (bob, 4)])
      (fst (duel [0, 1, 0, 1]), [Answered (Inr True), Answered (Inr True)])"
    using follow_overlap [OF begun, of env_demo "(duel_demo, [Entered alice 2, Entered bob 4])" "[0, 1, 0, 1]"] duel_won
    by (simp add: duel_def prod_eq_iff [symmetric]) (metis prod.collapse)
  from removals_interleaved [OF this wf idle] show ?thesis
    by (auto simp: alice_def bob_def claims_demo_def)
qed
end
