(* ===== verification/ReportExport.thy ===== *)
theory ReportExport
  imports SandboxRetrieval JsonText "HOL-Library.Product_Lexorder"
begin

section \<open>The claims report of the sandbox\<close>

text \<open>
  \<open>sandbox/export_report.py\<close>: the claims of one tenant's latest ingest run, and the pages they
  cite, written as the data of a static report. The query runs as \<open>doadmin\<close>, which the sandbox
  database has as a superuser, so no policy applies and the tenant is a condition of the query.
  What pypdfium2 and the file system answer are arguments: the PDFs of \<open>sandbox/cim\<close>, whether a
  path is a file, and for a PDF its number of pages and the rendering of each.
\<close>

subsection \<open>The query\<close>

text \<open>\<open>org_key.replace("'", "''")\<close>, and the literal as the server reads it from its opening quote on.\<close>

fun sql_quote :: "string \<Rightarrow> string" where
  "sql_quote [] = []"
| "sql_quote (c # cs) = (if c = CHR 0x27 then [c, c] else [c]) @ sql_quote cs"

fun sql_literal :: "string \<Rightarrow> (string \<times> string) option" where
  "sql_literal [] = None"
| "sql_literal (c # cs) =
     (if c \<noteq> CHR 0x27 then map_option (apfst (Cons c)) (sql_literal cs)
      else case cs of
        c' # cs' \<Rightarrow> if c' = CHR 0x27 then map_option (apfst (Cons c)) (sql_literal cs') else Some ([], cs)
      | [] \<Rightarrow> Some ([], []))"

lemma sql_quote_round_trip:
  "(rest = [] \<or> hd rest \<noteq> CHR 0x27) \<Longrightarrow> sql_literal (sql_quote s @ CHR 0x27 # rest) = Some (s, rest)"
  by (induction s) (auto split: list.split)

definition tenant_claims :: "string \<Rightarrow> db \<Rightarrow> claim list" where
  "tenant_claims org d = filter (\<lambda>c. list_ex (\<lambda>o1. org_id o1 = clm_org_id c \<and> org_clerk_org_id o1 = org) (t_organisation d))
     (t_claims d)"

text \<open>
  \<open>ORDER BY created_at DESC LIMIT 1\<close>. The rows of one run have one \<open>created_at\<close>, the start of its
  transaction; among rows of equal age the first is taken, where Postgres may take any.
\<close>

definition newest_session :: "string \<Rightarrow> db \<Rightarrow> uuid option" where
  "newest_session org d = (case sort_key (\<lambda>c. - clm_created_at c) (tenant_claims org d) of
      [] \<Rightarrow> None | c # _ \<Rightarrow> clm_session_id c)"

definition nulls_last :: "int option \<Rightarrow> bool \<times> int" where
  "nulls_last x = (case x of None \<Rightarrow> (True, 0) | Some i \<Rightarrow> (False, i))"

definition report_order :: "claim \<Rightarrow> (bool \<times> int) \<times> (bool \<times> int)" where
  "report_order c = (nulls_last (clm_page c), nulls_last (clm_char_start c))"

definition fetch_claims :: "string option \<Rightarrow> string \<Rightarrow> db \<Rightarrow> exn + claim list" where
  "fetch_claims psql_error org d = (case psql_error of
      Some stderr \<Rightarrow> Inl (SystemExit (''error: psql failed:'' @ [CHR 0x0A] @ stderr))
    | None \<Rightarrow> Inr (sort_key report_order
        (filter (\<lambda>c. clm_session_id c = newest_session org d) (tenant_claims org d))))"

definition opt_texts :: "string list option \<Rightarrow> json" where
  "opt_texts x = (case x of None \<Rightarrow> JNull | Some ss \<Rightarrow> JArr (map JStr ss))"

definition report_row :: "claim \<Rightarrow> json" where
  "report_row c =
     JObj [(''entity'', JStr (clm_entity c)), (''attribute'', JStr (clm_attribute c)), (''value'', clm_value c),
       (''kind'', JStr (clm_kind c)), (''page'', opt_int (clm_page c)), (''char_start'', opt_int (clm_char_start c)),
       (''char_end'', opt_int (clm_char_end c)),
       (''bbox'', case clm_bbox c of None \<Rightarrow> JNull | Some b \<Rightarrow> b), (''status'', JStr (clm_status c)),
       (''flags'', opt_texts (clm_flags c)), (''claim_kind'', opt_str (clm_claim_kind c)),
       (''assertion_class'', opt_str (clm_assertion_class c))]"

subsection \<open>The pages\<close>

definition has_bbox :: "claim \<Rightarrow> bool" where
  "has_bbox c = (case clm_bbox c of None \<Rightarrow> False | Some b \<Rightarrow> py_truthy b)"

definition cited_pages :: "claim list \<Rightarrow> int list" where
  "cited_pages claims = sort (remdups (List.map_filter (\<lambda>c. if has_bbox c then clm_page c else None) claims))"

type_synonym pdf = "int \<times> (int \<Rightarrow> json)"

fun render_pages :: "pdf \<Rightarrow> int list \<Rightarrow> exn + (int \<times> json) list" where
  "render_pages doc [] = Inr []"
| "render_pages doc (page_no # pages) =
     (if \<not> (1 \<le> page_no \<and> page_no \<le> fst doc) then
        Inl (SystemExit (''error: claim cites page '' @ str_int page_no @ '', but the PDF has '' @ str_int (fst doc)
          @ '' pages -- wrong --pdf for this dataset?''))
      else sbind (render_pages doc pages) (\<lambda>out. Inr ((page_no, snd doc page_no) # out)))"

subsection \<open>The report\<close>

definition choose_pdf :: "string option \<Rightarrow> string list \<Rightarrow> (string \<Rightarrow> bool) \<Rightarrow> exn + string" where
  "choose_pdf arg cim is_file =
     sbind (case arg of
        Some p \<Rightarrow> Inr p
      | None \<Rightarrow> (case cim of [p] \<Rightarrow> Inr p
          | _ \<Rightarrow> Inl (SystemExit (''error: '' @ str_nat (length cim) @ '' PDFs in sandbox/cim/ -- pick one with --pdf''))))
       (\<lambda>p. if is_file p then Inr p else Inl (SystemExit (''error: no such file: '' @ p)))"

definition report_data :: "string \<Rightarrow> string \<Rightarrow> claim list \<Rightarrow> (int \<times> json) list \<Rightarrow> json" where
  "report_data pdf_path org claims pages =
     JObj [(''pdf'', JStr (path_name pdf_path)), (''org'', JStr org), (''claims'', JArr (map report_row claims)),
       (''pages'', JObj (map (\<lambda>(p, v). (str_int p, v)) pages))]"

text \<open>The data \<open>main\<close> writes as \<open>window.REPORT\<close>.\<close>

definition export_report ::
  "string option \<Rightarrow> string list \<Rightarrow> (string \<Rightarrow> bool) \<Rightarrow> string option \<Rightarrow> (string \<Rightarrow> exn + pdf) \<Rightarrow> string \<Rightarrow> db \<Rightarrow> exn + json" where
  "export_report arg cim is_file psql_error open_pdf org d =
     sbind (choose_pdf arg cim is_file) (\<lambda>pdf_path.
     sbind (fetch_claims psql_error org d) (\<lambda>claims.
     if claims = [] then
       Inl (SystemExit (''error: no claims for tenant '' @ [CHR 0x27] @ org @ [CHR 0x27] @ '' -- run ./sandbox/run.sh first''))
     else sbind (open_pdf pdf_path) (\<lambda>doc.
       sbind (render_pages doc (cited_pages claims)) (\<lambda>pages.
         Inr (report_data pdf_path org claims pages)))))"

subsection \<open>What the report contains\<close>

lemma render_pages_Inr:
  "render_pages doc ps = Inr pages \<longleftrightarrow>
     list_all (\<lambda>p. 1 \<le> p \<and> p \<le> fst doc) ps \<and> pages = map (\<lambda>p. (p, snd doc p)) ps"
  by (induction ps arbitrary: pages) (auto simp: sbind_Inr_iff)

lemma set_cited_pages: "set (cited_pages claims) = {p. \<exists>c \<in> set claims. has_bbox c \<and> clm_page c = Some p}"
  by (auto simp: cited_pages_def List.map_filter_def split: if_splits) (force simp: image_iff)

lemma newest_is_newest:
  assumes "fetch_claims None org d = Inr claims" and "tenant_claims org d \<noteq> []"
  obtains c where "c \<in> set claims" and "\<forall>c' \<in> set (tenant_claims org d). clm_created_at c' \<le> clm_created_at c"
proof -
  let ?sorted = "sort_key (\<lambda>c. - clm_created_at c) (tenant_claims org d)"
  from assms(2) have "?sorted \<noteq> []" by (metis set_empty set_sort)
  then obtain c cs where sorted: "?sorted = c # cs" by (cases ?sorted) auto
  have "c \<in> set ?sorted" unfolding sorted by simp
  then have "c \<in> set (tenant_claims org d)" by simp
  moreover have "newest_session org d = clm_session_id c" by (simp add: newest_session_def sorted)
  ultimately have "c \<in> set claims" using assms(1) by (auto simp: fetch_claims_def)
  moreover have "sorted (map (\<lambda>c. - clm_created_at c) ?sorted)" by simp
  then have "\<forall>c' \<in> set ?sorted. clm_created_at c' \<le> clm_created_at c" unfolding sorted by auto
  ultimately show thesis using that by simp
qed

text \<open>
  C37: what a report shows. The export returns data only when the query, the file and every cited
  page are there; the claims in it are then exactly the tenant's claims of one run, that of the
  tenant's newest claim, ordered by page and character, and the pages exactly those some claim
  with a bounding box cites, each once, in order, and each a page of the PDF.
\<close>

theorem report_complete:
  assumes "export_report arg cim is_file psql_error open_pdf org d = Inr data"
  shows "\<exists>path doc claims. choose_pdf arg cim is_file = Inr path \<and> open_pdf path = Inr doc \<and> psql_error = None
    \<and> data = report_data path org claims (map (\<lambda>p. (p, snd doc p)) (cited_pages claims))
    \<and> set claims = {c \<in> set (tenant_claims org d). clm_session_id c = newest_session org d}
    \<and> sorted (map report_order claims)
    \<and> (\<exists>c \<in> set claims. \<forall>c' \<in> set (tenant_claims org d). clm_created_at c' \<le> clm_created_at c)
    \<and> sorted (cited_pages claims) \<and> distinct (cited_pages claims)
    \<and> set (cited_pages claims) = {p. \<exists>c \<in> set claims. has_bbox c \<and> clm_page c = Some p}
    \<and> (\<forall>p \<in> set (cited_pages claims). 1 \<le> p \<and> p \<le> fst doc)"
proof -
  from assms obtain path doc claims pages where path: "choose_pdf arg cim is_file = Inr path"
    and fetch: "fetch_claims psql_error org d = Inr claims" and some: "claims \<noteq> []" and doc: "open_pdf path = Inr doc"
    and pages: "render_pages doc (cited_pages claims) = Inr pages" and data: "data = report_data path org claims pages"
    by (auto simp: export_report_def sbind_Inr_iff split: if_splits)
  have psql: "psql_error = None" using fetch by (auto simp: fetch_claims_def split: option.splits)
  note fetch' = fetch [unfolded psql]
  have claims: "claims = sort_key report_order (filter (\<lambda>c. clm_session_id c = newest_session org d) (tenant_claims org d))"
    using fetch' by (simp add: fetch_claims_def)
  with some have "tenant_claims org d \<noteq> []" by auto
  with newest_is_newest [OF fetch'] have newest: "\<exists>c \<in> set claims. \<forall>c' \<in> set (tenant_claims org d). clm_created_at c' \<le> clm_created_at c"
    by metis
  have found: "set claims = {c \<in> set (tenant_claims org d). clm_session_id c = newest_session org d}"
    "sorted (map report_order claims)" unfolding claims by simp_all
  have cited: "sorted (cited_pages claims)" "distinct (cited_pages claims)" by (simp_all add: cited_pages_def)
  have inside: "\<forall>p \<in> set (cited_pages claims). 1 \<le> p \<and> p \<le> fst doc"
    and pages': "pages = map (\<lambda>p. (p, snd doc p)) (cited_pages claims)"
    using pages by (simp_all add: render_pages_Inr list_all_iff)
  show ?thesis
    by (intro exI conjI) (rule path doc psql data [unfolded pages'] found newest cited set_cited_pages inside)+
qed

end
