(* ===== verification/RetrievalWitnesses.thy ===== *)
theory RetrievalWitnesses
  imports ReportExport IngestClaims Witnesses
begin

section \<open>Retrieval and ingest properties on concrete inputs\<close>

text \<open>
  A search engine whose scans and matches can be computed, a chunk for each of two
  organisations, and one chunk of a document no data source knows.
\<close>

definition engine_demo :: search_engine where
  "engine_demo = \<lparr>dense_scan = (\<lambda>q cs. Inr (map chk_id (sort_key (\<lambda>c. sum_list (the (chk_embedding c))) cs))), ts_match = (\<lambda>t q. t = q), ts_rank = (\<lambda>t q. 1)\<rparr>"

definition chunk_demo :: "uuid \<Rightarrow> int \<Rightarrow> string \<Rightarrow> chunk" where
  "chunk_demo i org t =
     \<lparr>chk_id = i, chk_org_id = org, chk_document_id = None, chk_content = t,
      chk_embedding = Some [of_nat (unat i)], chk_embedding_version = None, chk_element_type = None,
      chk_page = None, chk_char_start = None, chk_char_end = None, chk_created_at = 0\<rparr>"

definition search_demo :: "http_request list world" where
  "search_demo = world_demo\<lparr>guc := Some ''org_A'',
     db := db_demo\<lparr>t_chunks := [chunk_demo 1 1 ''revenue'', chunk_demo 2 1 ''margin'', chunk_demo 3 2 ''margin'']\<rparr>\<rparr>"

definition weights_demo :: rrf_weights where
  "weights_demo = \<lparr>w_dense = 1, w_sparse = 1\<rparr>"

theorem fusion_spec_witness:
  "\<exists>res. reciprocal_rank_fusion [(''dense'', [1, 2]), (''sparse'', [2, 3])] [(''dense'', 1), (''sparse'', 1)] 60 = Inr res
    \<and> map fst res = [2, 1, 3]"
proof -
  let ?legs = "[(''dense'', [1, 2]), (''sparse'', [2, 3])] :: (string \<times> uuid list) list"
  let ?ws = "[(''dense'', 1), (''sparse'', 1)] :: (string \<times> rat) list"
  obtain res where res: "reciprocal_rank_fusion ?legs ?ws 60 = Inr res"
    using fusion_spec [of 60 ?legs ?ws] by (auto simp: legs_fit_def weights_fit_def)
  have "case reciprocal_rank_fusion ?legs ?ws 60 of Inr r \<Rightarrow> map fst r = [2, 1, 3] | _ \<Rightarrow> False" by code_simp
  with res show ?thesis by simp
qed

theorem hybrid_search_spec_witness:
  "\<exists>hits. hybrid_search engine_demo (\<lambda>r. ''0'') ''margin'' [1] 5 weights_demo None 60 None search_demo = (Inr hits, search_demo)
    \<and> map hit_chunk_id hits = [2, 1]"
proof -
  have wf: "wf_db (db search_demo)" by code_simp
  have scan: "dense_scan engine_demo q (t_chunks (db search_demo)) = Inr [1, 2, 3]" for q by code_simp
  obtain hits where h: "hybrid_search engine_demo (\<lambda>r. ''0'') ''margin'' [1] 5 weights_demo None 60 None search_demo = (Inr hits, search_demo)"
    "map (\<lambda>h. (hit_chunk_id h, hit_score h)) hits = take 5 (expected_fusion engine_demo [1, 2, 3] ''margin'' 20 weights_demo 60
       (select_rows chunks_table (in_document None) search_demo))"
    using hybrid_search_spec [OF wf, where k = 60 and leg_k = None and top_k = 5 and query_embedding = "[1]" and weights = weights_demo
      and pg = engine_demo and fl = "\<lambda>r. ''0''" and query_text = "''margin''" and document_id = None]
    by (auto simp: scan weights_demo_def)
  have "map fst (take 5 (expected_fusion engine_demo [1, 2, 3] ''margin'' 20 weights_demo 60
       (select_rows chunks_table (in_document None) search_demo))) = [2, 1]" by code_simp
  with h show ?thesis by (metis (no_types, lifting) list.map_comp comp_apply fst_conv map_cong)
qed

theorem chunk_ingest_needs_data_source_witness:
  "let c = \<lparr>sc_content = ''revenue'', sc_scale_context = None, sc_spans = [(0, 7)], sc_document_id = ''ab'',
            sc_element_type = None, sc_page = Some 1\<rparr>;
       run = store_chunks (\<lambda>h. 7) ''org_A'' [c] [None] None True world_demo in
     isl (fst run) \<and> db (snd run) = db_demo"
proof -
  let ?c = "\<lparr>sc_content = ''revenue'', sc_scale_context = None, sc_spans = [(0, 7)], sc_document_id = ''ab'',
            sc_element_type = None, sc_page = Some 1\<rparr>"
  have "(7 :: uuid) \<notin> ds_id ` set (t_data_source (db world_demo))"
    by (simp add: world_demo_def db_demo_def source_demo_def)
  moreover have "db world_demo = db_demo" by (simp add: world_demo_def)
  ultimately show ?thesis
    using chunk_ingest_needs_data_source [of ?c None "[?c]" "[None]" "\<lambda>h. 7" world_demo "''org_A''" None True]
    by (auto simp: Let_def)
qed

subsection \<open>Claims\<close>

definition claim_demo :: json where
  "claim_demo = JObj [(''entity'', JStr ''company''), (''attribute'', JStr ''revenue''),
     (''value'', JObj [(''raw'', JStr ''5''), (''normalized'', JInt 5), (''unit'', JStr ''USD''),
        (''scale_multiplier'', JInt 1), (''scale_source'', JStr ''explicit_in_value''), (''value_type'', JStr ''currency'')]),
     (''location'', JObj [(''kind'', JStr ''pdf''), (''page'', JInt 3), (''char_start'', JInt 0), (''char_end'', JInt 1)]),
     (''status'', JStr ''proposed'')]"

definition errors_demo :: validator where
  "errors_demo c = (if contract c then [] else [(''e'', ''invalid'')])"

lemma claim_demo_ok: "contract claim_demo" "fits_columns claim_demo" "validates errors_demo"
  by (code_simp, code_simp, simp add: validates_def errors_demo_def)

definition no_int :: "json \<Rightarrow> exn + int" where
  "no_int v = Inl (DbError DataError)"

theorem contract_implies_checks_witness:
  "\<exists>oc r. row_from_claim claim_demo = Inr oc \<and> bind_claim no_int 7 1 9 0 oc = Inr r \<and> claim_checks r"
proof -
  obtain oc r where "row_from_claim claim_demo = Inr oc" "bind_claim no_int 7 1 9 0 oc = Inr r"
    using contract_binds [OF claim_demo_ok(1,2)] by blast
  with contract_implies_checks [OF claim_demo_ok(1) this] show ?thesis by blast
qed

theorem claims_stored_witness:
  "\<exists>w' row. run_ingest_claims errors_demo no_int (JObj [(''claims'', JArr [claim_demo])]) ''org_A'' True 9 world_demo = (Inr (), w')
    \<and> t_claims (db w') = [row] \<and> stored_as 1 9 claim_demo row"
proof -
  have org: "org_of ''org_A'' (db world_demo) = Some (orgs_demo ! 0)" by code_simp
  have "org_id (orgs_demo ! 0) = 1" "t_claims (db world_demo) = []" by (simp_all add: orgs_demo_def world_demo_def db_demo_def)
  with claims_stored [OF claim_demo_ok(3) _ _ _ org, of "JObj [(''claims'', JArr [claim_demo])]" "[claim_demo]" no_int 9]
  show ?thesis using claim_demo_ok(1,2) by (auto simp: list_all2_Cons1)
qed

theorem claims_guarded_witness:
  "\<exists>m. run_ingest_claims errors_demo no_int (JObj [(''claims'', JArr [JNull])]) ''org_A'' True 9 world_demo
     = (Inl (SystemExit m), world_demo)"
proof -
  have "errors_demo JNull \<noteq> []" by code_simp
  then show ?thesis
    using claims_guarded [where errors_of = errors_demo and int_of = no_int and payload = "JObj [(''claims'', JArr [JNull])]"
      and org_key = "''org_A''" and arg = None and w = world_demo and claims = "[JNull]" and commit = True and sid = 9]
    by simp
qed

subsection \<open>The sandbox\<close>

definition upload_demo :: parser where
  "upload_demo filename body = Inr (0, '''', Inr [\<lparr>sc_content = ''margin'', sc_scale_context = None, sc_spans = [],
     sc_document_id = filename, sc_element_type = None, sc_page = Some 1\<rparr>])"

definition quiet_env :: "http_request list env" where
  "quiet_env = env_demo\<lparr>settings := settings_demo\<lparr>voyage_api_key := ''''\<rparr>\<rparr>"

theorem sandbox_upload_replaces_witness:
  "\<exists>r. t_chunks (db (snd (sandbox_ingest quiet_env (\<lambda>h. ds_id (hd (t_data_source db_demo))) upload_demo [1] ''a/b.pdf'' search_demo)))
      = filter (\<lambda>c. chk_org_id c \<noteq> chk_org_id r) (t_chunks (db search_demo)) @ [r] \<and> chk_content r = ''margin''"
proof -
  let ?run = "sandbox_ingest quiet_env (\<lambda>h. ds_id (hd (t_data_source db_demo))) upload_demo [1] ''a/b.pdf'' search_demo"
  have wf: "wf_db (db search_demo)" by code_simp
  have "\<not> isl (fst ?run)" by code_simp
  then obtain resp w' where run: "?run = (Inr resp, w')" by (metis sum.collapse(2) prod.collapse)
  have parsed: "emitted upload_demo ''a/b.pdf'' [1] = Inr [\<lparr>sc_content = ''margin'', sc_scale_context = None, sc_spans = [],
     sc_document_id = ''b.pdf'', sc_element_type = None, sc_page = Some 1\<rparr>]" by code_simp
  from sandbox_upload_replaces [OF wf, where env = quiet_env and emit = upload_demo and body = "[1]" and filename = "''a/b.pdf''"
      and ?uuid5.0 = "\<lambda>h. ds_id (hd (t_data_source db_demo))"]
  show ?thesis unfolding run prod.case sum.case parsed by (auto simp: fold_content_def)
qed
subsection \<open>The report\<close>

text \<open>One older claim of another run, one newer with a box on page 2, one of another tenant.\<close>

definition stored_demo :: "uuid \<Rightarrow> int \<Rightarrow> uuid \<Rightarrow> instant \<Rightarrow> claim" where
  "stored_demo i org run t =
     \<lparr>clm_id = i, clm_org_id = org, clm_deal_id = None, clm_session_id = Some run, clm_data_source_id = None,
      clm_chunk_id = None, clm_entity = ''company'', clm_attribute = ''revenue'', clm_period_year = None,
      clm_period_kind = None, clm_value = JObj [], clm_kind = ''pdf'', clm_page = Some 2, clm_char_start = Some 0,
      clm_char_end = Some 4, clm_bbox = Some (JArr [JArr [JInt 0, JInt 0, JInt 1, JInt 1]]), clm_sheet = None,
      clm_cell_ref = None, clm_paragraph = None, clm_status = ''proposed'', clm_verification_method = None,
      clm_section = None, clm_claim_kind = None, clm_assertion_class = None, clm_table_group_id = None,
      clm_fragment_order = None, clm_flags = None, clm_created_at = t\<rparr>"

definition report_demo :: db where
  "report_demo = db_demo\<lparr>t_claims := [stored_demo 1 1 7 100, stored_demo 2 1 8 200, stored_demo 3 2 9 300]\<rparr>"

theorem report_complete_witness:
  "\<exists>claims. export_report None [''cim.pdf''] (\<lambda>p. True) None (\<lambda>p. Inr (3, \<lambda>n. JInt n)) ''org_A'' report_demo
      = Inr (report_data ''cim.pdf'' ''org_A'' claims [(2, JInt 2)])
    \<and> set claims = {stored_demo 2 1 8 200}"
proof -
  let ?run = "export_report None [''cim.pdf''] (\<lambda>p. True) None (\<lambda>p. Inr (3, \<lambda>n. JInt n)) ''org_A'' report_demo"
  have "\<not> isl ?run" by code_simp
  then obtain data where run: "?run = Inr data" by (cases ?run) auto
  have pdf: "choose_pdf None [''cim.pdf''] (\<lambda>p. True) = Inr ''cim.pdf''" by code_simp
  have rows: "tenant_claims ''org_A'' report_demo = [stored_demo 1 1 7 100, stored_demo 2 1 8 200]" by code_simp
  have newest: "newest_session ''org_A'' report_demo = Some 8" by code_simp
  have two: "has_bbox (stored_demo i g r t)" "clm_page (stored_demo i g r t) = Some 2" for i g r t
    by (simp_all add: stored_demo_def has_bbox_def)
  from report_complete [OF run] pdf obtain claims where
    data: "data = report_data ''cim.pdf'' ''org_A'' claims (map (\<lambda>p. (p, JInt p)) (cited_pages claims))"
    and found: "set claims = {c \<in> set (tenant_claims ''org_A'' report_demo). clm_session_id c = newest_session ''org_A'' report_demo}"
    and pages: "sorted (cited_pages claims)" "distinct (cited_pages claims)"
      "set (cited_pages claims) = {p. \<exists>c \<in> set claims. has_bbox c \<and> clm_page c = Some p}" by auto
  have one: "set claims = {stored_demo 2 1 8 200}" unfolding found rows newest by (auto simp: stored_demo_def)
  have "set (cited_pages claims) = {2}" unfolding pages(3) one by (simp add: two)
  then have "cited_pages claims = [2]"
    using pages(1,2) sorted_distinct_set_unique [of "cited_pages claims" "[2]"] by simp
  with run data one show ?thesis by auto
qed
end
