(* ===== verification/Probes.thy ===== *)
theory Probes
  imports Errors
begin

section \<open>Health probes and the client of the parse queue\<close>

text \<open>
  \<open>app/api/health.py\<close> and \<open>app/jobs/parse_client.py\<close>: routes and functions that touch no table. What
  the database answers to \<open>SELECT 1\<close>, what the queue answers to \<open>info()\<close> and how an exception
  prints are arguments, and so are the parse queue's \<open>enqueue\<close> and \<open>job\<close>.
\<close>

definition health_check :: "string \<Rightarrow> json" where
  "health_check environment = JObj [(''status'', JStr ''ok''), (''environment'', JStr environment)]"

text \<open>\<open>except Exception\<close>, which \<open>SystemExit\<close> is not.\<close>

fun is_exception :: "exn \<Rightarrow> bool" where
  "is_exception (SystemExit m) = False"
| "is_exception _ = True"

definition unreachable :: "(exn \<Rightarrow> string) \<Rightarrow> string \<Rightarrow> exn \<Rightarrow> exn" where
  "unreachable str_of what e =
     (if is_exception e then HTTPException 503 (JStr (what @ '' unreachable: '' @ str_of e)) else e)"

definition db_health_check :: "(exn \<Rightarrow> string) \<Rightarrow> exn + unit \<Rightarrow> exn + json" where
  "db_health_check str_of select_1 = (case select_1 of
      Inl e \<Rightarrow> Inl (unreachable str_of ''Database'' e)
    | Inr _ \<Rightarrow> Inr (JObj [(''status'', JStr ''ok''), (''database'', JStr ''reachable'')]))"

definition queue_health_check :: "(exn \<Rightarrow> string) \<Rightarrow> exn + unit \<Rightarrow> exn + json" where
  "queue_health_check str_of queue_info = (case queue_info of
      Inl e \<Rightarrow> Inl (unreachable str_of ''Queue'' e)
    | Inr _ \<Rightarrow> Inr (JObj [(''status'', JStr ''ok''), (''queue'', JStr ''reachable'')]))"

subsection \<open>The parse queue\<close>

definition PARSE_QUEUE_NAME :: string where
  "PARSE_QUEUE_NAME = ''parse''"

text \<open>
  \<open>saq\<close>'s \<open>enqueue\<close> on a named queue: the job's key, or \<open>None\<close> when an equal job is there already.
\<close>

type_synonym enqueue_call = "string \<Rightarrow> string \<Rightarrow> (string \<times> json) list \<Rightarrow> exn + string option"

definition enqueue_parse_job :: "enqueue_call \<Rightarrow> string \<Rightarrow> string list option \<Rightarrow> exn + string" where
  "enqueue_parse_job enqueue_on spaces_key known_sha256s =
     sbind (enqueue_on PARSE_QUEUE_NAME ''parse_document''
              [(''spaces_key'', JStr spaces_key),
               (''known_sha256s'', case known_sha256s of None \<Rightarrow> JNull | Some hs \<Rightarrow> JArr (map JStr hs))])
       (\<lambda>job. case job of None \<Rightarrow> Inl AssertionError | Some key \<Rightarrow> Inr key)"

definition get_parse_job :: "(string \<Rightarrow> string \<Rightarrow> exn + 'j option) \<Rightarrow> string \<Rightarrow> exn + 'j option" where
  "get_parse_job job_on job_key = job_on PARSE_QUEUE_NAME job_key"

subsection \<open>A probe says so\<close>

text \<open>Whatever is wrong with what it probes, a probe answers, with 200 or with 503.\<close>

lemma probes_answer:
  assumes "\<And>e. ping = Inl e \<Longrightarrow> is_exception e"
  shows "(case db_health_check str_of ping of Inl e \<Rightarrow> http_status e = 503 | Inr _ \<Rightarrow> ping = Inr ())"
    and "(case queue_health_check str_of ping of Inl e \<Rightarrow> http_status e = 503 | Inr _ \<Rightarrow> ping = Inr ())"
  using assms by (auto simp: db_health_check_def queue_health_check_def unreachable_def split: sum.splits)

end
