(* ===== verification/Catalog.thy ===== *)
theory Catalog
  imports Models "HOL-Library.AList"
begin

section \<open>The catalogue of a database and the statements that change it\<close>

text \<open>
  What \<open>alembic/versions\<close> writes with \<open>op\<close> and \<open>op.execute\<close>, as data, and what Postgres does
  with it. A catalogue holds the relations with their rows, columns, constraints, row-level
  security and privileges of \<open>dd_app\<close>, the indexes, enum types, trigger functions, extensions and
  default privileges. Each statement is run with the refusals Postgres documents: a name that
  exists or does not, a dependent object in the way of a drop, stored rows that violate what is
  added. The statements run as \<open>doadmin\<close>, who owns everything they create. Association lists keep
  the order of creation.
\<close>

subsection \<open>Values and predicates\<close>

text \<open>\<open>Computed e\<close> is the value the server gets by evaluating \<open>e\<close> (a volatile default, a generated column).\<close>

datatype sql_value =
    Null
  | VInt int
  | VText string
  | VUuid uuid
  | VTime instant
  | VJson json
  | VTexts "string list"
  | VVector "rat list"
  | Computed string

type_synonym sql_row = "(string \<times> sql_value) list"

definition cell :: "sql_row \<Rightarrow> string \<Rightarrow> sql_value" where
  "cell r c = (case map_of r c of None \<Rightarrow> Null | Some v \<Rightarrow> v)"

text \<open>The boolean expressions of the CHECK constraints and of the trigger function.\<close>

datatype sql_pred =
    IsNull string
  | IsNotNull string
  | Equals string string
  | Differs string string
  | IsIn string "string list"
  | IsNotIn string "string list"
  | IsDistinctFrom string string
  | AndAlso sql_pred sql_pred
  | OrElse sql_pred sql_pred

definition unknown_if_null :: "sql_value \<Rightarrow> bool \<Rightarrow> bool option" where
  "unknown_if_null v b = (if v = Null then None else Some b)"

fun sql_and :: "bool option \<Rightarrow> bool option \<Rightarrow> bool option" where
  "sql_and (Some False) b = Some False"
| "sql_and a (Some False) = Some False"
| "sql_and (Some True) (Some True) = Some True"
| "sql_and a b = None"

fun sql_or :: "bool option \<Rightarrow> bool option \<Rightarrow> bool option" where
  "sql_or (Some True) b = Some True"
| "sql_or a (Some True) = Some True"
| "sql_or (Some False) (Some False) = Some False"
| "sql_or a b = None"

text \<open>Three-valued: \<open>None\<close> is unknown.\<close>

fun sql_eval :: "sql_pred \<Rightarrow> sql_row \<Rightarrow> bool option" where
  "sql_eval (IsNull c) r = Some (cell r c = Null)"
| "sql_eval (IsNotNull c) r = Some (cell r c \<noteq> Null)"
| "sql_eval (Equals c s) r = unknown_if_null (cell r c) (cell r c = VText s)"
| "sql_eval (Differs c s) r = unknown_if_null (cell r c) (cell r c \<noteq> VText s)"
| "sql_eval (IsIn c ss) r = unknown_if_null (cell r c) (cell r c \<in> VText ` set ss)"
| "sql_eval (IsNotIn c ss) r = unknown_if_null (cell r c) (cell r c \<notin> VText ` set ss)"
| "sql_eval (IsDistinctFrom c s) r = Some (cell r c \<noteq> VText s)"
| "sql_eval (AndAlso p q) r = sql_and (sql_eval p r) (sql_eval q r)"
| "sql_eval (OrElse p q) r = sql_or (sql_eval p r) (sql_eval q r)"

fun pred_columns :: "sql_pred \<Rightarrow> string list" where
  "pred_columns (IsNull c) = [c]"
| "pred_columns (IsNotNull c) = [c]"
| "pred_columns (Equals c s) = [c]"
| "pred_columns (Differs c s) = [c]"
| "pred_columns (IsIn c ss) = [c]"
| "pred_columns (IsNotIn c ss) = [c]"
| "pred_columns (IsDistinctFrom c s) = [c]"
| "pred_columns (AndAlso p q) = pred_columns p @ pred_columns q"
| "pred_columns (OrElse p q) = pred_columns p @ pred_columns q"

subsection \<open>Columns, constraints, policies\<close>

datatype sql_type =
    INTEGER | BIGINT | VARCHAR nat | TEXT | TIMESTAMP | TIMESTAMPTZ | UUID | JSONB | INET
  | ENUM string "string list" | TEXTS | VECTOR nat | TSVECTOR

text \<open>A server default: \<open>sa.text(...)\<close>, or a string that becomes a literal.\<close>

datatype sql_default = Expression string | Literal string

record column =
  col_name :: string
  col_type :: sql_type
  col_nullable :: bool
  col_default :: "sql_default option"
  col_computed :: "string option"

datatype sql_constraint =
    PrimaryKey "string list"
  | ForeignKey "string list" string "string list"
  | UniqueOver "string list"
  | Check sql_pred

text \<open>
  The two forms an \<open>org_isolation\<close> policy takes, \<open>FOR ALL TO dd_app USING (...)\<close>: a column equals
  \<open>current_setting('app.org_id', true)\<close>, or a column is \<open>IN (SELECT id FROM organisation WHERE
  clerk_org_id = current_setting('app.org_id', true))\<close>.
\<close>

datatype sql_policy = SettingIs string | OwnedBySetting string

datatype privilege = Select | Insert | Update | Delete

record relation =
  rel_rows :: "sql_row list"
  rel_columns :: "column list"
  rel_constraints :: "(string \<times> sql_constraint) list"
  rel_sequences :: "(string \<times> bool) list"
  rel_rls :: bool
  rel_forced :: bool
  rel_policies :: "(string \<times> sql_policy) list"
  rel_grants :: "privilege list"
  rel_update_columns :: "string list"
  rel_triggers :: "(string \<times> string) list"

record index =
  idx_table :: string
  idx_columns :: "string list"
  idx_unique :: bool
  idx_using :: "string option"
  idx_ops :: "(string \<times> string) list"

record catalog =
  relations :: "(string \<times> relation) list"
  indexes :: "(string \<times> index) list"
  enum_types :: "(string \<times> string list) list"
  trigger_functions :: "(string \<times> sql_pred) list"
  extensions :: "string list"
  schema_usage :: bool
  default_table_grants :: "privilege list"
  default_sequence_usage :: bool

datatype ddl_error =
    DuplicateObject string
  | UndefinedObject string
  | DependentObjectsStillExist string
  | NullsStored string
  | ViolatedByRows string

subsection \<open>Keys, references and checks over stored rows\<close>

definition key_of :: "string list \<Rightarrow> sql_row \<Rightarrow> sql_value list" where
  "key_of cs r = map (cell r) cs"

text \<open>Unique: rows with a NULL in the key do not count.\<close>

definition unique_over :: "string list \<Rightarrow> sql_row list \<Rightarrow> bool" where
  "unique_over cs rows = distinct (filter (\<lambda>k. Null \<notin> set k) (map (key_of cs) rows))"

text \<open>\<open>MATCH SIMPLE\<close>: a reference with a NULL in it holds.\<close>

definition references :: "string list \<Rightarrow> sql_row \<Rightarrow> string list \<Rightarrow> sql_row list \<Rightarrow> bool" where
  "references cs r rcs rows \<longleftrightarrow> Null \<in> set (key_of cs r) \<or> key_of cs r \<in> set (map (key_of rcs) rows)"

definition check_passes :: "sql_pred \<Rightarrow> sql_row \<Rightarrow> bool" where
  "check_passes p r \<longleftrightarrow> sql_eval p r \<noteq> Some False"

definition column_names :: "relation \<Rightarrow> string list" where
  "column_names t = map col_name (rel_columns t)"

fun keyed_by :: "string list \<Rightarrow> sql_constraint \<Rightarrow> bool" where
  "keyed_by cs (PrimaryKey ks) = (ks = cs)"
| "keyed_by cs (UniqueOver ks) = (ks = cs)"
| "keyed_by cs _ = False"

text \<open>A foreign key needs a primary key, a unique constraint or a unique index to point at.\<close>

definition has_key :: "catalog \<Rightarrow> string \<Rightarrow> string list \<Rightarrow> bool" where
  "has_key c t cs \<longleftrightarrow>
     (case map_of (relations c) t of
        None \<Rightarrow> False
      | Some r \<Rightarrow> list_ex (keyed_by cs \<circ> snd) (rel_constraints r)
          \<or> list_ex (\<lambda>(_, i). idx_table i = t \<and> idx_unique i \<and> idx_columns i = cs) (indexes c))"

fun columns_of :: "sql_constraint \<Rightarrow> string list" where
  "columns_of (PrimaryKey cs) = cs"
| "columns_of (ForeignKey cs rt rcs) = cs"
| "columns_of (UniqueOver cs) = cs"
| "columns_of (Check p) = pred_columns p"

fun policy_column :: "sql_policy \<Rightarrow> string" where
  "policy_column (SettingIs c) = c"
| "policy_column (OwnedBySetting c) = c"

fun policy_reads :: "sql_policy \<Rightarrow> (string \<times> string) list" where
  "policy_reads (SettingIs c) = []"
| "policy_reads (OwnedBySetting c) = [(''organisation'', ''id''), (''organisation'', ''clerk_org_id'')]"

definition has_column :: "catalog \<Rightarrow> string \<times> string \<Rightarrow> bool" where
  "has_column c = (\<lambda>(t, x). case map_of (relations c) t of None \<Rightarrow> False | Some r \<Rightarrow> x \<in> set (column_names r))"

fun type_known :: "catalog \<Rightarrow> sql_type \<Rightarrow> bool" where
  "type_known c (ENUM n vs) = (map_of (enum_types c) n = Some vs)"
| "type_known c (VECTOR d) = (''vector'' \<in> set (extensions c))"
| "type_known c _ = True"

text \<open>Whether a constraint of table \<open>t\<close> has what it needs, and holds of the rows.\<close>

fun constraint_known :: "catalog \<Rightarrow> sql_constraint \<Rightarrow> bool" where
  "constraint_known c (ForeignKey cs rt rcs) = has_key c rt rcs"
| "constraint_known c _ = True"

fun constraint_holds :: "catalog \<Rightarrow> sql_constraint \<Rightarrow> sql_row list \<Rightarrow> bool" where
  "constraint_holds c (PrimaryKey cs) rows =
     (unique_over cs rows \<and> (\<forall>r \<in> set rows. Null \<notin> set (key_of cs r)))"
| "constraint_holds c (ForeignKey cs rt rcs) rows =
     (case map_of (relations c) rt of None \<Rightarrow> False
      | Some t \<Rightarrow> \<forall>r \<in> set rows. references cs r rcs (rel_rows t))"
| "constraint_holds c (UniqueOver cs) rows = unique_over cs rows"
| "constraint_holds c (Check p) rows = (\<forall>r \<in> set rows. check_passes p r)"

text \<open>
  What holds a catalogue together. A drop that would break it meets a dependent object and is
  refused (\<open>RESTRICT\<close>, the default).
\<close>

definition relation_held :: "catalog \<Rightarrow> relation \<Rightarrow> bool" where
  "relation_held c r \<longleftrightarrow>
     list_all (constraint_known c \<circ> snd) (rel_constraints r)
     \<and> list_all (list_all (\<lambda>x. x \<in> set (column_names r)) \<circ> columns_of \<circ> snd) (rel_constraints r)
     \<and> list_all (list_all (has_column c) \<circ> policy_reads \<circ> snd) (rel_policies r)
     \<and> list_all (\<lambda>p. policy_column (snd p) \<in> set (column_names r)) (rel_policies r)
     \<and> list_all (type_known c \<circ> col_type) (rel_columns r)
     \<and> list_all (\<lambda>g. snd g \<in> fst ` set (trigger_functions c)) (rel_triggers r)"

definition held :: "catalog \<Rightarrow> bool" where
  "held c \<longleftrightarrow> list_all (relation_held c \<circ> snd) (relations c)"

subsection \<open>Statements\<close>

text \<open>
  One constructor per call of \<open>op\<close> and per form of SQL the revisions execute; a constraint written
  without a name carries \<open>None\<close>. A trigger function raises when its predicate holds of \<open>OLD\<close>.
\<close>

datatype ddl =
    CreateTable string "column list" "(string option \<times> sql_constraint) list"
  | DropTable string
  | CreateIndex string string "string list" bool "string option" "(string \<times> string) list"
  | DropIndex string string
  | AddColumn string column
  | DropColumn string string
  | AlterNullable string string bool
  | AddConstraint string string sql_constraint
  | DropConstraint string string
  | EnableRls string
  | DisableRls string
  | ForceRls string
  | NoForceRls string
  | CreatePolicy string string sql_policy
  | DropPolicyIfExists string string
  | GrantOn "privilege list" string
  | RevokeOn "privilege list" string
  | GrantUpdateOf "string list" string
  | RevokeUpdateOf "string list" string
  | CreateFunction string sql_pred
  | DropFunctionIfExists string
  | CreateTrigger string string string
  | DropTriggerIfExists string string
  | CreateExtensionIfNotExists string
  | DropExtensionIfExists string
  | DropTypeIfExists string
  | GrantSchemaUsage
  | RevokeSchemaUsage
  | DefaultGrantOnTables "privilege list"
  | DefaultRevokeOnTables "privilege list"
  | DefaultGrantOnSequences
  | DefaultRevokeOnSequences

text \<open>The name Postgres gives a constraint that has none.\<close>

fun constraint_name :: "string \<Rightarrow> sql_constraint \<Rightarrow> string" where
  "constraint_name t (PrimaryKey cs) = t @ ''_pkey''"
| "constraint_name t (ForeignKey cs rt rcs) = t @ ''_'' @ py_join ''_'' cs @ ''_fkey''"
| "constraint_name t (UniqueOver cs) = t @ ''_'' @ py_join ''_'' cs @ ''_key''"
| "constraint_name t (Check p) = t @ ''_check''"

definition named :: "string \<Rightarrow> string option \<times> sql_constraint \<Rightarrow> string \<times> sql_constraint" where
  "named t = (\<lambda>(n, k). (case n of None \<Rightarrow> constraint_name t k | Some s \<Rightarrow> s, k))"

text \<open>
  SQLAlchemy renders the single INTEGER primary key without default as SERIAL: a sequence
  comes with it.
\<close>

definition is_serial :: "sql_constraint list \<Rightarrow> column \<Rightarrow> bool" where
  "is_serial ks x \<longleftrightarrow> col_type x = INTEGER \<and> col_default x = None \<and> PrimaryKey [col_name x] \<in> set ks"

definition sequence_of :: "string \<Rightarrow> string \<Rightarrow> string" where
  "sequence_of t x = t @ ''_'' @ x @ ''_seq''"

definition with_serial :: "string \<Rightarrow> sql_constraint list \<Rightarrow> column \<Rightarrow> column" where
  "with_serial t ks x =
     (if is_serial ks x then x\<lparr>col_default := Some (Expression (''nextval('' @ sequence_of t (col_name x) @ '')''))\<rparr> else x)"

text \<open>The enum types of a table's columns; \<open>op.create_table\<close> creates them first, unconditionally.\<close>

fun enum_of :: "column \<Rightarrow> (string \<times> string list) list" where
  "enum_of x = (case col_type x of ENUM n vs \<Rightarrow> [(n, vs)] | _ \<Rightarrow> [])"

definition new_relation :: "catalog \<Rightarrow> string \<Rightarrow> column list \<Rightarrow> (string option \<times> sql_constraint) list \<Rightarrow> relation" where
  "new_relation c t cols ks =
     \<lparr>rel_rows = [], rel_columns = map (with_serial t (map snd ks)) cols, rel_constraints = map (named t) ks,
      rel_sequences = map (\<lambda>x. (sequence_of t (col_name x), default_sequence_usage c)) (filter (is_serial (map snd ks)) cols),
      rel_rls = False, rel_forced = False, rel_policies = [], rel_grants = default_table_grants c,
      rel_update_columns = [], rel_triggers = []\<rparr>"

text \<open>What a row gets in a column that is added to it.\<close>

definition fill :: "column \<Rightarrow> sql_value" where
  "fill x =
     (case col_computed x of Some e \<Rightarrow> Computed e
      | None \<Rightarrow> (case col_default x of None \<Rightarrow> Null
          | Some (Expression e) \<Rightarrow> Computed e
          | Some (Literal s) \<Rightarrow> (case col_type x of VARCHAR n \<Rightarrow> VText s | TEXT \<Rightarrow> VText s | _ \<Rightarrow> Computed s)))"

definition lookup :: "string \<Rightarrow> catalog \<Rightarrow> relation option" where
  "lookup t c = map_of (relations c) t"

definition put_relation :: "string \<Rightarrow> relation \<Rightarrow> catalog \<Rightarrow> catalog" where
  "put_relation t r c = c\<lparr>relations := AList.update t r (relations c)\<rparr>"

text \<open>A change of one relation; \<open>restrict\<close> refuses what would leave a dependent object behind.\<close>

definition alter :: "string \<Rightarrow> (relation \<Rightarrow> ddl_error + relation) \<Rightarrow> catalog \<Rightarrow> ddl_error + catalog" where
  "alter t f c =
     (case lookup t c of
        None \<Rightarrow> Inl (UndefinedObject t)
      | Some r \<Rightarrow> (case f r of Inl e \<Rightarrow> Inl e | Inr r' \<Rightarrow> Inr (put_relation t r' c)))"

definition restrict :: "string \<Rightarrow> catalog \<Rightarrow> ddl_error + catalog" where
  "restrict what c = (if held c then Inr c else Inl (DependentObjectsStillExist what))"

definition unless :: "bool \<Rightarrow> ddl_error \<Rightarrow> ddl_error + 'a \<Rightarrow> ddl_error + 'a" where
  "unless b e x = (if b then Inl e else x)"

definition in_alist :: "string \<Rightarrow> (string \<times> 'a) list \<Rightarrow> bool" where
  "in_alist k xs \<longleftrightarrow> map_of xs k \<noteq> None"

fun run_ddl :: "ddl \<Rightarrow> catalog \<Rightarrow> ddl_error + catalog" where
  "run_ddl (CreateTable t cols ks) c =
     (let enums = concat (map enum_of cols); c1 = c\<lparr>enum_types := enum_types c @ enums\<rparr> in
      unless (list_ex (\<lambda>e. in_alist (fst e) (enum_types c)) enums \<or> \<not> distinct (map fst enums)) (DuplicateObject (py_join '','' (map fst enums)))
      (unless (in_alist t (relations c) \<or> in_alist t (indexes c) \<or> \<not> distinct (map col_name cols)) (DuplicateObject t)
      (unless (\<not> list_all (type_known c1 \<circ> col_type) cols \<or> \<not> list_all (constraint_known c1 \<circ> snd) ks
          \<or> \<not> list_all (list_all (\<lambda>x. x \<in> col_name ` set cols) \<circ> columns_of \<circ> snd) ks) (UndefinedObject t)
        (Inr (c1\<lparr>relations := relations c @ [(t, new_relation c t cols ks)]\<rparr>)))))"
| "run_ddl (DropTable t) c =
     unless (\<not> in_alist t (relations c)) (UndefinedObject t)
       (restrict t (c\<lparr>relations := AList.delete t (relations c), indexes := filter (\<lambda>(_, i). idx_table i \<noteq> t) (indexes c)\<rparr>))"
| "run_ddl (CreateIndex n t cs u using ops) c =
     (case lookup t c of None \<Rightarrow> Inl (UndefinedObject t)
      | Some r \<Rightarrow>
          unless (in_alist n (indexes c) \<or> in_alist n (relations c)) (DuplicateObject n)
          (unless (\<not> list_all (\<lambda>x. x \<in> set (column_names r)) cs) (UndefinedObject n)
          (unless (u \<and> \<not> unique_over cs (rel_rows r)) (ViolatedByRows n)
            (Inr (c\<lparr>indexes := indexes c @
               [(n, \<lparr>idx_table = t, idx_columns = cs, idx_unique = u, idx_using = using, idx_ops = ops\<rparr>)]\<rparr>)))))"
| "run_ddl (DropIndex n t) c =
     (case map_of (indexes c) n of None \<Rightarrow> Inl (UndefinedObject n)
      | Some i \<Rightarrow> (let c1 = c\<lparr>indexes := AList.delete n (indexes c)\<rparr> in if idx_unique i then restrict n c1 else Inr c1))"
| "run_ddl (AddColumn t x) c =
     alter t (\<lambda>r.
       unless (col_name x \<in> set (column_names r)) (DuplicateObject (col_name x))
       (unless (\<not> type_known c (col_type x)) (UndefinedObject (col_name x))
       (unless (\<not> col_nullable x \<and> fill x = Null \<and> rel_rows r \<noteq> []) (NullsStored (col_name x))
         (Inr (r\<lparr>rel_columns := rel_columns r @ [x],
                 rel_rows := map (\<lambda>row. row @ [(col_name x, fill x)]) (rel_rows r)\<rparr>))))) c"
| "run_ddl (DropColumn t x) c =
     (case lookup t c of None \<Rightarrow> Inl (UndefinedObject t)
      | Some r \<Rightarrow>
          unless (x \<notin> set (column_names r)) (UndefinedObject x)
          (restrict x (put_relation t
             (r\<lparr>rel_columns := filter (\<lambda>y. col_name y \<noteq> x) (rel_columns r),
                rel_rows := map (filter (\<lambda>v. fst v \<noteq> x)) (rel_rows r),
                rel_constraints := filter (\<lambda>k. x \<notin> set (columns_of (snd k))) (rel_constraints r)\<rparr>)
             (c\<lparr>indexes := filter (\<lambda>(_, i). \<not> (idx_table i = t \<and> x \<in> set (idx_columns i))) (indexes c)\<rparr>))))"
| "run_ddl (AlterNullable t x b) c =
     alter t (\<lambda>r.
       unless (x \<notin> set (column_names r)) (UndefinedObject x)
       (unless (\<not> b \<and> (\<exists>row \<in> set (rel_rows r). cell row x = Null)) (NullsStored x)
         (Inr (r\<lparr>rel_columns := map (\<lambda>y. if col_name y = x then y\<lparr>col_nullable := b\<rparr> else y) (rel_columns r)\<rparr>)))) c"
| "run_ddl (AddConstraint n t k) c =
     alter t (\<lambda>r.
       unless (in_alist n (rel_constraints r)) (DuplicateObject n)
       (unless (\<not> list_all (\<lambda>x. x \<in> set (column_names r)) (columns_of k) \<or> \<not> constraint_known c k) (UndefinedObject n)
       (unless (\<not> constraint_holds c k (rel_rows r)) (ViolatedByRows n)
         (Inr (r\<lparr>rel_constraints := rel_constraints r @ [(n, k)]\<rparr>))))) c"
| "run_ddl (DropConstraint n t) c =
     (case lookup t c of None \<Rightarrow> Inl (UndefinedObject t)
      | Some r \<Rightarrow>
          unless (\<not> in_alist n (rel_constraints r)) (UndefinedObject n)
          (restrict n (put_relation t (r\<lparr>rel_constraints := AList.delete n (rel_constraints r)\<rparr>) c)))"
| "run_ddl (EnableRls t) c = alter t (\<lambda>r. Inr (r\<lparr>rel_rls := True\<rparr>)) c"
| "run_ddl (DisableRls t) c = alter t (\<lambda>r. Inr (r\<lparr>rel_rls := False\<rparr>)) c"
| "run_ddl (ForceRls t) c = alter t (\<lambda>r. Inr (r\<lparr>rel_forced := True\<rparr>)) c"
| "run_ddl (NoForceRls t) c = alter t (\<lambda>r. Inr (r\<lparr>rel_forced := False\<rparr>)) c"
| "run_ddl (CreatePolicy n t p) c =
     alter t (\<lambda>r.
       unless (in_alist n (rel_policies r)) (DuplicateObject n)
       (unless (policy_column p \<notin> set (column_names r) \<or> \<not> list_all (has_column c) (policy_reads p)) (UndefinedObject n)
         (Inr (r\<lparr>rel_policies := rel_policies r @ [(n, p)]\<rparr>)))) c"
| "run_ddl (DropPolicyIfExists n t) c =
     (case lookup t c of None \<Rightarrow> Inr c
      | Some r \<Rightarrow> Inr (put_relation t (r\<lparr>rel_policies := AList.delete n (rel_policies r)\<rparr>) c))"
| "run_ddl (GrantOn ps t) c =
     alter t (\<lambda>r. Inr (r\<lparr>rel_grants := rel_grants r @ filter (\<lambda>p. p \<notin> set (rel_grants r)) ps\<rparr>)) c"
| "run_ddl (RevokeOn ps t) c =
     alter t (\<lambda>r. Inr (r\<lparr>rel_grants := filter (\<lambda>p. p \<notin> set ps) (rel_grants r),
       rel_update_columns := (if Update \<in> set ps then [] else rel_update_columns r)\<rparr>)) c"
| "run_ddl (GrantUpdateOf cs t) c =
     alter t (\<lambda>r.
       unless (\<not> list_all (\<lambda>x. x \<in> set (column_names r)) cs) (UndefinedObject t)
         (Inr (r\<lparr>rel_update_columns := rel_update_columns r @ filter (\<lambda>x. x \<notin> set (rel_update_columns r)) cs\<rparr>))) c"
| "run_ddl (RevokeUpdateOf cs t) c =
     alter t (\<lambda>r. Inr (r\<lparr>rel_update_columns := filter (\<lambda>x. x \<notin> set cs) (rel_update_columns r)\<rparr>)) c"
| "run_ddl (CreateFunction n p) c =
     unless (in_alist n (trigger_functions c)) (DuplicateObject n)
       (Inr (c\<lparr>trigger_functions := trigger_functions c @ [(n, p)]\<rparr>))"
| "run_ddl (DropFunctionIfExists n) c =
     restrict n (c\<lparr>trigger_functions := AList.delete n (trigger_functions c)\<rparr>)"
| "run_ddl (CreateTrigger n t f) c =
     alter t (\<lambda>r.
       unless (in_alist n (rel_triggers r)) (DuplicateObject n)
       (unless (\<not> in_alist f (trigger_functions c)) (UndefinedObject f)
         (Inr (r\<lparr>rel_triggers := rel_triggers r @ [(n, f)]\<rparr>)))) c"
| "run_ddl (DropTriggerIfExists n t) c =
     (case lookup t c of None \<Rightarrow> Inr c
      | Some r \<Rightarrow> Inr (put_relation t (r\<lparr>rel_triggers := AList.delete n (rel_triggers r)\<rparr>) c))"
| "run_ddl (CreateExtensionIfNotExists e) c =
     Inr (if e \<in> set (extensions c) then c else c\<lparr>extensions := extensions c @ [e]\<rparr>)"
| "run_ddl (DropExtensionIfExists e) c = restrict e (c\<lparr>extensions := filter (\<lambda>x. x \<noteq> e) (extensions c)\<rparr>)"
| "run_ddl (DropTypeIfExists n) c = restrict n (c\<lparr>enum_types := AList.delete n (enum_types c)\<rparr>)"
| "run_ddl GrantSchemaUsage c = Inr (c\<lparr>schema_usage := True\<rparr>)"
| "run_ddl RevokeSchemaUsage c = Inr (c\<lparr>schema_usage := False\<rparr>)"
| "run_ddl (DefaultGrantOnTables ps) c =
     Inr (c\<lparr>default_table_grants := default_table_grants c @ filter (\<lambda>p. p \<notin> set (default_table_grants c)) ps\<rparr>)"
| "run_ddl (DefaultRevokeOnTables ps) c =
     Inr (c\<lparr>default_table_grants := filter (\<lambda>p. p \<notin> set ps) (default_table_grants c)\<rparr>)"
| "run_ddl DefaultGrantOnSequences c = Inr (c\<lparr>default_sequence_usage := True\<rparr>)"
| "run_ddl DefaultRevokeOnSequences c = Inr (c\<lparr>default_sequence_usage := False\<rparr>)"

text \<open>A revision runs its statements in order and stops at the first refusal.\<close>

fun run_statements :: "ddl list \<Rightarrow> catalog \<Rightarrow> ddl_error + catalog" where
  "run_statements [] c = Inr c"
| "run_statements (s # ss) c = (case run_ddl s c of Inl e \<Rightarrow> Inl e | Inr c' \<Rightarrow> run_statements ss c')"

end
