(* ===== verification/Migrations.thy ===== *)
theory Migrations
  imports Catalog
begin

section \<open>The revisions\<close>

text \<open>
  \<open>alembic/versions\<close>, in the order of \<open>down_revision\<close>: each \<open>upgrade\<close> and \<open>downgrade\<close> is the list of its
  statements. Index names written \<open>op.f(...)\<close> are used as they are.
\<close>

definition Column :: "string \<Rightarrow> sql_type \<Rightarrow> bool \<Rightarrow> column" where
  "Column n t nullable = \<lparr>col_name = n, col_type = t, col_nullable = nullable, col_default = None, col_computed = None\<rparr>"

definition server_default :: "sql_default \<Rightarrow> column \<Rightarrow> column" where
  "server_default d x = x\<lparr>col_default := Some d\<rparr>"

definition uuid_key :: column where
  "uuid_key = server_default (Expression ''gen_random_uuid()'') (Column ''id'' UUID False)"

definition stamped :: "string \<Rightarrow> column" where
  "stamped n = server_default (Expression ''now()'') (Column n TIMESTAMPTZ False)"

definition plain_index :: "string \<Rightarrow> string \<Rightarrow> string \<Rightarrow> bool \<Rightarrow> ddl" where
  "plain_index n t x u = CreateIndex n t [x] u None []"

definition org_fk :: "string option \<times> sql_constraint" where
  "org_fk = (None, ForeignKey [''org_id''] ''organisation'' [''id''])"

definition id_pk :: "string option \<times> sql_constraint" where
  "id_pk = (None, PrimaryKey [''id''])"

subsection \<open>\<open>xxxx\<close>: privileges of \<open>dd_app\<close>\<close>

definition upgrade_xxxx :: "ddl list" where
  "upgrade_xxxx =
     [GrantSchemaUsage,
      DefaultGrantOnTables [Select, Insert, Update, Delete],
      DefaultGrantOnSequences]"

definition downgrade_xxxx :: "ddl list" where
  "downgrade_xxxx =
     [DefaultRevokeOnTables [Select, Insert, Update, Delete],
      DefaultRevokeOnSequences,
      RevokeSchemaUsage]"

subsection \<open>\<open>3b5ed08bc4d3\<close> to \<open>aace95a1c412\<close>: organisations, funds and their policies\<close>

definition upgrade_3b5ed08bc4d3 :: "ddl list" where
  "upgrade_3b5ed08bc4d3 =
     [CreateTable ''organisation''
        [Column ''id'' INTEGER False,
         Column ''name'' (VARCHAR 100) False,
         Column ''type'' (ENUM ''orgtype'' [''PE_FIRM'', ''FAMILY_OFFICE'']) False,
         Column ''created_at'' TIMESTAMP False]
        [id_pk],
      plain_index ''ix_organisation_id'' ''organisation'' ''id'' False,
      plain_index ''ix_organisation_name'' ''organisation'' ''name'' False,
      CreateTable ''funds''
        [Column ''id'' INTEGER False,
         Column ''org_id'' INTEGER False,
         Column ''name'' (VARCHAR 100) False,
         Column ''vintage_year'' INTEGER False,
         Column ''status'' (VARCHAR 50) False]
        [org_fk, id_pk],
      plain_index ''ix_funds_id'' ''funds'' ''id'' False,
      plain_index ''ix_funds_name'' ''funds'' ''name'' False,
      plain_index ''ix_funds_org_id'' ''funds'' ''org_id'' False]"

definition downgrade_3b5ed08bc4d3 :: "ddl list" where
  "downgrade_3b5ed08bc4d3 =
     [DropIndex ''ix_funds_org_id'' ''funds'',
      DropIndex ''ix_funds_name'' ''funds'',
      DropIndex ''ix_funds_id'' ''funds'',
      DropTable ''funds'',
      DropIndex ''ix_organisation_name'' ''organisation'',
      DropIndex ''ix_organisation_id'' ''organisation'',
      DropTable ''organisation'']"

definition upgrade_30277d26774a :: "ddl list" where
  "upgrade_30277d26774a =
     [AddColumn ''organisation'' (Column ''clerk_org_id'' (VARCHAR 64) False),
      plain_index ''ix_organisation_clerk_org_id'' ''organisation'' ''clerk_org_id'' True]"

definition downgrade_30277d26774a :: "ddl list" where
  "downgrade_30277d26774a =
     [DropIndex ''ix_organisation_clerk_org_id'' ''organisation'',
      DropColumn ''organisation'' ''clerk_org_id'']"

definition upgrade_aace95a1c412 :: "ddl list" where
  "upgrade_aace95a1c412 =
     [EnableRls ''organisation'',
      EnableRls ''funds'',
      CreatePolicy ''org_isolation'' ''organisation'' (SettingIs ''clerk_org_id''),
      CreatePolicy ''org_isolation'' ''funds'' (OwnedBySetting ''org_id'')]"

definition downgrade_aace95a1c412 :: "ddl list" where
  "downgrade_aace95a1c412 =
     [DropPolicyIfExists ''org_isolation'' ''funds'',
      DropPolicyIfExists ''org_isolation'' ''organisation'',
      DisableRls ''funds'',
      DisableRls ''organisation'']"

subsection \<open>\<open>60a151dd80b0\<close>: the claims spine\<close>

definition claims_locator_matches_kind :: sql_pred where
  "claims_locator_matches_kind =
     OrElse (OrElse (AndAlso (Equals ''kind'' ''pdf'') (IsNotNull ''page''))
                    (AndAlso (AndAlso (Equals ''kind'' ''xlsx'') (IsNotNull ''sheet'')) (IsNotNull ''cell_ref'')))
            (AndAlso (Equals ''kind'' ''docx'') (IsNotNull ''paragraph''))"

definition claims_found_requires_span :: sql_pred where
  "claims_found_requires_span =
     OrElse (OrElse (Equals ''status'' ''missing'') (Equals ''kind'' ''xlsx''))
            (AndAlso (IsNotNull ''char_start'') (IsNotNull ''char_end''))"

definition upgrade_60a151dd80b0 :: "ddl list" where
  "upgrade_60a151dd80b0 =
     [CreateTable ''claims''
        [uuid_key,
         Column ''org_id'' INTEGER False,
         Column ''deal_id'' UUID True,
         Column ''session_id'' UUID True,
         Column ''data_source_id'' UUID True,
         Column ''chunk_id'' UUID True,
         Column ''entity'' TEXT False,
         Column ''attribute'' TEXT False,
         Column ''period_year'' INTEGER True,
         Column ''period_kind'' (VARCHAR 1) True,
         Column ''value'' JSONB False,
         Column ''kind'' (VARCHAR 8) False,
         Column ''page'' INTEGER True,
         Column ''char_start'' INTEGER True,
         Column ''char_end'' INTEGER True,
         Column ''bbox'' JSONB True,
         Column ''sheet'' TEXT True,
         Column ''cell_ref'' (VARCHAR 16) True,
         Column ''paragraph'' INTEGER True,
         Column ''status'' (VARCHAR 24) False,
         Column ''verification_method'' (VARCHAR 24) True,
         Column ''section'' TEXT True,
         Column ''table_group_id'' UUID True,
         Column ''fragment_order'' INTEGER True,
         Column ''flags'' TEXTS True,
         stamped ''created_at'']
        [(Some ''ck_claims_locator_matches_kind'', Check claims_locator_matches_kind),
         (Some ''ck_claims_kind'', Check (IsIn ''kind'' [''pdf'', ''xlsx'', ''docx''])),
         (Some ''ck_claims_period_kind'', Check (OrElse (IsNull ''period_kind'') (IsIn ''period_kind'' [''A'', ''E'', ''P'']))),
         (Some ''ck_claims_missing_has_no_span'',
            Check (OrElse (Differs ''status'' ''missing'') (AndAlso (IsNull ''char_start'') (IsNull ''char_end'')))),
         (Some ''ck_claims_found_requires_span'', Check claims_found_requires_span),
         (Some ''ck_claims_status'',
            Check (IsIn ''status'' [''proposed'', ''cited'', ''rejected'', ''missing'', ''conflicted'', ''inconclusive'',
              ''partially_verified'', ''verified''])),
         (Some ''ck_claims_checked_requires_method'',
            Check (OrElse (IsNotIn ''status'' [''cited'', ''conflicted'', ''inconclusive'', ''partially_verified'', ''verified''])
              (IsNotNull ''verification_method''))),
         (Some ''ck_claims_verification_method'',
            Check (OrElse (IsNull ''verification_method'') (IsIn ''verification_method''
              [''exact_span'', ''formula_reexecution'', ''direct_read'', ''reranker'', ''human_review'']))),
         org_fk, id_pk],
      plain_index ''ix_claims_attribute'' ''claims'' ''attribute'' False,
      plain_index ''ix_claims_deal_id'' ''claims'' ''deal_id'' False,
      plain_index ''ix_claims_org_id'' ''claims'' ''org_id'' False,
      plain_index ''ix_claims_session_id'' ''claims'' ''session_id'' False,
      plain_index ''ix_claims_status'' ''claims'' ''status'' False,
      EnableRls ''claims'',
      CreatePolicy ''org_isolation'' ''claims'' (OwnedBySetting ''org_id'')]"

definition downgrade_60a151dd80b0 :: "ddl list" where
  "downgrade_60a151dd80b0 =
     [DropPolicyIfExists ''org_isolation'' ''claims'',
      DropIndex ''ix_claims_status'' ''claims'',
      DropIndex ''ix_claims_session_id'' ''claims'',
      DropIndex ''ix_claims_org_id'' ''claims'',
      DropIndex ''ix_claims_deal_id'' ''claims'',
      DropIndex ''ix_claims_attribute'' ''claims'',
      DropTable ''claims'']"

subsection \<open>\<open>9e796d5efdb7\<close> and \<open>c9aaf2c46b16\<close>: pgvector, users\<close>

definition upgrade_9e796d5efdb7 :: "ddl list" where
  "upgrade_9e796d5efdb7 = [CreateExtensionIfNotExists ''vector'']"

definition downgrade_9e796d5efdb7 :: "ddl list" where
  "downgrade_9e796d5efdb7 = [DropExtensionIfExists ''vector'']"

definition upgrade_c9aaf2c46b16 :: "ddl list" where
  "upgrade_c9aaf2c46b16 =
     [CreateTable ''users''
        [Column ''id'' INTEGER False,
         Column ''org_id'' INTEGER False,
         Column ''name'' (VARCHAR 100) True,
         Column ''email'' (VARCHAR 100) True,
         Column ''role'' (VARCHAR 50) False,
         Column ''login_method'' (VARCHAR 50) False,
         Column ''clerk_user_id'' (VARCHAR 64) False,
         Column ''clerk_org_id'' (VARCHAR 64) False]
        [org_fk, id_pk],
      plain_index ''ix_users_clerk_org_id'' ''users'' ''clerk_org_id'' False,
      plain_index ''ix_users_clerk_user_id'' ''users'' ''clerk_user_id'' True,
      plain_index ''ix_users_email'' ''users'' ''email'' True,
      plain_index ''ix_users_id'' ''users'' ''id'' False,
      plain_index ''ix_users_name'' ''users'' ''name'' False,
      plain_index ''ix_users_org_id'' ''users'' ''org_id'' False,
      AlterNullable ''organisation'' ''type'' True,
      EnableRls ''users'',
      CreatePolicy ''org_isolation'' ''users'' (SettingIs ''clerk_org_id'')]"

definition downgrade_c9aaf2c46b16 :: "ddl list" where
  "downgrade_c9aaf2c46b16 =
     [DropPolicyIfExists ''org_isolation'' ''users'',
      DisableRls ''users'',
      AlterNullable ''organisation'' ''type'' False,
      DropIndex ''ix_users_org_id'' ''users'',
      DropIndex ''ix_users_name'' ''users'',
      DropIndex ''ix_users_id'' ''users'',
      DropIndex ''ix_users_email'' ''users'',
      DropIndex ''ix_users_clerk_user_id'' ''users'',
      DropIndex ''ix_users_clerk_org_id'' ''users'',
      DropTable ''users'']"

subsection \<open>\<open>7175bc85ffb0\<close>: the audit trail\<close>

definition upgrade_7175bc85ffb0 :: "ddl list" where
  "upgrade_7175bc85ffb0 =
     [CreateTable ''human_audit_log''
        [uuid_key,
         Column ''org_id'' INTEGER False,
         Column ''actor_id'' (VARCHAR 64) True,
         Column ''actor_email'' (VARCHAR 100) True,
         Column ''event_type'' TEXT False,
         Column ''deal_id'' UUID True,
         Column ''session_id'' UUID True,
         Column ''payload'' JSONB True,
         Column ''ip_address'' INET True,
         Column ''user_agent'' TEXT True,
         stamped ''created_at'']
        [org_fk, id_pk],
      plain_index ''ix_human_audit_log_org_id'' ''human_audit_log'' ''org_id'' False,
      plain_index ''ix_human_audit_log_event_type'' ''human_audit_log'' ''event_type'' False,
      plain_index ''ix_human_audit_log_deal_id'' ''human_audit_log'' ''deal_id'' False,
      plain_index ''ix_human_audit_log_session_id'' ''human_audit_log'' ''session_id'' False,
      EnableRls ''human_audit_log'',
      CreatePolicy ''org_isolation'' ''human_audit_log'' (OwnedBySetting ''org_id''),
      ForceRls ''human_audit_log'',
      RevokeOn [Update, Delete] ''human_audit_log'']"

definition downgrade_7175bc85ffb0 :: "ddl list" where
  "downgrade_7175bc85ffb0 =
     [NoForceRls ''human_audit_log'',
      DropPolicyIfExists ''org_isolation'' ''human_audit_log'',
      DropIndex ''ix_human_audit_log_session_id'' ''human_audit_log'',
      DropIndex ''ix_human_audit_log_deal_id'' ''human_audit_log'',
      DropIndex ''ix_human_audit_log_event_type'' ''human_audit_log'',
      DropIndex ''ix_human_audit_log_org_id'' ''human_audit_log'',
      DropTable ''human_audit_log'']"

subsection \<open>\<open>2f9ca0724bb9\<close> and \<open>418dc290d913\<close>: deals, the strategy of a fund\<close>

definition upgrade_2f9ca0724bb9 :: "ddl list" where
  "upgrade_2f9ca0724bb9 =
     [CreateTable ''deals''
        [uuid_key,
         Column ''org_id'' INTEGER False,
         Column ''fund_id'' INTEGER True,
         Column ''name'' TEXT False,
         Column ''gp_source'' TEXT True,
         Column ''deal_size_min_usd'' BIGINT True,
         Column ''deal_size_max_usd'' BIGINT True,
         Column ''sector_tags'' JSONB True,
         server_default (Literal ''sourcing'') (Column ''status'' TEXT False),
         stamped ''created_at'',
         stamped ''updated_at'']
        [org_fk, (None, ForeignKey [''fund_id''] ''funds'' [''id'']), id_pk],
      plain_index ''ix_deals_org_id'' ''deals'' ''org_id'' False,
      plain_index ''ix_deals_fund_id'' ''deals'' ''fund_id'' False,
      EnableRls ''deals'',
      CreatePolicy ''org_isolation'' ''deals'' (OwnedBySetting ''org_id'')]"

definition downgrade_2f9ca0724bb9 :: "ddl list" where
  "downgrade_2f9ca0724bb9 =
     [DropPolicyIfExists ''org_isolation'' ''deals'',
      DropIndex ''ix_deals_fund_id'' ''deals'',
      DropIndex ''ix_deals_org_id'' ''deals'',
      DropTable ''deals'']"

definition upgrade_418dc290d913 :: "ddl list" where
  "upgrade_418dc290d913 = [AddColumn ''funds'' (Column ''strategy'' (VARCHAR 100) True)]"

definition downgrade_418dc290d913 :: "ddl list" where
  "downgrade_418dc290d913 = [DropColumn ''funds'' ''strategy'']"

subsection \<open>\<open>b26e963e0645\<close>, \<open>dd80cdfaeb9a\<close> and \<open>fb49da6a9bc0\<close>: model calls, sessions, profiles\<close>

definition upgrade_b26e963e0645 :: "ddl list" where
  "upgrade_b26e963e0645 =
     [CreateTable ''ai_audit_log''
        [uuid_key,
         Column ''org_id'' INTEGER False,
         Column ''fund_id'' INTEGER True,
         Column ''user_id'' (VARCHAR 64) True,
         Column ''session_id'' UUID True,
         Column ''pipeline_run_id'' UUID True,
         Column ''parent_agent_id'' UUID True,
         Column ''pass_number'' INTEGER True,
         Column ''agent_name'' TEXT True,
         Column ''model_id'' TEXT True,
         Column ''model_version'' TEXT True,
         Column ''system_prompt_hash'' TEXT True,
         Column ''tool_call_names'' JSONB True,
         Column ''input_tokens'' INTEGER True,
         Column ''output_tokens'' INTEGER True,
         Column ''cache_read_tokens'' INTEGER True,
         server_default (Literal ''0'') (Column ''retry_count'' INTEGER False),
         Column ''error_code'' TEXT True,
         Column ''duration_ms'' INTEGER True,
         stamped ''created_at'']
        [org_fk, (None, ForeignKey [''fund_id''] ''funds'' [''id'']), id_pk],
      plain_index ''ix_ai_audit_log_org_id'' ''ai_audit_log'' ''org_id'' False,
      EnableRls ''ai_audit_log'',
      CreatePolicy ''org_isolation'' ''ai_audit_log'' (OwnedBySetting ''org_id''),
      ForceRls ''ai_audit_log'',
      RevokeOn [Update, Delete] ''ai_audit_log'']"

definition downgrade_b26e963e0645 :: "ddl list" where
  "downgrade_b26e963e0645 =
     [NoForceRls ''ai_audit_log'',
      DropPolicyIfExists ''org_isolation'' ''ai_audit_log'',
      DropIndex ''ix_ai_audit_log_org_id'' ''ai_audit_log'',
      DropTable ''ai_audit_log'']"

definition upgrade_dd80cdfaeb9a :: "ddl list" where
  "upgrade_dd80cdfaeb9a =
     [CreateTable ''sessions''
        [uuid_key,
         Column ''org_id'' INTEGER False,
         Column ''user_id'' INTEGER True,
         Column ''deal_id'' UUID False,
         Column ''file_name'' TEXT False,
         Column ''memo_json'' JSONB True,
         Column ''composed_at'' TIMESTAMPTZ True,
         stamped ''created_at'']
        [org_fk, (None, ForeignKey [''user_id''] ''users'' [''id'']), (None, ForeignKey [''deal_id''] ''deals'' [''id'']), id_pk],
      plain_index ''ix_sessions_org_id'' ''sessions'' ''org_id'' False,
      plain_index ''ix_sessions_deal_id'' ''sessions'' ''deal_id'' False,
      EnableRls ''sessions'',
      CreatePolicy ''org_isolation'' ''sessions'' (OwnedBySetting ''org_id'')]"

definition downgrade_dd80cdfaeb9a :: "ddl list" where
  "downgrade_dd80cdfaeb9a =
     [DropPolicyIfExists ''org_isolation'' ''sessions'',
      DropIndex ''ix_sessions_deal_id'' ''sessions'',
      DropIndex ''ix_sessions_org_id'' ''sessions'',
      DropTable ''sessions'']"

definition upgrade_fb49da6a9bc0 :: "ddl list" where
  "upgrade_fb49da6a9bc0 =
     [CreateTable ''investment_profiles''
        [uuid_key,
         Column ''org_id'' INTEGER False,
         Column ''firm_name'' TEXT True,
         Column ''firm_type'' TEXT True,
         Column ''aum_band'' TEXT True,
         Column ''mandate'' JSONB True,
         Column ''weights'' JSONB True,
         stamped ''created_at'',
         stamped ''updated_at'']
        [org_fk, id_pk, (None, UniqueOver [''org_id''])],
      plain_index ''ix_investment_profiles_org_id'' ''investment_profiles'' ''org_id'' True,
      EnableRls ''investment_profiles'',
      CreatePolicy ''org_isolation'' ''investment_profiles'' (OwnedBySetting ''org_id'')]"

definition downgrade_fb49da6a9bc0 :: "ddl list" where
  "downgrade_fb49da6a9bc0 =
     [DropPolicyIfExists ''org_isolation'' ''investment_profiles'',
      DropIndex ''ix_investment_profiles_org_id'' ''investment_profiles'',
      DropTable ''investment_profiles'']"

subsection \<open>\<open>7b4b05b6d9c8\<close>: qualitative claims\<close>

definition upgrade_7b4b05b6d9c8 :: "ddl list" where
  "upgrade_7b4b05b6d9c8 =
     [AddColumn ''claims'' (Column ''claim_kind'' (VARCHAR 12) True),
      AddColumn ''claims'' (Column ''assertion_class'' (VARCHAR 24) True),
      AddConstraint ''ck_claims_claim_kind'' ''claims''
        (Check (OrElse (IsNull ''claim_kind'') (IsIn ''claim_kind'' [''quantitative'', ''qualitative'']))),
      AddConstraint ''ck_claims_assertion_class'' ''claims''
        (Check (OrElse (IsNull ''assertion_class'') (IsIn ''assertion_class''
          [''related_party'', ''operating_model'', ''market_definition'', ''competitive_position'',
           ''commercial_terms'', ''risk_or_dependency'', ''plan_or_commitment'']))),
      AddConstraint ''ck_claims_qualitative_has_class'' ''claims''
        (Check (OrElse (IsDistinctFrom ''claim_kind'' ''qualitative'') (IsNotNull ''assertion_class'')))]"

definition downgrade_7b4b05b6d9c8 :: "ddl list" where
  "downgrade_7b4b05b6d9c8 =
     [DropConstraint ''ck_claims_qualitative_has_class'' ''claims'',
      DropConstraint ''ck_claims_assertion_class'' ''claims'',
      DropConstraint ''ck_claims_claim_kind'' ''claims'',
      DropColumn ''claims'' ''assertion_class'',
      DropColumn ''claims'' ''claim_kind'']"

subsection \<open>\<open>a1b2c3d4e5f6\<close> to \<open>920070316626\<close>: administrators, soft deletion\<close>

definition upgrade_a1b2c3d4e5f6 :: "ddl list" where
  "upgrade_a1b2c3d4e5f6 =
     [CreateTable ''clerk_admin_users''
        [Column ''id'' INTEGER False,
         Column ''clerk_user_id'' (VARCHAR 64) False,
         Column ''clerk_org_id'' (VARCHAR 64) False,
         Column ''org_id'' INTEGER False,
         Column ''email'' (VARCHAR 100) True,
         Column ''admin_type'' (ENUM ''admintype'' [''platform'', ''client'']) False,
         server_default (Literal ''active'') (Column ''status'' (VARCHAR 50) False),
         Column ''created_at'' TIMESTAMP True]
        [org_fk, id_pk],
      plain_index ''ix_clerk_admin_users_clerk_user_id'' ''clerk_admin_users'' ''clerk_user_id'' True,
      plain_index ''ix_clerk_admin_users_clerk_org_id'' ''clerk_admin_users'' ''clerk_org_id'' False,
      plain_index ''ix_clerk_admin_users_org_id'' ''clerk_admin_users'' ''org_id'' False,
      plain_index ''ix_clerk_admin_users_email'' ''clerk_admin_users'' ''email'' False,
      EnableRls ''clerk_admin_users'',
      CreatePolicy ''org_isolation'' ''clerk_admin_users'' (SettingIs ''clerk_org_id'')]"

definition downgrade_a1b2c3d4e5f6 :: "ddl list" where
  "downgrade_a1b2c3d4e5f6 =
     [DropPolicyIfExists ''org_isolation'' ''clerk_admin_users'',
      DisableRls ''clerk_admin_users'',
      DropIndex ''ix_clerk_admin_users_email'' ''clerk_admin_users'',
      DropIndex ''ix_clerk_admin_users_org_id'' ''clerk_admin_users'',
      DropIndex ''ix_clerk_admin_users_clerk_org_id'' ''clerk_admin_users'',
      DropIndex ''ix_clerk_admin_users_clerk_user_id'' ''clerk_admin_users'',
      DropTable ''clerk_admin_users'',
      DropTypeIfExists ''admintype'']"

definition upgrade_588db2facf84 :: "ddl list" where
  "upgrade_588db2facf84 = [AddColumn ''clerk_admin_users'' (Column ''updated_at'' TIMESTAMP True)]"

definition downgrade_588db2facf84 :: "ddl list" where
  "downgrade_588db2facf84 = [DropColumn ''clerk_admin_users'' ''updated_at'']"

definition upgrade_920070316626 :: "ddl list" where
  "upgrade_920070316626 =
     [AddColumn ''users'' (server_default (Literal ''active'') (Column ''status'' (VARCHAR 50) False)),
      AddColumn ''users'' (Column ''deactivated_at'' TIMESTAMP True)]"

definition downgrade_920070316626 :: "ddl list" where
  "downgrade_920070316626 =
     [DropColumn ''users'' ''deactivated_at'',
      DropColumn ''users'' ''status'']"

subsection \<open>\<open>6c8bc5907f94\<close> and \<open>e960a3366cf7\<close>, merged by \<open>222c301f378f\<close>: chunks, corroboration\<close>

definition embedding_dim :: nat where
  "embedding_dim = 1024"

definition upgrade_6c8bc5907f94 :: "ddl list" where
  "upgrade_6c8bc5907f94 =
     [CreateTable ''chunks''
        [uuid_key,
         Column ''org_id'' INTEGER False,
         Column ''document_id'' UUID True,
         Column ''content'' TEXT False,
         Column ''embedding'' (VECTOR embedding_dim) True,
         Column ''embedding_version'' TEXT True,
         (Column ''content_tsv'' TSVECTOR True)\<lparr>col_computed := Some ''to_tsvector('english', content)''\<rparr>,
         Column ''element_type'' TEXT True,
         Column ''page'' INTEGER True,
         Column ''char_start'' INTEGER True,
         Column ''char_end'' INTEGER True,
         stamped ''created_at'']
        [org_fk, id_pk],
      plain_index ''ix_chunks_org_id'' ''chunks'' ''org_id'' False,
      plain_index ''ix_chunks_document_id'' ''chunks'' ''document_id'' False,
      CreateIndex ''ix_chunks_embedding_hnsw'' ''chunks'' [''embedding''] False (Some ''hnsw'')
        [(''embedding'', ''vector_cosine_ops'')],
      CreateIndex ''ix_chunks_content_tsv_gin'' ''chunks'' [''content_tsv''] False (Some ''gin'') [],
      EnableRls ''chunks'',
      CreatePolicy ''org_isolation'' ''chunks'' (OwnedBySetting ''org_id'')]"

definition downgrade_6c8bc5907f94 :: "ddl list" where
  "downgrade_6c8bc5907f94 =
     [DropPolicyIfExists ''org_isolation'' ''chunks'',
      DropIndex ''ix_chunks_content_tsv_gin'' ''chunks'',
      DropIndex ''ix_chunks_embedding_hnsw'' ''chunks'',
      DropIndex ''ix_chunks_document_id'' ''chunks'',
      DropIndex ''ix_chunks_org_id'' ''chunks'',
      DropTable ''chunks'']"

definition upgrade_e960a3366cf7 :: "ddl list" where
  "upgrade_e960a3366cf7 =
     [CreateTable ''corroboration_events''
        [uuid_key,
         Column ''org_id'' INTEGER False,
         Column ''claim_id'' UUID False,
         Column ''outside_source'' TEXT False,
         Column ''result'' JSONB False,
         stamped ''created_at'']
        [org_fk, (None, ForeignKey [''claim_id''] ''claims'' [''id'']), id_pk],
      plain_index ''ix_corroboration_events_org_id'' ''corroboration_events'' ''org_id'' False,
      plain_index ''ix_corroboration_events_claim_id'' ''corroboration_events'' ''claim_id'' False,
      plain_index ''ix_corroboration_events_outside_source'' ''corroboration_events'' ''outside_source'' False,
      EnableRls ''corroboration_events'',
      CreatePolicy ''org_isolation'' ''corroboration_events'' (OwnedBySetting ''org_id''),
      ForceRls ''corroboration_events'',
      RevokeOn [Update, Delete] ''corroboration_events'']"

definition downgrade_e960a3366cf7 :: "ddl list" where
  "downgrade_e960a3366cf7 =
     [NoForceRls ''corroboration_events'',
      DropPolicyIfExists ''org_isolation'' ''corroboration_events'',
      DropIndex ''ix_corroboration_events_outside_source'' ''corroboration_events'',
      DropIndex ''ix_corroboration_events_claim_id'' ''corroboration_events'',
      DropIndex ''ix_corroboration_events_org_id'' ''corroboration_events'',
      DropTable ''corroboration_events'']"

definition upgrade_222c301f378f :: "ddl list" where
  "upgrade_222c301f378f = []"

definition downgrade_222c301f378f :: "ddl list" where
  "downgrade_222c301f378f = []"

subsection \<open>\<open>d6d2fe8f27ae\<close> and \<open>77be2ddc60a0\<close>: uploaded documents\<close>

definition upgrade_d6d2fe8f27ae :: "ddl list" where
  "upgrade_d6d2fe8f27ae =
     [CreateTable ''data_source''
        [uuid_key,
         Column ''org_id'' INTEGER False,
         Column ''deal_id'' UUID False,
         Column ''storage_key'' TEXT False,
         Column ''filename'' TEXT False,
         Column ''declared_sha256'' (VARCHAR 64) False,
         Column ''fingerprint'' (VARCHAR 64) True,
         server_default (Literal ''pending'') (Column ''status'' (VARCHAR 16) False),
         Column ''status_updated_at'' TIMESTAMPTZ True,
         stamped ''created_at'']
        [(Some ''ck_data_source_status'',
            Check (IsIn ''status'' [''pending'', ''verified'', ''quarantined'', ''ocr_needed'', ''mismatch''])),
         org_fk, (None, ForeignKey [''deal_id''] ''deals'' [''id'']), id_pk],
      plain_index ''ix_data_source_org_id'' ''data_source'' ''org_id'' False,
      plain_index ''ix_data_source_deal_id'' ''data_source'' ''deal_id'' False,
      plain_index ''ix_data_source_declared_sha256'' ''data_source'' ''declared_sha256'' False,
      plain_index ''ix_data_source_status'' ''data_source'' ''status'' False,
      EnableRls ''data_source'',
      CreatePolicy ''org_isolation'' ''data_source'' (OwnedBySetting ''org_id''),
      ForceRls ''data_source'',
      RevokeOn [Update, Delete] ''data_source'',
      GrantUpdateOf [''status'', ''fingerprint'', ''status_updated_at''] ''data_source'',
      CreateFunction ''data_source_enforce_one_way_status'' (Differs ''status'' ''pending''),
      CreateTrigger ''trg_data_source_one_way_status'' ''data_source'' ''data_source_enforce_one_way_status'']"

definition downgrade_d6d2fe8f27ae :: "ddl list" where
  "downgrade_d6d2fe8f27ae =
     [DropTriggerIfExists ''trg_data_source_one_way_status'' ''data_source'',
      DropFunctionIfExists ''data_source_enforce_one_way_status'',
      RevokeUpdateOf [''status'', ''fingerprint'', ''status_updated_at''] ''data_source'',
      GrantOn [Update, Delete] ''data_source'',
      NoForceRls ''data_source'',
      DropPolicyIfExists ''org_isolation'' ''data_source'',
      DropIndex ''ix_data_source_status'' ''data_source'',
      DropIndex ''ix_data_source_declared_sha256'' ''data_source'',
      DropIndex ''ix_data_source_deal_id'' ''data_source'',
      DropIndex ''ix_data_source_org_id'' ''data_source'',
      DropTable ''data_source'']"

definition upgrade_77be2ddc60a0 :: "ddl list" where
  "upgrade_77be2ddc60a0 =
     [AddConstraint ''fk_chunks_document_id_data_source'' ''chunks'' (ForeignKey [''document_id''] ''data_source'' [''id'']),
      AddConstraint ''fk_claims_data_source_id_data_source'' ''claims'' (ForeignKey [''data_source_id''] ''data_source'' [''id'']),
      AddConstraint ''fk_claims_deal_id_deals'' ''claims'' (ForeignKey [''deal_id''] ''deals'' [''id''])]"

definition downgrade_77be2ddc60a0 :: "ddl list" where
  "downgrade_77be2ddc60a0 =
     [DropConstraint ''fk_claims_deal_id_deals'' ''claims'',
      DropConstraint ''fk_claims_data_source_id_data_source'' ''claims'',
      DropConstraint ''fk_chunks_document_id_data_source'' ''chunks'']"

subsection \<open>The graph of revisions\<close>

record revision =
  rev_id :: string
  rev_down :: "string list"
  rev_upgrade :: "ddl list"
  rev_downgrade :: "ddl list"

definition history :: "revision list" where
  "history = map (\<lambda>(i, d, u, v). \<lparr>rev_id = i, rev_down = d, rev_upgrade = u, rev_downgrade = v\<rparr>)
     [(''xxxx'', [], upgrade_xxxx, downgrade_xxxx),
      (''3b5ed08bc4d3'', [''xxxx''], upgrade_3b5ed08bc4d3, downgrade_3b5ed08bc4d3),
      (''30277d26774a'', [''3b5ed08bc4d3''], upgrade_30277d26774a, downgrade_30277d26774a),
      (''aace95a1c412'', [''30277d26774a''], upgrade_aace95a1c412, downgrade_aace95a1c412),
      (''60a151dd80b0'', [''aace95a1c412''], upgrade_60a151dd80b0, downgrade_60a151dd80b0),
      (''9e796d5efdb7'', [''60a151dd80b0''], upgrade_9e796d5efdb7, downgrade_9e796d5efdb7),
      (''c9aaf2c46b16'', [''9e796d5efdb7''], upgrade_c9aaf2c46b16, downgrade_c9aaf2c46b16),
      (''7175bc85ffb0'', [''c9aaf2c46b16''], upgrade_7175bc85ffb0, downgrade_7175bc85ffb0),
      (''2f9ca0724bb9'', [''7175bc85ffb0''], upgrade_2f9ca0724bb9, downgrade_2f9ca0724bb9),
      (''418dc290d913'', [''2f9ca0724bb9''], upgrade_418dc290d913, downgrade_418dc290d913),
      (''b26e963e0645'', [''418dc290d913''], upgrade_b26e963e0645, downgrade_b26e963e0645),
      (''dd80cdfaeb9a'', [''b26e963e0645''], upgrade_dd80cdfaeb9a, downgrade_dd80cdfaeb9a),
      (''fb49da6a9bc0'', [''dd80cdfaeb9a''], upgrade_fb49da6a9bc0, downgrade_fb49da6a9bc0),
      (''7b4b05b6d9c8'', [''fb49da6a9bc0''], upgrade_7b4b05b6d9c8, downgrade_7b4b05b6d9c8),
      (''a1b2c3d4e5f6'', [''7b4b05b6d9c8''], upgrade_a1b2c3d4e5f6, downgrade_a1b2c3d4e5f6),
      (''588db2facf84'', [''a1b2c3d4e5f6''], upgrade_588db2facf84, downgrade_588db2facf84),
      (''920070316626'', [''588db2facf84''], upgrade_920070316626, downgrade_920070316626),
      (''6c8bc5907f94'', [''920070316626''], upgrade_6c8bc5907f94, downgrade_6c8bc5907f94),
      (''e960a3366cf7'', [''920070316626''], upgrade_e960a3366cf7, downgrade_e960a3366cf7),
      (''222c301f378f'', [''6c8bc5907f94'', ''e960a3366cf7''], upgrade_222c301f378f, downgrade_222c301f378f),
      (''d6d2fe8f27ae'', [''222c301f378f''], upgrade_d6d2fe8f27ae, downgrade_d6d2fe8f27ae),
      (''77be2ddc60a0'', [''d6d2fe8f27ae''], upgrade_77be2ddc60a0, downgrade_77be2ddc60a0)]"

definition fresh_catalog :: catalog where
  "fresh_catalog =
     \<lparr>relations = [], indexes = [], enum_types = [], trigger_functions = [], extensions = [],
      schema_usage = False, default_table_grants = [], default_sequence_usage = False\<rparr>"

text \<open>
  \<open>do_run_migrations\<close> of \<open>alembic/env.py\<close>: Alembic's runner executes the upgrades it is due inside one
  transaction, and Postgres rolls schema changes back with it.
\<close>

definition do_run_migrations :: "revision list \<Rightarrow> catalog \<Rightarrow> ddl_error option \<times> catalog" where
  "do_run_migrations rs c =
     (case run_statements (concat (map rev_upgrade rs)) c of Inl e \<Rightarrow> (Some e, c) | Inr c' \<Rightarrow> (None, c'))"

end
