(* ===== verification/CatalogLaws.thy ===== *)
theory CatalogLaws
  imports Migrations
begin

section \<open>What the statements keep\<close>

named_theorems ddl_simps \<open>evaluation of statements\<close>

lemma unless_Inr [simp]: "unless b e x = Inr y \<longleftrightarrow> \<not> b \<and> x = Inr y"
  by (simp add: unless_def)

lemma restrict_Inr [simp]: "restrict n c = Inr c' \<longleftrightarrow> held c \<and> c' = c"
  by (auto simp: restrict_def)

lemma alter_Inr [simp]:
  "alter t f c = Inr c' \<longleftrightarrow> (\<exists>r r'. lookup t c = Some r \<and> f r = Inr r' \<and> c' = put_relation t r' c)"
  by (auto simp: alter_def split: option.split sum.split)

lemma lookup_put [simp]: "lookup u (put_relation t r c) = (if u = t then Some r else lookup u c)"
  by (simp add: lookup_def put_relation_def update_conv')

lemma lookup_frame [simp]:
  "lookup t (c\<lparr>indexes := is\<rparr>) = lookup t c" "lookup t (c\<lparr>enum_types := es\<rparr>) = lookup t c"
  "lookup t (c\<lparr>trigger_functions := fs\<rparr>) = lookup t c" "lookup t (c\<lparr>extensions := xs\<rparr>) = lookup t c"
  "lookup t (c\<lparr>schema_usage := b\<rparr>) = lookup t c" "lookup t (c\<lparr>default_table_grants := gs\<rparr>) = lookup t c"
  "lookup t (c\<lparr>default_sequence_usage := b\<rparr>) = lookup t c"
  "lookup t (c\<lparr>relations := AList.delete u (relations c)\<rparr>) = (if t = u then None else lookup t c)"
  by (simp_all add: lookup_def delete_conv')

lemma put_relation_frame [simp]:
  "indexes (put_relation t r c) = indexes c" "enum_types (put_relation t r c) = enum_types c"
  "trigger_functions (put_relation t r c) = trigger_functions c" "extensions (put_relation t r c) = extensions c"
  by (simp_all add: put_relation_def)

lemma put_relation_names [simp]:
  "lookup t c \<noteq> None \<Longrightarrow> map fst (relations (put_relation t r c)) = map fst (relations c)"
  by (simp add: put_relation_def lookup_def update_keys map_of_eq_None_iff)

lemma has_key_lookup:
  "has_key c t cs \<longleftrightarrow> (\<exists>r. lookup t c = Some r \<and>
     ((\<exists>k \<in> set (rel_constraints r). keyed_by cs (snd k))
      \<or> (\<exists>e \<in> set (indexes c). idx_table (snd e) = t \<and> idx_unique (snd e) \<and> idx_columns (snd e) = cs)))"
  by (auto simp: has_key_def lookup_def list_ex_iff split: option.split prod.splits) force+

lemma has_column_lookup: "has_column c (t, x) \<longleftrightarrow> (\<exists>r. lookup t c = Some r \<and> x \<in> set (column_names r))"
  by (simp add: has_column_def lookup_def split: option.split)

subsection \<open>Soundness\<close>

definition rows_fit :: "relation \<Rightarrow> bool" where
  "rows_fit r \<longleftrightarrow> distinct (column_names r) \<and> (\<forall>row \<in> set (rel_rows r). map fst row = column_names r)"

definition index_fits :: "catalog \<Rightarrow> index \<Rightarrow> bool" where
  "index_fits c i \<longleftrightarrow> list_all (\<lambda>x. has_column c (idx_table i, x)) (idx_columns i) \<and> lookup (idx_table i) c \<noteq> None"

lemma index_fits_frame [simp]:
  "index_fits (c\<lparr>indexes := is\<rparr>) i = index_fits c i" "index_fits (c\<lparr>enum_types := es\<rparr>) i = index_fits c i"
  "index_fits (c\<lparr>trigger_functions := fs\<rparr>) i = index_fits c i" "index_fits (c\<lparr>extensions := xs\<rparr>) i = index_fits c i"
  by (simp_all add: index_fits_def has_column_lookup)

text \<open>
  Names are unique, nothing dangles, rows have the columns of their table.
\<close>

definition sound :: "catalog \<Rightarrow> bool" where
  "sound c \<longleftrightarrow>
     distinct (map fst (relations c)) \<and> distinct (map fst (indexes c)) \<and> distinct (map fst (enum_types c))
     \<and> list_all (index_fits c \<circ> snd) (indexes c)
     \<and> held c \<and> (\<forall>e \<in> set (relations c). rows_fit (snd e))"

lemma held_lookup:
  "distinct (map fst (relations c)) \<Longrightarrow> held c \<longleftrightarrow> (\<forall>t r. lookup t c = Some r \<longrightarrow> relation_held c r)"
  by (auto simp: held_def lookup_def list_all_iff map_of_eq_Some_iff)

lemma sound_lookup:
  "sound c \<longleftrightarrow> distinct (map fst (relations c)) \<and> distinct (map fst (indexes c)) \<and> distinct (map fst (enum_types c))
     \<and> (\<forall>e \<in> set (indexes c). index_fits c (snd e))
     \<and> (\<forall>t r. lookup t c = Some r \<longrightarrow> relation_held c r \<and> rows_fit r)"
proof (cases "distinct (map fst (relations c))")
  case True
  then have "(\<forall>e \<in> set (relations c). rows_fit (snd e)) \<longleftrightarrow> (\<forall>t r. lookup t c = Some r \<longrightarrow> rows_fit r)"
    by (auto simp: lookup_def map_of_eq_Some_iff)
  with True show ?thesis by (simp add: sound_def held_lookup list_all_iff) blast
qed (simp add: sound_def)

text \<open>A catalogue that offers at least what another one does.\<close>

definition offers :: "catalog \<Rightarrow> catalog \<Rightarrow> bool" where
  "offers c c' \<longleftrightarrow>
     (\<forall>t. lookup t c \<noteq> None \<longrightarrow> lookup t c' \<noteq> None) \<and> (\<forall>t cs. has_key c t cs \<longrightarrow> has_key c' t cs) \<and> (\<forall>p. has_column c p \<longrightarrow> has_column c' p)
     \<and> (\<forall>ty. type_known c ty \<longrightarrow> type_known c' ty) \<and> fst ` set (trigger_functions c) \<subseteq> fst ` set (trigger_functions c')"

lemma offers_refl [simp]: "offers c c" by (simp add: offers_def)

lemma relation_held_mono: "offers c c' \<Longrightarrow> relation_held c r \<Longrightarrow> relation_held c' r"
  unfolding relation_held_def offers_def list_all_iff o_def
  apply (intro conjI)
      apply (metis constraint_known.simps sql_constraint.exhaust)
     apply blast
    apply blast
   apply blast
  apply blast
  apply blast
  done

lemma index_fits_mono: "offers c c' \<Longrightarrow> index_fits c i \<Longrightarrow> index_fits c' i"
  by (simp add: index_fits_def offers_def list_all_iff)


lemma offers_put:
  assumes "lookup t c = Some r"
    and "\<And>cs k. k \<in> set (rel_constraints r) \<Longrightarrow> keyed_by cs (snd k) \<Longrightarrow> \<exists>k' \<in> set (rel_constraints r'). keyed_by cs (snd k')"
    and "set (column_names r) \<subseteq> set (column_names r')"
  shows "offers c (put_relation t r' c)"
  using assms unfolding offers_def
  by (auto simp: has_key_lookup has_column_lookup put_relation_def[of t r' c, THEN arg_cong, of enum_types] elim!: type_known.elims)

lemma offers_more:
  assumes "\<And>t r. lookup t c = Some r \<Longrightarrow> lookup t c' = Some r" and "set (indexes c) \<subseteq> set (indexes c')"
    and "\<And>n vs. map_of (enum_types c) n = Some vs \<Longrightarrow> map_of (enum_types c') n = Some vs"
    and "set (extensions c) \<subseteq> set (extensions c')" and "set (trigger_functions c) \<subseteq> set (trigger_functions c')"
  shows "offers c c'"
proof -
  have "has_key c' t cs" if "has_key c t cs" for t cs
    using that assms(1,2) unfolding has_key_lookup by (meson subsetD)
  moreover have "has_column c' p" if "has_column c p" for p
    using that assms(1) by (cases p) (auto simp: has_column_lookup)
  moreover have "type_known c' ty" if "type_known c ty" for ty
    using that assms(3,4) by (cases ty) auto
  moreover have "lookup t c' \<noteq> None" if "lookup t c \<noteq> None" for t using that assms(1) by auto
  ultimately show ?thesis using assms(5) by (auto simp: offers_def)
qed

lemma sound_put:
  assumes "sound c" and "lookup t c = Some r" and "relation_held (put_relation t r' c) r'" and "rows_fit r'"
    and "offers c (put_relation t r' c)"
  shows "sound (put_relation t r' c)"
  using assms relation_held_mono [OF assms(5)] index_fits_mono [OF assms(5)]
  by (auto simp: sound_lookup put_relation_names [THEN arg_cong [of _ _ distinct]])


lemma sound_alter:
  assumes c: "sound c" and r: "lookup t c = Some r" and held: "relation_held c r \<Longrightarrow> relation_held c r'"
    and rows: "rows_fit r \<Longrightarrow> rows_fit r'"
    and keys: "set (rel_constraints r) \<subseteq> set (rel_constraints r')" "set (column_names r) \<subseteq> set (column_names r')"
  shows "sound (put_relation t r' c)"
proof -
  have "offers c (put_relation t r' c)" using keys by (intro offers_put [OF r]) auto
  moreover have "relation_held c r" "rows_fit r" using c r by (simp_all add: sound_lookup)
  ultimately show ?thesis using held rows relation_held_mono sound_put [OF c r] by blast
qed

lemma sound_restricted:
  assumes "held c'" and "distinct (map fst (relations c'))" and "distinct (map fst (indexes c'))" and "distinct (map fst (enum_types c'))"
    and "\<And>e. e \<in> set (indexes c') \<Longrightarrow> index_fits c' (snd e)"
    and "\<And>t r. lookup t c' = Some r \<Longrightarrow> rows_fit r"
  shows "sound c'"
  using assms by (simp add: sound_lookup held_lookup)

lemma sound_more:
  assumes c: "sound c" and o: "offers c c'" and same: "relations c' = relations c"
    and "distinct (map fst (indexes c'))" and "distinct (map fst (enum_types c'))"
    and "\<And>e. e \<in> set (indexes c') \<Longrightarrow> e \<in> set (indexes c) \<or> index_fits c (snd e)"
  shows "sound c'"
proof -
  have l: "lookup t c' = lookup t c" for t by (simp add: lookup_def same)
  have "index_fits c' (snd e)" if "e \<in> set (indexes c')" for e
    using assms(6) [OF that] c index_fits_mono [OF o] by (auto simp: sound_lookup)
  moreover have "relation_held c' r" "rows_fit r" if "lookup t c = Some r" for t r
    using that c relation_held_mono [OF o] by (auto simp: sound_lookup)
  ultimately show ?thesis
    using assms(4,5) c unfolding sound_lookup l same by blast
qed

lemma in_alist_iff: "in_alist k xs \<longleftrightarrow> k \<in> fst ` set xs"
  by (auto simp: in_alist_def map_of_eq_None_iff)

lemma new_relation_simps [simp]:
  "rel_rows (new_relation c t cols ks) = []" "rel_policies (new_relation c t cols ks) = []"
  "rel_triggers (new_relation c t cols ks) = []" "rel_constraints (new_relation c t cols ks) = map (named t) ks"
  "rel_rls (new_relation c t cols ks) = False" "rel_forced (new_relation c t cols ks) = False"
  "rel_grants (new_relation c t cols ks) = default_table_grants c" "rel_update_columns (new_relation c t cols ks) = []"
  by (simp_all add: new_relation_def)

lemma with_serial_simps [simp]:
  "col_name (with_serial t ks x) = col_name x" "col_type (with_serial t ks x) = col_type x"
  "col_nullable (with_serial t ks x) = col_nullable x" "col_computed (with_serial t ks x) = col_computed x"
  by (simp_all add: with_serial_def)

lemma column_names_new [simp]: "column_names (new_relation c t cols ks) = map col_name cols"
  by (simp add: new_relation_def column_names_def)

lemma snd_named [simp]: "snd (named t k) = snd k"
  by (simp add: named_def split: prod.split)


lemma new_relation_sound:
  assumes c: "sound c" and t: "lookup t c = None" and o: "offers c c1" and same: "relations c1 = relations c" "indexes c1 = indexes c"
    and enums: "distinct (map fst (enum_types c1))"
    and held: "relation_held c1 r" and fit: "rows_fit r"
  shows "sound (c1\<lparr>relations := relations c @ [(t, r)]\<rparr>)" (is "sound ?c")
proof -
  have l: "lookup u ?c = (if u = t then Some r else lookup u c)" for u
    using t by (simp add: lookup_def map_add_def split: option.split)
  have fresh: "t \<notin> fst ` set (relations c)" using t by (simp add: lookup_def map_of_eq_None_iff)
  have "offers c1 ?c"
    by (rule offers_more) (use t in \<open>auto simp: lookup_def same map_add_def split: option.split\<close>)
  then have "relation_held ?c r" and "\<And>r'. relation_held c r' \<Longrightarrow> relation_held ?c r'"
    and "\<And>i. index_fits c i \<Longrightarrow> index_fits ?c i"
    using held relation_held_mono relation_held_mono [OF o] index_fits_mono index_fits_mono [OF o] by blast+
  then show ?thesis using c fresh fit enums by (auto simp: sound_lookup l same)
qed

lemma relation_held_frame:
  assumes "relation_held c r" and "rel_constraints r' = rel_constraints r" "rel_columns r' = rel_columns r"
    and "set (rel_policies r') \<subseteq> set (rel_policies r)" and "set (rel_triggers r') \<subseteq> set (rel_triggers r)"
  shows "relation_held c r'"
  using assms unfolding relation_held_def column_names_def list_all_iff by auto

lemma rows_fit_frame: "rel_columns r' = rel_columns r \<Longrightarrow> rel_rows r' = rel_rows r \<Longrightarrow> rows_fit r' = rows_fit r"
  by (simp add: rows_fit_def column_names_def)

lemma rows_fit_constraints [simp]: "rows_fit (r\<lparr>rel_constraints := ks\<rparr>) = rows_fit r"
  by (rule rows_fit_frame) simp_all

lemma set_delete_subset: "set (AList.delete k xs) \<subseteq> set xs"
  by (auto simp: AList.delete_eq)

text \<open>Changes of a relation that leave its columns, constraints and rows alone.\<close>

lemma sound_alter_frame:
  assumes "sound c" and "lookup t c = Some r"
    and "rel_constraints r' = rel_constraints r" "rel_columns r' = rel_columns r" "rel_rows r' = rel_rows r"
    and "set (rel_policies r') \<subseteq> set (rel_policies r)" and "set (rel_triggers r') \<subseteq> set (rel_triggers r)"
  shows "sound (put_relation t r' c)"
proof (rule sound_alter [OF assms(1,2)])
  show "relation_held c r'" if "relation_held c r" using that assms(3,4,6,7) by (rule relation_held_frame)
  show "rows_fit r'" if "rows_fit r" using that rows_fit_frame [OF assms(4,5)] by simp
qed (simp_all add: column_names_def assms(3,4))

lemma run_ddl_sound_create:
  assumes "sound c" and "run_ddl (CreateTable t cols ks) c = Inr c'"
  shows "sound c'"
proof -
  let ?c = "c\<lparr>enum_types := enum_types c @ concat (map enum_of cols)\<rparr>"
  from assms(2) have ok: "lookup t c = None" "distinct (map col_name cols)" "distinct (map fst (concat (map enum_of cols)))"
    "list_all (type_known ?c \<circ> col_type) cols" "list_all (constraint_known ?c \<circ> snd) ks"
    "list_all (list_all (\<lambda>x. x \<in> col_name ` set cols) \<circ> columns_of \<circ> snd) ks"
    "\<forall>e \<in> set (concat (map enum_of cols)). fst e \<notin> fst ` set (enum_types c)"
    and c': "c' = ?c\<lparr>relations := relations c @ [(t, new_relation c t cols ks)]\<rparr>"
    by (auto simp: Let_def in_alist_def lookup_def list_ex_iff map_of_eq_None_iff)
  have "distinct (map fst (enum_types c))" using assms(1) by (simp add: sound_def)
  with ok(3,7) have enums: "distinct (map fst (enum_types ?c))" by (fastforce simp: image_iff)
  show ?thesis unfolding c'
  proof (rule new_relation_sound [OF assms(1) ok(1) _ _ _ enums])
    show "offers c ?c" by (rule offers_more) (auto simp: lookup_def map_add_def split: option.split)
    show "relation_held ?c (new_relation c t cols ks)"
      using ok(4,5,6) by (auto simp: relation_held_def list_all_iff) (auto simp: new_relation_def)
    show "rows_fit (new_relation c t cols ks)" using ok(2) by (simp add: rows_fit_def)
  qed simp_all
qed


lemma distinct_delete: "distinct (map fst xs) \<Longrightarrow> distinct (map fst (AList.delete k xs))"
  by (simp add: AList.delete_eq distinct_map_filter)

lemma rows_fit_drop:
  assumes "rows_fit r"
  shows "rows_fit (r\<lparr>rel_columns := filter (\<lambda>y. col_name y \<noteq> x) (rel_columns r),
    rel_rows := map (filter (\<lambda>v. fst v \<noteq> x)) (rel_rows r), rel_constraints := ks\<rparr>)"
proof -
  have "map fst (filter (\<lambda>v. fst v \<noteq> x) row) = filter (\<lambda>n. n \<noteq> x) (map fst row)" for row :: sql_row
    by (induction row) auto
  moreover have "map col_name (filter (\<lambda>y. col_name y \<noteq> x) cs) = filter (\<lambda>n. n \<noteq> x) (map col_name cs)" for cs :: "column list"
    by (induction cs) auto
  ultimately show ?thesis using assms by (auto simp: rows_fit_def column_names_def)
qed

lemma run_ddl_sound_drop:
  assumes c: "sound c" and run: "run_ddl s c = Inr c'"
    and s: "s \<in> {DropTable t, DropIndex n t, DropColumn t x, DropConstraint n t, DropFunctionIfExists n, DropExtensionIfExists n, DropTypeIfExists n}"
  shows "sound c'"
proof -
  note d = c [unfolded sound_lookup]
  consider "s = DropTable t" | "s = DropIndex n t" | "s = DropColumn t x" | "s = DropConstraint n t"
    | "s = DropFunctionIfExists n" | "s = DropExtensionIfExists n" | "s = DropTypeIfExists n" using s by blast
  then show ?thesis
  proof cases
    case 1
    from run 1 have h: "held c'" and c': "c' = c\<lparr>relations := AList.delete t (relations c),
        indexes := filter (\<lambda>(_, i). idx_table i \<noteq> t) (indexes c)\<rparr>" by simp_all
    have "index_fits c' i" if "idx_table i \<noteq> t" "index_fits c i" for i
      using that by (simp add: c' index_fits_def has_column_lookup)
    then show ?thesis
      by (intro sound_restricted [OF h]) (use d in \<open>auto simp: c' distinct_delete distinct_map_filter split: if_splits\<close>)
  next
    case 2
    then obtain i where i: "map_of (indexes c) n = Some i" and c': "c' = c\<lparr>indexes := AList.delete n (indexes c)\<rparr>"
      and h: "idx_unique i \<Longrightarrow> held c'" using run by (auto simp: Let_def split: option.splits if_splits)
    have l: "lookup u c' = lookup u c" for u by (simp add: c' lookup_def)
    have "held c'"
    proof (cases "idx_unique i")
      case False
      have "has_key c' u cs" if "has_key c u cs" for u cs
      proof -
        have keep: "e \<in> set (indexes c')" if "e \<in> set (indexes c)" "idx_unique (snd e)" for e
        proof -
          have "e \<noteq> (n, i)" using that False by auto
          moreover have "map_of (indexes c) (fst e) = Some (snd e)" using that d by (simp add: map_of_eq_Some_iff)
          ultimately have "fst e \<noteq> n" using i by (metis option.inject prod.collapse)
          then show ?thesis using that(1) by (simp add: c' AList.delete_eq case_prod_unfold)
        qed
        show ?thesis using that keep unfolding has_key_lookup l by blast
      qed
      then have "offers c c'" by (auto simp: offers_def has_column_lookup c' elim: type_known.elims)
      then show ?thesis using d relation_held_mono by (auto simp: held_lookup c')
    qed (rule h)
    moreover have "index_fits c' (snd e)" if "e \<in> set (indexes c')" for e
      using d that set_delete_subset [of n "indexes c"] unfolding l by (auto simp: c')
    ultimately show ?thesis using d by (intro sound_restricted) (simp_all add: c' distinct_delete)
  next
    case 3
    then obtain r where r: "lookup t c = Some r" and h: "held c'" and c': "c' = put_relation t
             (r\<lparr>rel_columns := filter (\<lambda>y. col_name y \<noteq> x) (rel_columns r),
                rel_rows := map (filter (\<lambda>v. fst v \<noteq> x)) (rel_rows r),
                rel_constraints := filter (\<lambda>k. x \<notin> set (columns_of (snd k))) (rel_constraints r)\<rparr>)
             (c\<lparr>indexes := filter (\<lambda>(_, i). \<not> (idx_table i = t \<and> x \<in> set (idx_columns i))) (indexes c)\<rparr>)"
      using run by (auto split: option.splits)
    have n: "map fst (relations c') = map fst (relations c)" using r by (simp add: c')
    have fits: "index_fits c' i" if "\<not> (idx_table i = t \<and> x \<in> set (idx_columns i))" "index_fits c i" for i
      using that r by (auto simp: c' index_fits_def has_column_lookup list_all_iff column_names_def) force
    show ?thesis
    proof (rule sound_restricted [OF h])
      show "index_fits c' (snd e)" if "e \<in> set (indexes c')" for e
        using that d by (intro fits) (auto simp: c')
    qed (use d r rows_fit_drop in \<open>simp_all add: n, auto simp: c' distinct_map_filter split: if_splits\<close>)
  next
    case 4
    then obtain r where r: "lookup t c = Some r" and h: "held c'"
      and c': "c' = put_relation t (r\<lparr>rel_constraints := AList.delete n (rel_constraints r)\<rparr>) c"
      using run by (auto split: option.splits)
    have n: "map fst (relations c') = map fst (relations c)" using r by (simp add: c')
    have "index_fits c' i" if "index_fits c i" for i
      using that r by (auto simp: c' index_fits_def has_column_lookup list_all_iff column_names_def)
    then show ?thesis
      by (intro sound_restricted [OF h]) (use d r in \<open>auto simp: n, auto simp: c' split: if_splits\<close>)
  next
    case 5
    with run have h: "held c'" and c': "c' = c\<lparr>trigger_functions := AList.delete n (trigger_functions c)\<rparr>" by simp_all
    show ?thesis by (rule sound_restricted [OF h]) (use d in \<open>simp_all add: c'\<close>)
  next
    case 6
    with run have h: "held c'" and c': "c' = c\<lparr>extensions := filter (\<lambda>y. y \<noteq> n) (extensions c)\<rparr>" by simp_all
    show ?thesis by (rule sound_restricted [OF h]) (use d in \<open>simp_all add: c'\<close>)
  next
    case 7
    with run have h: "held c'" and c': "c' = c\<lparr>enum_types := AList.delete n (enum_types c)\<rparr>" by simp_all
    show ?thesis by (rule sound_restricted [OF h]) (use d in \<open>simp_all add: c' distinct_delete\<close>)
  qed
qed


text \<open>Every statement keeps a catalogue sound; so does every revision.\<close>

lemma run_ddl_sound:
  assumes run: "run_ddl s c = Inr c'" and c: "sound c"
  shows "sound c'"
proof -
  note d = c [unfolded sound_lookup]
  have g: "sound (c\<lparr>schema_usage := b\<rparr>)" "sound (c\<lparr>default_table_grants := gs\<rparr>)" "sound (c\<lparr>default_sequence_usage := b\<rparr>)" for b gs
    by (rule sound_more [OF c]; use d in \<open>auto intro: offers_more\<close>)+
  show ?thesis
  proof (cases s)
    case (CreateTable t cols ks)
    with run c show ?thesis using run_ddl_sound_create by blast
  next
    case (CreateIndex n t cs u m ops)
    with run have i: "n \<notin> fst ` set (indexes c)"
      "index_fits c \<lparr>idx_table = t, idx_columns = cs, idx_unique = u, idx_using = m, idx_ops = ops\<rparr>"
      and c': "c' = c\<lparr>indexes := indexes c @ [(n, \<lparr>idx_table = t, idx_columns = cs, idx_unique = u, idx_using = m, idx_ops = ops\<rparr>)]\<rparr>"
      by (auto simp: in_alist_iff index_fits_def has_column_lookup list_all_iff split: option.splits)
    show ?thesis by (rule sound_more [OF c]) (use d i in \<open>auto simp: c' intro: offers_more\<close>)
  next
    case (AddColumn t x)
    with run obtain r where r: "lookup t c = Some r" "col_name x \<notin> set (column_names r)" "type_known c (col_type x)"
      and c': "c' = put_relation t (r\<lparr>rel_columns := rel_columns r @ [x],
                 rel_rows := map (\<lambda>row. row @ [(col_name x, fill x)]) (rel_rows r)\<rparr>) c" by auto
    show ?thesis unfolding c'
      by (rule sound_alter [OF c r(1)]) (use r in \<open>auto simp: relation_held_def column_names_def rows_fit_def list_all_iff\<close>)
  next
    case (AlterNullable t x b)
    let ?f = "map (\<lambda>y. if col_name y = x then y\<lparr>col_nullable := b\<rparr> else y)"
    from AlterNullable run obtain r where r: "lookup t c = Some r"
      and c': "c' = put_relation t (r\<lparr>rel_columns := ?f (rel_columns r)\<rparr>) c" by auto
    have n: "map col_name (?f xs) = map col_name xs" "map col_type (?f xs) = map col_type xs" for xs
      by (induction xs) auto
    have "list_all (type_known c \<circ> col_type) xs \<longleftrightarrow> list_all (type_known c) (map col_type xs)" for xs :: "column list"
      by (simp add: list.pred_map)
    then show ?thesis unfolding c'
      by (intro sound_alter [OF c r]) (simp_all add: relation_held_def column_names_def rows_fit_def n del: map_map list.map_comp set_map)
  next
    case (AddConstraint n t k)
    with run obtain r where r: "lookup t c = Some r" "constraint_known c k" "list_all (\<lambda>x. x \<in> set (column_names r)) (columns_of k)"
      and c': "c' = put_relation t (r\<lparr>rel_constraints := rel_constraints r @ [(n, k)]\<rparr>) c" by auto
    show ?thesis unfolding c'
      by (rule sound_alter [OF c r(1)]) (use r(2,3) in \<open>auto simp: relation_held_def column_names_def rows_fit_def\<close>)
  next
    case (CreatePolicy n t p)
    with run obtain r where r: "lookup t c = Some r" "policy_column p \<in> set (column_names r)" "list_all (has_column c) (policy_reads p)"
      and c': "c' = put_relation t (r\<lparr>rel_policies := rel_policies r @ [(n, p)]\<rparr>) c" by auto
    show ?thesis unfolding c'
      by (rule sound_alter [OF c r(1)]) (use r(2,3) in \<open>auto simp: relation_held_def column_names_def rows_fit_def\<close>)
  next
    case (CreateTrigger n t f)
    with run obtain r where r: "lookup t c = Some r" "f \<in> fst ` set (trigger_functions c)"
      and c': "c' = put_relation t (r\<lparr>rel_triggers := rel_triggers r @ [(n, f)]\<rparr>) c" by (auto simp: in_alist_iff)
    show ?thesis unfolding c'
      by (rule sound_alter [OF c r(1)]) (use r(2) in \<open>auto simp: relation_held_def column_names_def rows_fit_def\<close>)
  next
    case (CreateFunction n p)
    with run have c': "c' = c\<lparr>trigger_functions := trigger_functions c @ [(n, p)]\<rparr>" by simp
    show ?thesis by (rule sound_more [OF c]) (use d in \<open>auto simp: c' intro: offers_more\<close>)
  next
    case (CreateExtensionIfNotExists e)
    with run have "c' = c \<or> c' = c\<lparr>extensions := extensions c @ [e]\<rparr>" by auto
    moreover have "sound (c\<lparr>extensions := extensions c @ [e]\<rparr>)"
      by (rule sound_more [OF c]) (use d in \<open>auto intro: offers_more\<close>)
    ultimately show ?thesis using c by blast
  next
    case (EnableRls t)
    with run show ?thesis by (auto intro: sound_alter_frame [OF c])
  next
    case (DisableRls t)
    with run show ?thesis by (auto intro: sound_alter_frame [OF c])
  next
    case (ForceRls t)
    with run show ?thesis by (auto intro: sound_alter_frame [OF c])
  next
    case (NoForceRls t)
    with run show ?thesis by (auto intro: sound_alter_frame [OF c])
  next
    case (GrantOn ps t)
    with run show ?thesis by (auto intro: sound_alter_frame [OF c])
  next
    case (RevokeOn ps t)
    with run show ?thesis by (auto intro: sound_alter_frame [OF c])
  next
    case (GrantUpdateOf cs t)
    with run show ?thesis by (auto intro: sound_alter_frame [OF c])
  next
    case (RevokeUpdateOf cs t)
    with run show ?thesis by (auto intro: sound_alter_frame [OF c])
  next
    case (DropPolicyIfExists n t)
    with run c show ?thesis by (auto intro!: sound_alter_frame [OF c] dest: set_delete_subset [THEN subsetD] split: option.splits)
  next
    case (DropTriggerIfExists n t)
    with run c show ?thesis by (auto intro!: sound_alter_frame [OF c] dest: set_delete_subset [THEN subsetD] split: option.splits)
  next
    case GrantSchemaUsage
    with run show ?thesis by (auto intro: g)
  next
    case RevokeSchemaUsage
    with run show ?thesis by (auto intro: g)
  next
    case (DefaultGrantOnTables ps)
    with run show ?thesis by (auto intro: g)
  next
    case (DefaultRevokeOnTables ps)
    with run show ?thesis by (auto intro: g)
  next
    case DefaultGrantOnSequences
    with run show ?thesis by (auto intro: g)
  next
    case DefaultRevokeOnSequences
    with run show ?thesis by (auto intro: g)
  next
    case (DropTable t)
    then show ?thesis by (intro run_ddl_sound_drop [OF c run]) simp
  next
    case (DropIndex n t)
    then show ?thesis by (intro run_ddl_sound_drop [OF c run]) simp
  next
    case (DropColumn t x)
    then show ?thesis by (intro run_ddl_sound_drop [OF c run]) simp
  next
    case (DropConstraint n t)
    then show ?thesis by (intro run_ddl_sound_drop [OF c run]) simp
  next
    case (DropFunctionIfExists n)
    then show ?thesis by (intro run_ddl_sound_drop [OF c run]) simp
  next
    case (DropExtensionIfExists n)
    then show ?thesis by (intro run_ddl_sound_drop [OF c run]) simp
  next
    case (DropTypeIfExists n)
    then show ?thesis by (intro run_ddl_sound_drop [OF c run]) simp
  qed
qed

lemma run_statements_sound: "run_statements ss c = Inr c' \<Longrightarrow> sound c \<Longrightarrow> sound c'"
  by (induction ss c rule: run_statements.induct) (auto split: sum.splits dest: run_ddl_sound)

end
