(* ===== verification/SchemaHistory.thy ===== *)
theory SchemaHistory
  imports CatalogLaws "HOL-Library.Sublist"
begin

section \<open>What the revisions do to a database\<close>

subsection \<open>No upgrade loses a row\<close>

fun keeps_rows :: "ddl \<Rightarrow> bool" where
  "keeps_rows (DropTable t) = False"
| "keeps_rows (DropColumn t x) = False"
| "keeps_rows s = True"

definition rows_extended :: "catalog \<Rightarrow> catalog \<Rightarrow> bool" where
  "rows_extended c c' \<longleftrightarrow>
     (\<forall>t r. lookup t c = Some r \<longrightarrow> (\<exists>r'. lookup t c' = Some r' \<and> list_all2 prefix (rel_rows r) (rel_rows r')))"

lemma prefix_rows_refl [simp]: "list_all2 prefix rows rows"
  by (simp add: list.rel_refl)

lemma prefix_rows_trans: "list_all2 prefix xs ys \<Longrightarrow> list_all2 prefix ys zs \<Longrightarrow> list_all2 prefix xs zs"
  by (rule list_all2_trans [of prefix prefix prefix]) (blast intro: prefix_order.trans)

lemma rows_extended_refl [simp]: "rows_extended c c"
  by (simp add: rows_extended_def)

lemma rows_extended_trans: "rows_extended c c1 \<Longrightarrow> rows_extended c1 c2 \<Longrightarrow> rows_extended c c2"
  unfolding rows_extended_def by (meson prefix_rows_trans)

lemma rows_extended_lookup: "(\<And>t r. lookup t c = Some r \<Longrightarrow> lookup t c' = Some r) \<Longrightarrow> rows_extended c c'"
  by (auto simp: rows_extended_def)

lemma rows_extended_put:
  "lookup t c = Some r \<Longrightarrow> list_all2 prefix (rel_rows r) (rel_rows r') \<Longrightarrow> rows_extended c (put_relation t r' c)"
  by (auto simp: rows_extended_def)

lemma lookup_create:
  "lookup t (c\<lparr>enum_types := es, relations := relations c @ [(u, r)]\<rparr>)
     = (case lookup t c of None \<Rightarrow> if t = u then Some r else None | Some q \<Rightarrow> Some q)"
  by (simp add: lookup_def map_add_def split: option.split)

lemma run_ddl_keeps_rows:
  assumes "run_ddl s c = Inr c'" and "keeps_rows s"
  shows "rows_extended c c'"
proof (cases s)
  case (CreateTable t cols ks)
  with assms(1) show ?thesis by (auto simp: Let_def lookup_create intro!: rows_extended_lookup)
next
  case (AddColumn t x)
  with assms(1) show ?thesis
    by (auto intro!: rows_extended_put simp: list_all2_map2 list.rel_refl)
next
  case (AlterNullable t x b)
  with assms(1) show ?thesis by (auto intro: rows_extended_put)
next
  case (AddConstraint n t k)
  with assms(1) show ?thesis by (auto intro: rows_extended_put)
next
  case (EnableRls t)
  with assms(1) show ?thesis by (auto intro: rows_extended_put)
next
  case (DisableRls t)
  with assms(1) show ?thesis by (auto intro: rows_extended_put)
next
  case (ForceRls t)
  with assms(1) show ?thesis by (auto intro: rows_extended_put)
next
  case (NoForceRls t)
  with assms(1) show ?thesis by (auto intro: rows_extended_put)
next
  case (CreatePolicy n t p)
  with assms(1) show ?thesis by (auto intro: rows_extended_put)
next
  case (GrantOn ps t)
  with assms(1) show ?thesis by (auto intro: rows_extended_put)
next
  case (RevokeOn ps t)
  with assms(1) show ?thesis by (auto intro: rows_extended_put)
next
  case (GrantUpdateOf xs t)
  with assms(1) show ?thesis by (auto intro: rows_extended_put)
next
  case (RevokeUpdateOf xs t)
  with assms(1) show ?thesis by (auto intro: rows_extended_put)
next
  case (CreateTrigger n t f)
  with assms(1) show ?thesis by (auto intro: rows_extended_put)
next
  case (DropConstraint n t)
  with assms(1) show ?thesis by (auto intro: rows_extended_put split: option.splits)
next
  case (DropPolicyIfExists n t)
  with assms(1) show ?thesis by (auto intro: rows_extended_put split: option.splits)
next
  case (DropTriggerIfExists n t)
  with assms(1) show ?thesis by (auto intro: rows_extended_put split: option.splits)
qed (use assms in \<open>auto simp: Let_def intro: rows_extended_lookup split: option.splits if_splits\<close>)

lemma run_statements_keeps_rows:
  "run_statements ss c = Inr c' \<Longrightarrow> list_all keeps_rows ss \<Longrightarrow> rows_extended c c'"
  by (induction ss c rule: run_statements.induct)
    (auto split: sum.splits dest: run_ddl_keeps_rows intro: rows_extended_trans)

lemmas upgrade_defs = upgrade_xxxx_def upgrade_3b5ed08bc4d3_def upgrade_30277d26774a_def upgrade_aace95a1c412_def
  upgrade_60a151dd80b0_def upgrade_9e796d5efdb7_def upgrade_c9aaf2c46b16_def upgrade_7175bc85ffb0_def
  upgrade_2f9ca0724bb9_def upgrade_418dc290d913_def upgrade_b26e963e0645_def upgrade_dd80cdfaeb9a_def
  upgrade_fb49da6a9bc0_def upgrade_7b4b05b6d9c8_def upgrade_a1b2c3d4e5f6_def upgrade_588db2facf84_def
  upgrade_920070316626_def upgrade_6c8bc5907f94_def upgrade_e960a3366cf7_def upgrade_222c301f378f_def
  upgrade_d6d2fe8f27ae_def upgrade_77be2ddc60a0_def

lemmas downgrade_defs = downgrade_xxxx_def downgrade_3b5ed08bc4d3_def downgrade_30277d26774a_def downgrade_aace95a1c412_def
  downgrade_60a151dd80b0_def downgrade_9e796d5efdb7_def downgrade_c9aaf2c46b16_def downgrade_7175bc85ffb0_def
  downgrade_2f9ca0724bb9_def downgrade_418dc290d913_def downgrade_b26e963e0645_def downgrade_dd80cdfaeb9a_def
  downgrade_fb49da6a9bc0_def downgrade_7b4b05b6d9c8_def downgrade_a1b2c3d4e5f6_def downgrade_588db2facf84_def
  downgrade_920070316626_def downgrade_6c8bc5907f94_def downgrade_e960a3366cf7_def downgrade_222c301f378f_def
  downgrade_d6d2fe8f27ae_def downgrade_77be2ddc60a0_def

text \<open>
  C16: no upgrade loses data. Whatever a database holds, when a revision's upgrade succeeds on it,
  every table is still there with the same rows in the same order, each of them as it was except
  for columns added at its end.
\<close>

theorem upgrade_keeps_rows:
  assumes "rv \<in> set history" and "run_statements (rev_upgrade rv) c = Inr c'" and "lookup t c = Some r"
  shows "\<exists>r'. lookup t c' = Some r' \<and> list_all2 prefix (rel_rows r) (rel_rows r')"
proof -
  have "list_all (\<lambda>rv. list_all keeps_rows (rev_upgrade rv)) history"
    by (simp add: history_def upgrade_defs plain_index_def)
  with assms show ?thesis
    using run_statements_keeps_rows by (fastforce simp: list_all_iff rows_extended_def)
qed

subsection \<open>No table is left open\<close>

text \<open>
  The tables a revision has created or touched and not yet closed: those without row-level
  security, and those without a policy.
\<close>

fun open_tables :: "ddl \<Rightarrow> string list \<times> string list \<Rightarrow> string list \<times> string list" where
  "open_tables (CreateTable t cols ks) (a, b) = (t # a, t # b)"
| "open_tables (DropTable t) (a, b) = (removeAll t a, removeAll t b)"
| "open_tables (EnableRls t) (a, b) = (removeAll t a, b)"
| "open_tables (DisableRls t) (a, b) = (t # a, b)"
| "open_tables (CreatePolicy n t p) (a, b) = (a, removeAll t b)"
| "open_tables (DropPolicyIfExists n t) (a, b) = (a, t # b)"
| "open_tables s (a, b) = (a, b)"

definition closed_but :: "string list \<times> string list \<Rightarrow> catalog \<Rightarrow> bool" where
  "closed_but = (\<lambda>(a, b) c. \<forall>t r. lookup t c = Some r \<longrightarrow> (t \<in> set a \<or> rel_rls r) \<and> (t \<in> set b \<or> rel_policies r \<noteq> []))"

lemma closed_butD:
  assumes "closed_but (a, b) c" and "lookup t c = Some r"
  shows "\<not> rel_rls r \<Longrightarrow> t \<in> set a" and "rel_policies r = [] \<Longrightarrow> t \<in> set b"
  using assms by (auto simp: closed_but_def)

lemma closed_but_same:
  assumes "closed_but (a, b) c" and "lookup t c = Some r" and "rel_rls r' = rel_rls r" and "rel_policies r' = rel_policies r"
  shows "closed_but (a, b) (put_relation t r' c)"
  using assms by (simp add: closed_but_def)

lemma closed_but_lookup: "closed_but ab c \<Longrightarrow> (\<And>t. lookup t c' = lookup t c) \<Longrightarrow> closed_but ab c'"
  by (cases ab) (simp add: closed_but_def)

lemmas closed_but_indexes = closed_but_lookup [OF _ lookup_frame(1)]

lemma run_ddl_closed:
  assumes run: "run_ddl s c = Inr c'" and cl: "closed_but (a, b) c"
  shows "closed_but (open_tables s (a, b)) c'"
proof (cases s)
  case (CreateTable t cols ks)
  with run show ?thesis
    by (auto simp: closed_but_def Let_def lookup_create split: option.splits if_splits) (use closed_butD [OF cl] in blast)+
next
  case (AddColumn t x)
  with run cl show ?thesis by (auto intro: closed_but_same [OF cl])
next
  case (AlterNullable t x v)
  with run cl show ?thesis by (auto intro: closed_but_same [OF cl])
next
  case (AddConstraint n t k)
  with run cl show ?thesis by (auto intro: closed_but_same [OF cl])
next
  case (ForceRls t)
  with run cl show ?thesis by (auto intro: closed_but_same [OF cl])
next
  case (NoForceRls t)
  with run cl show ?thesis by (auto intro: closed_but_same [OF cl])
next
  case (GrantOn ps t)
  with run cl show ?thesis by (auto intro: closed_but_same [OF cl])
next
  case (RevokeOn ps t)
  with run cl show ?thesis by (auto intro: closed_but_same [OF cl])
next
  case (GrantUpdateOf xs t)
  with run cl show ?thesis by (auto intro: closed_but_same [OF cl])
next
  case (RevokeUpdateOf xs t)
  with run cl show ?thesis by (auto intro: closed_but_same [OF cl])
next
  case (CreateTrigger n t f)
  with run cl show ?thesis by (auto intro: closed_but_same [OF cl])
next
  case (DropConstraint n t)
  with run cl show ?thesis by (auto intro: closed_but_same [OF cl] split: option.splits)
next
  case (DropTriggerIfExists n t)
  with run cl show ?thesis by (auto intro: closed_but_same [OF cl] split: option.splits)
next
  case (DropColumn t x)
  with run show ?thesis by (auto intro: closed_but_same [OF cl] closed_but_same [OF closed_but_indexes [OF cl]] split: option.splits)
next
  case (EnableRls t)
  with run show ?thesis by (auto simp: closed_but_def split: if_splits) (use closed_butD [OF cl] in blast)+
next
  case (DisableRls t)
  with run show ?thesis by (auto simp: closed_but_def split: if_splits) (use closed_butD [OF cl] in blast)+
next
  case (CreatePolicy n t p)
  with run show ?thesis by (auto simp: closed_but_def split: if_splits) (use closed_butD [OF cl] in blast)+
next
  case (DropPolicyIfExists n t)
  with run show ?thesis by (auto simp: closed_but_def split: option.splits if_splits) (use closed_butD [OF cl] in blast)+
next
  case (DropTable t)
  with run show ?thesis by (auto simp: closed_but_def split: if_splits) (use closed_butD [OF cl] in blast)+
qed (use run cl in \<open>auto simp: Let_def intro: closed_but_lookup [OF cl] split: option.splits if_splits\<close>)

lemma run_statements_closed:
  "run_statements ss c = Inr c' \<Longrightarrow> closed_but ab c \<Longrightarrow> closed_but (fold open_tables ss ab) c'"
proof (induction ss c arbitrary: ab rule: run_statements.induct)
  case (2 s ss c)
  obtain a b a' b' where ab: "ab = (a, b)" "open_tables s (a, b) = (a', b')" by (meson surj_pair)
  from 2(2) obtain c1 where c1: "run_ddl s c = Inr c1" "run_statements ss c1 = Inr c'" by (auto split: sum.splits)
  from run_ddl_closed [OF c1(1) 2(3) [unfolded ab(1)]] have "closed_but (open_tables s ab) c1" by (simp add: ab)
  from 2(1) [OF c1 this] show ?case by simp
qed simp

definition all_closed :: "catalog \<Rightarrow> bool" where
  "all_closed c \<longleftrightarrow> list_all (\<lambda>(t, r). rel_rls r \<and> rel_policies r \<noteq> []) (relations c)"

lemma all_closed_iff: "sound c \<Longrightarrow> all_closed c \<longleftrightarrow> closed_but ([], []) c"
  by (auto simp: all_closed_def closed_but_def lookup_def sound_def list_all_iff map_of_eq_Some_iff)

text \<open>
  C10: no table is left open. From \<open>60a151dd80b0\<close> on, on any sound database where every table has
  row-level security enabled and a policy, the same holds after every upgrade and every downgrade
  of every revision. (The two tables created before \<open>aace95a1c412\<close> are closed by it.)
\<close>

theorem revisions_leave_no_table_open:
  assumes "rv \<in> set (drop 4 history)" and "ss \<in> {rev_upgrade rv, rev_downgrade rv}"
    and "sound c" and "all_closed c" and "run_statements ss c = Inr c'"
  shows "sound c' \<and> all_closed c'"
proof -
  have "list_all (\<lambda>rv. fold open_tables (rev_upgrade rv) ([], []) = ([], []) \<and> fold open_tables (rev_downgrade rv) ([], []) = ([], []))
    (drop 4 history)"
    by (simp add: history_def upgrade_defs downgrade_defs plain_index_def)
  with assms(1,2) have "fold open_tables ss ([], []) = ([], [])" by (auto simp: list_all_iff)
  with run_statements_closed [OF assms(5)] run_statements_sound [OF assms(5,3)] assms(3,4)
  show ?thesis by (metis all_closed_iff)
qed

end
