(* ===== verification/SchemaUndo.thy ===== *)
theory SchemaUndo
  imports SchemaHistory
begin

section \<open>Every downgrade undoes its upgrade\<close>

subsection \<open>Statements about one table\<close>

text \<open>A catalogue without one table and its indexes.\<close>

definition erase :: "string \<Rightarrow> catalog \<Rightarrow> catalog" where
  "erase t c = c\<lparr>relations := AList.delete t (relations c), indexes := filter (\<lambda>(_, i). idx_table i \<noteq> t) (indexes c)\<rparr>"

definition unreferenced :: "string \<Rightarrow> catalog \<Rightarrow> bool" where
  "unreferenced t c \<longleftrightarrow> (\<forall>u r n cs rcs. lookup u c = Some r \<longrightarrow> (n, ForeignKey cs t rcs) \<notin> set (rel_constraints r))"

fun grows_table :: "string \<Rightarrow> ddl \<Rightarrow> bool" where
  "grows_table t (CreateIndex n u cs q m ops) = (u = t)"
| "grows_table t (EnableRls u) = (u = t)"
| "grows_table t (ForceRls u) = (u = t)"
| "grows_table t (CreatePolicy n u p) = (u = t)"
| "grows_table t (RevokeOn ps u) = (u = t)"
| "grows_table t (GrantUpdateOf xs u) = (u = t)"
| "grows_table t s = False"

fun index_made :: "ddl \<Rightarrow> string list" where
  "index_made (CreateIndex n u cs q m ops) = [n]"
| "index_made s = []"

fun shrinks_table :: "string \<Rightarrow> ddl \<Rightarrow> bool" where
  "shrinks_table t (DropIndex n u) = (u = t)"
| "shrinks_table t (DisableRls u) = (u = t)"
| "shrinks_table t (NoForceRls u) = (u = t)"
| "shrinks_table t (DropPolicyIfExists n u) = (u = t)"
| "shrinks_table t (RevokeUpdateOf xs u) = (u = t)"
| "shrinks_table t (GrantOn ps u) = (u = t)"
| "shrinks_table t s = False"

fun index_dropped :: "ddl \<Rightarrow> string list" where
  "index_dropped (DropIndex n u) = [n]"
| "index_dropped s = []"

text \<open>The state of a table under construction: nobody refers to it, and these indexes are its own.\<close>

definition building :: "string \<Rightarrow> string set \<Rightarrow> catalog \<Rightarrow> catalog \<Rightarrow> bool" where
  "building t ns c0 c \<longleftrightarrow> sound c \<and> erase t c = c0 \<and> lookup t c \<noteq> None \<and> unreferenced t c
     \<and> (\<forall>n \<in> ns. \<exists>i. map_of (indexes c) n = Some i \<and> idx_table i = t)"

lemma erase_put [simp]: "erase t (put_relation t r c) = erase t c"
proof -
  have "AList.delete t (AList.update t r xs) = AList.delete t xs" for xs :: "(string \<times> relation) list"
    by (induction xs) auto
  then show ?thesis by (simp add: erase_def put_relation_def)
qed

lemma unreferenced_put:
  "unreferenced t c \<Longrightarrow> lookup u c = Some r \<Longrightarrow> rel_constraints r' = rel_constraints r \<Longrightarrow> unreferenced t (put_relation u r' c)"
  by (auto simp: unreferenced_def)

lemma building_put:
  assumes "building t ns c0 c" and "lookup t c = Some r" and "rel_constraints r' = rel_constraints r" and "sound (put_relation t r' c)"
  shows "building t ns c0 (put_relation t r' c)"
  using assms unreferenced_put by (auto simp: building_def)

lemma building_grow:
  assumes run: "run_ddl s c = Inr c'" and b: "building t ns c0 c" and s: "grows_table t s"
  shows "building t (ns \<union> set (index_made s)) c0 c'"
proof -
  have ok: "sound c'" using run_ddl_sound [OF run] b by (simp add: building_def)
  show ?thesis
  proof (cases s)
    case (CreateIndex n u cs q m ops)
    with run s have c': "c' = c\<lparr>indexes := indexes c @ [(n, \<lparr>idx_table = t, idx_columns = cs, idx_unique = q, idx_using = m, idx_ops = ops\<rparr>)]\<rparr>"
      and n: "map_of (indexes c) n = None" by (auto simp: in_alist_def split: option.splits)
    with b ok CreateIndex show ?thesis
      by (auto simp: building_def erase_def unreferenced_def map_add_def split: option.split)
  qed (use run s b ok in \<open>auto intro: building_put\<close>)
qed

lemma building_grows:
  assumes "run_statements ss c = Inr c'" and "building t ns c0 c" and "list_all (grows_table t) ss"
  shows "building t (ns \<union> set (concat (map index_made ss))) c0 c'"
  using assms
proof (induction ss c arbitrary: ns rule: run_statements.induct)
  case (2 s ss c)
  from 2(2) obtain c1 where c1: "run_ddl s c = Inr c1" "run_statements ss c1 = Inr c'" by (auto split: sum.splits)
  have s: "grows_table t s" "list_all (grows_table t) ss" using 2(4) by simp_all
  from 2(1) [OF c1(1) c1(2) building_grow [OF c1(1) 2(3) s(1)] s(2)] show ?case by (simp add: Un_assoc)
qed simp

lemma index_other:
  assumes "sound c" and "map_of (indexes c) n = Some i" and "e \<in> set (indexes c)" and "idx_table (snd e) \<noteq> idx_table i"
  shows "fst e \<noteq> n"
proof
  assume "fst e = n"
  moreover have "map_of (indexes c) (fst e) = Some (snd e)" using assms(1,3) by (simp add: sound_lookup map_of_eq_Some_iff)
  ultimately show False using assms(2,4) by simp
qed

lemma has_key_delete_index:
  assumes "sound c" and "map_of (indexes c) n = Some i" and "idx_table i \<noteq> u"
  shows "has_key (c\<lparr>indexes := AList.delete n (indexes c)\<rparr>) u cs = has_key c u cs"
proof -
  have "e \<in> set (AList.delete n (indexes c)) \<longleftrightarrow> e \<in> set (indexes c)" if "idx_table (snd e) = u" for e
    using index_other [OF assms(1,2), of e] assms(3) that by (simp add: AList.delete_eq case_prod_unfold) metis
  then have "(\<exists>e \<in> set (AList.delete n (indexes c)). idx_table (snd e) = u \<and> Q e) = (\<exists>e \<in> set (indexes c). idx_table (snd e) = u \<and> Q e)" for Q
    by blast
  then show ?thesis by (simp add: has_key_lookup)
qed

lemma drop_index_held:
  assumes c: "sound c" and n: "map_of (indexes c) n = Some i" and t: "unreferenced (idx_table i) c"
  shows "held (c\<lparr>indexes := AList.delete n (indexes c)\<rparr>)" (is "held ?c")
proof -
  have "relation_held ?c r" if r: "lookup u c = Some r" for u r
  proof -
    have "constraint_known ?c k" if "(m, k) \<in> set (rel_constraints r)" "constraint_known c k" for m k
    proof (cases k)
      case (ForeignKey cs v rcs)
      with that t r have "idx_table i \<noteq> v" by (auto simp: unreferenced_def)
      with that has_key_delete_index [OF c n] ForeignKey show ?thesis by simp
    qed (use that in simp_all)
    moreover have "type_known ?c ty = type_known c ty" for ty by (cases ty) auto
    moreover have "has_column ?c p = has_column c p" for p by (cases p) (simp add: has_column_lookup)
    moreover have "relation_held c r" using c r by (simp add: sound_lookup)
    ultimately show ?thesis by (fastforce simp: relation_held_def list_all_iff)
  qed
  then show ?thesis using c by (simp add: held_lookup sound_lookup)
qed

lemma building_shrink:
  assumes b: "building t ns c0 c" and s: "shrinks_table t s" and n: "set (index_dropped s) \<subseteq> ns"
  shows "\<exists>c'. run_ddl s c = Inr c' \<and> building t (ns - set (index_dropped s)) c0 c'"
proof -
  obtain r where r: "lookup t c = Some r" using b by (auto simp: building_def)
  note put = building_put [OF b r]
  have "\<exists>c'. run_ddl s c = Inr c' \<and> (sound c' \<longrightarrow> building t (ns - set (index_dropped s)) c0 c')"
  proof (cases s)
    case (DropIndex n u)
    with s n b obtain i where i: "map_of (indexes c) n = Some i" "idx_table i = t" by (auto simp: building_def)
    let ?c = "c\<lparr>indexes := AList.delete n (indexes c)\<rparr>"
    have "held ?c" using b i by (intro drop_index_held) (auto simp: building_def)
    then have "run_ddl s c = Inr ?c" using i DropIndex by (simp add: restrict_def Let_def)
    moreover have "erase t ?c = erase t c"
    proof -
      have "e \<in> set (indexes c) \<Longrightarrow> idx_table (snd e) \<noteq> t \<Longrightarrow> fst e \<noteq> n" for e
        using b i index_other [of c n i e] by (auto simp: building_def)
      then have "filter (\<lambda>e. n \<noteq> fst e \<and> idx_table (snd e) \<noteq> t) (indexes c) = filter (\<lambda>e. idx_table (snd e) \<noteq> t) (indexes c)"
        by (intro filter_cong) auto
      then show ?thesis by (simp add: erase_def AList.delete_eq case_prod_unfold conj_commute)
    qed
    moreover have "map_of (AList.delete n (indexes c)) m = map_of (indexes c) m" if "m \<noteq> n" for m
      using that by (simp add: delete_conv')
    ultimately show ?thesis using b DropIndex by (auto simp: building_def unreferenced_def)
  next
    case (DropPolicyIfExists n u)
    with put r s show ?thesis by simp
  qed (use s r put in \<open>simp_all add: alter_def\<close>)
  then show ?thesis using b run_ddl_sound by (auto simp: building_def)
qed

lemma building_shrinks:
  assumes "building t ns c0 c" and "list_all (shrinks_table t) ss" and "set (concat (map index_dropped ss)) \<subseteq> ns"
    and "distinct (concat (map index_dropped ss))"
  shows "\<exists>c'. run_statements ss c = Inr c' \<and> building t (ns - set (concat (map index_dropped ss))) c0 c'"
  using assms
proof (induction ss arbitrary: c ns)
  case (Cons s ss)
  then have "shrinks_table t s" "set (index_dropped s) \<subseteq> ns" by simp_all
  from building_shrink [OF Cons.prems(1) this] obtain c1
    where c1: "run_ddl s c = Inr c1" "building t (ns - set (index_dropped s)) c0 c1" by blast
  have "set (concat (map index_dropped ss)) \<subseteq> ns - set (index_dropped s)" using Cons.prems(3,4) by auto
  from Cons.IH [OF c1(2) _ this] Cons.prems(2,4) c1(1) show ?case by (auto simp: Diff_eq Int_assoc)
qed simp

lemma run_statements_append:
  "run_statements (xs @ ys) c = (case run_statements xs c of Inl e \<Rightarrow> Inl e | Inr c1 \<Rightarrow> run_statements ys c1)"
  by (induction xs c rule: run_statements.induct) (simp_all split: sum.split)

lemma offers_enums: "offers c (c\<lparr>enum_types := enum_types c @ es\<rparr>)"
  by (rule offers_more) (auto simp: map_add_def split: option.split)

lemma held_enums: "sound c \<Longrightarrow> held (c\<lparr>enum_types := enum_types c @ es\<rparr>)"
  using relation_held_mono [OF offers_enums] by (auto simp: held_lookup sound_lookup)

lemma unreferenced_absent: "sound c \<Longrightarrow> lookup t c = None \<Longrightarrow> unreferenced t c"
proof -
  assume c: "sound c" and t: "lookup t c = None"
  have "(n, ForeignKey cs t rcs) \<notin> set (rel_constraints r)" if "lookup u c = Some r" for u r n cs rcs
  proof
    assume "(n, ForeignKey cs t rcs) \<in> set (rel_constraints r)"
    moreover have "list_all (constraint_known c \<circ> snd) (rel_constraints r)" using c that by (simp add: sound_lookup relation_held_def)
    ultimately have "constraint_known c (ForeignKey cs t rcs)" by (fastforce simp: list_all_iff)
    with t show False by (simp add: has_key_lookup)
  qed
  then show "unreferenced t c" by (simp add: unreferenced_def)
qed

lemma building_start:
  assumes c: "sound c" and run: "run_ddl (CreateTable t cols ks) c = Inr c1"
  shows "building t {} (c\<lparr>enum_types := enum_types c @ concat (map enum_of cols)\<rparr>) c1"
proof -
  let ?c = "c\<lparr>enum_types := enum_types c @ concat (map enum_of cols)\<rparr>"
  from run have t: "lookup t c = None" and known: "list_all (constraint_known ?c \<circ> snd) ks"
    and c1: "c1 = ?c\<lparr>relations := relations c @ [(t, new_relation c t cols ks)]\<rparr>"
    by (auto simp: Let_def in_alist_def lookup_def)
  have "sound c1" using run_ddl_sound [OF run c] .
  moreover have "erase t c1 = ?c"
  proof -
    have "filter (\<lambda>(_, i). idx_table i \<noteq> t) (indexes c) = indexes c"
      using c t by (auto simp: sound_lookup index_fits_def filter_id_conv)
    moreover have "AList.delete t (relations c) = relations c" using t by (simp add: lookup_def map_of_eq_None_iff)
    ultimately show ?thesis by (simp add: erase_def c1 AList.delete_eq)
  qed
  moreover have "lookup t c1 \<noteq> None" using t by (simp add: c1 lookup_create)
  moreover have "unreferenced t c1"
  proof -
    have "\<not> has_key ?c t rcs" for rcs using t by (simp add: has_key_lookup)
    with known have "(n, ForeignKey cs t rcs) \<notin> set (map (named t) ks)" for n cs rcs
      by (auto simp: list_all_iff named_def split: option.splits)
    with unreferenced_absent [OF c t] show ?thesis
      by (auto simp: unreferenced_def c1 lookup_create split: option.splits if_splits)
  qed
  ultimately show ?thesis by (simp add: building_def)
qed

lemma creation_undone:
  assumes c: "sound c" and run: "run_statements (CreateTable t cols ks # ss) c = Inr c'"
    and up: "list_all (grows_table t) ss" and down: "list_all (shrinks_table t) dd"
    and ixs: "distinct (concat (map index_dropped dd))" "set (concat (map index_dropped dd)) \<subseteq> set (concat (map index_made ss))"
  shows "run_statements (dd @ [DropTable t]) c' = Inr (c\<lparr>enum_types := enum_types c @ concat (map enum_of cols)\<rparr>)"
proof -
  let ?c = "c\<lparr>enum_types := enum_types c @ concat (map enum_of cols)\<rparr>"
  from run obtain c1 where c1: "run_ddl (CreateTable t cols ks) c = Inr c1" "run_statements ss c1 = Inr c'"
    by (auto simp del: run_ddl.simps split: sum.splits)
  have "building t (set (concat (map index_made ss))) ?c c'"
    using building_grows [OF c1(2) building_start [OF c c1(1)] up] by simp
  from building_shrinks [OF this down ixs(2,1)] obtain c2 ns where c2: "run_statements dd c' = Inr c2" "building t ns ?c c2" by blast
  then have "erase t c2 = ?c" "lookup t c2 \<noteq> None" by (simp_all add: building_def)
  with held_enums [OF c] have "run_ddl (DropTable t) c2 = Inr ?c"
    by (simp add: restrict_def erase_def [symmetric] unless_def in_alist_def lookup_def)
  with c2(1) show ?thesis by (simp add: run_statements_append del: run_ddl.simps)
qed

subsection \<open>Statements undone one by one\<close>

lemma put_put [simp]: "put_relation t r (put_relation t r' c) = put_relation t r c"
proof -
  have "AList.update t r (AList.update t r' xs) = AList.update t r xs" for xs :: "(string \<times> relation) list"
    by (induction xs) auto
  then show ?thesis by (simp add: put_relation_def)
qed

lemma put_same [simp]: "lookup t c = Some r \<Longrightarrow> put_relation t r c = c"
proof -
  have "map_of xs t = Some r \<Longrightarrow> AList.update t r xs = xs" for xs :: "(string \<times> relation) list"
    by (induction xs) (auto split: if_splits)
  then show "lookup t c = Some r \<Longrightarrow> put_relation t r c = c" by (simp add: put_relation_def lookup_def)
qed

lemma put_indexes_same [simp]: "(put_relation t r c)\<lparr>indexes := indexes c\<rparr> = put_relation t r c"
  by (simp add: put_relation_def)

fun inverse_of :: "ddl \<Rightarrow> ddl" where
  "inverse_of (CreateTable t cols ks) = DropTable t"
| "inverse_of (CreateIndex n t cs u m ops) = DropIndex n t"
| "inverse_of (AddColumn t x) = DropColumn t (col_name x)"
| "inverse_of (AlterNullable t x b) = AlterNullable t x (\<not> b)"
| "inverse_of (AddConstraint n t k) = DropConstraint n t"
| "inverse_of (EnableRls t) = DisableRls t"
| "inverse_of (CreatePolicy n t p) = DropPolicyIfExists n t"
| "inverse_of (CreateFunction n p) = DropFunctionIfExists n"
| "inverse_of (CreateTrigger n t f) = DropTriggerIfExists n t"
| "inverse_of (CreateExtensionIfNotExists e) = DropExtensionIfExists e"
| "inverse_of s = s"

text \<open>The state in which the inverse restores exactly what was there.\<close>

fun invertible :: "ddl \<Rightarrow> catalog \<Rightarrow> bool" where
  "invertible (CreateTable t cols ks) c = (concat (map enum_of cols) = [])"
| "invertible (CreateIndex n t cs u m ops) c = True"
| "invertible (AddColumn t x) c = True"
| "invertible (AlterNullable t x b) c =
     (case lookup t c of None \<Rightarrow> False
      | Some r \<Rightarrow> b \<and> list_all (\<lambda>y. col_name y = x \<longrightarrow> \<not> col_nullable y) (rel_columns r)
          \<and> list_all (\<lambda>row. cell row x \<noteq> Null) (rel_rows r))"
| "invertible (AddConstraint n t k) c = True"
| "invertible (EnableRls t) c = (case lookup t c of None \<Rightarrow> False | Some r \<Rightarrow> \<not> rel_rls r)"
| "invertible (CreatePolicy n t p) c = True"
| "invertible (CreateFunction n p) c = True"
| "invertible (CreateTrigger n t f) c = True"
| "invertible (CreateExtensionIfNotExists e) c = (e \<notin> set (extensions c))"
| "invertible s c = False"

lemma delete_added: "map_of xs k = None \<Longrightarrow> AList.delete k (xs @ [(k, v)]) = xs"
  by (force simp: AList.delete_eq map_of_eq_None_iff filter_id_conv)

lemma add_column_undone:
  assumes c: "sound c" and run: "run_ddl (AddColumn t x) c = Inr c'"
  shows "run_ddl (DropColumn t (col_name x)) c' = Inr c"
proof -
  let ?n = "col_name x"
  from run obtain r where r: "lookup t c = Some r" "?n \<notin> set (column_names r)"
    and c': "c' = put_relation t (r\<lparr>rel_columns := rel_columns r @ [x],
                 rel_rows := map (\<lambda>row. row @ [(?n, fill x)]) (rel_rows r)\<rparr>) c" by auto
  have fit: "rows_fit r" and held: "relation_held c r" using c r by (simp_all add: sound_lookup)
  have cols: "filter (\<lambda>y. col_name y \<noteq> ?n) (rel_columns r @ [x]) = rel_columns r"
    proof -
    have "col_name y \<noteq> ?n" if "y \<in> set (rel_columns r)" for y using that r(2) by (metis column_names_def image_eqI set_map)
    then show ?thesis by (simp add: filter_id_conv)
  qed
  have "filter (\<lambda>v. fst v \<noteq> ?n) row = row" if "row \<in> set (rel_rows r)" for row
  proof -
    have "fst ` set row = set (column_names r)" using fit that by (metis rows_fit_def set_map)
    with r(2) have "fst v \<noteq> ?n" if "v \<in> set row" for v using that by (metis image_eqI)
    then show ?thesis by (simp add: filter_id_conv)
  qed
  then have rows: "map (filter (\<lambda>v. fst v \<noteq> ?n)) (map (\<lambda>row. row @ [(?n, fill x)]) (rel_rows r)) = rel_rows r"
    by (simp add: map_idI)
  have ks: "filter (\<lambda>k. ?n \<notin> set (columns_of (snd k))) (rel_constraints r) = rel_constraints r"
    using held r(2) by (fastforce simp: relation_held_def list_all_iff filter_id_conv)
  have ixs: "filter (\<lambda>(_, i). \<not> (idx_table i = t \<and> ?n \<in> set (idx_columns i))) (indexes c) = indexes c"
    using c r by (fastforce simp: sound_lookup index_fits_def has_column_lookup list_all_iff filter_id_conv)
  have "held c" using c by (simp add: sound_def)
  then show ?thesis
    using cols rows ks ixs r(1) by (simp add: c' column_names_def restrict_def unless_def)
qed

lemma inverse_undoes:
  assumes c: "sound c" and run: "run_ddl s c = Inr c'" and inv: "invertible s c"
  shows "run_ddl (inverse_of s) c' = Inr c"
proof (cases s)
  case (CreateTable t cols ks)
  with run inv creation_undone [OF c, of t cols ks "[]" c' "[]"] show ?thesis
    by (simp del: run_ddl.simps split: sum.splits)
next
  case (AddColumn t x)
  with run add_column_undone [OF c] show ?thesis by simp
next
  case (CreateIndex n t cs u m ops)
  with run c show ?thesis
    by (auto simp: delete_added in_alist_def restrict_def sound_def Let_def map_add_def split: option.splits)
next
  case (AlterNullable t x b)
  with inv obtain r where r: "lookup t c = Some r" and b: "b"
    and old: "\<And>y. y \<in> set (rel_columns r) \<Longrightarrow> col_name y = x \<Longrightarrow> \<not> col_nullable y" "\<And>row. row \<in> set (rel_rows r) \<Longrightarrow> cell row x \<noteq> Null"
    by (auto simp: list_all_iff split: option.splits)
  let ?f = "\<lambda>v. map (\<lambda>y. if col_name y = x then y\<lparr>col_nullable := v\<rparr> else y)"
  have "?f False (?f True (rel_columns r)) = rel_columns r" using old(1) by (auto intro!: map_idI)
  moreover from AlterNullable r b run have "x \<in> set (column_names r)"
    and "c' = put_relation t (r\<lparr>rel_columns := ?f True (rel_columns r)\<rparr>) c" by simp_all
  moreover have "map col_name (?f True xs) = map col_name xs" for xs by (induction xs) auto
  then have "column_names (r\<lparr>rel_columns := ?f True (rel_columns r)\<rparr>) = column_names r" by (simp only: column_names_def) simp
  ultimately show ?thesis using AlterNullable r b old(2) by (auto simp: alter_def unless_def simp del: map_map)
next
  case (AddConstraint n t k)
  with run obtain r where r: "lookup t c = Some r" "map_of (rel_constraints r) n = None"
    and c': "c' = put_relation t (r\<lparr>rel_constraints := rel_constraints r @ [(n, k)]\<rparr>) c" by (auto simp: in_alist_def)
  with AddConstraint c show ?thesis by (simp add: in_alist_def delete_added map_add_def restrict_def unless_def sound_def)
next
  case (EnableRls t)
  with run inv show ?thesis by (auto simp: alter_def split: option.splits)
next
  case (CreatePolicy n t p)
  with run show ?thesis by (auto simp: in_alist_def delete_added)
next
  case (CreateFunction n p)
  with run c show ?thesis by (auto simp: in_alist_def delete_added restrict_def sound_def)
next
  case (CreateTrigger n t f)
  with run show ?thesis by (auto simp: in_alist_def delete_added)
next
  case (CreateExtensionIfNotExists e)
  with run inv have c': "c' = c\<lparr>extensions := extensions c @ [e]\<rparr>" and "filter (\<lambda>x. x \<noteq> e) (extensions c) = extensions c"
    by (auto simp: filter_id_conv)
  with CreateExtensionIfNotExists c show ?thesis by (simp add: restrict_def sound_def)
qed (use inv in simp_all)

text \<open>A list of statements is undone by the inverses in reverse order.\<close>

fun invertible_along :: "ddl list \<Rightarrow> catalog \<Rightarrow> bool" where
  "invertible_along [] c = True"
| "invertible_along (s # ss) c = (invertible s c \<and> (case run_ddl s c of Inl e \<Rightarrow> True | Inr c' \<Rightarrow> invertible_along ss c'))"

lemma statements_undone:
  assumes "sound c" and "run_statements ss c = Inr c'" and "invertible_along ss c"
  shows "run_statements (rev (map inverse_of ss)) c' = Inr c"
  using assms
proof (induction ss arbitrary: c)
  case (Cons s ss)
  then obtain c1 where c1: "run_ddl s c = Inr c1" "run_statements ss c1 = Inr c'" "invertible_along ss c1" "invertible s c"
    by (auto simp del: run_ddl.simps split: sum.splits)
  with Cons.IH [OF run_ddl_sound [OF c1(1) Cons.prems(1)] c1(2,3)] inverse_undoes [OF Cons.prems(1) c1(1,4)]
  show ?case by (simp add: run_statements_append del: run_ddl.simps)
qed simp

end
