(* ===== verification/Revisions.thy ===== *)
theory Revisions
  imports SchemaUndo
begin

section \<open>The history, revision by revision\<close>

text \<open>
  Two shapes cover most revisions: statements that are undone one by one, and the creation of a
  table followed by statements about it. Both are decided on the lists of statements.
\<close>

fun always_invertible :: "ddl \<Rightarrow> bool" where
  "always_invertible (CreateIndex n t cs u m ops) = True"
| "always_invertible (AddColumn t x) = True"
| "always_invertible (AddConstraint n t k) = True"
| "always_invertible (CreatePolicy n t p) = True"
| "always_invertible (CreateFunction n p) = True"
| "always_invertible (CreateTrigger n t f) = True"
| "always_invertible s = False"

lemma invertible_alongI: "list_all always_invertible ss \<Longrightarrow> invertible_along ss c"
proof (induction ss arbitrary: c)
  case (Cons s ss)
  then show ?case by (cases s) (auto split: sum.split simp del: run_ddl.simps)
qed simp

definition undone_in_reverse :: "ddl list \<Rightarrow> ddl list \<Rightarrow> bool" where
  "undone_in_reverse up down \<longleftrightarrow> list_all always_invertible up \<and> down = rev (map inverse_of up)"

definition builds_and_razes :: "string \<Rightarrow> ddl list \<Rightarrow> ddl list \<Rightarrow> bool" where
  "builds_and_razes t up down \<longleftrightarrow>
     (case up of
        CreateTable u cols ks # ss \<Rightarrow>
          u = t \<and> list_all (grows_table t) ss
          \<and> down \<noteq> [] \<and> last down = DropTable t \<and> list_all (shrinks_table t) (butlast down)
          \<and> distinct (concat (map index_dropped (butlast down)))
          \<and> list_all (\<lambda>n. n \<in> set (concat (map index_made ss))) (concat (map index_dropped (butlast down)))
      | _ \<Rightarrow> False)"

definition enums_made :: "ddl list \<Rightarrow> (string \<times> string list) list" where
  "enums_made ss = concat (map (\<lambda>s. case s of CreateTable t cols ks \<Rightarrow> concat (map enum_of cols) | _ \<Rightarrow> []) ss)"

lemma reverse_undoes:
  assumes "undone_in_reverse up down" and "sound c" and "run_statements up c = Inr c'"
  shows "run_statements down c' = Inr c"
  using assms statements_undone invertible_alongI by (auto simp: undone_in_reverse_def)

lemma enums_made_grows: "list_all (grows_table t) ss \<Longrightarrow> enums_made ss = []"
proof (induction ss)
  case (Cons s ss)
  then show ?case by (cases s) (auto simp: enums_made_def)
qed (simp add: enums_made_def)

lemma razing_undoes:
  assumes "builds_and_razes t up down" and "sound c" and "run_statements up c = Inr c'"
  shows "run_statements down c' = Inr (c\<lparr>enum_types := enum_types c @ enums_made up\<rparr>)"
proof -
  obtain s ss where s: "up = s # ss" using assms(1) by (cases up) (simp_all add: builds_and_razes_def)
  with assms(1) obtain cols ks where "s = CreateTable t cols ks" by (cases s) (simp_all add: builds_and_razes_def)
  with s assms(1) have up: "up = CreateTable t cols ks # ss" "list_all (grows_table t) ss"
    and down: "down = butlast down @ [DropTable t]" "list_all (shrinks_table t) (butlast down)"
    and ixs: "distinct (concat (map index_dropped (butlast down)))"
      "set (concat (map index_dropped (butlast down))) \<subseteq> set (concat (map index_made ss))"
    by (simp_all add: builds_and_razes_def subset_code(1) list_all_iff) (metis append_butlast_last_id, blast)
  have "enums_made up = concat (map enum_of cols)"
    using enums_made_grows [OF up(2)] by (simp add: up(1) enums_made_def)
  with creation_undone [OF assms(2) assms(3) [unfolded up(1)] up(2) down(2) ixs] down(1) show ?thesis by simp
qed

lemmas revision_checks = undone_in_reverse_def builds_and_razes_def enums_made_def
  Column_def server_default_def uuid_key_def stamped_def plain_index_def

lemma checked_in_reverse:
  "list_all (\<lambda>rv. undone_in_reverse (rev_upgrade rv) (rev_downgrade rv))
     (filter (\<lambda>rv. rev_id rv \<in> {''30277d26774a'', ''418dc290d913'', ''7b4b05b6d9c8'', ''588db2facf84'', ''920070316626'',
        ''222c301f378f'', ''77be2ddc60a0''}) history)"
  by (simp add: history_def upgrade_defs downgrade_defs revision_checks)

lemma checked_razing:
  "builds_and_razes ''claims'' upgrade_60a151dd80b0 downgrade_60a151dd80b0"
  "builds_and_razes ''human_audit_log'' upgrade_7175bc85ffb0 downgrade_7175bc85ffb0"
  "builds_and_razes ''deals'' upgrade_2f9ca0724bb9 downgrade_2f9ca0724bb9"
  "builds_and_razes ''ai_audit_log'' upgrade_b26e963e0645 downgrade_b26e963e0645"
  "builds_and_razes ''sessions'' upgrade_dd80cdfaeb9a downgrade_dd80cdfaeb9a"
  "builds_and_razes ''investment_profiles'' upgrade_fb49da6a9bc0 downgrade_fb49da6a9bc0"
  "builds_and_razes ''clerk_admin_users'' upgrade_a1b2c3d4e5f6 (butlast downgrade_a1b2c3d4e5f6)"
  "builds_and_razes ''chunks'' upgrade_6c8bc5907f94 downgrade_6c8bc5907f94"
  "builds_and_razes ''corroboration_events'' upgrade_e960a3366cf7 downgrade_e960a3366cf7"
  "builds_and_razes ''data_source'' (butlast (butlast upgrade_d6d2fe8f27ae)) (drop 2 downgrade_d6d2fe8f27ae)"
  by (simp_all add: upgrade_defs downgrade_defs revision_checks)

lemma no_enums_made:
  "enums_made upgrade_60a151dd80b0 = []" "enums_made upgrade_7175bc85ffb0 = []" "enums_made upgrade_2f9ca0724bb9 = []"
  "enums_made upgrade_b26e963e0645 = []" "enums_made upgrade_dd80cdfaeb9a = []" "enums_made upgrade_fb49da6a9bc0 = []"
  "enums_made upgrade_6c8bc5907f94 = []" "enums_made upgrade_e960a3366cf7 = []"
  "enums_made (butlast (butlast upgrade_d6d2fe8f27ae)) = []"
  by (simp_all add: upgrade_defs revision_checks)

lemma enum_made: "enums_made upgrade_a1b2c3d4e5f6 = [(''admintype'', [''platform'', ''client''])]"
  by (simp add: upgrade_defs revision_checks)


subsection \<open>The others\<close>

lemma razed:
  assumes "builds_and_razes t up down" and "enums_made up = []" and "sound c" and "run_statements up c = Inr c'"
  shows "run_statements down c' = Inr c"
  using razing_undoes [OF assms(1,3,4)] assms(2) by simp

lemma run_append_Inr:
  "run_statements (xs @ ys) c = Inr c' \<longleftrightarrow> (\<exists>c1. run_statements xs c = Inr c1 \<and> run_statements ys c1 = Inr c')"
  by (auto simp: run_statements_append split: sum.splits)

lemma undo_a1b2c3d4e5f6:
  assumes c: "sound c" and run: "run_statements upgrade_a1b2c3d4e5f6 c = Inr c'"
  shows "run_statements downgrade_a1b2c3d4e5f6 c' = Inr c"
proof -
  let ?e = "(''admintype'', [''platform'', ''client''])"
  have "map_of (enum_types c) ''admintype'' = None"
    using run by (auto simp: upgrade_a1b2c3d4e5f6_def Column_def Let_def in_alist_def split: sum.splits)
  then have "AList.delete ''admintype'' (enum_types c @ [?e]) = enum_types c" by (rule delete_added)
  then have "run_ddl (DropTypeIfExists ''admintype'') (c\<lparr>enum_types := enum_types c @ [?e]\<rparr>) = Inr c"
    using c by (simp add: restrict_def sound_def)
  then have "run_statements (butlast downgrade_a1b2c3d4e5f6 @ [DropTypeIfExists ''admintype'']) c' = Inr c"
    using razing_undoes [OF checked_razing(7) c run] enum_made by (simp add: run_append_Inr del: run_ddl.simps)
  moreover have "butlast downgrade_a1b2c3d4e5f6 @ [DropTypeIfExists ''admintype''] = downgrade_a1b2c3d4e5f6"
    by (simp add: downgrade_a1b2c3d4e5f6_def)
  ultimately show ?thesis by simp
qed

lemma undo_d6d2fe8f27ae:
  assumes c: "sound c" and run: "run_statements upgrade_d6d2fe8f27ae c = Inr c'"
  shows "run_statements downgrade_d6d2fe8f27ae c' = Inr c"
proof -
  let ?up = "butlast (butlast upgrade_d6d2fe8f27ae)" and ?down = "drop 2 downgrade_d6d2fe8f27ae"
  let ?ss = "[CreateFunction ''data_source_enforce_one_way_status'' (Differs ''status'' ''pending''),
    CreateTrigger ''trg_data_source_one_way_status'' ''data_source'' ''data_source_enforce_one_way_status'']"
  have "?up @ ?ss = upgrade_d6d2fe8f27ae" by (simp add: upgrade_d6d2fe8f27ae_def)
  with run have "run_statements (?up @ ?ss) c = Inr c'" by simp
  then obtain c1 where c1: "run_statements ?up c = Inr c1" "run_statements ?ss c1 = Inr c'"
    unfolding run_append_Inr by blast
  have "run_statements (rev (map inverse_of ?ss)) c' = Inr c1"
    by (rule statements_undone [OF run_statements_sound [OF c1(1) c] c1(2) invertible_alongI]) simp
  with razed [OF checked_razing(10) no_enums_made(9) c c1(1)]
  have "run_statements (rev (map inverse_of ?ss) @ ?down) c' = Inr c" unfolding run_append_Inr by blast
  moreover have "rev (map inverse_of ?ss) @ ?down = downgrade_d6d2fe8f27ae" by (simp add: downgrade_d6d2fe8f27ae_def)
  ultimately show ?thesis by (simp only:)
qed

lemma undo_c9aaf2c46b16:
  assumes c: "sound c" and run: "run_statements upgrade_c9aaf2c46b16 c = Inr c'"
    and old: "invertible (AlterNullable ''organisation'' ''type'' True) c"
  shows "run_statements downgrade_c9aaf2c46b16 c' = Inr c"
proof -
  have "downgrade_c9aaf2c46b16 = rev (map inverse_of upgrade_c9aaf2c46b16)"
    by (simp add: upgrade_c9aaf2c46b16_def downgrade_c9aaf2c46b16_def plain_index_def)
  moreover have "invertible_along upgrade_c9aaf2c46b16 c"
    using old
    by (auto simp: upgrade_c9aaf2c46b16_def revision_checks unless_def Let_def lookup_def map_add_def in_alist_def alter_def put_relation_def update_conv'
        split: option.splits sum.splits if_splits)
  ultimately show ?thesis using statements_undone [OF c run] by simp
qed


lemma undo_aace95a1c412:
  assumes c: "sound c" and run: "run_statements upgrade_aace95a1c412 c = Inr c'"
    and old: "invertible (EnableRls ''organisation'') c" "invertible (EnableRls ''funds'') c"
  shows "run_statements downgrade_aace95a1c412 c' = Inr c"
proof -
  have "downgrade_aace95a1c412 = rev (map inverse_of upgrade_aace95a1c412)"
    by (simp add: upgrade_aace95a1c412_def downgrade_aace95a1c412_def)
  moreover have "invertible_along upgrade_aace95a1c412 c"
    using old by (auto simp: upgrade_aace95a1c412_def alter_def split: option.splits sum.splits)
  ultimately show ?thesis using statements_undone [OF c run] by simp
qed

lemma undo_9e796d5efdb7:
  assumes "sound c" and "run_statements upgrade_9e796d5efdb7 c = Inr c'" and "''vector'' \<notin> set (extensions c)"
  shows "run_statements downgrade_9e796d5efdb7 c' = Inr c"
  using statements_undone [OF assms(1,2)] assms(3) by (simp add: upgrade_9e796d5efdb7_def downgrade_9e796d5efdb7_def)

lemma undo_xxxx:
  assumes "run_statements upgrade_xxxx c = Inr c'"
    and "\<not> schema_usage c" "default_table_grants c = []" "\<not> default_sequence_usage c"
  shows "run_statements downgrade_xxxx c' = Inr c"
  using assms by (auto simp: upgrade_xxxx_def downgrade_xxxx_def)

text \<open>What a downgrade takes for granted of the state before its upgrade.\<close>

definition expected_before :: "string \<Rightarrow> catalog \<Rightarrow> bool" where
  "expected_before i c =
     (if i = ''xxxx'' then \<not> schema_usage c \<and> default_table_grants c = [] \<and> \<not> default_sequence_usage c
      else if i = ''aace95a1c412'' then invertible (EnableRls ''organisation'') c \<and> invertible (EnableRls ''funds'') c
      else if i = ''9e796d5efdb7'' then ''vector'' \<notin> set (extensions c)
      else if i = ''c9aaf2c46b16'' then invertible (AlterNullable ''organisation'' ''type'' True) c
      else True)"

lemma needs_xxxx:
  assumes "run_statements downgrade_xxxx c' = Inr c"
  shows "expected_before ''xxxx'' c"
proof -
  have "p \<in> {Select, Insert, Update, Delete}" for p :: privilege by (cases p) simp_all
  with assms show ?thesis by (auto simp: downgrade_xxxx_def expected_before_def filter_empty_conv)
qed

lemma run_Cons_Inr:
  "run_statements (s # ss) c = Inr c' \<longleftrightarrow> (\<exists>c1. run_ddl s c = Inr c1 \<and> run_statements ss c1 = Inr c')"
  by (simp del: run_ddl.simps split: sum.split)

lemma rls_disabled:
  assumes "run_ddl (DisableRls t) c = Inr c'"
  shows "\<exists>r. lookup t c' = Some r \<and> \<not> rel_rls r" and "u \<noteq> t \<Longrightarrow> lookup u c' = lookup u c"
  using assms by (auto simp: alter_def lookup_put split: option.splits)

lemma needs_aace95a1c412:
  assumes "run_statements downgrade_aace95a1c412 c' = Inr c"
  shows "expected_before ''aace95a1c412'' c"
proof -
  from assms obtain c1 c2 where funds: "run_ddl (DisableRls ''funds'') c1 = Inr c2" and org: "run_ddl (DisableRls ''organisation'') c2 = Inr c"
    unfolding downgrade_aace95a1c412_def run_Cons_Inr by auto
  from rls_disabled(1) [OF funds] rls_disabled(1) [OF org] rls_disabled(2) [OF org, of "''funds''"]
  show ?thesis by (auto simp: expected_before_def)
qed

lemma needs_9e796d5efdb7:
  assumes "run_statements downgrade_9e796d5efdb7 c' = Inr c"
  shows "expected_before ''9e796d5efdb7'' c"
  using assms by (auto simp: downgrade_9e796d5efdb7_def expected_before_def restrict_def split: if_splits)

lemma dropped_indexes:
  assumes "run_statements (map (\<lambda>n. DropIndex n t) ns) c = Inr c'"
  shows "relations c' = relations c"
  using assms by (induction ns arbitrary: c) (force simp: restrict_def Let_def split: option.splits sum.splits if_splits)+

lemma needs_c9aaf2c46b16:
  assumes "run_statements downgrade_c9aaf2c46b16 c' = Inr c"
  shows "expected_before ''c9aaf2c46b16'' c"
proof -
  have parts: "downgrade_c9aaf2c46b16 = [DropPolicyIfExists ''org_isolation'' ''users'', DisableRls ''users'']
      @ AlterNullable ''organisation'' ''type'' False # map (\<lambda>n. DropIndex n ''users'') [''ix_users_org_id'', ''ix_users_name'',
        ''ix_users_id'', ''ix_users_email'', ''ix_users_clerk_user_id'', ''ix_users_clerk_org_id''] @ [DropTable ''users'']"
    by (simp add: downgrade_c9aaf2c46b16_def)
  from assms obtain c1 c2 c3 where alt: "run_ddl (AlterNullable ''organisation'' ''type'' False) c1 = Inr c2"
    and ixs: "run_statements (map (\<lambda>n. DropIndex n ''users'') [''ix_users_org_id'', ''ix_users_name'',
        ''ix_users_id'', ''ix_users_email'', ''ix_users_clerk_user_id'', ''ix_users_clerk_org_id'']) c2 = Inr c3"
    and drop: "run_ddl (DropTable ''users'') c3 = Inr c"
    unfolding parts run_append_Inr run_Cons_Inr by (auto simp del: run_ddl.simps list.map)
  from alt obtain r where r: "lookup ''organisation'' c2 = Some (r\<lparr>rel_columns :=
      map (\<lambda>y. if col_name y = ''type'' then y\<lparr>col_nullable := False\<rparr> else y) (rel_columns r)\<rparr>)"
    "\<forall>row \<in> set (rel_rows r). cell row ''type'' \<noteq> Null"
    by (auto simp: alter_def unless_def lookup_put split: option.splits if_splits)
  have "lookup ''organisation'' c = lookup ''organisation'' c3"
    using drop by (auto simp: unless_def restrict_def lookup_def delete_conv' split: if_splits)
  also have "\<dots> = lookup ''organisation'' c2" using dropped_indexes [OF ixs] by (simp add: lookup_def)
  finally show ?thesis using r by (auto simp: expected_before_def list_all_iff)
qed


end
