(* ===== verification/SchemaHead.thy ===== *)
theory SchemaHead
  imports Revisions
begin

section \<open>The schema at head\<close>

subsection \<open>What creating a table leaves\<close>

fun grow_relation :: "ddl \<Rightarrow> relation \<Rightarrow> relation" where
  "grow_relation (EnableRls t) r = r\<lparr>rel_rls := True\<rparr>"
| "grow_relation (ForceRls t) r = r\<lparr>rel_forced := True\<rparr>"
| "grow_relation (CreatePolicy n t p) r = r\<lparr>rel_policies := rel_policies r @ [(n, p)]\<rparr>"
| "grow_relation (RevokeOn ps t) r = r\<lparr>rel_grants := filter (\<lambda>p. p \<notin> set ps) (rel_grants r),
       rel_update_columns := (if Update \<in> set ps then [] else rel_update_columns r)\<rparr>"
| "grow_relation (GrantUpdateOf xs t) r = r\<lparr>rel_update_columns := rel_update_columns r @ filter (\<lambda>x. x \<notin> set (rel_update_columns r)) xs\<rparr>"
| "grow_relation s r = r"

fun index_entries :: "ddl \<Rightarrow> (string \<times> index) list" where
  "index_entries (CreateIndex n t cs u m ops) =
     [(n, \<lparr>idx_table = t, idx_columns = cs, idx_unique = u, idx_using = m, idx_ops = ops\<rparr>)]"
| "index_entries s = []"

fun can_grow :: "catalog \<Rightarrow> string list \<Rightarrow> ddl \<Rightarrow> bool" where
  "can_grow c ns (CreateIndex n t cs u m ops) = list_all (\<lambda>x. x \<in> set ns) cs"
| "can_grow c ns (CreatePolicy n t p) = (policy_column p \<in> set ns \<and> list_all (has_column c) (policy_reads p))"
| "can_grow c ns (GrantUpdateOf xs t) = list_all (\<lambda>x. x \<in> set ns) xs"
| "can_grow c ns s = True"

fun policy_made :: "ddl \<Rightarrow> string list" where
  "policy_made (CreatePolicy n t p) = [n]"
| "policy_made s = []"

definition with_table :: "catalog \<Rightarrow> string \<Rightarrow> relation \<Rightarrow> (string \<times> index) list \<Rightarrow> catalog" where
  "with_table c t r is = c\<lparr>relations := relations c @ [(t, r)], indexes := indexes c @ is\<rparr>"

lemma lookup_with_table: "lookup t c = None \<Longrightarrow> lookup u (with_table c t r is) = (if u = t then Some r else lookup u c)"
  by (simp add: with_table_def lookup_def map_add_def split: option.split)

lemma put_with_table: "lookup t c = None \<Longrightarrow> put_relation t r' (with_table c t r is) = with_table c t r' is"
proof -
  have "map_of xs t = None \<Longrightarrow> AList.update t r' (xs @ [(t, r)]) = xs @ [(t, r')]" for xs
    by (induction xs) (auto split: if_splits)
  then show "lookup t c = None \<Longrightarrow> put_relation t r' (with_table c t r is) = with_table c t r' is"
    by (simp add: with_table_def put_relation_def lookup_def)
qed

lemma has_column_with_table: "lookup t c = None \<Longrightarrow> has_column c p \<Longrightarrow> has_column (with_table c t r is) p"
  by (cases p) (auto simp: has_column_lookup lookup_with_table)

lemma growth_runs:
  assumes t: "lookup t c = None" and ss: "list_all (grows_table t) ss" "list_all (can_grow c (column_names r)) ss"
    and rows: "rel_rows r = []"
    and ixs: "distinct (map fst is @ concat (map index_made ss))"
      "list_all (\<lambda>n. n \<noteq> t \<and> \<not> in_alist n (indexes c) \<and> \<not> in_alist n (relations c)) (concat (map index_made ss))"
    and pols: "distinct (map fst (rel_policies r) @ concat (map policy_made ss))"
  shows "run_statements ss (with_table c t r is) = Inr (with_table c t (fold grow_relation ss r) (is @ concat (map index_entries ss)))"
  using ss rows ixs pols
proof (induction ss arbitrary: r "is")
  case (Cons s ss)
  let ?c = "with_table c t r is"
  have l: "lookup t ?c = Some r" using t by (simp add: lookup_with_table)
  have "run_ddl s ?c = Inr (with_table c t (grow_relation s r) (is @ index_entries s))"
  proof (cases s)
    case (CreateIndex n u cs q m ops)
    with Cons.prems l show ?thesis
      by (simp add: unless_def unique_over_def) (auto simp: with_table_def in_alist_iff)
  next
    case (CreatePolicy n u p)
    with Cons.prems l t show ?thesis
      by (auto simp: alter_def unless_def put_with_table in_alist_iff list_all_iff has_column_with_table)
  qed (use Cons.prems l t in \<open>auto simp: alter_def unless_def put_with_table\<close>)
  moreover have "column_names (grow_relation s r) = column_names r" "rel_rows (grow_relation s r) = rel_rows r"
    by (cases s; simp add: column_names_def)+
  moreover have "map fst (index_entries s) = index_made s" by (cases s) simp_all
  moreover have "map fst (rel_policies (grow_relation s r)) = map fst (rel_policies r) @ policy_made s" by (cases s) simp_all
  ultimately show ?case using Cons.IH [of "grow_relation s r" "is @ index_entries s"] Cons.prems by (simp del: run_ddl.simps)
qed simp


fun buildable :: "catalog \<Rightarrow> ddl list \<Rightarrow> bool" where
  "buildable c (CreateTable t cols ks # ss) =
     (let enums = concat (map enum_of cols); c1 = c\<lparr>enum_types := enum_types c @ enums\<rparr>; ns = map col_name cols;
          made = concat (map index_made ss) in
      distinct (map fst enums) \<and> list_all (\<lambda>e. \<not> in_alist (fst e) (enum_types c)) enums
      \<and> lookup t c = None \<and> \<not> in_alist t (indexes c) \<and> distinct ns
      \<and> list_all (\<lambda>x. type_known c1 (col_type x)) cols \<and> list_all (\<lambda>k. constraint_known c (snd k)) ks
      \<and> list_all (\<lambda>k. list_all (\<lambda>x. x \<in> set ns) (columns_of (snd k))) ks
      \<and> list_all (grows_table t) ss \<and> list_all (can_grow c ns) ss
      \<and> distinct made \<and> list_all (\<lambda>n. n \<noteq> t \<and> \<not> in_alist n (indexes c) \<and> \<not> in_alist n (relations c)) made
      \<and> distinct (concat (map policy_made ss)))"
| "buildable c ss = False"

fun built :: "catalog \<Rightarrow> ddl list \<Rightarrow> catalog" where
  "built c (CreateTable t cols ks # ss) =
     with_table (c\<lparr>enum_types := enum_types c @ concat (map enum_of cols)\<rparr>) t
       (fold grow_relation ss (new_relation c t cols ks)) (concat (map index_entries ss))"
| "built c ss = c"

lemma has_column_enums [simp]: "has_column (c\<lparr>enum_types := es\<rparr>) = has_column c"
  by (rule ext) (simp add: has_column_def lookup_def)

lemma has_key_enums [simp]: "has_key (c\<lparr>enum_types := es\<rparr>) t cs = has_key c t cs"
  by (simp add: has_key_lookup)

lemma constraint_known_enums [simp]: "constraint_known (c\<lparr>enum_types := es\<rparr>) = constraint_known c"
proof
  show "constraint_known (c\<lparr>enum_types := es\<rparr>) k = constraint_known c k" for k by (cases k) simp_all
qed

lemma can_grow_enums [simp]: "can_grow (c\<lparr>enum_types := es\<rparr>) ns = can_grow c ns"
proof
  show "can_grow (c\<lparr>enum_types := es\<rparr>) ns s = can_grow c ns s" for s by (cases s) simp_all
qed

lemma creation_runs: "buildable c ss \<Longrightarrow> run_statements ss c = Inr (built c ss)"
proof (induction c ss rule: buildable.induct)
  case (1 c t cols ks ss)
  let ?c = "c\<lparr>enum_types := enum_types c @ concat (map enum_of cols)\<rparr>" and ?r = "new_relation c t cols ks"
  note ok = 1 [unfolded buildable.simps Let_def]
  have "\<not> list_ex (\<lambda>e. in_alist (fst e) (enum_types c)) (concat (map enum_of cols))"
    using ok by (metis (mono_tags, lifting) list_all_iff list_ex_iff)
  moreover have "\<not> in_alist t (relations c)" using ok by (simp add: in_alist_def lookup_def)
  ultimately have "run_ddl (CreateTable t cols ks) c = Inr (with_table ?c t ?r [])"
    using ok by (simp add: Let_def unless_def with_table_def o_def)
  moreover have "run_statements ss (with_table ?c t ?r []) = Inr (with_table ?c t (fold grow_relation ss ?r) ([] @ concat (map index_entries ss)))"
    by (rule growth_runs) (use ok in simp_all)
  ultimately show ?case by (simp del: run_ddl.simps)
qed simp_all

end
