(* ===== verification/HeadTables.thy ===== *)
theory HeadTables
  imports SchemaHead
begin

section \<open>The thirteen tables at head\<close>

text \<open>
  The relations and indexes that \<open>alembic upgrade head\<close> leaves in an empty database, written out. A
  name ending in \<open>_created\<close> is the relation before later revisions add to it.
\<close>

definition full_grants :: "privilege list" where
  "full_grants = [Select, Insert, Update, Delete]"

definition closed_table :: "sql_policy \<Rightarrow> column list \<Rightarrow> (string \<times> sql_constraint) list \<Rightarrow> relation" where
  "closed_table p cols ks =
     \<lparr>rel_rows = [], rel_columns = cols, rel_constraints = ks, rel_sequences = [], rel_rls = True, rel_forced = False,
      rel_policies = [(''org_isolation'', p)], rel_grants = full_grants, rel_update_columns = [], rel_triggers = []\<rparr>"

definition serial_key :: "string \<Rightarrow> column" where
  "serial_key t = server_default (Expression (''nextval('' @ t @ ''_id_seq)'')) (Column ''id'' INTEGER False)"

definition with_sequence :: "string \<Rightarrow> relation \<Rightarrow> relation" where
  "with_sequence t r = r\<lparr>rel_sequences := [(t @ ''_id_seq'', True)]\<rparr>"

definition append_only :: "relation \<Rightarrow> relation" where
  "append_only r = r\<lparr>rel_forced := True, rel_grants := [Select, Insert]\<rparr>"

definition indexed :: "string \<Rightarrow> string \<Rightarrow> bool \<Rightarrow> string \<times> index" where
  "indexed t x u = (''ix_'' @ t @ ''_'' @ x, \<lparr>idx_table = t, idx_columns = [x], idx_unique = u, idx_using = None, idx_ops = []\<rparr>)"

subsection \<open>Relations\<close>

definition organisation_typed :: "bool \<Rightarrow> relation" where
  "organisation_typed nullable = with_sequence ''organisation'' (closed_table (SettingIs ''clerk_org_id'')
     [serial_key ''organisation'',
      Column ''name'' (VARCHAR 100) False,
      Column ''type'' (ENUM ''orgtype'' [''PE_FIRM'', ''FAMILY_OFFICE'']) nullable,
      Column ''created_at'' TIMESTAMP False,
      Column ''clerk_org_id'' (VARCHAR 64) False]
     [(''organisation_pkey'', PrimaryKey [''id''])])"

definition organisation_relation :: relation where
  "organisation_relation = organisation_typed True"

definition funds_created :: relation where
  "funds_created = with_sequence ''funds'' (closed_table (OwnedBySetting ''org_id'')
     [serial_key ''funds'',
      Column ''org_id'' INTEGER False,
      Column ''name'' (VARCHAR 100) False,
      Column ''vintage_year'' INTEGER False,
      Column ''status'' (VARCHAR 50) False]
     [(''funds_org_id_fkey'', ForeignKey [''org_id''] ''organisation'' [''id'']),
      (''funds_pkey'', PrimaryKey [''id''])])"

definition funds_relation :: relation where
  "funds_relation = funds_created\<lparr>rel_columns := rel_columns funds_created @
     [Column ''strategy'' (VARCHAR 100) True]\<rparr>"

definition claims_created :: relation where
  "claims_created = closed_table (OwnedBySetting ''org_id'')
     [uuid_key,
      Column ''org_id'' INTEGER False,
      Column ''deal_id'' UUID True,
      Column ''session_id'' UUID True,
      Column ''data_source_id'' UUID True,
      Column ''chunk_id'' UUID True,
      Column ''entity'' TEXT False,
      Column ''attribute'' TEXT False,
      Column ''period_year'' INTEGER True,
      Column ''period_kind'' (VARCHAR 1) True,
      Column ''value'' JSONB False,
      Column ''kind'' (VARCHAR 8) False,
      Column ''page'' INTEGER True,
      Column ''char_start'' INTEGER True,
      Column ''char_end'' INTEGER True,
      Column ''bbox'' JSONB True,
      Column ''sheet'' TEXT True,
      Column ''cell_ref'' (VARCHAR 16) True,
      Column ''paragraph'' INTEGER True,
      Column ''status'' (VARCHAR 24) False,
      Column ''verification_method'' (VARCHAR 24) True,
      Column ''section'' TEXT True,
      Column ''table_group_id'' UUID True,
      Column ''fragment_order'' INTEGER True,
      Column ''flags'' TEXTS True,
      stamped ''created_at'']
     [(''ck_claims_locator_matches_kind'', Check claims_locator_matches_kind),
      (''ck_claims_kind'', Check (IsIn ''kind'' [''pdf'', ''xlsx'', ''docx''])),
      (''ck_claims_period_kind'', Check (OrElse (IsNull ''period_kind'') (IsIn ''period_kind'' [''A'', ''E'',
        ''P'']))),
      (''ck_claims_missing_has_no_span'', Check (OrElse (Differs ''status'' ''missing'') (AndAlso (IsNull
        ''char_start'') (IsNull ''char_end'')))),
      (''ck_claims_found_requires_span'', Check claims_found_requires_span),
      (''ck_claims_status'', Check (IsIn ''status'' [''proposed'', ''cited'', ''rejected'', ''missing'',
        ''conflicted'', ''inconclusive'', ''partially_verified'', ''verified''])),
      (''ck_claims_checked_requires_method'', Check (OrElse (IsNotIn ''status'' [''cited'', ''conflicted'',
        ''inconclusive'', ''partially_verified'', ''verified'']) (IsNotNull ''verification_method''))),
      (''ck_claims_verification_method'', Check (OrElse (IsNull ''verification_method'') (IsIn
        ''verification_method'' [''exact_span'', ''formula_reexecution'', ''direct_read'', ''reranker'',
          ''human_review'']))),
      (''claims_org_id_fkey'', ForeignKey [''org_id''] ''organisation'' [''id'']),
      (''claims_pkey'', PrimaryKey [''id''])]"

definition claims_qualified :: relation where
  "claims_qualified = claims_created
     \<lparr>rel_columns := rel_columns claims_created @
        [Column ''claim_kind'' (VARCHAR 12) True, Column ''assertion_class'' (VARCHAR 24) True],
      rel_constraints := rel_constraints claims_created @
     [(''ck_claims_claim_kind'', Check (OrElse (IsNull ''claim_kind'') (IsIn ''claim_kind'' [''quantitative'',
       ''qualitative'']))),
      (''ck_claims_assertion_class'', Check (OrElse (IsNull ''assertion_class'') (IsIn ''assertion_class''
        [''related_party'', ''operating_model'', ''market_definition'', ''competitive_position'',
         ''commercial_terms'', ''risk_or_dependency'', ''plan_or_commitment'']))),
      (''ck_claims_qualitative_has_class'', Check (OrElse (IsDistinctFrom ''claim_kind'' ''qualitative'')
        (IsNotNull ''assertion_class'')))]\<rparr>"

definition claims_relation :: relation where
  "claims_relation = claims_qualified
     \<lparr>rel_constraints := rel_constraints claims_qualified @
     [(''fk_claims_data_source_id_data_source'', ForeignKey [''data_source_id''] ''data_source'' [''id'']),
      (''fk_claims_deal_id_deals'', ForeignKey [''deal_id''] ''deals'' [''id''])]\<rparr>"

definition users_created :: relation where
  "users_created = with_sequence ''users'' (closed_table (SettingIs ''clerk_org_id'')
     [serial_key ''users'',
      Column ''org_id'' INTEGER False,
      Column ''name'' (VARCHAR 100) True,
      Column ''email'' (VARCHAR 100) True,
      Column ''role'' (VARCHAR 50) False,
      Column ''login_method'' (VARCHAR 50) False,
      Column ''clerk_user_id'' (VARCHAR 64) False,
      Column ''clerk_org_id'' (VARCHAR 64) False]
     [(''users_org_id_fkey'', ForeignKey [''org_id''] ''organisation'' [''id'']),
      (''users_pkey'', PrimaryKey [''id''])])"

definition users_relation :: relation where
  "users_relation = users_created\<lparr>rel_columns := rel_columns users_created @
     [server_default (Literal ''active'') (Column ''status'' (VARCHAR 50) False),
      Column ''deactivated_at'' TIMESTAMP True]\<rparr>"

definition audit_relation :: relation where
  "audit_relation = append_only (closed_table (OwnedBySetting ''org_id'')
     [uuid_key,
      Column ''org_id'' INTEGER False,
      Column ''actor_id'' (VARCHAR 64) True,
      Column ''actor_email'' (VARCHAR 100) True,
      Column ''event_type'' TEXT False,
      Column ''deal_id'' UUID True,
      Column ''session_id'' UUID True,
      Column ''payload'' JSONB True,
      Column ''ip_address'' INET True,
      Column ''user_agent'' TEXT True,
      stamped ''created_at'']
     [(''human_audit_log_org_id_fkey'', ForeignKey [''org_id''] ''organisation'' [''id'']),
      (''human_audit_log_pkey'', PrimaryKey [''id''])])"

definition deals_relation :: relation where
  "deals_relation = closed_table (OwnedBySetting ''org_id'')
     [uuid_key,
      Column ''org_id'' INTEGER False,
      Column ''fund_id'' INTEGER True,
      Column ''name'' TEXT False,
      Column ''gp_source'' TEXT True,
      Column ''deal_size_min_usd'' BIGINT True,
      Column ''deal_size_max_usd'' BIGINT True,
      Column ''sector_tags'' JSONB True,
      server_default (Literal ''sourcing'') (Column ''status'' TEXT False),
      stamped ''created_at'',
      stamped ''updated_at'']
     [(''deals_org_id_fkey'', ForeignKey [''org_id''] ''organisation'' [''id'']),
      (''deals_fund_id_fkey'', ForeignKey [''fund_id''] ''funds'' [''id'']),
      (''deals_pkey'', PrimaryKey [''id''])]"

definition ai_audit_relation :: relation where
  "ai_audit_relation = append_only (closed_table (OwnedBySetting ''org_id'')
     [uuid_key,
      Column ''org_id'' INTEGER False,
      Column ''fund_id'' INTEGER True,
      Column ''user_id'' (VARCHAR 64) True,
      Column ''session_id'' UUID True,
      Column ''pipeline_run_id'' UUID True,
      Column ''parent_agent_id'' UUID True,
      Column ''pass_number'' INTEGER True,
      Column ''agent_name'' TEXT True,
      Column ''model_id'' TEXT True,
      Column ''model_version'' TEXT True,
      Column ''system_prompt_hash'' TEXT True,
      Column ''tool_call_names'' JSONB True,
      Column ''input_tokens'' INTEGER True,
      Column ''output_tokens'' INTEGER True,
      Column ''cache_read_tokens'' INTEGER True,
      server_default (Literal ''0'') (Column ''retry_count'' INTEGER False),
      Column ''error_code'' TEXT True,
      Column ''duration_ms'' INTEGER True,
      stamped ''created_at'']
     [(''ai_audit_log_org_id_fkey'', ForeignKey [''org_id''] ''organisation'' [''id'']),
      (''ai_audit_log_fund_id_fkey'', ForeignKey [''fund_id''] ''funds'' [''id'']),
      (''ai_audit_log_pkey'', PrimaryKey [''id''])])"

definition sessions_relation :: relation where
  "sessions_relation = closed_table (OwnedBySetting ''org_id'')
     [uuid_key,
      Column ''org_id'' INTEGER False,
      Column ''user_id'' INTEGER True,
      Column ''deal_id'' UUID False,
      Column ''file_name'' TEXT False,
      Column ''memo_json'' JSONB True,
      Column ''composed_at'' TIMESTAMPTZ True,
      stamped ''created_at'']
     [(''sessions_org_id_fkey'', ForeignKey [''org_id''] ''organisation'' [''id'']),
      (''sessions_user_id_fkey'', ForeignKey [''user_id''] ''users'' [''id'']),
      (''sessions_deal_id_fkey'', ForeignKey [''deal_id''] ''deals'' [''id'']),
      (''sessions_pkey'', PrimaryKey [''id''])]"

definition profiles_relation :: relation where
  "profiles_relation = closed_table (OwnedBySetting ''org_id'')
     [uuid_key,
      Column ''org_id'' INTEGER False,
      Column ''firm_name'' TEXT True,
      Column ''firm_type'' TEXT True,
      Column ''aum_band'' TEXT True,
      Column ''mandate'' JSONB True,
      Column ''weights'' JSONB True,
      stamped ''created_at'',
      stamped ''updated_at'']
     [(''investment_profiles_org_id_fkey'', ForeignKey [''org_id''] ''organisation'' [''id'']),
      (''investment_profiles_pkey'', PrimaryKey [''id'']),
      (''investment_profiles_org_id_key'', UniqueOver [''org_id''])]"

definition admins_created :: relation where
  "admins_created = with_sequence ''clerk_admin_users'' (closed_table (SettingIs ''clerk_org_id'')
     [serial_key ''clerk_admin_users'',
      Column ''clerk_user_id'' (VARCHAR 64) False,
      Column ''clerk_org_id'' (VARCHAR 64) False,
      Column ''org_id'' INTEGER False,
      Column ''email'' (VARCHAR 100) True,
      Column ''admin_type'' (ENUM ''admintype'' [''platform'', ''client'']) False,
      server_default (Literal ''active'') (Column ''status'' (VARCHAR 50) False),
      Column ''created_at'' TIMESTAMP True]
     [(''clerk_admin_users_org_id_fkey'', ForeignKey [''org_id''] ''organisation'' [''id'']),
      (''clerk_admin_users_pkey'', PrimaryKey [''id''])])"

definition admins_relation :: relation where
  "admins_relation = admins_created\<lparr>rel_columns := rel_columns admins_created @
     [Column ''updated_at'' TIMESTAMP True]\<rparr>"

definition chunks_created :: relation where
  "chunks_created = closed_table (OwnedBySetting ''org_id'')
     [uuid_key,
      Column ''org_id'' INTEGER False,
      Column ''document_id'' UUID True,
      Column ''content'' TEXT False,
      Column ''embedding'' (VECTOR embedding_dim) True,
      Column ''embedding_version'' TEXT True,
      (Column ''content_tsv'' TSVECTOR True)\<lparr>col_computed := Some ''to_tsvector('english', content)''\<rparr>,
      Column ''element_type'' TEXT True,
      Column ''page'' INTEGER True,
      Column ''char_start'' INTEGER True,
      Column ''char_end'' INTEGER True,
      stamped ''created_at'']
     [(''chunks_org_id_fkey'', ForeignKey [''org_id''] ''organisation'' [''id'']),
      (''chunks_pkey'', PrimaryKey [''id''])]"

definition chunks_relation :: relation where
  "chunks_relation = chunks_created\<lparr>rel_constraints := rel_constraints chunks_created @
     [(''fk_chunks_document_id_data_source'', ForeignKey [''document_id''] ''data_source'' [''id''])]\<rparr>"

definition corroboration_relation :: relation where
  "corroboration_relation = append_only (closed_table (OwnedBySetting ''org_id'')
     [uuid_key,
      Column ''org_id'' INTEGER False,
      Column ''claim_id'' UUID False,
      Column ''outside_source'' TEXT False,
      Column ''result'' JSONB False,
      stamped ''created_at'']
     [(''corroboration_events_org_id_fkey'', ForeignKey [''org_id''] ''organisation'' [''id'']),
      (''corroboration_events_claim_id_fkey'', ForeignKey [''claim_id''] ''claims'' [''id'']),
      (''corroboration_events_pkey'', PrimaryKey [''id''])])"

definition data_source_relation :: relation where
  "data_source_relation = (append_only (closed_table (OwnedBySetting ''org_id'')
     [uuid_key,
      Column ''org_id'' INTEGER False,
      Column ''deal_id'' UUID False,
      Column ''storage_key'' TEXT False,
      Column ''filename'' TEXT False,
      Column ''declared_sha256'' (VARCHAR 64) False,
      Column ''fingerprint'' (VARCHAR 64) True,
      server_default (Literal ''pending'') (Column ''status'' (VARCHAR 16) False),
      Column ''status_updated_at'' TIMESTAMPTZ True,
      stamped ''created_at'']
     [(''ck_data_source_status'', Check (IsIn ''status'' [''pending'', ''verified'', ''quarantined'',
       ''ocr_needed'', ''mismatch''])),
      (''data_source_org_id_fkey'', ForeignKey [''org_id''] ''organisation'' [''id'']),
      (''data_source_deal_id_fkey'', ForeignKey [''deal_id''] ''deals'' [''id'']),
      (''data_source_pkey'', PrimaryKey [''id''])]))
     \<lparr>rel_update_columns := [''status'', ''fingerprint'', ''status_updated_at''],
      rel_triggers := [(''trg_data_source_one_way_status'', ''data_source_enforce_one_way_status'')]\<rparr>"

subsection \<open>Indexes\<close>

definition organisation_indexes :: "(string \<times> index) list" where
  "organisation_indexes =
     [indexed ''organisation'' ''id'' False,
      indexed ''organisation'' ''name'' False,
      indexed ''funds'' ''id'' False,
      indexed ''funds'' ''name'' False,
      indexed ''funds'' ''org_id'' False,
      indexed ''organisation'' ''clerk_org_id'' True]"

definition claims_indexes :: "(string \<times> index) list" where
  "claims_indexes =
     [indexed ''claims'' ''attribute'' False,
      indexed ''claims'' ''deal_id'' False,
      indexed ''claims'' ''org_id'' False,
      indexed ''claims'' ''session_id'' False,
      indexed ''claims'' ''status'' False]"

definition users_indexes :: "(string \<times> index) list" where
  "users_indexes =
     [indexed ''users'' ''clerk_org_id'' False,
      indexed ''users'' ''clerk_user_id'' True,
      indexed ''users'' ''email'' True,
      indexed ''users'' ''id'' False,
      indexed ''users'' ''name'' False,
      indexed ''users'' ''org_id'' False]"

definition audit_indexes :: "(string \<times> index) list" where
  "audit_indexes =
     [indexed ''human_audit_log'' ''org_id'' False,
      indexed ''human_audit_log'' ''event_type'' False,
      indexed ''human_audit_log'' ''deal_id'' False,
      indexed ''human_audit_log'' ''session_id'' False]"

definition deals_indexes :: "(string \<times> index) list" where
  "deals_indexes =
     [indexed ''deals'' ''org_id'' False,
      indexed ''deals'' ''fund_id'' False]"

definition ai_audit_indexes :: "(string \<times> index) list" where
  "ai_audit_indexes =
     [indexed ''ai_audit_log'' ''org_id'' False]"

definition sessions_indexes :: "(string \<times> index) list" where
  "sessions_indexes =
     [indexed ''sessions'' ''org_id'' False,
      indexed ''sessions'' ''deal_id'' False]"

definition profiles_indexes :: "(string \<times> index) list" where
  "profiles_indexes =
     [indexed ''investment_profiles'' ''org_id'' True]"

definition admins_indexes :: "(string \<times> index) list" where
  "admins_indexes =
     [indexed ''clerk_admin_users'' ''clerk_user_id'' True,
      indexed ''clerk_admin_users'' ''clerk_org_id'' False,
      indexed ''clerk_admin_users'' ''org_id'' False,
      indexed ''clerk_admin_users'' ''email'' False]"

definition chunks_indexes :: "(string \<times> index) list" where
  "chunks_indexes =
     [indexed ''chunks'' ''org_id'' False,
      indexed ''chunks'' ''document_id'' False,
      (''ix_chunks_embedding_hnsw'', \<lparr>idx_table = ''chunks'', idx_columns = [''embedding''], idx_unique = False,
         idx_using = Some ''hnsw'', idx_ops = [(''embedding'', ''vector_cosine_ops'')]\<rparr>),
      (''ix_chunks_content_tsv_gin'', \<lparr>idx_table = ''chunks'', idx_columns = [''content_tsv''], idx_unique = False,
         idx_using = Some ''gin'', idx_ops = []\<rparr>)]"

definition corroboration_indexes :: "(string \<times> index) list" where
  "corroboration_indexes =
     [indexed ''corroboration_events'' ''org_id'' False,
      indexed ''corroboration_events'' ''claim_id'' False,
      indexed ''corroboration_events'' ''outside_source'' False]"

definition data_source_indexes :: "(string \<times> index) list" where
  "data_source_indexes =
     [indexed ''data_source'' ''org_id'' False,
      indexed ''data_source'' ''deal_id'' False,
      indexed ''data_source'' ''declared_sha256'' False,
      indexed ''data_source'' ''status'' False]"

subsection \<open>The catalogue\<close>

definition head_tables :: "(string \<times> relation) list" where
  "head_tables =
     [(''organisation'', organisation_relation),
      (''funds'', funds_relation),
      (''claims'', claims_relation),
      (''users'', users_relation),
      (''human_audit_log'', audit_relation),
      (''deals'', deals_relation),
      (''ai_audit_log'', ai_audit_relation),
      (''sessions'', sessions_relation),
      (''investment_profiles'', profiles_relation),
      (''clerk_admin_users'', admins_relation),
      (''chunks'', chunks_relation),
      (''corroboration_events'', corroboration_relation),
      (''data_source'', data_source_relation)]"

definition head_indexes :: "(string \<times> index) list" where
  "head_indexes = organisation_indexes @ claims_indexes @ users_indexes @ audit_indexes @ deals_indexes @ ai_audit_indexes
     @ sessions_indexes @ profiles_indexes @ admins_indexes @ chunks_indexes @ corroboration_indexes @ data_source_indexes"

definition head_catalog :: catalog where
  "head_catalog =
     \<lparr>relations = head_tables, indexes = head_indexes,
      enum_types = [(''orgtype'', [''PE_FIRM'', ''FAMILY_OFFICE'']), (''admintype'', [''platform'', ''client''])],
      trigger_functions = [(''data_source_enforce_one_way_status'', Differs ''status'' ''pending'')],
      extensions = [''vector''], schema_usage = True, default_table_grants = full_grants, default_sequence_usage = True\<rparr>"

lemma column_fields [simp]:
  "col_name (Column n t b) = n" "col_type (Column n t b) = t" "col_nullable (Column n t b) = b"
  "col_default (Column n t b) = None" "col_computed (Column n t b) = None"
  "col_name (server_default d x) = col_name x" "col_type (server_default d x) = col_type x"
  "col_nullable (server_default d x) = col_nullable x" "col_default (server_default d x) = Some d"
  "col_computed (server_default d x) = col_computed x"
  "col_name uuid_key = ''id''" "col_type uuid_key = UUID" "col_default uuid_key = Some (Expression ''gen_random_uuid()'')"
  "col_nullable uuid_key = False" "col_computed uuid_key = None"
  "col_name (stamped n) = n" "col_type (stamped n) = TIMESTAMPTZ" "col_default (stamped n) = Some (Expression ''now()'')"
  "col_nullable (stamped n) = False" "col_computed (stamped n) = None"
  by (simp_all add: Column_def server_default_def uuid_key_def stamped_def)


end
