(* ===== verification/SchemaTables.thy ===== *)
theory SchemaTables
  imports HeadTables Database
begin

section \<open>The tables of the model are the tables of the schema\<close>

text \<open>
  \<open>Database\<close> gives each table its policy, CHECKs, unique keys, foreign keys, privileges and trigger as
  functions on records. Here a record is written as the row Postgres stores, and each of them is
  shown to be what the relation at head says of that row.
\<close>

subsection \<open>Rows\<close>

fun opt_cell :: "('a \<Rightarrow> sql_value) \<Rightarrow> 'a option \<Rightarrow> sql_value" where
  "opt_cell v None = Null"
| "opt_cell v (Some x) = v x"

fun org_type_label :: "OrgType \<Rightarrow> string" where
  "org_type_label PE_FIRM = ''PE_FIRM''"
| "org_type_label FAMILY_OFFICE = ''FAMILY_OFFICE''"

fun admin_type_label :: "AdminType \<Rightarrow> string" where
  "admin_type_label Platform = ''platform''"
| "admin_type_label Client = ''client''"

definition organisation_row :: "organisation \<Rightarrow> sql_row" where
  "organisation_row r =
     [(''id'', VInt (org_id r)), (''name'', VText (org_name r)),
      (''type'', opt_cell (\<lambda>t. VText (org_type_label t)) (org_type r)), (''created_at'', VTime (org_created_at r)),
      (''clerk_org_id'', VText (org_clerk_org_id r))]"

definition fund_row :: "fund \<Rightarrow> sql_row" where
  "fund_row r =
     [(''id'', VInt (fnd_id r)), (''org_id'', VInt (fnd_org_id r)), (''name'', VText (fnd_name r)),
      (''vintage_year'', VInt (fnd_vintage_year r)), (''status'', VText (fnd_status r)),
      (''strategy'', opt_cell VText (fnd_strategy r))]"

definition claim_row :: "claim \<Rightarrow> sql_row" where
  "claim_row r =
     [(''id'', VUuid (clm_id r)), (''org_id'', VInt (clm_org_id r)), (''deal_id'', opt_cell VUuid (clm_deal_id r)),
      (''session_id'', opt_cell VUuid (clm_session_id r)), (''data_source_id'', opt_cell VUuid (clm_data_source_id r)),
      (''chunk_id'', opt_cell VUuid (clm_chunk_id r)), (''entity'', VText (clm_entity r)),
      (''attribute'', VText (clm_attribute r)), (''period_year'', opt_cell VInt (clm_period_year r)),
      (''period_kind'', opt_cell VText (clm_period_kind r)), (''value'', VJson (clm_value r)), (''kind'', VText (clm_kind r)),
      (''page'', opt_cell VInt (clm_page r)), (''char_start'', opt_cell VInt (clm_char_start r)),
      (''char_end'', opt_cell VInt (clm_char_end r)), (''bbox'', opt_cell VJson (clm_bbox r)),
      (''sheet'', opt_cell VText (clm_sheet r)), (''cell_ref'', opt_cell VText (clm_cell_ref r)),
      (''paragraph'', opt_cell VInt (clm_paragraph r)), (''status'', VText (clm_status r)),
      (''verification_method'', opt_cell VText (clm_verification_method r)), (''section'', opt_cell VText (clm_section r)),
      (''table_group_id'', opt_cell VUuid (clm_table_group_id r)), (''fragment_order'', opt_cell VInt (clm_fragment_order r)),
      (''flags'', opt_cell VTexts (clm_flags r)), (''created_at'', VTime (clm_created_at r)),
      (''claim_kind'', opt_cell VText (clm_claim_kind r)), (''assertion_class'', opt_cell VText (clm_assertion_class r))]"

definition user_row :: "user \<Rightarrow> sql_row" where
  "user_row r =
     [(''id'', VInt (usr_id r)), (''org_id'', VInt (usr_org_id r)), (''name'', opt_cell VText (usr_name r)),
      (''email'', opt_cell VText (usr_email r)), (''role'', VText (usr_role r)), (''login_method'', VText (usr_login_method r)),
      (''clerk_user_id'', VText (usr_clerk_user_id r)), (''clerk_org_id'', VText (usr_clerk_org_id r)),
      (''status'', VText (usr_status r)), (''deactivated_at'', opt_cell VTime (usr_deactivated_at r))]"

definition audit_log_row :: "human_audit_log \<Rightarrow> sql_row" where
  "audit_log_row r =
     [(''id'', VUuid (aud_id r)), (''org_id'', VInt (aud_org_id r)), (''actor_id'', opt_cell VText (aud_actor_id r)),
      (''actor_email'', opt_cell VText (aud_actor_email r)), (''event_type'', VText (aud_event_type r)),
      (''deal_id'', opt_cell VUuid (aud_deal_id r)), (''session_id'', opt_cell VUuid (aud_session_id r)),
      (''payload'', opt_cell VJson (aud_payload r)), (''ip_address'', opt_cell VText (aud_ip_address r)),
      (''user_agent'', opt_cell VText (aud_user_agent r)), (''created_at'', VTime (aud_created_at r))]"

definition deal_row :: "deal \<Rightarrow> sql_row" where
  "deal_row r =
     [(''id'', VUuid (deal_id r)), (''org_id'', VInt (deal_org_id r)), (''fund_id'', opt_cell VInt (deal_fund_id r)),
      (''name'', VText (deal_name r)), (''gp_source'', opt_cell VText (deal_gp_source r)),
      (''deal_size_min_usd'', opt_cell VInt (deal_size_min_usd r)), (''deal_size_max_usd'', opt_cell VInt (deal_size_max_usd r)),
      (''sector_tags'', opt_cell VJson (deal_sector_tags r)), (''status'', VText (deal_status r)),
      (''created_at'', VTime (deal_created_at r)), (''updated_at'', VTime (deal_updated_at r))]"

definition ai_audit_row :: "ai_audit_log \<Rightarrow> sql_row" where
  "ai_audit_row r =
     [(''id'', VUuid (aia_id r)), (''org_id'', VInt (aia_org_id r)), (''fund_id'', opt_cell VInt (aia_fund_id r)),
      (''user_id'', opt_cell VText (aia_user_id r)), (''session_id'', opt_cell VUuid (aia_session_id r)),
      (''pipeline_run_id'', opt_cell VUuid (aia_pipeline_run_id r)), (''parent_agent_id'', opt_cell VUuid (aia_parent_agent_id r)),
      (''pass_number'', opt_cell VInt (aia_pass_number r)), (''agent_name'', opt_cell VText (aia_agent_name r)),
      (''model_id'', opt_cell VText (aia_model_id r)), (''model_version'', opt_cell VText (aia_model_version r)),
      (''system_prompt_hash'', opt_cell VText (aia_system_prompt_hash r)),
      (''tool_call_names'', opt_cell VJson (aia_tool_call_names r)), (''input_tokens'', opt_cell VInt (aia_input_tokens r)),
      (''output_tokens'', opt_cell VInt (aia_output_tokens r)), (''cache_read_tokens'', opt_cell VInt (aia_cache_read_tokens r)),
      (''retry_count'', VInt (aia_retry_count r)), (''error_code'', opt_cell VText (aia_error_code r)),
      (''duration_ms'', opt_cell VInt (aia_duration_ms r)), (''created_at'', VTime (aia_created_at r))]"

definition session_row :: "session \<Rightarrow> sql_row" where
  "session_row r =
     [(''id'', VUuid (ses_id r)), (''org_id'', VInt (ses_org_id r)), (''user_id'', opt_cell VInt (ses_user_id r)),
      (''deal_id'', VUuid (ses_deal_id r)), (''file_name'', VText (ses_file_name r)),
      (''memo_json'', opt_cell VJson (ses_memo_json r)), (''composed_at'', opt_cell VTime (ses_composed_at r)),
      (''created_at'', VTime (ses_created_at r))]"

definition profile_row :: "investment_profile \<Rightarrow> sql_row" where
  "profile_row r =
     [(''id'', VUuid (prof_id r)), (''org_id'', VInt (prof_org_id r)), (''firm_name'', opt_cell VText (prof_firm_name r)),
      (''firm_type'', opt_cell VText (prof_firm_type r)), (''aum_band'', opt_cell VText (prof_aum_band r)),
      (''mandate'', opt_cell VJson (prof_mandate r)), (''weights'', opt_cell VJson (prof_weights r)),
      (''created_at'', VTime (prof_created_at r)), (''updated_at'', VTime (prof_updated_at r))]"

definition admin_row :: "clerk_admin_user \<Rightarrow> sql_row" where
  "admin_row r =
     [(''id'', VInt (adm_id r)), (''clerk_user_id'', VText (adm_clerk_user_id r)), (''clerk_org_id'', VText (adm_clerk_org_id r)),
      (''org_id'', VInt (adm_org_id r)), (''email'', opt_cell VText (adm_email r)),
      (''admin_type'', VText (admin_type_label (adm_admin_type r))), (''status'', VText (adm_status r)),
      (''created_at'', opt_cell VTime (adm_created_at r)), (''updated_at'', opt_cell VTime (adm_updated_at r))]"

definition chunk_table_row :: "chunk \<Rightarrow> sql_row" where
  "chunk_table_row r =
     [(''id'', VUuid (chk_id r)), (''org_id'', VInt (chk_org_id r)), (''document_id'', opt_cell VUuid (chk_document_id r)),
      (''content'', VText (chk_content r)), (''embedding'', opt_cell VVector (chk_embedding r)),
      (''embedding_version'', opt_cell VText (chk_embedding_version r)),
      (''content_tsv'', Computed ''to_tsvector('english', content)''), (''element_type'', opt_cell VText (chk_element_type r)),
      (''page'', opt_cell VInt (chk_page r)), (''char_start'', opt_cell VInt (chk_char_start r)),
      (''char_end'', opt_cell VInt (chk_char_end r)), (''created_at'', VTime (chk_created_at r))]"

definition corroboration_row :: "corroboration_event \<Rightarrow> sql_row" where
  "corroboration_row r =
     [(''id'', VUuid (cor_id r)), (''org_id'', VInt (cor_org_id r)), (''claim_id'', VUuid (cor_claim_id r)),
      (''outside_source'', VText (cor_outside_source r)), (''result'', VJson (cor_result r)),
      (''created_at'', VTime (cor_created_at r))]"

definition data_source_row :: "data_source \<Rightarrow> sql_row" where
  "data_source_row r =
     [(''id'', VUuid (ds_id r)), (''org_id'', VInt (ds_org_id r)), (''deal_id'', VUuid (ds_deal_id r)),
      (''storage_key'', VText (ds_storage_key r)), (''filename'', VText (ds_filename r)),
      (''declared_sha256'', VText (ds_declared_sha256 r)), (''fingerprint'', opt_cell VText (ds_fingerprint r)),
      (''status'', VText (ds_status r)), (''status_updated_at'', opt_cell VTime (ds_status_updated_at r)),
      (''created_at'', VTime (ds_created_at r))]"

lemmas row_defs = organisation_row_def fund_row_def claim_row_def user_row_def audit_log_row_def deal_row_def ai_audit_row_def
  session_row_def profile_row_def admin_row_def chunk_table_row_def corroboration_row_def data_source_row_def

definition stored :: "db \<Rightarrow> string \<Rightarrow> sql_row list" where
  "stored d t =
     (case map_of
        [(''organisation'', map organisation_row (t_organisation d)), (''funds'', map fund_row (t_funds d)),
         (''claims'', map claim_row (t_claims d)), (''users'', map user_row (t_users d)),
         (''human_audit_log'', map audit_log_row (t_human_audit_log d)), (''deals'', map deal_row (t_deals d)),
         (''ai_audit_log'', map ai_audit_row (t_ai_audit_log d)), (''sessions'', map session_row (t_sessions d)),
         (''investment_profiles'', map profile_row (t_investment_profiles d)),
         (''clerk_admin_users'', map admin_row (t_clerk_admin_users d)), (''chunks'', map chunk_table_row (t_chunks d)),
         (''corroboration_events'', map corroboration_row (t_corroboration_events d)),
         (''data_source'', map data_source_row (t_data_source d))] t of
        None \<Rightarrow> [] | Some rows \<Rightarrow> rows)"

subsection \<open>What a relation says of a row\<close>

text \<open>A policy under a setting of \<open>app.org_id\<close>; the policies of a table are alternatives, and none admits nothing.\<close>

fun policy_admits :: "string option \<Rightarrow> db \<Rightarrow> sql_policy \<Rightarrow> sql_row \<Rightarrow> bool" where
  "policy_admits None d p r = False"
| "policy_admits (Some g) d (SettingIs c) r = (cell r c = VText g)"
| "policy_admits (Some g) d (OwnedBySetting c) r =
     (cell r c \<in> set (map (\<lambda>q. cell q ''id'') (filter (\<lambda>q. cell q ''clerk_org_id'' = VText g) (stored d ''organisation''))) - {Null})"

definition admitted :: "string option \<Rightarrow> db \<Rightarrow> relation \<Rightarrow> sql_row \<Rightarrow> bool" where
  "admitted g d R r \<longleftrightarrow> \<not> rel_rls R \<or> list_ex (\<lambda>p. policy_admits g d (snd p) r) (rel_policies R)"

definition row_fits :: "relation \<Rightarrow> sql_row \<Rightarrow> bool" where
  "row_fits R r \<longleftrightarrow> map fst r = column_names R \<and> list_all (\<lambda>x. col_nullable x \<or> cell r (col_name x) \<noteq> Null) (rel_columns R)"

definition checks_pass :: "relation \<Rightarrow> sql_row \<Rightarrow> bool" where
  "checks_pass R r \<longleftrightarrow> list_all (\<lambda>k. case snd k of Check p \<Rightarrow> check_passes p r | _ \<Rightarrow> True) (rel_constraints R)"

definition keys_unique :: "string \<Rightarrow> relation \<Rightarrow> sql_row list \<Rightarrow> bool" where
  "keys_unique t R rows \<longleftrightarrow>
     list_all (\<lambda>k. case snd k of PrimaryKey cs \<Rightarrow> unique_over cs rows | UniqueOver cs \<Rightarrow> unique_over cs rows | _ \<Rightarrow> True) (rel_constraints R)
     \<and> list_all (\<lambda>e. idx_table (snd e) = t \<and> idx_unique (snd e) \<longrightarrow> unique_over (idx_columns (snd e)) rows) head_indexes"

definition references_hold :: "db \<Rightarrow> relation \<Rightarrow> sql_row \<Rightarrow> bool" where
  "references_hold d R r \<longleftrightarrow>
     list_all (\<lambda>k. case snd k of ForeignKey cs u ks \<Rightarrow> references cs r ks (stored d u) | _ \<Rightarrow> True) (rel_constraints R)"

definition update_granted :: "relation \<Rightarrow> update_grant" where
  "update_granted R = (if Update \<in> set (rel_grants R) then AllColumns else OnlyColumns (rel_update_columns R))"

text \<open>A trigger raises when the predicate of its function is true of the old row.\<close>

definition trigger_raises :: "relation \<Rightarrow> sql_row \<Rightarrow> bool" where
  "trigger_raises R r \<longleftrightarrow>
     list_ex (\<lambda>g. case map_of (trigger_functions head_catalog) (snd g) of None \<Rightarrow> False | Some p \<Rightarrow> sql_eval p r = Some True) (rel_triggers R)"

text \<open>The model lets the application read and insert into every table, with generated keys.\<close>

definition app_may_use :: "relation \<Rightarrow> bool" where
  "app_may_use R \<longleftrightarrow> schema_usage head_catalog \<and> {Select, Insert} \<subseteq> set (rel_grants R) \<and> list_all snd (rel_sequences R)"

definition implements :: "string \<Rightarrow> ('r \<Rightarrow> sql_row) \<Rightarrow> 'r table \<Rightarrow> bool" where
  "implements t row T \<longleftrightarrow>
     (\<exists>R. map_of head_tables t = Some R
        \<and> (\<forall>d. stored d t = map row (tb_rows T d)) \<and> (\<forall>r. row_fits R (row r))
        \<and> (\<forall>g d r. tb_policy T g d r \<longleftrightarrow> admitted g d R (row r))
        \<and> (\<forall>r. tb_check T r \<longleftrightarrow> checks_pass R (row r))
        \<and> (\<forall>rs. tb_unique T rs \<longleftrightarrow> keys_unique t R (map row rs))
        \<and> (\<forall>d r. tb_fk T d r \<longleftrightarrow> references_hold d R (row r))
        \<and> tb_update_grant T = update_granted R \<and> tb_delete_grant T = (Delete \<in> set (rel_grants R))
        \<and> app_may_use R
        \<and> (\<forall>r. tb_blocks_update T r \<longleftrightarrow> trigger_raises R (row r)))"

subsection \<open>Table by table\<close>

lemma opt_cell_Null [simp]: "(\<And>x. v x \<noteq> Null) \<Longrightarrow> opt_cell v a = Null \<longleftrightarrow> a = None"
  by (cases a) simp_all

lemma opt_cell_eq [simp]: "opt_cell VText a = VText s \<longleftrightarrow> a = Some s"
  by (cases a) simp_all

lemma unique_one:
  assumes "\<And>r. cell (row r) c = v (f r)" and "inj v" and "\<And>x. v x \<noteq> Null"
  shows "unique_over [c] (map row rs) \<longleftrightarrow> distinct (map f rs)"
proof -
  have "map (key_of [c]) (map row rs) = map (\<lambda>x. [v x]) (map f rs)" using assms(1) by (simp add: key_of_def)
  moreover have "filter (\<lambda>k. Null \<notin> set k) (map (\<lambda>x. [v x]) ys) = map (\<lambda>x. [v x]) ys" for ys
    using assms(3) by (simp add: filter_id_conv) metis
  moreover have "inj (\<lambda>x. [v x])" using assms(2) by (auto simp: inj_def)
  ultimately show ?thesis unfolding unique_over_def by (metis distinct_map inj_on_subset subset_UNIV)
qed

lemma unique_opt:
  assumes "\<And>r. cell (row r) c = opt_cell v (f r)" and "inj v" and "\<And>x. v x \<noteq> Null"
  shows "unique_over [c] (map row rs) \<longleftrightarrow> distinct (non_null (map f rs))"
proof -
  have "map (key_of [c]) (map row rs) = map (\<lambda>x. [opt_cell v x]) (map f rs)" using assms(1) by (simp add: key_of_def)
  moreover have "filter (\<lambda>k. Null \<notin> set k) (map (\<lambda>x. [opt_cell v x]) ys) = map (\<lambda>x. [v x]) (non_null ys)" for ys
    using assms(3) assms(3) [symmetric] by (induction ys) (auto simp: non_null_def split: option.splits)
  moreover have "inj (\<lambda>x. [v x])" using assms(2) by (auto simp: inj_def)
  ultimately show ?thesis unfolding unique_over_def by (metis distinct_map inj_on_subset subset_UNIV)
qed

lemma references_one:
  assumes "cell r c = v x" and "\<And>q. cell (row q) k = v (h q)" and "inj v" and "\<And>y. v y \<noteq> Null"
  shows "references [c] r [k] (map row qs) \<longleftrightarrow> x \<in> set (map h qs)"
  using assms(1,2,4) assms(4) [symmetric] by (auto simp: references_def key_of_def image_iff inj_eq [OF assms(3)])

lemma references_opt:
  assumes "cell r c = opt_cell v x" and "\<And>q. cell (row q) k = v (h q)" and "inj v" and "\<And>y. v y \<noteq> Null"
  shows "references [c] r [k] (map row qs) \<longleftrightarrow> refers x (map h qs)"
proof (cases x)
  case None
  with assms(1) show ?thesis by (simp add: references_def key_of_def refers_def)
next
  case (Some y)
  with references_one [of r c v y row k h qs] assms show ?thesis by (simp add: refers_def)
qed

lemma inj_cells [simp]: "inj VInt" "inj VText" "inj VUuid"
  by (simp_all add: inj_def)

lemma cells [simp]:
  "cell (organisation_row a) ''id'' = VInt (org_id a)" "cell (organisation_row a) ''clerk_org_id'' = VText (org_clerk_org_id a)"
  "cell (fund_row b) ''id'' = VInt (fnd_id b)" "cell (fund_row b) ''org_id'' = VInt (fnd_org_id b)"
  "cell (user_row e) ''id'' = VInt (usr_id e)" "cell (user_row e) ''org_id'' = VInt (usr_org_id e)"
  "cell (user_row e) ''clerk_org_id'' = VText (usr_clerk_org_id e)" "cell (user_row e) ''clerk_user_id'' = VText (usr_clerk_user_id e)"
  "cell (user_row e) ''email'' = opt_cell VText (usr_email e)"
  "cell (audit_log_row f) ''id'' = VUuid (aud_id f)" "cell (audit_log_row f) ''org_id'' = VInt (aud_org_id f)"
  "cell (deal_row g) ''id'' = VUuid (deal_id g)" "cell (deal_row g) ''org_id'' = VInt (deal_org_id g)"
  "cell (deal_row g) ''fund_id'' = opt_cell VInt (deal_fund_id g)"
  "cell (ai_audit_row h) ''id'' = VUuid (aia_id h)" "cell (ai_audit_row h) ''org_id'' = VInt (aia_org_id h)"
  "cell (ai_audit_row h) ''fund_id'' = opt_cell VInt (aia_fund_id h)"
  "cell (session_row i) ''id'' = VUuid (ses_id i)" "cell (session_row i) ''org_id'' = VInt (ses_org_id i)"
  "cell (session_row i) ''user_id'' = opt_cell VInt (ses_user_id i)" "cell (session_row i) ''deal_id'' = VUuid (ses_deal_id i)"
  "cell (profile_row j) ''id'' = VUuid (prof_id j)" "cell (profile_row j) ''org_id'' = VInt (prof_org_id j)"
  "cell (admin_row k) ''id'' = VInt (adm_id k)" "cell (admin_row k) ''org_id'' = VInt (adm_org_id k)"
  "cell (admin_row k) ''clerk_org_id'' = VText (adm_clerk_org_id k)" "cell (admin_row k) ''clerk_user_id'' = VText (adm_clerk_user_id k)"
  "cell (chunk_table_row l) ''id'' = VUuid (chk_id l)" "cell (chunk_table_row l) ''org_id'' = VInt (chk_org_id l)"
  "cell (chunk_table_row l) ''document_id'' = opt_cell VUuid (chk_document_id l)"
  "cell (corroboration_row m) ''id'' = VUuid (cor_id m)" "cell (corroboration_row m) ''org_id'' = VInt (cor_org_id m)"
  "cell (corroboration_row m) ''claim_id'' = VUuid (cor_claim_id m)"
  "cell (data_source_row n) ''id'' = VUuid (ds_id n)" "cell (data_source_row n) ''org_id'' = VInt (ds_org_id n)"
  "cell (data_source_row n) ''deal_id'' = VUuid (ds_deal_id n)" "cell (data_source_row n) ''status'' = VText (ds_status n)"
  by (simp_all add: cell_def row_defs)

lemma claim_cells [simp]:
  "cell (claim_row r) ''id'' = VUuid (clm_id r)" "cell (claim_row r) ''org_id'' = VInt (clm_org_id r)"
  "cell (claim_row r) ''deal_id'' = opt_cell VUuid (clm_deal_id r)"
  "cell (claim_row r) ''data_source_id'' = opt_cell VUuid (clm_data_source_id r)"
  "cell (claim_row r) ''period_kind'' = opt_cell VText (clm_period_kind r)" "cell (claim_row r) ''kind'' = VText (clm_kind r)"
  "cell (claim_row r) ''page'' = opt_cell VInt (clm_page r)" "cell (claim_row r) ''char_start'' = opt_cell VInt (clm_char_start r)"
  "cell (claim_row r) ''char_end'' = opt_cell VInt (clm_char_end r)" "cell (claim_row r) ''sheet'' = opt_cell VText (clm_sheet r)"
  "cell (claim_row r) ''cell_ref'' = opt_cell VText (clm_cell_ref r)" "cell (claim_row r) ''paragraph'' = opt_cell VInt (clm_paragraph r)"
  "cell (claim_row r) ''status'' = VText (clm_status r)"
  "cell (claim_row r) ''verification_method'' = opt_cell VText (clm_verification_method r)"
  "cell (claim_row r) ''claim_kind'' = opt_cell VText (clm_claim_kind r)"
  "cell (claim_row r) ''assertion_class'' = opt_cell VText (clm_assertion_class r)"
  by (simp_all add: cell_def claim_row_def)

lemma stored_tables [simp]:
  "stored d ''organisation'' = map organisation_row (t_organisation d)" "stored d ''funds'' = map fund_row (t_funds d)"
  "stored d ''claims'' = map claim_row (t_claims d)" "stored d ''users'' = map user_row (t_users d)"
  "stored d ''human_audit_log'' = map audit_log_row (t_human_audit_log d)" "stored d ''deals'' = map deal_row (t_deals d)"
  "stored d ''ai_audit_log'' = map ai_audit_row (t_ai_audit_log d)" "stored d ''sessions'' = map session_row (t_sessions d)"
  "stored d ''investment_profiles'' = map profile_row (t_investment_profiles d)"
  "stored d ''clerk_admin_users'' = map admin_row (t_clerk_admin_users d)" "stored d ''chunks'' = map chunk_table_row (t_chunks d)"
  "stored d ''corroboration_events'' = map corroboration_row (t_corroboration_events d)"
  "stored d ''data_source'' = map data_source_row (t_data_source d)"
  by (simp_all add: stored_def)

lemma head_lookup [simp]:
  "map_of head_tables ''organisation'' = Some organisation_relation" "map_of head_tables ''funds'' = Some funds_relation"
  "map_of head_tables ''claims'' = Some claims_relation" "map_of head_tables ''users'' = Some users_relation"
  "map_of head_tables ''human_audit_log'' = Some audit_relation" "map_of head_tables ''deals'' = Some deals_relation"
  "map_of head_tables ''ai_audit_log'' = Some ai_audit_relation" "map_of head_tables ''sessions'' = Some sessions_relation"
  "map_of head_tables ''investment_profiles'' = Some profiles_relation"
  "map_of head_tables ''clerk_admin_users'' = Some admins_relation" "map_of head_tables ''chunks'' = Some chunks_relation"
  "map_of head_tables ''corroboration_events'' = Some corroboration_relation"
  "map_of head_tables ''data_source'' = Some data_source_relation"
  by (simp_all add: head_tables_def)

lemma org_policy_admits:
  assumes "cell r c = VInt i" and "rel_rls R" and "rel_policies R = [(n, OwnedBySetting c)]"
  shows "admitted g d R r \<longleftrightarrow> org_policy g d i"
  using assms by (cases g) (auto simp: admitted_def org_policy_def clerk_policy_def image_iff Bex_def)

lemma clerk_policy_admits:
  assumes "cell r c = VText s" and "rel_rls R" and "rel_policies R = [(n, SettingIs c)]"
  shows "admitted g d R r \<longleftrightarrow> clerk_policy g s"
  using assms by (cases g) (auto simp: admitted_def clerk_policy_def)

lemma references_org: "cell r ''org_id'' = VInt i \<Longrightarrow> references [''org_id''] r [''id''] (map organisation_row (t_organisation d)) \<longleftrightarrow> i \<in> org_ids d"
  by (subst references_one [where v = VInt and h = org_id and x = i]) (simp_all add: org_ids_def)

definition unique_index_keys :: "(string \<times> string) list" where
  "unique_index_keys =
     [(''organisation'', ''clerk_org_id''), (''users'', ''clerk_user_id''), (''users'', ''email''),
      (''investment_profiles'', ''org_id''), (''clerk_admin_users'', ''clerk_user_id'')]"

lemma unique_indexes:
  "map (\<lambda>e. (idx_table (snd e), idx_columns (snd e))) (filter (\<lambda>e. idx_unique (snd e)) head_indexes)
     = map (\<lambda>(t, x). (t, [x])) unique_index_keys"
  by (simp add: head_indexes_def unique_index_keys_def organisation_indexes_def claims_indexes_def users_indexes_def audit_indexes_def
    deals_indexes_def ai_audit_indexes_def sessions_indexes_def profiles_indexes_def admins_indexes_def chunks_indexes_def
    corroboration_indexes_def data_source_indexes_def indexed_def)

lemma keys_unique_iff:
  "keys_unique t R rows \<longleftrightarrow>
     list_all (\<lambda>k. case snd k of PrimaryKey cs \<Rightarrow> unique_over cs rows | UniqueOver cs \<Rightarrow> unique_over cs rows | _ \<Rightarrow> True) (rel_constraints R)
     \<and> list_all (\<lambda>(u, x). u = t \<longrightarrow> unique_over [x] rows) unique_index_keys"
proof -
  have "list_all (\<lambda>e. idx_table (snd e) = t \<and> idx_unique (snd e) \<longrightarrow> unique_over (idx_columns (snd e)) rows) xs
    \<longleftrightarrow> list_all (\<lambda>(u, cs). u = t \<longrightarrow> unique_over cs rows)
          (map (\<lambda>e. (idx_table (snd e), idx_columns (snd e))) (filter (\<lambda>e. idx_unique (snd e)) xs))" for xs
    by (induction xs) auto
  from this [of head_indexes] show ?thesis
    unfolding keys_unique_def unique_indexes by (simp add: list.pred_map o_def case_prod_unfold)
qed

lemmas relation_defs = organisation_relation_def organisation_typed_def funds_relation_def funds_created_def claims_relation_def
  claims_qualified_def claims_created_def users_relation_def users_created_def audit_relation_def deals_relation_def
  ai_audit_relation_def sessions_relation_def profiles_relation_def admins_relation_def admins_created_def chunks_relation_def
  chunks_created_def corroboration_relation_def data_source_relation_def
lemmas meaning_simps = checks_pass_def references_hold_def update_granted_def trigger_raises_def
  keys_unique_iff unique_index_keys_def column_names_def closed_table_def with_sequence_def append_only_def full_grants_def
  serial_key_def

lemma reference_rules:
  "cell r ''fund_id'' = opt_cell VInt x \<Longrightarrow> references [''fund_id''] r [''id''] (map fund_row qs) \<longleftrightarrow> refers x (map fnd_id qs)"
  "cell r ''user_id'' = opt_cell VInt x \<Longrightarrow> references [''user_id''] r [''id''] (map user_row us) \<longleftrightarrow> refers x (map usr_id us)"
  "cell r ''deal_id'' = VUuid u \<Longrightarrow> references [''deal_id''] r [''id''] (map deal_row ds) \<longleftrightarrow> u \<in> set (map deal_id ds)"
  "cell r ''deal_id'' = opt_cell VUuid v \<Longrightarrow> references [''deal_id''] r [''id''] (map deal_row ds) \<longleftrightarrow> refers v (map deal_id ds)"
  "cell r ''data_source_id'' = opt_cell VUuid v \<Longrightarrow>
     references [''data_source_id''] r [''id''] (map data_source_row ss) \<longleftrightarrow> refers v (map ds_id ss)"
  "cell r ''document_id'' = opt_cell VUuid v \<Longrightarrow>
     references [''document_id''] r [''id''] (map data_source_row ss) \<longleftrightarrow> refers v (map ds_id ss)"
  "cell r ''claim_id'' = VUuid u \<Longrightarrow> references [''claim_id''] r [''id''] (map claim_row cs) \<longleftrightarrow> u \<in> set (map clm_id cs)"
  by - (rule references_opt [where v = VInt] references_opt [where v = VUuid] references_one [where v = VUuid]; (simp; fail))+

lemmas policy_rules = org_policy_admits [where c = "''org_id''" and n = "''org_isolation''"]
  clerk_policy_admits [where c = "''clerk_org_id''" and n = "''org_isolation''"]

lemma implementsI:
  assumes "map_of head_tables t = Some R" and "\<And>r. row_fits R (row r)" and "app_may_use R"
    and "\<And>d. stored d t = map row (tb_rows T d)" and "\<And>g d r. tb_policy T g d r \<longleftrightarrow> admitted g d R (row r)"
    and "\<And>r. tb_check T r \<longleftrightarrow> checks_pass R (row r)" and "\<And>rs. tb_unique T rs \<longleftrightarrow> keys_unique t R (map row rs)"
    and "\<And>d r. tb_fk T d r \<longleftrightarrow> references_hold d R (row r)" and "tb_update_grant T = update_granted R"
    and "tb_delete_grant T = (Delete \<in> set (rel_grants R))" and "\<And>r. tb_blocks_update T r \<longleftrightarrow> trigger_raises R (row r)"
  shows "implements t row T"
  using assms unfolding implements_def by blast

lemma app_may_use_head:
  "app_may_use organisation_relation" "app_may_use funds_relation" "app_may_use claims_relation" "app_may_use users_relation"
  "app_may_use audit_relation" "app_may_use deals_relation" "app_may_use ai_audit_relation" "app_may_use sessions_relation"
  "app_may_use profiles_relation" "app_may_use admins_relation" "app_may_use chunks_relation" "app_may_use corroboration_relation"
  "app_may_use data_source_relation"
  by code_simp+

lemma rows_fit_relations:
  "row_fits organisation_relation (organisation_row r0)"
  "row_fits funds_relation (fund_row r1)"
  "row_fits claims_relation (claim_row r2)"
  "row_fits users_relation (user_row r3)"
  "row_fits audit_relation (audit_log_row r4)"
  "row_fits deals_relation (deal_row r5)"
  "row_fits ai_audit_relation (ai_audit_row r6)"
  "row_fits sessions_relation (session_row r7)"
  "row_fits profiles_relation (profile_row r8)"
  "row_fits admins_relation (admin_row r9)"
  "row_fits chunks_relation (chunk_table_row r10)"
  "row_fits corroboration_relation (corroboration_row r11)"
  "row_fits data_source_relation (data_source_row r12)"
  by (simp_all add: row_fits_def column_names_def cell_def row_defs relation_defs closed_table_def with_sequence_def append_only_def serial_key_def)

lemma implements_organisation: "implements ''organisation'' organisation_row organisation_table"
  by (rule implementsI [OF head_lookup(1) rows_fit_relations(1) app_may_use_head(1)])
    (simp_all add: relation_defs meaning_simps policy_rules references_org reference_rules unique_one [where v = VInt and f = org_id] unique_one [where v = VText and f = org_clerk_org_id])

lemma implements_funds: "implements ''funds'' fund_row funds_table"
  by (rule implementsI [OF head_lookup(2) rows_fit_relations(2) app_may_use_head(2)])
    (simp_all add: relation_defs meaning_simps policy_rules references_org reference_rules unique_one [where v = VInt and f = fnd_id])

lemma three_valued [simp]:
  "sql_or (Some a) (Some b) = Some (a \<or> b)" "sql_and (Some a) (Some b) = Some (a \<and> b)"
  "unknown_if_null (VText s) c = Some c" "unknown_if_null (opt_cell VText None) c = None"
  "unknown_if_null (opt_cell VText (Some s)) c = Some c"
  by (cases a; cases b; simp add: unknown_if_null_def)+

lemma claim_check_meaning:
  "check_passes (IsIn ''status'' claim_statuses) (claim_row r) \<longleftrightarrow> ck_claims_status r"
  "check_passes (IsIn ''kind'' claim_location_kinds) (claim_row r) \<longleftrightarrow> ck_claims_kind r"
  "check_passes claims_locator_matches_kind (claim_row r) \<longleftrightarrow> ck_claims_locator_matches_kind r"
  "check_passes claims_found_requires_span (claim_row r) \<longleftrightarrow> ck_claims_found_requires_span r"
  "check_passes (OrElse (Differs ''status'' ''missing'') (AndAlso (IsNull ''char_start'') (IsNull ''char_end''))) (claim_row r)
     \<longleftrightarrow> ck_claims_missing_has_no_span r"
  "check_passes (OrElse (IsNotIn ''status'' claim_checked_statuses) (IsNotNull ''verification_method'')) (claim_row r)
     \<longleftrightarrow> ck_claims_checked_requires_method r"
  by (auto simp: check_passes_def ck_claims_status_def ck_claims_kind_def claims_locator_matches_kind_def ck_claims_locator_matches_kind_def
      claims_found_requires_span_def ck_claims_found_requires_span_def ck_claims_missing_has_no_span_def ck_claims_checked_requires_method_def)

lemma claim_option_meaning:
  "check_passes (OrElse (IsNull ''period_kind'') (IsIn ''period_kind'' [''A'', ''E'', ''P''])) (claim_row r) \<longleftrightarrow> ck_claims_period_kind r"
  "check_passes (OrElse (IsNull ''verification_method'') (IsIn ''verification_method'' claim_verification_methods)) (claim_row r)
     \<longleftrightarrow> ck_claims_verification_method r"
  "check_passes (OrElse (IsNull ''claim_kind'') (IsIn ''claim_kind'' claim_kinds)) (claim_row r) \<longleftrightarrow> ck_claims_claim_kind r"
  "check_passes (OrElse (IsNull ''assertion_class'') (IsIn ''assertion_class'' claim_assertion_classes)) (claim_row r)
     \<longleftrightarrow> ck_claims_assertion_class r"
  "check_passes (OrElse (IsDistinctFrom ''claim_kind'' ''qualitative'') (IsNotNull ''assertion_class'')) (claim_row r)
     \<longleftrightarrow> ck_claims_qualitative_has_class r"
proof -
  have "check_passes (OrElse (IsNull c) (IsIn c vs)) (claim_row r) \<longleftrightarrow> null_or_in x vs"
    if "cell (claim_row r) c = opt_cell VText x" for c vs x
    using that by (cases x) (auto simp: check_passes_def null_or_in_def)
  then show "check_passes (OrElse (IsNull ''period_kind'') (IsIn ''period_kind'' [''A'', ''E'', ''P''])) (claim_row r) \<longleftrightarrow> ck_claims_period_kind r"
    "check_passes (OrElse (IsNull ''verification_method'') (IsIn ''verification_method'' claim_verification_methods)) (claim_row r)
       \<longleftrightarrow> ck_claims_verification_method r"
    "check_passes (OrElse (IsNull ''claim_kind'') (IsIn ''claim_kind'' claim_kinds)) (claim_row r) \<longleftrightarrow> ck_claims_claim_kind r"
    "check_passes (OrElse (IsNull ''assertion_class'') (IsIn ''assertion_class'' claim_assertion_classes)) (claim_row r)
       \<longleftrightarrow> ck_claims_assertion_class r"
    by (simp_all add: ck_claims_period_kind_def ck_claims_verification_method_def ck_claims_claim_kind_def ck_claims_assertion_class_def)
  show "check_passes (OrElse (IsDistinctFrom ''claim_kind'' ''qualitative'') (IsNotNull ''assertion_class'')) (claim_row r)
     \<longleftrightarrow> ck_claims_qualitative_has_class r"
    by (simp add: check_passes_def ck_claims_qualitative_has_class_def)
qed

lemma claims_checks_pass: "checks_pass claims_relation (claim_row r) \<longleftrightarrow> claim_checks r"
  using claim_check_meaning [of r] claim_option_meaning [of r]
  unfolding claim_statuses_def claim_location_kinds_def claim_checked_statuses_def claim_verification_methods_def claim_kinds_def
    claim_assertion_classes_def
  by (auto simp add: checks_pass_def claims_relation_def claims_qualified_def claims_created_def closed_table_def claim_checks_def)

lemma implements_claims: "implements ''claims'' claim_row claims_table"
  by (rule implementsI [OF head_lookup(3) rows_fit_relations(3) app_may_use_head(3) _ _ claims_checks_pass [symmetric, folded table_check(9) [THEN fun_cong]]])
    (simp_all add: relation_defs meaning_simps policy_rules references_org reference_rules unique_one [where v = VUuid and f = clm_id])

lemma implements_users: "implements ''users'' user_row users_table"
  by (rule implementsI [OF head_lookup(4) rows_fit_relations(4) app_may_use_head(4)])
    (simp_all add: relation_defs meaning_simps policy_rules references_org reference_rules unique_one [where v = VInt and f = usr_id] unique_one [where v = VText and f = usr_clerk_user_id] unique_opt [where v = VText and f = usr_email])

lemma implements_human_audit_log: "implements ''human_audit_log'' audit_log_row audit_table"
  by (rule implementsI [OF head_lookup(5) rows_fit_relations(5) app_may_use_head(5)])
    (simp_all add: relation_defs meaning_simps policy_rules references_org reference_rules unique_one [where v = VUuid and f = aud_id])

lemma implements_deals: "implements ''deals'' deal_row deals_table"
  by (rule implementsI [OF head_lookup(6) rows_fit_relations(6) app_may_use_head(6)])
    (simp_all add: relation_defs meaning_simps policy_rules references_org reference_rules unique_one [where v = VUuid and f = deal_id])

lemma implements_ai_audit_log: "implements ''ai_audit_log'' ai_audit_row ai_audit_table"
  by (rule implementsI [OF head_lookup(7) rows_fit_relations(7) app_may_use_head(7)])
    (simp_all add: relation_defs meaning_simps policy_rules references_org reference_rules unique_one [where v = VUuid and f = aia_id])

lemma implements_sessions: "implements ''sessions'' session_row sessions_table"
  by (rule implementsI [OF head_lookup(8) rows_fit_relations(8) app_may_use_head(8)])
    (simp_all add: relation_defs meaning_simps policy_rules references_org reference_rules unique_one [where v = VUuid and f = ses_id] conj_commute conj_left_commute)

lemma implements_investment_profiles: "implements ''investment_profiles'' profile_row profiles_table"
  by (rule implementsI [OF head_lookup(9) rows_fit_relations(9) app_may_use_head(9)])
    (simp_all add: relation_defs meaning_simps policy_rules references_org reference_rules unique_one [where v = VUuid and f = prof_id] unique_one [where v = VInt and f = prof_org_id])

lemma implements_clerk_admin_users: "implements ''clerk_admin_users'' admin_row admins_table"
  by (rule implementsI [OF head_lookup(10) rows_fit_relations(10) app_may_use_head(10)])
    (simp_all add: relation_defs meaning_simps policy_rules references_org reference_rules unique_one [where v = VInt and f = adm_id] unique_one [where v = VText and f = adm_clerk_user_id])

lemma implements_chunks: "implements ''chunks'' chunk_table_row chunks_table"
  by (rule implementsI [OF head_lookup(11) rows_fit_relations(11) app_may_use_head(11)])
    (simp_all add: relation_defs meaning_simps policy_rules references_org reference_rules unique_one [where v = VUuid and f = chk_id])

lemma implements_corroboration_events: "implements ''corroboration_events'' corroboration_row corroboration_table"
  by (rule implementsI [OF head_lookup(12) rows_fit_relations(12) app_may_use_head(12)])
    (simp_all add: relation_defs meaning_simps policy_rules references_org reference_rules unique_one [where v = VUuid and f = cor_id])

lemma implements_data_source: "implements ''data_source'' data_source_row data_source_table"
  by (rule implementsI [OF head_lookup(13) rows_fit_relations(13) app_may_use_head(13)])
    (simp_all add: relation_defs meaning_simps policy_rules references_org reference_rules unique_one [where v = VUuid and f = ds_id]
      check_passes_def ck_data_source_status_def data_source_statuses_def head_catalog_def)

text \<open>
  C5: the tables of the model are the tables the migrations create. For each of the thirteen, the
  relation at head fits every record, admits exactly the rows the model's policy shows, has CHECKs,
  unique keys and foreign keys that hold exactly when the model's do, grants the application's role
  exactly the model's privileges, and has the same trigger. Everything shown about \<open>Database\<close> is therefore about the schema at head.
\<close>

theorem database_is_head_schema:
  "implements ''organisation'' organisation_row organisation_table \<and> implements ''funds'' fund_row funds_table
     \<and> implements ''claims'' claim_row claims_table \<and> implements ''users'' user_row users_table
     \<and> implements ''human_audit_log'' audit_log_row audit_table \<and> implements ''deals'' deal_row deals_table
     \<and> implements ''ai_audit_log'' ai_audit_row ai_audit_table \<and> implements ''sessions'' session_row sessions_table
     \<and> implements ''investment_profiles'' profile_row profiles_table
     \<and> implements ''clerk_admin_users'' admin_row admins_table \<and> implements ''chunks'' chunk_table_row chunks_table
     \<and> implements ''corroboration_events'' corroboration_row corroboration_table
     \<and> implements ''data_source'' data_source_row data_source_table"
  by (intro conjI implements_organisation implements_funds implements_claims implements_users implements_human_audit_log
      implements_deals implements_ai_audit_log implements_sessions implements_investment_profiles implements_clerk_admin_users
      implements_chunks implements_corroboration_events implements_data_source)

end
