(* ===== verification/SchemaFaults.thy ===== *)
theory SchemaFaults
  imports Revisions
begin

section \<open>Where the revisions fail\<close>

lemma initial_parts:
  "upgrade_3b5ed08bc4d3 = take 3 upgrade_3b5ed08bc4d3 @ drop 3 upgrade_3b5ed08bc4d3"
  "downgrade_3b5ed08bc4d3 = take 4 downgrade_3b5ed08bc4d3 @ drop 4 downgrade_3b5ed08bc4d3"
  "builds_and_razes ''organisation'' (take 3 upgrade_3b5ed08bc4d3) (drop 4 downgrade_3b5ed08bc4d3)"
  "builds_and_razes ''funds'' (drop 3 upgrade_3b5ed08bc4d3) (take 4 downgrade_3b5ed08bc4d3)"
  "enums_made (take 3 upgrade_3b5ed08bc4d3) = [(''orgtype'', [''PE_FIRM'', ''FAMILY_OFFICE''])]"
  "enums_made (drop 3 upgrade_3b5ed08bc4d3) = []"
  by (simp_all add: upgrade_3b5ed08bc4d3_def downgrade_3b5ed08bc4d3_def revision_checks)

text \<open>
  C40: the initial revision cannot be undone. On any sound database, its downgrade drops both tables
  and leaves the enum type \<open>orgtype\<close> behind, which \<open>op.create_table\<close> had created; the upgrade then
  fails on it ever after.
\<close>

theorem initial_downgrade_leaves_type:
  assumes "sound c" and "run_statements upgrade_3b5ed08bc4d3 c = Inr c'"
  shows "\<exists>c''. run_statements downgrade_3b5ed08bc4d3 c' = Inr c''
    \<and> c'' = c\<lparr>enum_types := enum_types c @ [(''orgtype'', [''PE_FIRM'', ''FAMILY_OFFICE''])]\<rparr>
    \<and> run_statements upgrade_3b5ed08bc4d3 c'' = Inl (DuplicateObject ''orgtype'')"
proof -
  from assms(2) obtain c1 where c1: "run_statements (take 3 upgrade_3b5ed08bc4d3) c = Inr c1"
    "run_statements (drop 3 upgrade_3b5ed08bc4d3) c1 = Inr c'"
    by (subst (asm) initial_parts(1)) (auto simp only: run_append_Inr)
  have "sound c1" using run_statements_sound [OF c1(1) assms(1)] .
  from razed [OF initial_parts(4,6) this c1(2)] razing_undoes [OF initial_parts(3) assms(1) c1(1)]
  have "run_statements (take 4 downgrade_3b5ed08bc4d3 @ drop 4 downgrade_3b5ed08bc4d3) c'
      = Inr (c\<lparr>enum_types := enum_types c @ [(''orgtype'', [''PE_FIRM'', ''FAMILY_OFFICE''])]\<rparr>)"
    unfolding run_append_Inr initial_parts(5) by blast
  then have "run_statements downgrade_3b5ed08bc4d3 c'
      = Inr (c\<lparr>enum_types := enum_types c @ [(''orgtype'', [''PE_FIRM'', ''FAMILY_OFFICE''])]\<rparr>)"
    by (subst initial_parts(2))
  moreover have "run_statements upgrade_3b5ed08bc4d3 (c\<lparr>enum_types := enum_types c @ [(''orgtype'', [''PE_FIRM'', ''FAMILY_OFFICE''])]\<rparr>)
      = Inl (DuplicateObject ''orgtype'')"
    by (simp add: upgrade_3b5ed08bc4d3_def Column_def Let_def unless_def in_alist_iff)
  ultimately show ?thesis by blast
qed

text \<open>
  What stored organisations refuse. A database that holds an organisation cannot be upgraded by
  \<open>30277d26774a\<close>, which adds a NOT NULL column without a default; and once an organisation without a
  type is stored, \<open>c9aaf2c46b16\<close> cannot be downgraded.
\<close>

theorem stored_organisations_block:
  assumes "lookup ''organisation'' c = Some r" and "rel_rows r \<noteq> []"
  shows "(''clerk_org_id'' \<notin> set (column_names r)
        \<longrightarrow> do_run_migrations (drop 2 history) c = (Some (NullsStored ''clerk_org_id''), c))
    \<and> (lookup ''users'' c \<noteq> None \<and> ''type'' \<in> set (column_names r) \<and> (\<exists>row \<in> set (rel_rows r). cell row ''type'' = Null)
        \<longrightarrow> run_statements downgrade_c9aaf2c46b16 c = Inl (NullsStored ''type''))"
  using assms
  by (auto simp: do_run_migrations_def history_def upgrade_30277d26774a_def downgrade_c9aaf2c46b16_def alter_def unless_def Column_def fill_def)

end
