(* ===== verification/HeadRuns.thy ===== *)
theory HeadRuns
  imports HeadTables
begin

section \<open>Reaching head\<close>

text \<open>
  The catalogue after each revision, from an empty database on, and the runs of the upgrades that
  lead from one to the next.
\<close>

definition after_xxxx :: catalog where
  "after_xxxx = fresh_catalog\<lparr>schema_usage := True, default_table_grants := full_grants, default_sequence_usage := True\<rparr>"

definition after_aace95a1c412 :: catalog where
  "after_aace95a1c412 = after_xxxx
     \<lparr>relations := [(''organisation'', organisation_typed False), (''funds'', funds_created)],
      indexes := organisation_indexes, enum_types := [(''orgtype'', [''PE_FIRM'', ''FAMILY_OFFICE''])]\<rparr>"

lemmas column_simps = Column_def server_default_def uuid_key_def stamped_def serial_key_def
lemmas relation_shapes = closed_table_def with_sequence_def append_only_def full_grants_def
lemmas creation_simps = new_relation_def with_serial_def is_serial_def sequence_of_def org_fk_def id_pk_def named_def
  indexed_def plain_index_def

lemma reach_aace95a1c412:
  "run_statements (upgrade_xxxx @ upgrade_3b5ed08bc4d3 @ upgrade_30277d26774a @ upgrade_aace95a1c412) fresh_catalog
     = Inr after_aace95a1c412"
  by (simp add: upgrade_xxxx_def upgrade_3b5ed08bc4d3_def upgrade_30277d26774a_def upgrade_aace95a1c412_def
      fresh_catalog_def after_xxxx_def after_aace95a1c412_def organisation_typed_def funds_created_def organisation_indexes_def
      column_simps relation_shapes creation_simps Let_def unless_def in_alist_def alter_def lookup_def put_relation_def
      has_key_def has_column_def column_names_def unique_over_def fill_def)

text \<open>What later revisions read of the relations before them.\<close>

lemma organisation_key [simp]:
  "rel_constraints (organisation_typed b) = [(''organisation_pkey'', PrimaryKey [''id''])]"
  "column_names (organisation_typed b) = [''id'', ''name'', ''type'', ''created_at'', ''clerk_org_id'']"
  "rel_rows (organisation_typed b) = []"
  by (simp_all add: organisation_typed_def relation_shapes column_names_def serial_key_def)

lemma referenced_keys [simp]:
  "rel_constraints organisation_relation = [(''organisation_pkey'', PrimaryKey [''id''])]"
  "column_names organisation_relation = [''id'', ''name'', ''type'', ''created_at'', ''clerk_org_id'']"
  "list_ex (keyed_by [''id''] \<circ> snd) (rel_constraints funds_relation)"
  "list_ex (keyed_by [''id''] \<circ> snd) (rel_constraints funds_created)"
  "list_ex (keyed_by [''id''] \<circ> snd) (rel_constraints users_created)"
  "list_ex (keyed_by [''id''] \<circ> snd) (rel_constraints deals_relation)"
  "list_ex (keyed_by [''id''] \<circ> snd) (rel_constraints claims_qualified)"
  "list_ex (keyed_by [''id''] \<circ> snd) (rel_constraints data_source_relation)"
  by (simp_all add: organisation_relation_def funds_relation_def funds_created_def users_created_def deals_relation_def
      claims_qualified_def claims_created_def data_source_relation_def relation_shapes)

lemmas stage_simps = lookup_def has_key_def has_column_def in_alist_def with_table_def indexed_def plain_index_def

definition after_60a151dd80b0 :: catalog where
  "after_60a151dd80b0 = with_table after_aace95a1c412 ''claims'' claims_created claims_indexes"


definition after_9e796d5efdb7 :: catalog where
  "after_9e796d5efdb7 = after_60a151dd80b0\<lparr>extensions := [''vector'']\<rparr>"

definition after_c9aaf2c46b16 :: catalog where
  "after_c9aaf2c46b16 = put_relation ''organisation'' organisation_relation
     (with_table after_9e796d5efdb7 ''users'' users_created users_indexes)"

definition after_7175bc85ffb0 :: catalog where
  "after_7175bc85ffb0 = with_table after_c9aaf2c46b16 ''human_audit_log'' audit_relation audit_indexes"

definition after_2f9ca0724bb9 :: catalog where
  "after_2f9ca0724bb9 = with_table after_7175bc85ffb0 ''deals'' deals_relation deals_indexes"

definition after_418dc290d913 :: catalog where
  "after_418dc290d913 = put_relation ''funds'' funds_relation after_2f9ca0724bb9"

definition after_b26e963e0645 :: catalog where
  "after_b26e963e0645 = with_table after_418dc290d913 ''ai_audit_log'' ai_audit_relation ai_audit_indexes"

definition after_dd80cdfaeb9a :: catalog where
  "after_dd80cdfaeb9a = with_table after_b26e963e0645 ''sessions'' sessions_relation sessions_indexes"

definition after_fb49da6a9bc0 :: catalog where
  "after_fb49da6a9bc0 = with_table after_dd80cdfaeb9a ''investment_profiles'' profiles_relation profiles_indexes"

definition after_7b4b05b6d9c8 :: catalog where
  "after_7b4b05b6d9c8 = put_relation ''claims'' claims_qualified after_fb49da6a9bc0"

definition after_a1b2c3d4e5f6 :: catalog where
  "after_a1b2c3d4e5f6 =
     with_table (after_7b4b05b6d9c8\<lparr>enum_types := enum_types after_7b4b05b6d9c8 @ [(''admintype'', [''platform'', ''client''])]\<rparr>)
       ''clerk_admin_users'' admins_created admins_indexes"

definition after_588db2facf84 :: catalog where
  "after_588db2facf84 = put_relation ''clerk_admin_users'' admins_relation after_a1b2c3d4e5f6"

definition after_920070316626 :: catalog where
  "after_920070316626 = put_relation ''users'' users_relation after_588db2facf84"

lemmas stages = after_xxxx_def after_aace95a1c412_def after_60a151dd80b0_def after_9e796d5efdb7_def after_c9aaf2c46b16_def
  after_7175bc85ffb0_def after_2f9ca0724bb9_def after_418dc290d913_def after_b26e963e0645_def after_dd80cdfaeb9a_def
  after_fb49da6a9bc0_def after_7b4b05b6d9c8_def after_a1b2c3d4e5f6_def after_588db2facf84_def after_920070316626_def

lemmas index_lists = organisation_indexes_def claims_indexes_def users_indexes_def audit_indexes_def deals_indexes_def
  ai_audit_indexes_def sessions_indexes_def profiles_indexes_def admins_indexes_def chunks_indexes_def
  corroboration_indexes_def data_source_indexes_def

lemmas buildable_simps = stages stage_simps index_lists put_relation_def fresh_catalog_def org_fk_def id_pk_def
lemmas built_simps = creation_simps relation_shapes stages put_relation_def with_table_def fresh_catalog_def

lemma has_keyI: "lookup t c = Some r \<Longrightarrow> list_ex (keyed_by ks \<circ> snd) (rel_constraints r) \<Longrightarrow> has_key c t ks"
  by (simp add: has_key_def lookup_def)

lemma creation_reaches: "buildable c ss \<Longrightarrow> built c ss = c' \<Longrightarrow> run_statements ss c = Inr c'"
  using creation_runs by blast

lemma reach_60a151dd80b0: "run_statements upgrade_60a151dd80b0 after_aace95a1c412 = Inr after_60a151dd80b0"
  by (rule creation_reaches)
    (simp_all add: upgrade_60a151dd80b0_def buildable_simps claims_locator_matches_kind_def claims_found_requires_span_def
      built_simps claims_created_def)

lemma reach_9e796d5efdb7: "run_statements upgrade_9e796d5efdb7 after_60a151dd80b0 = Inr after_9e796d5efdb7"
  by (simp add: upgrade_9e796d5efdb7_def stages with_table_def fresh_catalog_def)

lemma reach_c9aaf2c46b16: "run_statements upgrade_c9aaf2c46b16 after_9e796d5efdb7 = Inr after_c9aaf2c46b16"
proof -
  let ?r = "users_created\<lparr>rel_rls := False, rel_policies := []\<rparr>"
  have "run_statements (take 7 upgrade_c9aaf2c46b16) after_9e796d5efdb7
    = Inr (with_table after_9e796d5efdb7 ''users'' ?r users_indexes)"
    by (rule creation_reaches)
      (simp_all add: upgrade_c9aaf2c46b16_def buildable_simps built_simps users_created_def serial_key_def server_default_def)
  moreover have "run_statements (drop 7 upgrade_c9aaf2c46b16) (with_table after_9e796d5efdb7 ''users'' ?r users_indexes)
    = Inr after_c9aaf2c46b16"
    by (simp add: upgrade_c9aaf2c46b16_def buildable_simps organisation_relation_def organisation_typed_def relation_shapes
        alter_def unless_def column_names_def users_created_def column_simps)
  ultimately show ?thesis using append_take_drop_id [of 7 upgrade_c9aaf2c46b16] run_append_Inr by metis
qed

lemma reach_7175bc85ffb0: "run_statements upgrade_7175bc85ffb0 after_c9aaf2c46b16 = Inr after_7175bc85ffb0"
  by (rule creation_reaches) (simp_all add: upgrade_7175bc85ffb0_def buildable_simps built_simps audit_relation_def)

lemma reach_2f9ca0724bb9: "run_statements upgrade_2f9ca0724bb9 after_7175bc85ffb0 = Inr after_2f9ca0724bb9"
  by (rule creation_reaches) (simp_all add: upgrade_2f9ca0724bb9_def buildable_simps built_simps deals_relation_def)

lemma reach_418dc290d913: "run_statements upgrade_418dc290d913 after_2f9ca0724bb9 = Inr after_418dc290d913"
  by (simp add: upgrade_418dc290d913_def buildable_simps alter_def unless_def column_names_def funds_relation_def
      funds_created_def relation_shapes serial_key_def)

lemma reach_b26e963e0645: "run_statements upgrade_b26e963e0645 after_418dc290d913 = Inr after_b26e963e0645"
  by (rule creation_reaches) (simp_all add: upgrade_b26e963e0645_def buildable_simps built_simps ai_audit_relation_def)

lemma reach_dd80cdfaeb9a: "run_statements upgrade_dd80cdfaeb9a after_b26e963e0645 = Inr after_dd80cdfaeb9a"
  by (rule creation_reaches) (simp_all add: upgrade_dd80cdfaeb9a_def buildable_simps built_simps sessions_relation_def)

lemma reach_fb49da6a9bc0: "run_statements upgrade_fb49da6a9bc0 after_dd80cdfaeb9a = Inr after_fb49da6a9bc0"
  by (rule creation_reaches) (simp_all add: upgrade_fb49da6a9bc0_def buildable_simps built_simps profiles_relation_def)

lemma claims_parts:
  "rel_rows claims_created = []" "claims_created\<lparr>rel_columns := cs, rel_rows := [], rel_constraints := ks\<rparr> = claims_created\<lparr>rel_columns := cs, rel_constraints := ks\<rparr>"
  "{''claim_kind'', ''assertion_class''} \<inter> col_name ` set (rel_columns claims_created) = {}"
  "\<not> in_alist ''ck_claims_claim_kind'' (rel_constraints claims_created)"
  "\<not> in_alist ''ck_claims_assertion_class'' (rel_constraints claims_created)"
  "\<not> in_alist ''ck_claims_qualitative_has_class'' (rel_constraints claims_created)"
  by (simp_all add: claims_created_def closed_table_def in_alist_def)

lemma reach_7b4b05b6d9c8: "run_statements upgrade_7b4b05b6d9c8 after_fb49da6a9bc0 = Inr after_7b4b05b6d9c8"
proof -
  have "lookup ''claims'' after_fb49da6a9bc0 = Some claims_created"
    by (simp add: stages stage_simps put_relation_def fresh_catalog_def)
  then show ?thesis
    using claims_parts
    by (simp add: upgrade_7b4b05b6d9c8_def after_7b4b05b6d9c8_def alter_def unless_def column_names_def claims_qualified_def in_alist_iff
        claims_parts(2))
qed

lemma reach_a1b2c3d4e5f6: "run_statements upgrade_a1b2c3d4e5f6 after_7b4b05b6d9c8 = Inr after_a1b2c3d4e5f6"
  by (rule creation_reaches)
    (simp_all add: upgrade_a1b2c3d4e5f6_def buildable_simps built_simps admins_created_def serial_key_def server_default_def)

lemma reach_588db2facf84: "run_statements upgrade_588db2facf84 after_a1b2c3d4e5f6 = Inr after_588db2facf84"
  by (simp add: upgrade_588db2facf84_def buildable_simps alter_def unless_def column_names_def admins_relation_def
      admins_created_def relation_shapes serial_key_def)

lemma reach_920070316626: "run_statements upgrade_920070316626 after_588db2facf84 = Inr after_920070316626"
  by (simp add: upgrade_920070316626_def buildable_simps alter_def unless_def column_names_def users_relation_def
      users_created_def relation_shapes serial_key_def fill_def)

subsection \<open>The two branches and what follows them\<close>

definition with_chunks :: "catalog \<Rightarrow> catalog" where
  "with_chunks c = with_table c ''chunks'' chunks_created chunks_indexes"

definition with_corroboration :: "catalog \<Rightarrow> catalog" where
  "with_corroboration c = with_table c ''corroboration_events'' corroboration_relation corroboration_indexes"

definition with_data_source :: "catalog \<Rightarrow> catalog" where
  "with_data_source c = (with_table c ''data_source'' data_source_relation data_source_indexes)
     \<lparr>trigger_functions := [(''data_source_enforce_one_way_status'', Differs ''status'' ''pending'')]\<rparr>"

definition with_references :: "catalog \<Rightarrow> catalog" where
  "with_references c = put_relation ''claims'' claims_relation (put_relation ''chunks'' chunks_relation c)"

lemmas branches = with_chunks_def with_corroboration_def with_data_source_def with_references_def

lemma with_table_parts [simp]:
  "relations (with_table c t r is) = relations c @ [(t, r)]" "indexes (with_table c t r is) = indexes c @ is"
  "enum_types (with_table c t r is) = enum_types c" "trigger_functions (with_table c t r is) = trigger_functions c"
  "extensions (with_table c t r is) = extensions c" "default_table_grants (with_table c t r is) = default_table_grants c"
  by (simp_all add: with_table_def)

lemma fork_parts [simp]:
  "relations after_920070316626 = (take 10 head_tables)[2 := (''claims'', claims_qualified)]"
  "indexes after_920070316626 = organisation_indexes @ claims_indexes @ users_indexes @ audit_indexes @ deals_indexes
     @ ai_audit_indexes @ sessions_indexes @ profiles_indexes @ admins_indexes"
  "enum_types after_920070316626 = enum_types head_catalog" "trigger_functions after_920070316626 = []"
  "extensions after_920070316626 = [''vector'']" "default_table_grants after_920070316626 = full_grants"
  by (simp_all only: stages) (simp_all add: with_table_def put_relation_def fresh_catalog_def head_tables_def head_catalog_def)

lemma in_alist_names: "in_alist k xs \<longleftrightarrow> k \<in> set (map fst xs)"
  by (simp add: in_alist_iff)

lemma fork_names:
  "map fst (indexes after_920070316626) =
     [''ix_organisation_id'', ''ix_organisation_name'', ''ix_funds_id'', ''ix_funds_name'',
      ''ix_funds_org_id'', ''ix_organisation_clerk_org_id'', ''ix_claims_attribute'', ''ix_claims_deal_id'',
      ''ix_claims_org_id'', ''ix_claims_session_id'', ''ix_claims_status'', ''ix_users_clerk_org_id'',
      ''ix_users_clerk_user_id'', ''ix_users_email'', ''ix_users_id'', ''ix_users_name'', ''ix_users_org_id'',
      ''ix_human_audit_log_org_id'', ''ix_human_audit_log_event_type'', ''ix_human_audit_log_deal_id'',
      ''ix_human_audit_log_session_id'', ''ix_deals_org_id'', ''ix_deals_fund_id'',
      ''ix_ai_audit_log_org_id'', ''ix_sessions_org_id'', ''ix_sessions_deal_id'',
      ''ix_investment_profiles_org_id'', ''ix_clerk_admin_users_clerk_user_id'',
      ''ix_clerk_admin_users_clerk_org_id'', ''ix_clerk_admin_users_org_id'', ''ix_clerk_admin_users_email'']"
  by (simp add: index_lists indexed_def)

lemmas fork_buildable = branches lookup_def has_key_def has_column_def in_alist_names fork_names indexed_def plain_index_def
  chunks_indexes_def corroboration_indexes_def head_tables_def org_fk_def id_pk_def
lemmas fork_built = creation_simps relation_shapes branches

lemma reach_chunks:
  "run_statements upgrade_6c8bc5907f94 after_920070316626 = Inr (with_chunks after_920070316626)"
  "run_statements upgrade_6c8bc5907f94 (with_corroboration after_920070316626)
     = Inr (with_chunks (with_corroboration after_920070316626))"
  by (rule creation_reaches, simp add: upgrade_6c8bc5907f94_def fork_buildable del: fork_parts(2) set_map,
    simp add: upgrade_6c8bc5907f94_def fork_built chunks_created_def chunks_indexes_def del: fork_parts(3) with_table_parts(3))+

lemma reach_corroboration:
  "run_statements upgrade_e960a3366cf7 after_920070316626 = Inr (with_corroboration after_920070316626)"
  "run_statements upgrade_e960a3366cf7 (with_chunks after_920070316626)
     = Inr (with_corroboration (with_chunks after_920070316626))"
  by (rule creation_reaches, simp add: upgrade_e960a3366cf7_def fork_buildable del: fork_parts(2) set_map,
    simp add: upgrade_e960a3366cf7_def fork_built corroboration_relation_def corroboration_indexes_def del: fork_parts(3) with_table_parts(3))+

lemma data_source_names:
  "list_all (\<lambda>n. \<not> in_alist n (indexes (with_chunks (with_corroboration after_920070316626)))) (''data_source'' # map fst data_source_indexes)"
  "list_all (\<lambda>n. \<not> in_alist n (indexes (with_corroboration (with_chunks after_920070316626)))) (''data_source'' # map fst data_source_indexes)"
  "list_all (\<lambda>n. \<not> in_alist n (relations (with_chunks (with_corroboration after_920070316626)))) (map fst data_source_indexes)"
  "list_all (\<lambda>n. \<not> in_alist n (relations (with_corroboration (with_chunks after_920070316626)))) (map fst data_source_indexes)"
  by (simp_all add: branches in_alist_names fork_names data_source_indexes_def chunks_indexes_def corroboration_indexes_def indexed_def
    head_tables_def del: fork_parts(2) set_map)

lemma reach_d6d2fe8f27ae:
  assumes "c = with_chunks (with_corroboration after_920070316626) \<or> c = with_corroboration (with_chunks after_920070316626)"
  shows "run_statements upgrade_d6d2fe8f27ae c = Inr (with_data_source c)"
proof -
  let ?r = "data_source_relation\<lparr>rel_triggers := []\<rparr>"
  let ?up = "butlast (butlast upgrade_d6d2fe8f27ae)"
  let ?ss = "[CreateFunction ''data_source_enforce_one_way_status'' (Differs ''status'' ''pending''),
    CreateTrigger ''trg_data_source_one_way_status'' ''data_source'' ''data_source_enforce_one_way_status'']"
  have c: "lookup ''data_source'' c = None" "trigger_functions c = []" "default_table_grants c = full_grants"
    and o: "lookup ''organisation'' c = Some organisation_relation" "lookup ''deals'' c = Some deals_relation"
    using assms
    by (auto simp add: branches lookup_def head_tables_def)
  have names: "list_all (\<lambda>n. \<not> in_alist n (indexes c)) (''data_source'' # map fst data_source_indexes)"
    "list_all (\<lambda>n. \<not> in_alist n (relations c)) (map fst data_source_indexes)"
    using assms data_source_names by auto
  have "has_key c ''organisation'' [''id'']" "has_key c ''deals'' [''id'']"
    "has_column c (''organisation'', ''id'')" "has_column c (''organisation'', ''clerk_org_id'')"
    using o by (auto intro: has_keyI simp: has_column_lookup)
  with names c have "buildable c ?up"
    by (simp add: upgrade_d6d2fe8f27ae_def org_fk_def id_pk_def plain_index_def data_source_indexes_def indexed_def)
  moreover from c(3) have "built c ?up = with_table c ''data_source'' ?r data_source_indexes"
    by (simp add: upgrade_d6d2fe8f27ae_def creation_simps relation_shapes data_source_relation_def data_source_indexes_def)
  ultimately have "run_statements ?up c = Inr (with_table c ''data_source'' ?r data_source_indexes)"
    by (intro creation_reaches)
  moreover have "run_statements ?ss (with_table c ''data_source'' ?r data_source_indexes) = Inr (with_data_source c)"
  proof -
    have "put_relation t r' (c'\<lparr>trigger_functions := fs\<rparr>) = (put_relation t r' c')\<lparr>trigger_functions := fs\<rparr>" for t r' c' fs
      by (simp add: put_relation_def)
    moreover have "trigger_functions (with_table c ''data_source'' ?r data_source_indexes) = []" using c(2) by (simp add: with_table_def)
    ultimately show ?thesis using c(1)
      by (simp add: with_data_source_def alter_def unless_def in_alist_def lookup_with_table put_with_table data_source_relation_def relation_shapes)
  qed
  ultimately have "run_statements (?up @ ?ss) c = Inr (with_data_source c)" unfolding run_append_Inr by blast
  moreover have "?up @ ?ss = upgrade_d6d2fe8f27ae" by (simp add: upgrade_d6d2fe8f27ae_def)
  ultimately show ?thesis by simp
qed

lemma add_reference:
  assumes "lookup t c = Some r" and "rel_rows r = []" and "\<not> in_alist n (rel_constraints r)" and "list_all (\<lambda>x. x \<in> set (column_names r)) cs"
    and "has_key c u ks"
  shows "run_ddl (AddConstraint n t (ForeignKey cs u ks)) c
    = Inr (put_relation t (r\<lparr>rel_constraints := rel_constraints r @ [(n, ForeignKey cs u ks)]\<rparr>) c)"
proof -
  have "map_of (relations c) u \<noteq> None" using assms(5) by (auto simp: has_key_lookup lookup_def)
  with assms show ?thesis by (auto simp: alter_def unless_def)
qed

lemma has_key_put:
  assumes "has_key c u ks" and "lookup t c = Some r" and "set (rel_constraints r) \<subseteq> set (rel_constraints r')"
  shows "has_key (put_relation t r' c) u ks"
  using assms by (auto simp: has_key_lookup)

lemma referring [simp]:
  "rel_rows claims_qualified = []" "rel_rows chunks_created = []"
  "\<not> in_alist ''fk_chunks_document_id_data_source'' (rel_constraints chunks_created)"
  "\<not> in_alist ''fk_claims_data_source_id_data_source'' (rel_constraints claims_qualified)"
  "\<not> in_alist ''fk_claims_deal_id_deals'' (rel_constraints claims_qualified)"
  "''document_id'' \<in> set (column_names chunks_created)"
  "''data_source_id'' \<in> set (column_names claims_qualified)" "''deal_id'' \<in> set (column_names claims_qualified)"
  by (simp_all add: claims_qualified_def claims_created_def chunks_created_def relation_shapes column_names_def in_alist_def)

lemma reach_77be2ddc60a0:
  assumes "c = with_chunks (with_corroboration after_920070316626) \<or> c = with_corroboration (with_chunks after_920070316626)"
  shows "run_statements upgrade_77be2ddc60a0 (with_data_source c) = Inr (with_references (with_data_source c))"
proof -
  let ?c = "with_data_source c" and ?d = "(''fk_claims_data_source_id_data_source'', ForeignKey [''data_source_id''] ''data_source'' [''id''])"
  have t: "lookup ''chunks'' ?c = Some chunks_created" "lookup ''claims'' ?c = Some claims_qualified"
    and u: "lookup ''data_source'' ?c = Some data_source_relation" "lookup ''deals'' ?c = Some deals_relation"
    using assms
    by (auto simp add: branches lookup_def head_tables_def)
  note k = has_keyI [OF u(1) referenced_keys(8)] has_keyI [OF u(2) referenced_keys(6)]
  let ?c1 = "put_relation ''chunks'' chunks_relation ?c"
  let ?r2 = "claims_qualified\<lparr>rel_constraints := rel_constraints claims_qualified @ [?d]\<rparr>"
  have 1: "run_ddl (AddConstraint ''fk_chunks_document_id_data_source'' ''chunks'' (ForeignKey [''document_id''] ''data_source'' [''id''])) ?c
      = Inr ?c1"
    using add_reference [OF t(1) _ _ _ k(1)] by (simp add: chunks_relation_def del: run_ddl.simps)
  have t1: "lookup ''claims'' ?c1 = Some claims_qualified" using t(2) by simp
  have k1: "has_key ?c1 ''data_source'' [''id'']" "has_key ?c1 ''deals'' [''id'']"
    using k t(1) by (auto intro!: has_key_put simp: chunks_relation_def)
  have 2: "run_ddl (AddConstraint ''fk_claims_data_source_id_data_source'' ''claims'' (ForeignKey [''data_source_id''] ''data_source'' [''id''])) ?c1
      = Inr (put_relation ''claims'' ?r2 ?c1)"
    using add_reference [OF t1 _ _ _ k1(1)] by (simp del: run_ddl.simps)
  have "has_key (put_relation ''claims'' ?r2 ?c1) ''deals'' [''id'']"
    using k1(2) t1 by (rule has_key_put) auto
  moreover have "column_names ?r2 = column_names claims_qualified" by (simp add: column_names_def)
  moreover have "\<not> in_alist ''fk_claims_deal_id_deals'' (rel_constraints claims_qualified @ [?d])"
    using referring(5) by (simp add: in_alist_iff)
  ultimately have 3: "run_ddl (AddConstraint ''fk_claims_deal_id_deals'' ''claims'' (ForeignKey [''deal_id''] ''deals'' [''id''])) (put_relation ''claims'' ?r2 ?c1)
      = Inr (with_references ?c)"
    using add_reference [of "''claims''" "put_relation ''claims'' ?r2 ?c1" ?r2] by (simp add: with_references_def claims_relation_def del: run_ddl.simps)
  show ?thesis using 1 2 3 by (simp add: upgrade_77be2ddc60a0_def del: run_ddl.simps)
qed

lemma reach_head:
  "with_references (with_data_source (with_corroboration (with_chunks after_920070316626))) = head_catalog"
  by (simp add: branches stages put_relation_def with_table_def fresh_catalog_def head_catalog_def head_tables_def head_indexes_def)

lemma reach_head_other:
  "with_references (with_data_source (with_chunks (with_corroboration after_920070316626)))
     = head_catalog\<lparr>relations := take 10 head_tables @ [(''corroboration_events'', corroboration_relation), (''chunks'', chunks_relation),
           (''data_source'', data_source_relation)],
         indexes := organisation_indexes @ claims_indexes @ users_indexes @ audit_indexes @ deals_indexes @ ai_audit_indexes
           @ sessions_indexes @ profiles_indexes @ admins_indexes @ corroboration_indexes @ chunks_indexes @ data_source_indexes\<rparr>"
  by (simp add: branches stages put_relation_def with_table_def fresh_catalog_def head_catalog_def head_tables_def head_indexes_def)

end
