(* ===== verification/HeadOrders.thy ===== *)
theory HeadOrders
  imports HeadRuns
begin

section \<open>Every way to head\<close>

text \<open>
  \<open>alembic upgrade head\<close> runs each revision once, after those in its \<open>down_revision\<close>. All such orders
  are found by always taking a revision whose predecessors are done.
\<close>

fun upgrade_order :: "string list \<Rightarrow> revision list \<Rightarrow> bool" where
  "upgrade_order applied [] = True"
| "upgrade_order applied (r # rs) =
     (list_all (\<lambda>d. d \<in> set applied) (rev_down r) \<and> rev_id r \<notin> set applied \<and> upgrade_order (rev_id r # applied) rs)"

definition way_to_head :: "revision list \<Rightarrow> bool" where
  "way_to_head rs \<longleftrightarrow> set rs = set history \<and> upgrade_order [] rs"

fun orders :: "(string \<times> string list) list \<Rightarrow> string list \<Rightarrow> nat \<Rightarrow> string list list" where
  "orders graph applied 0 = [[]]"
| "orders graph applied (Suc n) =
     concat (map (\<lambda>r. map ((#) (fst r)) (orders graph (fst r # applied) n))
       (filter (\<lambda>r. list_all (\<lambda>d. d \<in> set applied) (snd r) \<and> fst r \<notin> set applied) graph))"

definition revision_graph :: "(string \<times> string list) list" where
  "revision_graph = map (\<lambda>r. (rev_id r, rev_down r)) history"

lemma orders_complete:
  "set rs \<subseteq> set history \<Longrightarrow> upgrade_order applied rs \<Longrightarrow> map rev_id rs \<in> set (orders revision_graph applied (length rs))"
proof (induction rs arbitrary: applied)
  case (Cons r rs)
  then have "(rev_id r, rev_down r) \<in> set revision_graph" by (simp add: revision_graph_def)
  with Cons show ?case by fastforce
qed simp

lemma upgrade_order_distinct: "upgrade_order applied rs \<Longrightarrow> distinct (map rev_id rs) \<and> set (map rev_id rs) \<inter> set applied = {}"
  by (induction rs arbitrary: applied) fastforce+

lemma history_ids: "distinct (map rev_id history)"
  by (simp add: history_def)

lemma way_length:
  assumes "way_to_head rs"
  shows "length rs = length history"
proof -
  have "length rs = card (rev_id ` set rs)"
    using upgrade_order_distinct [of "[]" rs] assms by (metis distinct_card length_map set_map way_to_head_def)
  also have "\<dots> = length history"
    using assms history_ids by (metis distinct_card length_map set_map way_to_head_def)
  finally show ?thesis .
qed

definition other_order :: "revision list" where
  "other_order = take 17 history @ [history ! 18, history ! 17] @ drop 19 history"

lemma revision_graph_literal:
  "revision_graph =
     [(''xxxx'', []), (''3b5ed08bc4d3'', [''xxxx'']), (''30277d26774a'', [''3b5ed08bc4d3'']),
      (''aace95a1c412'', [''30277d26774a'']), (''60a151dd80b0'', [''aace95a1c412'']), (''9e796d5efdb7'', [''60a151dd80b0'']),
      (''c9aaf2c46b16'', [''9e796d5efdb7'']), (''7175bc85ffb0'', [''c9aaf2c46b16'']), (''2f9ca0724bb9'', [''7175bc85ffb0'']),
      (''418dc290d913'', [''2f9ca0724bb9'']), (''b26e963e0645'', [''418dc290d913'']), (''dd80cdfaeb9a'', [''b26e963e0645'']),
      (''fb49da6a9bc0'', [''dd80cdfaeb9a'']), (''7b4b05b6d9c8'', [''fb49da6a9bc0'']), (''a1b2c3d4e5f6'', [''7b4b05b6d9c8'']),
      (''588db2facf84'', [''a1b2c3d4e5f6'']), (''920070316626'', [''588db2facf84'']), (''6c8bc5907f94'', [''920070316626'']),
      (''e960a3366cf7'', [''920070316626'']), (''222c301f378f'', [''6c8bc5907f94'', ''e960a3366cf7'']),
      (''d6d2fe8f27ae'', [''222c301f378f'']), (''77be2ddc60a0'', [''d6d2fe8f27ae''])]"
  by (simp add: revision_graph_def history_def)

definition two_orders :: "string list list" where
  "two_orders =
     map (\<lambda>fork. [''xxxx'', ''3b5ed08bc4d3'', ''30277d26774a'', ''aace95a1c412'', ''60a151dd80b0'', ''9e796d5efdb7'',
        ''c9aaf2c46b16'', ''7175bc85ffb0'', ''2f9ca0724bb9'', ''418dc290d913'', ''b26e963e0645'', ''dd80cdfaeb9a'',
        ''fb49da6a9bc0'', ''7b4b05b6d9c8'', ''a1b2c3d4e5f6'', ''588db2facf84'', ''920070316626''] @ fork
        @ [''222c301f378f'', ''d6d2fe8f27ae'', ''77be2ddc60a0''])
       [[''6c8bc5907f94'', ''e960a3366cf7''], [''e960a3366cf7'', ''6c8bc5907f94'']]"

lemma all_orders: "orders revision_graph [] 22 = two_orders"
  unfolding revision_graph_literal by code_simp

lemma way_cases:
  assumes "way_to_head rs"
  shows "rs = history \<or> rs = other_order"
proof -
  have rs: "set rs = set history" "upgrade_order [] rs" using assms by (simp_all add: way_to_head_def)
  have "length history = 22" by (simp add: history_def)
  with orders_complete [OF equalityD1 [OF rs(1)] rs(2)] way_length [OF assms] all_orders
  have "map rev_id rs \<in> set two_orders" by simp
  also have "two_orders = [map rev_id history, map rev_id other_order]"
    by (simp add: two_orders_def history_def other_order_def)
  finally have "map rev_id rs = map rev_id history \<or> map rev_id rs = map rev_id other_order"
    unfolding list.set insert_iff empty_iff by blast
  moreover have inj: "inj_on rev_id (set history)" using history_ids by (simp add: distinct_map)
  moreover have "set other_order \<subseteq> set history"
    by (auto simp: other_order_def history_def)
  ultimately show ?thesis using rs(1) by (metis inj_on_map_eq_map Un_absorb Un_absorb2)
qed

text \<open>The same content; the order of creation aside.\<close>

definition same_schema :: "catalog \<Rightarrow> catalog \<Rightarrow> bool" where
  "same_schema c c' \<longleftrightarrow>
     set (relations c) = set (relations c') \<and> set (indexes c) = set (indexes c') \<and> enum_types c = enum_types c'
     \<and> trigger_functions c = trigger_functions c' \<and> extensions c = extensions c' \<and> schema_usage c = schema_usage c'
     \<and> default_table_grants c = default_table_grants c' \<and> default_sequence_usage c = default_sequence_usage c'"

lemma run_concat_Inr:
  "run_statements xs c = Inr c1 \<Longrightarrow> run_statements ys c1 = Inr c' \<Longrightarrow> run_statements (xs @ ys) c = Inr c'"
  by (simp add: run_statements_append)

lemma reach_fork:
  "run_statements (concat (map rev_upgrade (take 17 history))) fresh_catalog = Inr after_920070316626"
proof -
  have "concat (map rev_upgrade (take 17 history)) = (upgrade_xxxx @ upgrade_3b5ed08bc4d3 @ upgrade_30277d26774a @ upgrade_aace95a1c412)
      @ upgrade_60a151dd80b0 @ upgrade_9e796d5efdb7 @ upgrade_c9aaf2c46b16 @ upgrade_7175bc85ffb0 @ upgrade_2f9ca0724bb9
      @ upgrade_418dc290d913 @ upgrade_b26e963e0645 @ upgrade_dd80cdfaeb9a @ upgrade_fb49da6a9bc0 @ upgrade_7b4b05b6d9c8
      @ upgrade_a1b2c3d4e5f6 @ upgrade_588db2facf84 @ upgrade_920070316626"
    by (simp add: history_def)
  then show ?thesis
    by (simp only:) (rule run_concat_Inr reach_aace95a1c412 reach_60a151dd80b0 reach_9e796d5efdb7 reach_c9aaf2c46b16 reach_7175bc85ffb0
      reach_2f9ca0724bb9 reach_418dc290d913 reach_b26e963e0645 reach_dd80cdfaeb9a reach_fb49da6a9bc0 reach_7b4b05b6d9c8
      reach_a1b2c3d4e5f6 reach_588db2facf84 reach_920070316626)+
qed

lemma reach_from_fork:
  "run_statements (upgrade_6c8bc5907f94 @ upgrade_e960a3366cf7 @ upgrade_222c301f378f @ upgrade_d6d2fe8f27ae @ upgrade_77be2ddc60a0)
     after_920070316626 = Inr (with_references (with_data_source (with_corroboration (with_chunks after_920070316626))))"
  "run_statements (upgrade_e960a3366cf7 @ upgrade_6c8bc5907f94 @ upgrade_222c301f378f @ upgrade_d6d2fe8f27ae @ upgrade_77be2ddc60a0)
     after_920070316626 = Inr (with_references (with_data_source (with_chunks (with_corroboration after_920070316626))))"
  by (simp_all only: upgrade_222c301f378f_def append_Nil)
    (rule run_concat_Inr reach_chunks reach_corroboration reach_d6d2fe8f27ae [OF disjI1 [OF refl]] reach_d6d2fe8f27ae [OF disjI2 [OF refl]]
      reach_77be2ddc60a0 [OF disjI1 [OF refl]] reach_77be2ddc60a0 [OF disjI2 [OF refl]])+

lemma history_split:
  "concat (map rev_upgrade history) = concat (map rev_upgrade (take 17 history))
     @ upgrade_6c8bc5907f94 @ upgrade_e960a3366cf7 @ upgrade_222c301f378f @ upgrade_d6d2fe8f27ae @ upgrade_77be2ddc60a0"
  "concat (map rev_upgrade other_order) = concat (map rev_upgrade (take 17 history))
     @ upgrade_e960a3366cf7 @ upgrade_6c8bc5907f94 @ upgrade_222c301f378f @ upgrade_d6d2fe8f27ae @ upgrade_77be2ddc60a0"
  by (simp_all add: history_def other_order_def)

lemma sound_fresh: "sound fresh_catalog"
  by (simp add: sound_def fresh_catalog_def held_def)

lemma same_schema_other:
  "same_schema (head_catalog\<lparr>relations := take 10 head_tables @ [(''corroboration_events'', corroboration_relation), (''chunks'', chunks_relation),
           (''data_source'', data_source_relation)],
         indexes := organisation_indexes @ claims_indexes @ users_indexes @ audit_indexes @ deals_indexes @ ai_audit_indexes
           @ sessions_indexes @ profiles_indexes @ admins_indexes @ corroboration_indexes @ chunks_indexes @ data_source_indexes\<rparr>)
     head_catalog"
proof -
  have "set head_tables = set (take 10 head_tables @ [(''chunks'', chunks_relation), (''corroboration_events'', corroboration_relation),
      (''data_source'', data_source_relation)])"
    by (simp add: head_tables_def)
  then show ?thesis by (simp add: same_schema_def head_catalog_def head_indexes_def insert_commute Un_ac)
qed

text \<open>
  C6: \<open>alembic upgrade head\<close> works on an empty database and gives one schema. In whatever order the
  revisions are run, as long as each comes after those it names in \<open>down_revision\<close>, every statement
  succeeds, the result is sound, and it is the catalogue written out in \<open>head_catalog\<close>: thirteen tables,
  all with row-level security, a policy and the privileges of \<open>dd_app\<close>.
\<close>

theorem every_way_reaches_head:
  assumes "way_to_head rs"
  shows "\<exists>c. do_run_migrations rs fresh_catalog = (None, c) \<and> sound c \<and> same_schema c head_catalog"
proof -
  from way_cases [OF assms] obtain c where c: "run_statements (concat (map rev_upgrade rs)) fresh_catalog = Inr c"
    and "c = with_references (with_data_source (with_corroboration (with_chunks after_920070316626)))
      \<or> c = with_references (with_data_source (with_chunks (with_corroboration after_920070316626)))"
    using run_concat_Inr [OF reach_fork reach_from_fork(1)] run_concat_Inr [OF reach_fork reach_from_fork(2)] history_split by metis
  then have "same_schema c head_catalog"
    unfolding reach_head reach_head_other using same_schema_other by (auto simp: same_schema_def)
  with c run_statements_sound [OF c sound_fresh] show ?thesis by (simp add: do_run_migrations_def)
qed

end
