(* ===== verification/SchemaWitnesses.thy ===== *)
theory SchemaWitnesses
  imports SchemaFaults HeadOrders
begin

section \<open>The schema's properties on concrete databases\<close>

text \<open>A database with one organisation and one user, as it is before \<open>920070316626\<close> adds the status of users.\<close>

definition small_database :: catalog where
  "small_database = fresh_catalog
     \<lparr>relations :=
        [(''organisation'', organisation_relation\<lparr>rel_rows :=
            [[(''id'', VInt 1), (''name'', VText ''Acme''), (''type'', Null), (''created_at'', VTime 0), (''clerk_org_id'', VText ''org_a'')]]\<rparr>),
         (''users'', users_created\<lparr>rel_rows :=
            [[(''id'', VInt 7), (''org_id'', VInt 1), (''name'', Null), (''email'', VText ''a@b.c''), (''role'', VText ''member''),
              (''login_method'', VText ''clerk''), (''clerk_user_id'', VText ''u7''), (''clerk_org_id'', VText ''org_a'')]]\<rparr>)],
      enum_types := [(''orgtype'', [''PE_FIRM'', ''FAMILY_OFFICE''])]\<rparr>"

lemma small_sound: "sound small_database"
  by code_simp

lemma small_closed: "all_closed small_database"
  by code_simp

definition small_users :: relation where
  "small_users = users_relation\<lparr>rel_rows :=
     [[(''id'', VInt 7), (''org_id'', VInt 1), (''name'', Null), (''email'', VText ''a@b.c''), (''role'', VText ''member''),
       (''login_method'', VText ''clerk''), (''clerk_user_id'', VText ''u7''), (''clerk_org_id'', VText ''org_a''),
       (''status'', VText ''active''), (''deactivated_at'', Null)]]\<rparr>"

lemma small_upgrade:
  "run_statements upgrade_920070316626 small_database = Inr (put_relation ''users'' small_users small_database)"
  by (simp add: upgrade_920070316626_def small_database_def fresh_catalog_def alter_def unless_def lookup_def put_relation_def
      column_names_def users_created_def users_relation_def small_users_def relation_shapes serial_key_def fill_def)

lemma small_revision:
  "history ! 16 \<in> set history" "history ! 16 \<in> set (drop 4 history)" "rev_id (history ! 16) = ''920070316626''"
  "rev_upgrade (history ! 16) = upgrade_920070316626" "rev_downgrade (history ! 16) = downgrade_920070316626"
  by (simp_all add: history_def)

lemma small_lookup: "lookup ''users'' small_database = Some (users_created\<lparr>rel_rows :=
            [[(''id'', VInt 7), (''org_id'', VInt 1), (''name'', Null), (''email'', VText ''a@b.c''), (''role'', VText ''member''),
              (''login_method'', VText ''clerk''), (''clerk_user_id'', VText ''u7''), (''clerk_org_id'', VText ''org_a'')]]\<rparr>)"
  by (simp add: lookup_def small_database_def)

theorem upgrade_keeps_rows_witness:
  "\<exists>r'. lookup ''users'' (put_relation ''users'' small_users small_database) = Some r' \<and> length (rel_rows r') = 1"
  using upgrade_keeps_rows [OF small_revision(1) small_upgrade [folded small_revision(4)] small_lookup]
  by (auto dest: list_all2_lengthD)

theorem revisions_leave_no_table_open_witness:
  "sound (put_relation ''users'' small_users small_database) \<and> all_closed (put_relation ''users'' small_users small_database)"
  by (rule revisions_leave_no_table_open [OF small_revision(2) _ small_sound small_closed small_upgrade])
    (simp add: small_revision)


lemma initial_runs: "\<exists>c. run_statements upgrade_3b5ed08bc4d3 fresh_catalog = Inr c"
proof -
  have "case run_statements upgrade_3b5ed08bc4d3 fresh_catalog of Inl e \<Rightarrow> False | Inr c \<Rightarrow> True" by code_simp
  then show ?thesis by (simp split: sum.splits)
qed

theorem initial_downgrade_leaves_type_witness:
  "\<exists>c c''. run_statements upgrade_3b5ed08bc4d3 fresh_catalog = Inr c \<and> run_statements downgrade_3b5ed08bc4d3 c = Inr c''
     \<and> run_statements upgrade_3b5ed08bc4d3 c'' = Inl (DuplicateObject ''orgtype'')"
proof -
  obtain c where c: "run_statements upgrade_3b5ed08bc4d3 fresh_catalog = Inr c" using initial_runs by blast
  from initial_downgrade_leaves_type [OF sound_fresh c] c show ?thesis by blast
qed

theorem stored_organisations_block_witness:
  "run_statements downgrade_c9aaf2c46b16 small_database = Inl (NullsStored ''type'')"
proof -
  let ?r = "organisation_relation\<lparr>rel_rows :=
      [[(''id'', VInt 1), (''name'', VText ''Acme''), (''type'', Null), (''created_at'', VTime 0), (''clerk_org_id'', VText ''org_a'')]]\<rparr>"
  have "lookup ''organisation'' small_database = Some ?r" by (simp add: lookup_def small_database_def)
  moreover have "''type'' \<in> set (column_names ?r)"
    by (simp add: column_names_def organisation_relation_def organisation_typed_def relation_shapes)
  ultimately show ?thesis
    using stored_organisations_block [of small_database ?r] small_lookup by (simp add: cell_def)
qed

lemma history_is_a_way: "way_to_head history"
  unfolding way_to_head_def by (simp add: history_def)

theorem every_way_reaches_head_witness:
  "\<exists>c. do_run_migrations history fresh_catalog = (None, c) \<and> sound c \<and> same_schema c head_catalog"
  by (rule every_way_reaches_head [OF history_is_a_way])

end
