(* ===== verification/Spec2Isabelle.thy ===== *)
theory Spec2Isabelle
  imports ProductWitnesses RetrievalWitnesses Probes SchemaTables SchemaWitnesses
begin

text \<open>
  Verification development of the Simpero backend: the multi-tenant FastAPI service under
  \<open>app/\<close>, its Postgres schema under \<open>alembic/\<close>, its queue worker and its ingest scripts.

  \<^bold>\<open>The program.\<close> Organisations (investment firms) share one database. A request carries a
  Clerk token; \<open>core/security.py\<close> verifies it, \<open>core/dependencies.py\<close> opens a transaction,
  points \<open>app.org_id\<close> at the token's organisation, provisions the organisation and the user
  when they are new, and runs the handler. Every table has a row-level security policy that
  shows a session only the rows of the organisation it is scoped to. Admin requests first run
  a provisioning transaction that also takes stale administrators down
  (\<open>core/admin_dependencies.py\<close>), then a guard and the handler in a second one; platform
  administrators may point their session at another organisation. Files go straight to an object
  store by presigned URL, completing an upload stores a pending data source and enqueues a job,
  and the worker hashes the object and settles the data source. Retrieval fuses a vector and a
  full-text ranking over the chunks a session may see. Operators ingest parsed chunks and extracted
  claims by scripts. Handlers append to an audit trail nobody can edit.

  \<^bold>\<open>How code and model correspond.\<close> Every handler, dependency and repository method is an
  action (\<open>Prelude\<close>): a function from the world to a result, an exception or a value, and the
  world it leaves. The world (\<open>Database\<close>) holds the tables, \<open>app.org_id\<close>, the pending unit of work, the
  sequences, clock, random UUIDs, the job queue, the JWKS cache and the state of the external
  services. A definition has the name of the function it models, with a prefix where two files
  share a name; \<open>raise\<close>, \<open>assert\<close> and every early return are branches.

  Foundations:
  \<^item> \<open>Prelude\<close>, \<open>PyText\<close>, \<open>Errors\<close>, \<open>JsonText\<close>, \<open>Calendar\<close>: actions and their rules; strings, UUIDs and
    JSON values; exceptions and their status codes (\<open>core/exceptions.py\<close>, \<open>main.py\<close>);
    \<open>json.dumps\<close> and Pydantic's reading of values; UTC dates.
  \<^item> \<open>Models\<close>, \<open>Database\<close>, \<open>Transactions\<close>: the rows (\<open>app/models\<close>); the tables as the migrations make
    them (policy, unique indexes, foreign keys, CHECKs, privileges, trigger) and the SQL
    statements; the unit of work, commit and rollback (\<open>core/database.py\<close>).
  \<^item> \<open>Tenancy\<close>, \<open>Tables\<close>, \<open>Scoped\<close>: the contracts of tables as locales, their interpretation on the
    thirteen tables, and statements of a scoped session as equations on the database.
  \<^item> \<open>Catalog\<close>, \<open>Migrations\<close>: a database's catalogue with its rows, and the statements that change it with
    the refusals Postgres documents; \<open>upgrade\<close> and \<open>downgrade\<close> of the 22 revisions of \<open>alembic/versions\<close> as
    lists of statements, and the transaction of \<open>alembic/env.py\<close>. \<open>CatalogLaws\<close>, \<open>SchemaHistory\<close>, \<open>SchemaUndo\<close>,
    \<open>Revisions\<close>, \<open>SchemaFaults\<close>: what they keep, undo and where they fail. \<open>SchemaHead\<close>, \<open>HeadTables\<close>, \<open>HeadRuns\<close>,
    \<open>HeadOrders\<close>: the schema at head, written out and reached. \<open>SchemaTables\<close>: the tables of \<open>Database\<close> are
    the tables at head.
  \<^item> \<open>Environment\<close>: settings, and the code outside the repository as arguments: HTTP peers, token
    decoding, the S3 client, SHA-256.

  Components:
  \<^item> \<open>ClerkAdmin\<close> (\<open>services/admin/clerk_admin.py\<close>), \<open>Repos\<close> (\<open>app/repo\<close>), \<open>Security\<close>, \<open>Provision\<close>, \<open>AdminGuard\<close>
    and \<open>AdminAccess\<close> (\<open>app/core\<close>).
  \<^item> \<open>Members\<close>, \<open>PlatformMembers\<close>, \<open>AdminRoutes\<close> (\<open>app/api/admin\<close>).
  \<^item> \<open>Accounts\<close> (\<open>api/auth.py\<close>), \<open>Deals\<close> and \<open>Dashboard\<close> (\<open>api/deals.py\<close>, \<open>services/dashboard_stats.py\<close>), \<open>Summaries\<close>
    (\<open>services/memo_summary.py\<close>, \<open>pipeline_steps.py\<close>), \<open>History\<close> (\<open>api/history.py\<close>, \<open>logs.py\<close>,
    \<open>investment_profile.py\<close>).
  \<^item> \<open>Uploads\<close> (\<open>api/uploads.py\<close>, \<open>services/uploads/spaces.py\<close>), \<open>IngestJob\<close> (\<open>jobs/tasks/ingest_data_source.py\<close>).
  \<^item> \<open>Retrieval\<close> (\<open>services/retrieval.py\<close>, \<open>memory_scope.py\<close>), \<open>Embedding\<close> (\<open>services/embedding.py\<close>),
    \<open>IngestChunks\<close> (\<open>scripts/ingest_chunks.py\<close>), \<open>ClaimContract\<close> (\<open>contracts/claims.schema.json\<close> as a
    predicate), \<open>IngestClaims\<close> (\<open>scripts/ingest_claims.py\<close>), \<open>SandboxRetrieval\<close> (\<open>sandbox/retrieve.py\<close>),
    \<open>ReportExport\<close> (\<open>sandbox/export_report.py\<close>).
  \<^item> \<open>Probes\<close>: \<open>api/health.py\<close>, \<open>jobs/parse_client.py\<close>.
  \<^item> \<open>Operators\<close>: the scripts as events of the system. \<open>System\<close>: all routes, the worker, the scripts
    and time as one step relation. \<open>Races\<close>: member removals cut at the call to Clerk, and their
    interleavings. \<open>UploadRace\<close>: a completed upload cut between its enqueue and its commit.
  \<^item> \<open>Fixtures\<close>, \<open>Witnesses\<close>, \<open>ProductWitnesses\<close>, \<open>RetrievalWitnesses\<close>, \<open>SchemaWitnesses\<close>: a concrete database and services, and the
    properties applied to concrete requests.
\<close>

text \<open>
  \<^bold>\<open>What is shown.\<close>
  \<^item> Tenancy. Over every run, the rows of an organisation nobody speaks for stay as they were;
    an unscoped session is blind; the schema's constraints hold in every reachable state; the
    audit trail only grows. These rest on the table locales: each statement keeps the invariant
    \<open>confined\<close> of \<open>Tenancy\<close>, so each handler does, by the rules in \<open>keep_rules\<close>.
  \<^item> Administration. Who is an administrator after provisioning, which routes that opens, that a
    downgrade outlives the 403, that no removal or role change, taken alone, takes the caller or the
    last administrator out, what each change writes and audits, and every refusal in order.
  \<^item> Uploads. Object keys are injective, the chunked hash is the hash of the object, a
    completed upload is settled by its job, the job is idempotent and refines the life cycle
    \<open>pending\<close> to \<open>verified\<close>, \<open>mismatch\<close> or \<open>quarantined\<close>. Two theorems describe where the code
    goes wrong: the job of a failed completion, and a second completion that switches the object.
  \<^item> Product routes. What signing in, opening a deal and deleting history write; what the
    listings, the dashboard and the log return.
  \<^item> Retrieval. The fusion loop is ranking by the documented score; a search returns the top of
    that ranking over the chunks the session may see; the scope guard fails closed; the embedder
    returns usable vectors or fails.
  \<^item> Claims. A claim that keeps the contract gives a row that passes all eleven CHECKs; a committed
    run stores every claim, an invalid one or a dry run stores nothing; a report shows the newest
    run and the pages it cites; a sandbox upload replaces the previous one or leaves it.
  \<^item> Schema. The upgrades take an empty database to one schema, in each order the graph of revisions
    admits; no upgrade loses a row, no revision leaves a table without row-level security and a
    policy, and every downgrade but the initial one's restores what its upgrade found. Policies,
    CHECKs, keys, references, privileges and trigger at head are those of the tables the
    properties above speak of.
  \<^item> Overlap. Every interleaving of member removals keeps the schema, audits each success once and
    stays within its tenant; the guard on the last administrator does not survive one. A job that runs before its upload
    has committed fails and leaves the data source \<open>pending\<close>.

  \<^bold>\<open>Loops.\<close> No definition uses fuel. \<open>Uploads.hash_loop\<close> ends because each chunk shortens the
  object, \<open>Embedding.embed_loop\<close> because a batch takes 128 texts off a non-empty list, \<open>JsonText.str_nat\<close>
  because a division shortens the number, \<open>IngestJob.drop_sub\<close> because each match is not empty; the
  other recursions are structural. Of Clerk's listings the code reads the first page only.

  \<^bold>\<open>Idealisations.\<close> In \<open>System\<close> a request, job or script runs to its end before the next one
  starts; only \<open>Races\<close> and \<open>UploadRace\<close> let work overlap. Timestamps are microseconds; scores and vectors are
  exact rationals where the code has floats. Column length limits are left out, except where
  \<open>IngestClaims\<close> binds values to columns; strings hold 8-bit characters. Each theory says what else
  it leaves out.

  \<^bold>\<open>Not modelled.\<close> \<open>main.py\<close>'s wiring, \<open>jobs/worker.py\<close>, \<open>jobs/tasks/example.py\<close> and
  the connection set-up of \<open>alembic/env.py\<close>: configuration. What ordinary indexes do (they only
  speed up queries), \<open>register_pgvector_codec\<close>, the HTML pages of the sandbox, infrastructure.
  Overlaps other than those of member removals and of a completed upload with its job.
\<close>

end
